(* ===== verification/Prelude.thy ===== *)
theory Prelude
  imports Main "HOL-Library.Word" "HOL-Library.List_Lexorder"
begin

text \<open>
  Shared vocabulary of the development: the machine integers of the source,
  size_t arithmetic with its wrap-around, C strings, the text an output stream
  writes for an integer, and the generic list and word lemmas that the
  component theories use.  The collection \<open>sktsimps\<close> gathers the unfolding
  equations that evaluate the model on concrete inputs.
\<close>

unbundle bit_operations_syntax

named_theorems sktsimps

type_synonym byte = "8 word"
type_synonym u16 = "16 word"
type_synonym u32 = "32 word"
type_synonym u64 = "64 word"

subsection \<open>size_t subtraction\<close>

text \<open>
  Lengths, positions and capacities are \<open>size_t\<close> values that count bytes of
  allocated memory, so sums of them do not leave the 64-bit range.  Their
  differences can, and then wrap.
\<close>

definition sub64 :: "nat \<Rightarrow> nat \<Rightarrow> nat" where
  "sub64 a b = (if b \<le> a then a - b else (a + 2 ^ 64 - b) mod 2 ^ 64)"

lemma sub64_le [simp]: "b \<le> a \<Longrightarrow> sub64 a b = a - b"
  by (simp add: sub64_def)

subsection \<open>Results\<close>

definition and_then :: "'e + 'a \<Rightarrow> ('a \<Rightarrow> 'e + 'b) \<Rightarrow> 'e + 'b" where
  "and_then r k = (case r of Inl e \<Rightarrow> Inl e | Inr a \<Rightarrow> k a)"

lemma and_then_simps [simp]: "and_then (Inl e) k = Inl e" "and_then (Inr a) k = k a"
  by (simp_all add: and_then_def)

lemma and_then_eq_Inr: "and_then r g = Inr y \<longleftrightarrow> (\<exists>x. r = Inr x \<and> g x = Inr y)"
  by (cases r) auto

subsection \<open>C strings\<close>

text \<open>A \<open>std::string\<close> may hold NUL bytes; \<open>c_str()\<close> read as a C string ends at the first.\<close>

definition c_str :: "string \<Rightarrow> string" where
  "c_str s = takeWhile (\<lambda>c. c \<noteq> CHR 0x00) s"

definition to_lower :: "char \<Rightarrow> char" where
  "to_lower c = (let n = of_char c :: nat in
     if 65 \<le> n \<and> n \<le> 90 then char_of (n + 32) else c)"

definition char_nat :: "char \<Rightarrow> nat" where
  "char_nat c = of_char c"

text \<open>The comparison loop of \<open>strcmp\<close>: the first difference decides, by unsigned byte.\<close>

fun cmp_chars :: "nat list \<Rightarrow> nat list \<Rightarrow> int" where
  "cmp_chars [] [] = 0"
| "cmp_chars [] (b # bs) = - int b"
| "cmp_chars (a # as) [] = int a"
| "cmp_chars (a # as) (b # bs) = (if a = b then cmp_chars as bs else int a - int b)"

definition strcmp :: "string \<Rightarrow> string \<Rightarrow> int" where
  "strcmp a b = cmp_chars (map char_nat (c_str a)) (map char_nat (c_str b))"

definition strcasecmp :: "string \<Rightarrow> string \<Rightarrow> int" where
  "strcasecmp a b = cmp_chars (map (char_nat \<circ> to_lower) (c_str a))
                              (map (char_nat \<circ> to_lower) (c_str b))"

definition strncmp :: "string \<Rightarrow> string \<Rightarrow> nat \<Rightarrow> int" where
  "strncmp a b n = cmp_chars (map char_nat (take n (c_str a))) (map char_nat (take n (c_str b)))"

lemma char_nat_inject [simp]: "char_nat a = char_nat b \<longleftrightarrow> a = b"
  by (simp add: char_nat_def)

lemma c_str_no_nul [simp]: "CHR 0x00 \<notin> set s \<Longrightarrow> c_str s = s"
  by (auto simp: c_str_def takeWhile_eq_all_conv)

lemma c_str_c_str [simp]: "c_str (c_str s) = c_str s"
  by (simp add: c_str_def)

lemma zero_notin_c_str: "CHR 0x00 \<notin> set (c_str s)"
  by (auto simp: c_str_def dest: set_takeWhileD)

lemma zero_notin_char_nat_c_str: "0 \<notin> set (map char_nat (c_str s))"
proof
  assume "0 \<in> set (map char_nat (c_str s))"
  then obtain c where c: "c \<in> set (c_str s)" "char_nat c = 0" by auto
  have "char_nat (CHR 0x00) = 0" by (simp add: char_nat_def)
  with c have "c = CHR 0x00" by (metis char_nat_inject)
  with c zero_notin_c_str show False by blast
qed

lemma cmp_chars_refl [simp]: "cmp_chars xs xs = 0"
  by (induction xs) auto

lemma cmp_chars_zero_iff:
  "0 \<notin> set xs \<Longrightarrow> 0 \<notin> set ys \<Longrightarrow> cmp_chars xs ys = 0 \<longleftrightarrow> xs = ys"
  by (induction xs ys rule: cmp_chars.induct) auto

lemma strcmp_zero_iff: "strcmp a b = 0 \<longleftrightarrow> c_str a = c_str b"
proof -
  have "strcmp a b = 0 \<longleftrightarrow> map char_nat (c_str a) = map char_nat (c_str b)"
    unfolding strcmp_def by (intro cmp_chars_zero_iff zero_notin_char_nat_c_str)
  also have "\<dots> \<longleftrightarrow> c_str a = c_str b"
    by (rule inj_map_eq_map) (simp add: inj_def)
  finally show ?thesis .
qed

text \<open>The order of \<open>std::string\<close> (\<open>char_traits::compare\<close>, by unsigned byte).\<close>

definition str_less :: "string \<Rightarrow> string \<Rightarrow> bool" where
  "str_less a b \<longleftrightarrow> map char_nat a < map char_nat b"

lemma map_char_nat_inject [simp]: "map char_nat a = map char_nat b \<longleftrightarrow> a = b"
  by (rule inj_map_eq_map) (simp add: inj_def)

text \<open>On C strings the comparison loop decides the lexicographic order.\<close>

lemma cmp_chars_less_iff:
  "0 \<notin> set xs \<Longrightarrow> 0 \<notin> set ys \<Longrightarrow> cmp_chars xs ys < 0 \<longleftrightarrow> xs < ys"
  by (induction xs ys rule: cmp_chars.induct) auto

definition fold_case :: "string \<Rightarrow> nat list" where
  "fold_case s = map (char_nat \<circ> to_lower) (c_str s)"

lemma char_nat_to_lower_pos: "c \<noteq> CHR 0x00 \<Longrightarrow> char_nat (to_lower c) \<noteq> 0"
proof -
  assume "c \<noteq> CHR 0x00"
  then have "char_nat c \<noteq> char_nat (CHR 0x00)" by simp
  then have "char_nat c \<noteq> 0" by (simp add: char_nat_def)
  then show ?thesis by (auto simp: to_lower_def char_nat_def Let_def)
qed

lemma zero_notin_fold_case: "0 \<notin> set (fold_case s)"
proof
  assume "0 \<in> set (fold_case s)"
  then obtain c where "c \<in> set (c_str s)" and "char_nat (to_lower c) = 0"
    by (auto simp: fold_case_def)
  then show False using char_nat_to_lower_pos zero_notin_c_str [of s] by metis
qed

lemma strcasecmp_less_iff: "strcasecmp a b < 0 \<longleftrightarrow> fold_case a < fold_case b"
  unfolding strcasecmp_def fold_case_def [symmetric]
  by (rule cmp_chars_less_iff) (rule zero_notin_fold_case)+

lemma strcasecmp_zero_iff: "strcasecmp a b = 0 \<longleftrightarrow> fold_case a = fold_case b"
  unfolding strcasecmp_def fold_case_def [symmetric]
  by (rule cmp_chars_zero_iff) (rule zero_notin_fold_case)+

lemma strncmp_prefix:
  assumes "CHR 0x00 \<notin> set a"
  shows "strncmp a b (length a) = 0 \<longleftrightarrow> take (length a) (c_str b) = a"
proof -
  have "0 \<notin> set (map char_nat (take n (c_str s)))" for n s
    using zero_notin_char_nat_c_str [of s] by (auto dest: in_set_takeD)
  then have "strncmp a b (length a) = 0 \<longleftrightarrow>
      map char_nat (take (length a) (c_str a)) = map char_nat (take (length a) (c_str b))"
    unfolding strncmp_def by (intro cmp_chars_zero_iff)
  then show ?thesis using assms by auto
qed

subsection \<open>Numbers as text\<close>

definition digit_char :: "nat \<Rightarrow> char" where
  "digit_char n = char_of (48 + n)"

text \<open>What \<open>operator<<\<close> writes for an unsigned integer.\<close>

fun nat_dec :: "nat \<Rightarrow> string" where
  "nat_dec n = (if n < 10 then [digit_char n] else nat_dec (n div 10) @ [digit_char (n mod 10)])"

definition int_dec :: "int \<Rightarrow> string" where
  "int_dec i = (if i < 0 then CHR ''-'' # nat_dec (nat (- i)) else nat_dec (nat i))"

definition is_digit :: "char \<Rightarrow> bool" where
  "is_digit c \<longleftrightarrow> 48 \<le> char_nat c \<and> char_nat c \<le> 57"

definition dec_nat :: "string \<Rightarrow> nat" where
  "dec_nat s = foldl (\<lambda>n c. 10 * n + (char_nat c - 48)) 0 s"

declare nat_dec.simps [simp del]

lemma digit_char_numeral [sktsimps]:
  "digit_char 0 = CHR ''0''" "digit_char (Suc 0) = CHR ''1''" "digit_char 1 = CHR ''1''"
  "digit_char 2 = CHR ''2''" "digit_char 3 = CHR ''3''" "digit_char 4 = CHR ''4''"
  "digit_char 5 = CHR ''5''" "digit_char 6 = CHR ''6''" "digit_char 7 = CHR ''7''"
  "digit_char 8 = CHR ''8''" "digit_char 9 = CHR ''9''"
  by code_simp+

lemma char_nat_digit [simp]: "n < 10 \<Longrightarrow> char_nat (digit_char n) = 48 + n"
  by (simp add: char_nat_def digit_char_def)

lemma dec_nat_snoc: "dec_nat (s @ [c]) = 10 * dec_nat s + (char_nat c - 48)"
  by (simp add: dec_nat_def)

lemma dec_nat_nat_dec [simp]: "dec_nat (nat_dec n) = n"
proof (induction n rule: less_induct)
  case (less n)
  show ?case
  proof (cases "n < 10")
    case True
    then show ?thesis by (simp add: nat_dec.simps [of n] dec_nat_def)
  next
    case False
    then have "dec_nat (nat_dec (n div 10)) = n div 10" by (intro less) simp
    then show ?thesis using False by (simp add: nat_dec.simps [of n] dec_nat_snoc)
  qed
qed

lemma nat_dec_digits: "list_all is_digit (nat_dec n)"
proof (induction n rule: less_induct)
  case (less n)
  show ?case
  proof (cases "n < 10")
    case True
    then show ?thesis by (simp add: nat_dec.simps [of n] is_digit_def)
  next
    case False
    then have "list_all is_digit (nat_dec (n div 10))" by (intro less) simp
    moreover have "is_digit (digit_char (n mod 10))" by (simp add: is_digit_def)
    ultimately show ?thesis using False by (simp add: nat_dec.simps [of n])
  qed
qed

lemma nat_dec_not_Nil [simp]: "nat_dec n \<noteq> []"
  by (simp add: nat_dec.simps [of n])

lemma nat_dec_inject [simp]: "nat_dec m = nat_dec n \<longleftrightarrow> m = n"
  by (metis dec_nat_nat_dec)

end
