(* ===== verification/Endian.thy ===== *)
theory Endian
  imports Prelude
begin

text \<open>
  Byte order (src/skt/endian/endian.h).  The header selects
  \<open>SKT_BYTE_ORDER\<close> when it is compiled; the model takes it as the argument
  \<open>host\<close>, so every fact below holds for both builds.  An integer variable is
  seen in memory through \<open>mem_bytes\<close>, the bytes \<open>memcpy\<close> copies.
\<close>

definition SKT_LITTLE_ENDIAN :: int where
  "SKT_LITTLE_ENDIAN = 1"

definition SKT_BIG_ENDIAN :: int where
  "SKT_BIG_ENDIAN = 2"

text \<open>The bytes of an integer, least significant first, and the integer of such bytes.\<close>

definition bytes_le :: "'a::len word \<Rightarrow> byte list" where
  "bytes_le w = map (\<lambda>i. ucast (drop_bit (8 * i) w)) [0..<LENGTH('a) div 8]"

fun word_of_le :: "byte list \<Rightarrow> 'a::len word" where
  "word_of_le [] = 0"
| "word_of_le (b # bs) = push_bit 8 (word_of_le bs) OR ucast b"

definition mem_bytes :: "int \<Rightarrow> 'a::len word \<Rightarrow> byte list" where
  "mem_bytes host w = (if host = SKT_BIG_ENDIAN then rev (bytes_le w) else bytes_le w)"

definition mem_word :: "int \<Rightarrow> byte list \<Rightarrow> 'a::len word" where
  "mem_word host bs = word_of_le (if host = SKT_BIG_ENDIAN then rev bs else bs)"

definition byteswap :: "'a::len word \<Rightarrow> 'a word" where
  "byteswap v = word_of_le (rev (bytes_le v))"

definition byteswapOnLittleEndian :: "int \<Rightarrow> 'a::len word \<Rightarrow> 'a word" where
  "byteswapOnLittleEndian host t = (if host = SKT_BIG_ENDIAN then t else byteswap t)"

definition byteswapOnBigEndian :: "int \<Rightarrow> 'a::len word \<Rightarrow> 'a word" where
  "byteswapOnBigEndian host t = (if host = SKT_BIG_ENDIAN then byteswap t else t)"

lemma length_bytes_le [simp]: "length (bytes_le (w :: 'a::len word)) = LENGTH('a) div 8"
  by (simp add: bytes_le_def)

lemma length_mem_bytes [simp]: "length (mem_bytes host (w :: 'a::len word)) = LENGTH('a) div 8"
  by (simp add: mem_bytes_def)

lemma bit_word_of_le:
  "bit (word_of_le bs :: 'a::len word) n \<longleftrightarrow>
   n < LENGTH('a) \<and> n < 8 * length bs \<and> bit (bs ! (n div 8)) (n mod 8)"
proof (induction bs arbitrary: n)
  case Nil
  then show ?case by simp
next
  case (Cons b bs)
  show ?case
  proof (cases "n < 8")
    case True
    then show ?thesis by (auto simp: bit_or_iff bit_push_bit_iff bit_ucast_iff)
  next
    case False
    then obtain m where m: "n = m + 8" by (metis add.commute le_iff_add not_less)
    have "\<not> bit b n" using False by (auto dest: bit_imp_le_length)
    moreover have "(m + 8) div 8 = Suc (m div 8)" by simp
    ultimately show ?thesis
      using Cons.IH [of m] m by (auto simp: bit_or_iff bit_push_bit_iff bit_ucast_iff)
  qed
qed

lemma nth_bytes_le:
  "i < LENGTH('a) div 8 \<Longrightarrow> bytes_le (w :: 'a::len word) ! i = ucast (drop_bit (8 * i) w)"
  by (simp add: bytes_le_def)

lemma word_of_le_bytes_le:
  assumes "8 dvd LENGTH('a)"
  shows "word_of_le (bytes_le w) = (w :: 'a::len word)"
proof (rule bit_word_eqI)
  fix n assume n: "n < LENGTH('a)"
  have i: "n div 8 < LENGTH('a) div 8"
    using n assms by (metis dvd_div_mult_self less_mult_imp_div_less)
  have "n < 8 * (LENGTH('a) div 8)" using n assms by simp
  then show "bit (word_of_le (bytes_le w) :: 'a word) n = bit w n"
    using n i by (simp add: bit_word_of_le nth_bytes_le bit_ucast_iff bit_drop_bit_eq)
qed

lemma bytes_le_word_of_le:
  assumes "8 * length bs = LENGTH('a)"
  shows "bytes_le (word_of_le bs :: 'a::len word) = bs"
proof (rule nth_equalityI)
  show "length (bytes_le (word_of_le bs :: 'a word)) = length bs"
    using assms by (metis length_bytes_le nonzero_mult_div_cancel_left zero_neq_numeral)
  fix i assume "i < length (bytes_le (word_of_le bs :: 'a word))"
  then have i: "i < LENGTH('a) div 8" by simp
  then have il: "i < length bs" using assms by linarith
  show "bytes_le (word_of_le bs :: 'a word) ! i = bs ! i"
  proof (rule bit_word_eqI)
    fix n assume n: "n < LENGTH(8)"
    then have "8 * i + n < LENGTH('a)" using il assms by simp
    moreover have "(8 * i + n) div 8 = i" and "(8 * i + n) mod 8 = n" using n by simp_all
    ultimately show "bit (bytes_le (word_of_le bs :: 'a word) ! i) n = bit (bs ! i) n"
      using i il n assms
      by (simp add: nth_bytes_le bit_ucast_iff bit_drop_bit_eq bit_word_of_le)
  qed
qed

lemma bytes_le_byteswap:
  assumes "8 dvd LENGTH('a)"
  shows "bytes_le (byteswap (v :: 'a::len word)) = rev (bytes_le v)"
  unfolding byteswap_def by (rule bytes_le_word_of_le) (use assms in simp)

lemma byteswap_byteswap:
  assumes "8 dvd LENGTH('a)"
  shows "byteswap (byteswap v) = (v :: 'a::len word)"
  using assms by (simp add: byteswap_def [of "byteswap v"] bytes_le_byteswap word_of_le_bytes_le)

lemma mem_word_mem_bytes:
  assumes "8 dvd LENGTH('a)"
  shows "mem_word host (mem_bytes host w) = (w :: 'a::len word)"
  using assms by (simp add: mem_word_def mem_bytes_def word_of_le_bytes_le)

lemma mem_bytes_byteswap:
  assumes "8 dvd LENGTH('a)"
  shows "mem_bytes host (byteswap (v :: 'a::len word)) = rev (mem_bytes host v)"
  using assms by (simp add: mem_bytes_def bytes_le_byteswap)

end
