(* ===== verification/Byte_Array.thy ===== *)
theory Byte_Array
  imports Endian
begin

text \<open>
  The buffer of src/skt/bytearray: a linked list of equally sized memory
  blocks with a read/write position.  \<open>m_nodes\<close> lists the blocks from
  \<open>m_root\<close> on (a block's \<open>size\<close> is its length) and \<open>m_cur\<close> is the index of
  the block \<open>m_cur\<close> points to, \<open>None\<close> for the null pointer.  What a fresh
  block holds before it is written is the argument \<open>junk\<close>: \<open>junk k i\<close> is byte
  \<open>i\<close> of the \<open>k\<close>-th block.  Dereferencing a null block pointer, an exception
  and an arithmetic fault are values of \<open>ba_error\<close>.
\<close>

datatype ba_error = OutOfRange | NullDeref | BadArith

record bytearray =
  m_baseSize :: nat
  m_capacity :: nat
  m_position :: nat
  m_size :: nat
  m_endian :: int
  m_nodes :: "byte list list"
  m_cur :: "nat option"

type_synonym junk = "nat \<Rightarrow> nat \<Rightarrow> byte"

text \<open>A piece of a block: block, offset and length, the contents of an \<open>iovec\<close>.\<close>

type_synonym iovec = "nat \<times> nat \<times> nat"

definition Node :: "junk \<Rightarrow> nat \<Rightarrow> nat \<Rightarrow> byte list" where
  "Node junk k s = map (junk k) [0..<s]"

definition next_node :: "byte list list \<Rightarrow> nat \<Rightarrow> nat option" where
  "next_node nodes i = (if Suc i < length nodes then Some (Suc i) else None)"

text \<open>\<open>memcpy\<close> of \<open>xs\<close> into a block at offset \<open>p\<close>.\<close>

definition overwrite :: "'a list \<Rightarrow> nat \<Rightarrow> 'a list \<Rightarrow> 'a list" where
  "overwrite mem p xs = take p mem @ xs @ drop (p + length xs) mem"

subsection \<open>Construction and simple accessors\<close>

definition ByteArray :: "junk \<Rightarrow> nat \<Rightarrow> bytearray" where
  "ByteArray junk base_size =
     \<lparr>m_baseSize = base_size, m_capacity = base_size, m_position = 0, m_size = 0,
      m_endian = SKT_BIG_ENDIAN, m_nodes = [Node junk 0 base_size], m_cur = Some 0\<rparr>"

definition isLittleEndian :: "bytearray \<Rightarrow> bool" where
  "isLittleEndian ba \<longleftrightarrow> m_endian ba = SKT_LITTLE_ENDIAN"

definition setIsLittleEndian :: "bool \<Rightarrow> bytearray \<Rightarrow> bytearray" where
  "setIsLittleEndian v ba =
     (if v then ba\<lparr>m_endian := SKT_LITTLE_ENDIAN\<rparr> else ba\<lparr>m_endian := SKT_BIG_ENDIAN\<rparr>)"

definition getReadSize :: "bytearray \<Rightarrow> nat" where
  "getReadSize ba = sub64 (m_size ba) (m_position ba)"

definition getCapacity :: "bytearray \<Rightarrow> nat" where
  "getCapacity ba = sub64 (m_capacity ba) (m_position ba)"

definition clear :: "bytearray \<Rightarrow> bytearray" where
  "clear ba = ba\<lparr>m_position := 0, m_size := 0, m_capacity := m_baseSize ba,
                 m_nodes := take 1 (m_nodes ba), m_cur := Some 0\<rparr>"

subsection \<open>Growing\<close>

text \<open>\<open>ceil(1.0 * a / b)\<close>; the quotient of two sizes below \<open>2 ^ 53\<close> is rounded up exactly.\<close>

definition ceil_div :: "nat \<Rightarrow> nat \<Rightarrow> nat" where
  "ceil_div a b = (a + b - 1) div b"

fun add_nodes :: "junk \<Rightarrow> nat \<Rightarrow> nat \<Rightarrow> bytearray \<Rightarrow> bytearray" where
  "add_nodes junk base 0 ba = ba"
| "add_nodes junk base (Suc n) ba =
     add_nodes junk base n
       (ba\<lparr>m_nodes := m_nodes ba @ [Node junk (length (m_nodes ba)) base],
           m_capacity := m_capacity ba + base\<rparr>)"

definition addCapacity :: "junk \<Rightarrow> nat \<Rightarrow> bytearray \<Rightarrow> bytearray" where
  "addCapacity junk sz ba =
     (if sz = 0 then ba
      else let old_cap = getCapacity ba in
        if old_cap \<ge> sz then ba
        else let count = ceil_div (sz - old_cap) (m_baseSize ba);
                 first = (if count = 0 then None else Some (length (m_nodes ba)));
                 ba' = add_nodes junk (m_baseSize ba) count ba
             in if old_cap = 0 then ba'\<lparr>m_cur := first\<rparr> else ba')"

subsection \<open>Writing\<close>

text \<open>
  The loop of \<open>write\<close>: \<open>bs\<close> is what is left of the buffer (\<open>buf + bpos\<close>,
  \<open>size\<close> bytes), \<open>npos\<close> and \<open>ncap\<close> the offset and the room in the current
  block, \<open>pos\<close> is \<open>m_position\<close>.
\<close>

function write_loop ::
  "byte list list \<Rightarrow> nat option \<Rightarrow> nat \<Rightarrow> nat \<Rightarrow> nat \<Rightarrow> byte list
   \<Rightarrow> ba_error + (byte list list \<times> nat option \<times> nat)" where
  "write_loop nodes cur npos ncap pos bs =
     (if bs = [] then Inr (nodes, cur, pos)
      else case cur of None \<Rightarrow> Inl NullDeref
      | Some i \<Rightarrow>
          if ncap \<ge> length bs then
            Inr (nodes[i := overwrite (nodes ! i) npos bs],
                 if length (nodes ! i) = npos + length bs then next_node nodes i else Some i,
                 pos + length bs)
          else
            (case next_node nodes i of None \<Rightarrow> Inl NullDeref
             | Some j \<Rightarrow>
                 write_loop (nodes[i := overwrite (nodes ! i) npos (take ncap bs)])
                   (Some j) 0 (length (nodes ! j)) (pos + ncap) (drop ncap bs)))"
  by pat_completeness auto
termination
  by (relation "measure (\<lambda>(nodes, cur, _). case cur of None \<Rightarrow> 0 | Some i \<Rightarrow> length nodes - i)")
     (auto simp: next_node_def split: if_splits)

definition write_ba :: "junk \<Rightarrow> byte list \<Rightarrow> bytearray \<Rightarrow> ba_error + bytearray" where
  "write_ba junk buf ba =
     (if buf = [] then Inr ba
      else if m_baseSize ba = 0 then Inl BadArith
      else let ba = addCapacity junk (length buf) ba;
               npos = m_position ba mod m_baseSize ba
           in case m_cur ba of None \<Rightarrow> Inl NullDeref
              | Some i \<Rightarrow>
                  (case write_loop (m_nodes ba) (m_cur ba) npos
                          (sub64 (length (m_nodes ba ! i)) npos) (m_position ba) buf of
                     Inl e \<Rightarrow> Inl e
                   | Inr (nodes, cur, pos) \<Rightarrow>
                       Inr (ba\<lparr>m_nodes := nodes, m_cur := cur, m_position := pos,
                               m_size := (if pos > m_size ba then pos else m_size ba)\<rparr>)))"

subsection \<open>Reading\<close>

text \<open>The copy loop of both \<open>read\<close> functions: what is copied and where the walk ends.\<close>

function read_loop ::
  "byte list list \<Rightarrow> nat option \<Rightarrow> nat \<Rightarrow> nat \<Rightarrow> nat \<Rightarrow> nat
   \<Rightarrow> ba_error + (byte list \<times> nat option \<times> nat)" where
  "read_loop nodes cur npos ncap pos sz =
     (if sz = 0 then Inr ([], cur, pos)
      else case cur of None \<Rightarrow> Inl NullDeref
      | Some i \<Rightarrow>
          if ncap \<ge> sz then
            Inr (take sz (drop npos (nodes ! i)),
                 if length (nodes ! i) = npos + sz then next_node nodes i else Some i,
                 pos + sz)
          else
            (case next_node nodes i of None \<Rightarrow> Inl NullDeref
             | Some j \<Rightarrow>
                 (case read_loop nodes (Some j) 0 (length (nodes ! j)) (pos + ncap) (sz - ncap) of
                    Inl e \<Rightarrow> Inl e
                  | Inr (bs, cur', pos') \<Rightarrow>
                      Inr (take ncap (drop npos (nodes ! i)) @ bs, cur', pos'))))"
  by pat_completeness auto
termination
  by (relation "measure (\<lambda>(nodes, cur, _). case cur of None \<Rightarrow> 0 | Some i \<Rightarrow> length nodes - i)")
     (auto simp: next_node_def split: if_splits)

text \<open>\<open>read(buf, size)\<close>.\<close>

definition read_ba :: "nat \<Rightarrow> bytearray \<Rightarrow> ba_error + (byte list \<times> bytearray)" where
  "read_ba sz ba =
     (if sz > getReadSize ba then Inl OutOfRange
      else if m_baseSize ba = 0 then Inl BadArith
      else let npos = m_position ba mod m_baseSize ba
           in case m_cur ba of None \<Rightarrow> Inl NullDeref
              | Some i \<Rightarrow>
                  (case read_loop (m_nodes ba) (m_cur ba) npos
                          (sub64 (length (m_nodes ba ! i)) npos) (m_position ba) sz of
                     Inl e \<Rightarrow> Inl e
                   | Inr (bs, cur, pos) \<Rightarrow> Inr (bs, ba\<lparr>m_cur := cur, m_position := pos\<rparr>)))"

text \<open>\<open>read(buf, size, position) const\<close>: the walk starts at \<open>m_cur\<close>, whatever \<open>position\<close> is.\<close>

definition read_at :: "nat \<Rightarrow> nat \<Rightarrow> bytearray \<Rightarrow> ba_error + byte list" where
  "read_at sz position ba =
     (if sz > sub64 (m_size ba) position then Inl OutOfRange
      else if m_baseSize ba = 0 then Inl BadArith
      else let npos = position mod m_baseSize ba
           in case m_cur ba of None \<Rightarrow> Inl NullDeref
              | Some i \<Rightarrow>
                  (case read_loop (m_nodes ba) (m_cur ba) npos
                          (sub64 (length (m_nodes ba ! i)) npos) position sz of
                     Inl e \<Rightarrow> Inl e
                   | Inr (bs, _, _) \<Rightarrow> Inr bs))"

subsection \<open>Positioning\<close>

function seek :: "byte list list \<Rightarrow> nat option \<Rightarrow> nat \<Rightarrow> ba_error + nat option" where
  "seek nodes cur v =
     (case cur of None \<Rightarrow> Inl NullDeref
      | Some i \<Rightarrow>
          if i \<ge> length nodes then Inl NullDeref
          else if v > length (nodes ! i) then seek nodes (next_node nodes i) (v - length (nodes ! i))
          else Inr (if v = length (nodes ! i) then next_node nodes i else Some i))"
  by pat_completeness auto
termination
  by (relation "measure (\<lambda>(nodes, cur, _). case cur of None \<Rightarrow> 0 | Some i \<Rightarrow> length nodes - i)")
     (auto simp: next_node_def split: if_splits)

definition setPosition :: "nat \<Rightarrow> bytearray \<Rightarrow> ba_error + bytearray" where
  "setPosition v ba =
     (if v > m_capacity ba then Inl OutOfRange
      else let ba = ba\<lparr>m_position := v, m_size := (if v > m_size ba then v else m_size ba)\<rparr>
           in case seek (m_nodes ba) (Some 0) v of
                Inl e \<Rightarrow> Inl e
              | Inr cur \<Rightarrow> Inr (ba\<lparr>m_cur := cur\<rparr>))"

definition toString :: "bytearray \<Rightarrow> ba_error + byte list" where
  "toString ba =
     (if getReadSize ba = 0 then Inr [] else read_at (getReadSize ba) (m_position ba) ba)"


subsection \<open>The invariant\<close>

text \<open>
  All blocks have the base size, the capacity counts them, position and size
  stay inside, and \<open>m_cur\<close> is the block of the position: the null pointer
  exactly when the position is at the end of the last block.
\<close>

definition blocks :: "nat \<Rightarrow> byte list list \<Rightarrow> bool" where
  "blocks base nodes \<longleftrightarrow> (\<forall>nd \<in> set nodes. length nd = base)"

definition cur_for :: "nat \<Rightarrow> byte list list \<Rightarrow> nat \<Rightarrow> nat option" where
  "cur_for base nodes p = (if p = base * length nodes then None else Some (p div base))"

definition ba_inv :: "bytearray \<Rightarrow> bool" where
  "ba_inv ba \<longleftrightarrow>
     0 < m_baseSize ba \<and> m_nodes ba \<noteq> [] \<and> blocks (m_baseSize ba) (m_nodes ba) \<and>
     m_capacity ba = m_baseSize ba * length (m_nodes ba) \<and>
     m_position ba \<le> m_size ba \<and> m_size ba \<le> m_capacity ba \<and>
     m_cur ba = cur_for (m_baseSize ba) (m_nodes ba) (m_position ba)"

text \<open>The abstract view: one flat memory, and the bytes from the position to the size.\<close>

definition flat :: "bytearray \<Rightarrow> byte list" where
  "flat ba = concat (m_nodes ba)"

definition readable :: "bytearray \<Rightarrow> byte list" where
  "readable ba = take (m_size ba - m_position ba) (drop (m_position ba) (flat ba))"

declare write_loop.simps [simp del] read_loop.simps [simp del] seek.simps [simp del]

subsection \<open>Flat memory and blocks\<close>

lemma length_overwrite [simp]:
  "p + length xs \<le> length mem \<Longrightarrow> length (overwrite mem p xs) = length mem"
  by (simp add: overwrite_def)

lemma overwrite_in_middle:
  "p + length xs \<le> length nd \<Longrightarrow>
   overwrite (as @ nd @ bs) (length as + p) xs = as @ overwrite nd p xs @ bs"
  by (simp add: overwrite_def)

lemma overwrite_overwrite:
  "p + length a + length b \<le> length mem \<Longrightarrow>
   overwrite (overwrite mem p a) (p + length a) b = overwrite mem p (a @ b)"
  by (simp add: overwrite_def ac_simps)

lemma overwrite_take_drop:
  "p + length xs \<le> length mem \<Longrightarrow> take (length xs) (drop p (overwrite mem p xs)) = xs"
  by (simp add: overwrite_def)

lemma take_overwrite: "p \<le> length mem \<Longrightarrow> n \<le> p \<Longrightarrow> take n (overwrite mem p xs) = take n mem"
  by (simp add: overwrite_def min_def)

lemma length_concat_blocks: "blocks base nodes \<Longrightarrow> length (concat nodes) = base * length nodes"
  by (induction nodes) (auto simp: blocks_def)

lemma blocks_split:
  assumes "blocks base nodes" and "i < length nodes"
  obtains as bs where "concat nodes = as @ nodes ! i @ bs" and "length as = i * base"
    and "\<And>nd. concat (nodes[i := nd]) = as @ nd @ bs" and "length (nodes ! i) = base"
proof
  have split: "nodes = take i nodes @ nodes ! i # drop (Suc i) nodes"
    using assms(2) by (rule id_take_nth_drop)
  show "concat nodes = concat (take i nodes) @ nodes ! i @ concat (drop (Suc i) nodes)"
    by (subst split) simp
  have "blocks base (take i nodes)"
    using assms(1) by (auto simp: blocks_def dest: in_set_takeD)
  then show "length (concat (take i nodes)) = i * base"
    using assms(2) by (simp add: length_concat_blocks mult.commute)
  show "concat (nodes[i := nd]) = concat (take i nodes) @ nd @ concat (drop (Suc i) nodes)" for nd
    using assms(2) by (simp add: upd_conv_take_nth_drop)
  show "length (nodes ! i) = base" using assms by (simp add: blocks_def)
qed

lemma concat_overwrite_block:
  assumes "blocks base nodes" and "i < length nodes" and "p + length xs \<le> base"
  shows "concat (nodes[i := overwrite (nodes ! i) p xs]) = overwrite (concat nodes) (i * base + p) xs"
proof -
  obtain as bs where "concat nodes = as @ nodes ! i @ bs" and "length as = i * base"
    and "\<And>nd. concat (nodes[i := nd]) = as @ nd @ bs" and "length (nodes ! i) = base"
    using blocks_split [OF assms(1,2)] by blast
  then show ?thesis
    using overwrite_in_middle [of p xs "nodes ! i" as bs] assms(3) by simp
qed

lemma take_drop_block:
  assumes "blocks base nodes" and "i < length nodes" and "p + n \<le> base"
  shows "take n (drop p (nodes ! i)) = take n (drop (i * base + p) (concat nodes))"
proof -
  obtain as bs where "concat nodes = as @ nodes ! i @ bs" and "length as = i * base"
    and "length (nodes ! i) = base"
    using blocks_split [OF assms(1,2)] by blast
  then show ?thesis using assms(3) by simp
qed

lemma blocks_update:
  "blocks base nodes \<Longrightarrow> length nd = base \<Longrightarrow> blocks base (nodes[i := nd])"
  by (auto simp: blocks_def dest: set_update_subset_insert [THEN subsetD])

lemma blocks_nth [simp]: "blocks base nodes \<Longrightarrow> i < length nodes \<Longrightarrow> length (nodes ! i) = base"
  by (simp add: blocks_def)

lemma cur_for_inside:
  "0 < base \<Longrightarrow> i < length nodes \<Longrightarrow> p < base \<Longrightarrow> cur_for base nodes (i * base + p) = Some i"
proof -
  assume a: "0 < base" "i < length nodes" "p < base"
  have "i * base + p < Suc i * base" using a by simp
  also have "\<dots> \<le> length nodes * base" using a by (metis Suc_leI mult_le_mono1)
  finally show ?thesis using a by (simp add: cur_for_def mult.commute)
qed

lemma cur_for_boundary:
  "0 < base \<Longrightarrow> i < length nodes \<Longrightarrow> cur_for base nodes (Suc i * base) = next_node nodes i"
proof -
  assume a: "0 < base" "i < length nodes"
  have "Suc i * base = base * length nodes \<longleftrightarrow> Suc i = length nodes"
    using a(1) by (metis mult.commute mult_cancel2 neq0_conv)
  then show ?thesis using a by (auto simp: cur_for_def next_node_def)
qed

subsection \<open>The loops\<close>

lemma next_node_room:
  assumes "i < length nodes" and "i * base + base < base * length nodes"
  shows "Suc i < length nodes" and "next_node nodes i = Some (Suc i)"
proof -
  have "base * Suc i < base * length nodes" using assms(2) by (simp add: algebra_simps)
  then show "Suc i < length nodes" by (rule mult_less_cancel1 [THEN iffD1, THEN conjunct2])
  then show "next_node nodes i = Some (Suc i)" by (simp add: next_node_def)
qed

lemma cur_for_step:
  assumes "0 < base" and "i < length nodes" and "k \<le> base"
  shows "cur_for base nodes (i * base + k) = (if base = k then next_node nodes i else Some i)"
  using cur_for_boundary [OF assms(1,2)] cur_for_inside [OF assms(1,2), of k] assms(3)
  by (auto simp: add.commute)

lemma write_loop_spec:
  assumes "blocks base nodes" and "0 < base" and "i < length nodes" and "npos < base"
    and "bs \<noteq> []" and "i * base + npos + length bs \<le> base * length nodes"
  shows "\<exists>nodes'. write_loop nodes (Some i) npos (base - npos) pos bs =
           Inr (nodes', cur_for base nodes (i * base + npos + length bs), pos + length bs) \<and>
         concat nodes' = overwrite (concat nodes) (i * base + npos) bs \<and>
         blocks base nodes' \<and> length nodes' = length nodes"
  using assms
proof (induction "length nodes - i" arbitrary: nodes i npos pos bs rule: less_induct)
  case less
  note b = less.prems(1) and base = less.prems(2) and i = less.prems(3) and np = less.prems(4)
    and ne = less.prems(5) and room = less.prems(6)
  show ?case
  proof (cases "length bs \<le> base - npos")
    case True
    let ?nodes = "nodes[i := overwrite (nodes ! i) npos bs]"
    have "cur_for base nodes (i * base + npos + length bs) =
          (if base = npos + length bs then next_node nodes i else Some i)"
      using cur_for_step [OF base i, of "npos + length bs"] True np by (simp add: add.assoc)
    moreover have "blocks base ?nodes" using b i True np by (simp add: blocks_update)
    ultimately show ?thesis
      using b i True np ne concat_overwrite_block [OF b i, of npos bs]
      by (subst write_loop.simps) simp
  next
    case False
    define ncap where "ncap = base - npos"
    define nodes1 where "nodes1 = nodes[i := overwrite (nodes ! i) npos (take ncap bs)]"
    have lt: "ncap < length bs" using False by (simp add: ncap_def)
    have fits: "npos + length (take ncap bs) \<le> base" using np by (simp add: ncap_def)
    have nx: "next_node nodes i = Some (Suc i)" and i1: "Suc i < length nodes"
      using next_node_room [OF i, of base] room lt np by (simp_all add: ncap_def)
    have b1: "blocks base nodes1" using b i fits by (simp add: nodes1_def blocks_update)
    have l1: "length nodes1 = length nodes" by (simp add: nodes1_def)
    have start: "Suc i * base + 0 = i * base + npos + length (take ncap bs)"
      using np lt by (simp add: ncap_def)
    have room1: "Suc i * base + 0 + length (drop ncap bs) \<le> base * length nodes1"
      using room start lt l1 by simp
    have "length nodes1 - Suc i < length nodes - i" using i1 l1 by simp
    from less.hyps [OF this b1 base _ base _ room1, of "pos + ncap"] i1 l1 lt
    obtain nodes' where rec:
      "write_loop nodes1 (Some (Suc i)) 0 base (pos + ncap) (drop ncap bs) =
         Inr (nodes', cur_for base nodes1 (Suc i * base + 0 + length (drop ncap bs)),
              pos + ncap + length (drop ncap bs))"
      and flat': "concat nodes' = overwrite (concat nodes1) (Suc i * base + 0) (drop ncap bs)"
      and "blocks base nodes'" "length nodes' = length nodes1" by auto
    have step: "write_loop nodes (Some i) npos (base - npos) pos bs =
        write_loop nodes1 (Some (Suc i)) 0 base (pos + ncap) (drop ncap bs)"
      using lt ne nx b i1 by (subst write_loop.simps) (simp add: ncap_def nodes1_def)
    have len: "i * base + npos + length bs \<le> length (concat nodes)"
      using room b by (simp add: length_concat_blocks)
    have "concat nodes' = overwrite (concat nodes) (i * base + npos) bs"
      unfolding flat' start nodes1_def concat_overwrite_block [OF b i fits]
      using overwrite_overwrite [of "i * base + npos" "take ncap bs" "drop ncap bs" "concat nodes"]
        len lt by simp
    moreover have "cur_for base nodes1 p = cur_for base nodes p" for p
      by (simp add: cur_for_def l1)
    ultimately show ?thesis
      using step rec start lt l1 \<open>blocks base nodes'\<close> \<open>length nodes' = length nodes1\<close>
      by (simp add: ac_simps)
  qed
qed

lemma read_loop_spec:
  assumes "blocks base nodes" and "0 < base" and "i < length nodes" and "npos < base"
    and "i * base + npos + n \<le> base * length nodes"
  shows "read_loop nodes (Some i) npos (base - npos) pos n =
           Inr (take n (drop (i * base + npos) (concat nodes)),
                cur_for base nodes (i * base + npos + n), pos + n)"
  using assms
proof (induction "length nodes - i" arbitrary: i npos pos n rule: less_induct)
  case less
  note b = less.prems(1) and base = less.prems(2) and i = less.prems(3) and np = less.prems(4)
    and room = less.prems(5)
  show ?case
  proof (cases "n \<le> base - npos")
    case True
    have cur: "cur_for base nodes (i * base + npos + n) =
          (if base = npos + n then next_node nodes i else Some i)"
      using cur_for_step [OF base i, of "npos + n"] True np by (simp add: add.assoc)
    show ?thesis
      using b i True np cur take_drop_block [OF b i, of npos n]
      by (subst read_loop.simps) simp
  next
    case False
    define ncap where "ncap = base - npos"
    have lt: "ncap < n" using False by (simp add: ncap_def)
    have nx: "next_node nodes i = Some (Suc i)" and i1: "Suc i < length nodes"
      using next_node_room [OF i, of base] room lt np by (simp_all add: ncap_def)
    have start: "Suc i * base + 0 = i * base + npos + ncap" using np by (simp add: ncap_def)
    have room1: "Suc i * base + 0 + (n - ncap) \<le> base * length nodes"
      using room start lt by simp
    have "length nodes - Suc i < length nodes - i" using i1 by simp
    from less.hyps [OF this b base i1 base room1, of "pos + ncap"]
    have rec: "read_loop nodes (Some (Suc i)) 0 base (pos + ncap) (n - ncap) =
        Inr (take (n - ncap) (drop (i * base + npos + ncap) (concat nodes)),
             cur_for base nodes (i * base + npos + n), pos + n)"
      using start lt by (simp add: ac_simps)
    have "take n (drop (i * base + npos) (concat nodes)) =
        take ncap (drop (i * base + npos) (concat nodes)) @
        take (n - ncap) (drop (i * base + npos + ncap) (concat nodes))"
      using lt by (metis drop_drop add.commute le_add_diff_inverse less_imp_le_nat take_add)
    then show ?thesis
      using lt nx b i1 rec take_drop_block [OF b i, of npos ncap] np
      by (subst read_loop.simps) (simp add: ncap_def ac_simps)
  qed
qed

lemma seek_spec:
  assumes "blocks base nodes" and "0 < base" and "i < length nodes"
    and "i * base + v \<le> base * length nodes"
  shows "seek nodes (Some i) v = Inr (cur_for base nodes (i * base + v))"
  using assms
proof (induction "length nodes - i" arbitrary: i v rule: less_induct)
  case less
  note b = less.prems(1) and base = less.prems(2) and i = less.prems(3) and room = less.prems(4)
  consider (inside) "v < base" | (edge) "v = base" | (beyond) "v > base" by linarith
  then show ?case
  proof cases
    case inside
    then show ?thesis using b i cur_for_inside [OF base i] by (subst seek.simps) simp
  next
    case edge
    then show ?thesis using b i cur_for_step [OF base i, of v] by (subst seek.simps) simp
  next
    case beyond
    have nx: "next_node nodes i = Some (Suc i)" and i1: "Suc i < length nodes"
      using next_node_room [OF i, of base] room beyond by simp_all
    have "length nodes - Suc i < length nodes - i" using i1 by simp
    from less.hyps [OF this b base i1, of "v - base"] room beyond
    have "seek nodes (Some (Suc i)) (v - base) = Inr (cur_for base nodes (i * base + v))"
      by (simp add: algebra_simps)
    then show ?thesis using beyond nx b i by (subst seek.simps) simp
  qed
qed

subsection \<open>The operations on the flat memory\<close>

lemma sub64_pos_le [simp]: "0 < base \<Longrightarrow> sub64 base (p mod base) = base - p mod base"
  by (simp add: less_imp_le)

lemma cur_for_mod_div:
  "ba_inv ba \<Longrightarrow> m_position ba < m_capacity ba \<Longrightarrow>
   m_cur ba = Some (m_position ba div m_baseSize ba) \<and>
   m_position ba div m_baseSize ba < length (m_nodes ba)"
  by (auto simp: ba_inv_def cur_for_def mult.commute intro: less_mult_imp_div_less)

lemma length_flat: "ba_inv ba \<Longrightarrow> length (flat ba) = m_capacity ba"
  by (simp add: ba_inv_def flat_def length_concat_blocks)

lemma length_readable: "ba_inv ba \<Longrightarrow> length (readable ba) = m_size ba - m_position ba"
  using length_flat [of ba] by (auto simp: readable_def ba_inv_def)

lemma getReadSize_inv: "ba_inv ba \<Longrightarrow> getReadSize ba = m_size ba - m_position ba"
  by (simp add: ba_inv_def getReadSize_def)

lemma getCapacity_inv: "ba_inv ba \<Longrightarrow> getCapacity ba = m_capacity ba - m_position ba"
  by (simp add: ba_inv_def getCapacity_def)

lemma ByteArray_inv: "0 < base \<Longrightarrow> ba_inv (ByteArray junk base)"
  by (simp add: ba_inv_def ByteArray_def blocks_def Node_def cur_for_def)

lemma clear_inv: "ba_inv ba \<Longrightarrow> ba_inv (clear ba)"
  by (cases "m_nodes ba") (auto simp: ba_inv_def clear_def blocks_def cur_for_def)

lemma setIsLittleEndian_inv: "ba_inv ba \<Longrightarrow> ba_inv (setIsLittleEndian b ba)"
  by (simp add: ba_inv_def setIsLittleEndian_def)

lemma add_nodes_fields [simp]:
  "m_baseSize (add_nodes junk base n ba) = m_baseSize ba"
  "m_position (add_nodes junk base n ba) = m_position ba"
  "m_size (add_nodes junk base n ba) = m_size ba"
  "m_endian (add_nodes junk base n ba) = m_endian ba"
  "m_cur (add_nodes junk base n ba) = m_cur ba"
  "m_capacity (add_nodes junk base n ba) = m_capacity ba + n * base"
  "length (m_nodes (add_nodes junk base n ba)) = length (m_nodes ba) + n"
  by (induction junk base n ba rule: add_nodes.induct) simp_all

lemma add_nodes_blocks:
  "blocks base (m_nodes ba) \<Longrightarrow> blocks base (m_nodes (add_nodes junk base n ba))"
  by (induction junk base n ba rule: add_nodes.induct) (auto simp: blocks_def Node_def)

lemma add_nodes_flat:
  "\<exists>extra. flat (add_nodes junk base n ba) = flat ba @ extra"
  by (induction junk base n ba rule: add_nodes.induct) (auto simp: flat_def)

lemma ceil_div_bounds:
  assumes "0 < b" and "0 < a"
  shows "a \<le> ceil_div a b * b" and "0 < ceil_div a b"
proof -
  have "a + b - 1 < Suc (ceil_div a b) * b"
    unfolding ceil_div_def using assms(1) by (metis dividend_less_div_times mult_Suc add.commute)
  then show "a \<le> ceil_div a b * b" using assms by simp
  then show "0 < ceil_div a b" using assms(2) by (cases "ceil_div a b") simp_all
qed

lemma addCapacity_fields [simp]:
  "m_baseSize (addCapacity junk n ba) = m_baseSize ba"
  "m_position (addCapacity junk n ba) = m_position ba"
  "m_size (addCapacity junk n ba) = m_size ba"
  "m_endian (addCapacity junk n ba) = m_endian ba"
  by (simp_all add: addCapacity_def Let_def)

lemma addCapacity_flat: "\<exists>extra. flat (addCapacity junk n ba) = flat ba @ extra"
  using add_nodes_flat [of junk "m_baseSize ba" _ ba]
  by (auto simp: addCapacity_def Let_def flat_def)

lemma addCapacity_room:
  assumes "ba_inv ba"
  shows "m_position ba + n \<le> m_capacity (addCapacity junk n ba)"
proof -
  have "n - getCapacity ba \<le> ceil_div (n - getCapacity ba) (m_baseSize ba) * m_baseSize ba"
    if "getCapacity ba < n"
    using ceil_div_bounds(1) that assms by (simp add: ba_inv_def)
  then show ?thesis
    using assms by (auto simp: addCapacity_def Let_def getCapacity_inv not_le ba_inv_def)
qed

lemma addCapacity_inv:
  assumes inv: "ba_inv ba"
  shows "ba_inv (addCapacity junk n ba)"
proof (cases "getCapacity ba < n")
  case False
  then show ?thesis using inv by (simp add: addCapacity_def Let_def)
next
  case True
  define base where "base = m_baseSize ba"
  define count where "count = ceil_div (n - getCapacity ba) base"
  have base: "0 < base" and b: "blocks base (m_nodes ba)"
    and cap: "m_capacity ba = base * length (m_nodes ba)"
    using inv by (simp_all add: ba_inv_def base_def)
  have count: "0 < count"
    unfolding count_def using ceil_div_bounds(2) base True by simp
  have "cur_for base (m_nodes (add_nodes junk base count ba)) (m_position ba) =
        (if getCapacity ba = 0 then Some (length (m_nodes ba)) else m_cur ba)"
  proof (cases "m_position ba = m_capacity ba")
    case True
    then show ?thesis using inv count base cap by (simp add: cur_for_def getCapacity_inv)
  next
    case False
    then have "m_position ba < base * length (m_nodes ba)"
      using inv cap by (simp add: ba_inv_def)
    moreover have "\<dots> \<le> base * (length (m_nodes ba) + count)" by simp
    ultimately show ?thesis
      using inv False by (auto simp: cur_for_def getCapacity_inv base_def ba_inv_def)
  qed
  then show ?thesis
    using inv True count add_nodes_blocks [OF b, of junk count] cap
      add_nodes_fields(7) [of junk base count ba]
    by (auto simp del: add_nodes_fields(7) simp: ba_inv_def addCapacity_def Let_def algebra_simps
        simp flip: base_def count_def)
qed

text \<open>
  \<open>write_ba\<close> is an overwrite of the flat memory at the position, after growth;
  it always succeeds.
\<close>

lemma write_ba_spec:
  assumes inv: "ba_inv ba" and ne: "bs \<noteq> []"
  obtains ba' where "write_ba junk bs ba = Inr ba'" and "ba_inv ba'"
    and "flat ba' = overwrite (flat (addCapacity junk (length bs) ba)) (m_position ba) bs"
    and "m_position ba' = m_position ba + length bs"
    and "m_size ba' = max (m_size ba) (m_position ba + length bs)"
    and "m_endian ba' = m_endian ba" and "m_baseSize ba' = m_baseSize ba"
proof -
  define ca where "ca = addCapacity junk (length bs) ba"
  define base where "base = m_baseSize ba"
  define p where "p = m_position ba"
  have ca: "ba_inv ca" and room: "p + length bs \<le> m_capacity ca"
    unfolding ca_def p_def using addCapacity_inv addCapacity_room inv by blast+
  have fields [simp]: "m_baseSize ca = base" "m_position ca = p" "m_size ca = m_size ba"
    "m_endian ca = m_endian ba"
    by (simp_all add: ca_def base_def p_def)
  have pos: "p < m_capacity ca" using room ne by (cases bs) simp_all
  have base: "0 < base" and b: "blocks base (m_nodes ca)"
    and cap: "m_capacity ca = base * length (m_nodes ca)"
    using ca by (simp_all add: ba_inv_def)
  have cur: "m_cur ca = Some (p div base)" and i: "p div base < length (m_nodes ca)"
    using cur_for_mod_div [OF ca] pos by simp_all
  obtain nodes where w:
    "write_loop (m_nodes ca) (Some (p div base)) (p mod base) (base - p mod base) p bs =
       Inr (nodes, cur_for base (m_nodes ca) (p + length bs), p + length bs)"
    and fl: "concat nodes = overwrite (concat (m_nodes ca)) p bs"
    and nb: "blocks base nodes" and nl: "length nodes = length (m_nodes ca)"
    using write_loop_spec [OF b base i _ ne, of "p mod base" p] base room cap by auto
  define ba' where "ba' = ca\<lparr>m_nodes := nodes,
    m_cur := cur_for base (m_nodes ca) (p + length bs), m_position := p + length bs,
    m_size := (if p + length bs > m_size ca then p + length bs else m_size ca)\<rparr>"
  have "write_ba junk bs ba = Inr ba'"
    using ne base cur w b i
    by (simp add: write_ba_def Let_def ba'_def less_imp_le flip: base_def ca_def)
  moreover have "ba_inv ba'"
    using ca nb nl room cap by (auto simp: ba_inv_def ba'_def cur_for_def)
  ultimately show thesis
    by (rule that) (simp_all add: ba'_def flat_def fl base_def p_def ca_def max_def)
qed

text \<open>
  \<open>read_ba\<close> takes a prefix of what is readable.  The only way to fail besides
  asking for too much is to ask for nothing at the very end of the last block.
\<close>

lemma read_ba_spec:
  assumes inv: "ba_inv ba" and n: "n \<le> length (readable ba)" and p: "m_position ba < m_capacity ba"
  shows "read_ba n ba = Inr (take n (readable ba),
           ba\<lparr>m_position := m_position ba + n,
              m_cur := cur_for (m_baseSize ba) (m_nodes ba) (m_position ba + n)\<rparr>)"
proof -
  define base where "base = m_baseSize ba"
  define q where "q = m_position ba"
  have base: "0 < base" and b: "blocks base (m_nodes ba)"
    and cap: "m_capacity ba = base * length (m_nodes ba)"
    using inv by (simp_all add: ba_inv_def base_def)
  have cur: "m_cur ba = Some (q div base)" and i: "q div base < length (m_nodes ba)"
    using cur_for_mod_div [OF inv] p by (simp_all add: q_def base_def)
  have len: "n \<le> m_size ba - q" using n length_readable [OF inv] by (simp add: q_def)
  have "q + n \<le> base * length (m_nodes ba)" using len inv cap unfolding ba_inv_def q_def by linarith
  then have "read_loop (m_nodes ba) (Some (q div base)) (q mod base) (base - q mod base) q n =
    Inr (take n (drop q (concat (m_nodes ba))), cur_for base (m_nodes ba) (q + n), q + n)"
    using read_loop_spec [OF b base i, of "q mod base" n q] base by simp
  then show ?thesis
    using len base cur b i getReadSize_inv [OF inv]
    by (simp add: read_ba_def Let_def readable_def flat_def less_imp_le min_absorb1
        flip: base_def q_def)
qed

lemma take_readable:
  "n \<le> m_size ba - m_position ba \<Longrightarrow> take n (readable ba) = take n (drop (m_position ba) (flat ba))"
  by (simp add: readable_def min_absorb1)

lemma read_ba_inv:
  assumes inv: "ba_inv ba" and r: "read_ba n ba = Inr (bs, ba')"
  shows "ba_inv ba'"
proof (cases "m_position ba < m_capacity ba")
  case True
  have "n \<le> getReadSize ba" using r by (auto simp: read_ba_def split: if_splits)
  then have "n \<le> length (readable ba)" using inv by (simp add: getReadSize_inv length_readable)
  then show ?thesis
    using r read_ba_spec [OF inv _ True] inv length_readable [OF inv] by (auto simp: ba_inv_def)
next
  case False
  then have "m_cur ba = None" using inv by (auto simp: ba_inv_def cur_for_def)
  then show ?thesis using r by (auto simp: read_ba_def split: if_splits)
qed

lemma read_ba_too_much: "ba_inv ba \<Longrightarrow> length (readable ba) < n \<Longrightarrow> read_ba n ba = Inl OutOfRange"
  by (simp add: read_ba_def getReadSize_inv length_readable)

lemma setPosition_spec:
  assumes inv: "ba_inv ba" and v: "v \<le> m_capacity ba"
  shows "setPosition v ba = Inr (ba\<lparr>m_position := v, m_size := max (m_size ba) v,
           m_cur := cur_for (m_baseSize ba) (m_nodes ba) v\<rparr>)"
  using seek_spec [of "m_baseSize ba" "m_nodes ba" 0 v] assms
  by (simp add: setPosition_def ba_inv_def max_def)

lemma setPosition_inv:
  assumes "ba_inv ba" and "setPosition v ba = Inr ba'"
  shows "ba_inv ba'" and "flat ba' = flat ba" and "m_position ba' = v"
proof -
  have "v \<le> m_capacity ba" using assms(2) by (auto simp: setPosition_def split: if_splits)
  with assms show "ba_inv ba'" and "flat ba' = flat ba" and "m_position ba' = v"
    by (auto simp: setPosition_spec ba_inv_def flat_def)
qed

lemma read_at_position:
  assumes "ba_inv ba" and "n \<le> length (readable ba)" and "m_position ba < m_capacity ba"
  shows "read_at n (m_position ba) ba = Inr (take n (readable ba))"
proof -
  have "read_at n (m_position ba) ba = (case read_ba n ba of Inl e \<Rightarrow> Inl e | Inr (bs, _) \<Rightarrow> Inr bs)"
    by (simp add: read_at_def read_ba_def getReadSize_def Let_def
        split: option.split sum.split prod.split)
  then show ?thesis using read_ba_spec [OF assms] by simp
qed

lemma toString_spec:
  assumes "ba_inv ba"
  shows "toString ba = Inr (readable ba)"
proof (cases "getReadSize ba = 0")
  case True
  then show ?thesis
    using length_readable [OF assms] getReadSize_inv [OF assms] by (simp add: toString_def)
next
  case False
  then have "m_position ba < m_capacity ba"
    using assms getReadSize_inv [OF assms] by (simp add: ba_inv_def)
  then show ?thesis
    using False read_at_position [OF assms, of "getReadSize ba"] getReadSize_inv [OF assms]
      length_readable [OF assms] by (simp add: toString_def)
qed

subsection \<open>Appending and consuming\<close>

text \<open>What lies before the position: writing appends to it, reading moves bytes into it.\<close>

definition written :: "bytearray \<Rightarrow> byte list" where
  "written ba = take (m_position ba) (flat ba)"

lemma write_ba_append:
  assumes inv: "ba_inv ba"
  shows "\<exists>ba'. write_ba junk bs ba = Inr ba' \<and> ba_inv ba' \<and> written ba' = written ba @ bs \<and>
           m_position ba' = m_position ba + length bs \<and>
           m_size ba' = max (m_size ba) (m_position ba + length bs) \<and>
           m_endian ba' = m_endian ba \<and> m_baseSize ba' = m_baseSize ba"
proof (cases "bs = []")
  case True
  then show ?thesis using inv by (auto simp: write_ba_def ba_inv_def)
next
  case False
  obtain ba' where w: "write_ba junk bs ba = Inr ba'" "ba_inv ba'"
    "flat ba' = overwrite (flat (addCapacity junk (length bs) ba)) (m_position ba) bs"
    "m_position ba' = m_position ba + length bs"
    "m_size ba' = max (m_size ba) (m_position ba + length bs)"
    "m_endian ba' = m_endian ba" "m_baseSize ba' = m_baseSize ba"
    using write_ba_spec [OF inv False] by blast
  obtain extra where "flat (addCapacity junk (length bs) ba) = flat ba @ extra"
    using addCapacity_flat by blast
  moreover have "m_position ba \<le> length (flat ba)"
    using inv by (simp add: length_flat) (simp add: ba_inv_def)
  ultimately have "written ba' = written ba @ bs"
    using w(3,4) by (simp add: written_def overwrite_def)
  then show ?thesis using w by blast
qed

lemma read_ba_consume:
  assumes inv: "ba_inv ba" and r: "readable ba = bs @ rest" and ne: "bs \<noteq> []"
  shows "\<exists>ba'. read_ba (length bs) ba = Inr (bs, ba') \<and> ba_inv ba' \<and> readable ba' = rest \<and>
           flat ba' = flat ba \<and> m_position ba' = m_position ba + length bs \<and>
           m_size ba' = m_size ba \<and> m_endian ba' = m_endian ba"
proof -
  have len: "length bs \<le> length (readable ba)" using r by simp
  then have p: "m_position ba < m_capacity ba"
    using length_readable [OF inv] ne inv by (cases bs) (auto simp: ba_inv_def)
  have "readable (ba\<lparr>m_position := m_position ba + length bs, m_cur := c\<rparr>) = rest" for c
  proof -
    have "readable (ba\<lparr>m_position := m_position ba + length bs, m_cur := c\<rparr>) =
          drop (length bs) (readable ba)"
      by (simp add: readable_def flat_def drop_take add.commute)
    then show ?thesis using r by simp
  qed
  then show ?thesis
    using read_ba_spec [OF inv len p] read_ba_inv [OF inv] r by (auto simp: flat_def)
qed

lemma readable_setPosition_0:
  assumes "ba_inv ba" and "m_size ba = m_position ba"
  obtains ba' where "setPosition 0 ba = Inr ba'" and "ba_inv ba'" and "readable ba' = written ba"
    and "m_endian ba' = m_endian ba"
proof -
  let ?ba = "ba\<lparr>m_position := 0, m_size := max (m_size ba) 0,
    m_cur := cur_for (m_baseSize ba) (m_nodes ba) 0\<rparr>"
  have "setPosition 0 ba = Inr ?ba" using assms(1) by (simp add: setPosition_spec)
  moreover have "ba_inv ?ba" using setPosition_inv(1) [OF assms(1) calculation] .
  moreover have "readable ?ba = written ba"
    using assms(2) by (simp add: readable_def written_def flat_def)
  ultimately show thesis by (rule that) simp
qed

subsection \<open>Properties\<close>

text \<open>
  C1: writing never fails on a well-formed array.  It overwrites the bytes at
  the position of the memory after growth, moves the position past them,
  extends the size when the position passed it, and keeps the array well formed.
\<close>

theorem write_refines:
  assumes "ba_inv ba"
  shows "\<exists>ba'. write_ba junk bs ba = Inr ba' \<and> ba_inv ba' \<and>
           flat ba' = overwrite (flat (addCapacity junk (length bs) ba)) (m_position ba) bs \<and>
           m_position ba' = m_position ba + length bs \<and>
           m_size ba' = max (m_size ba) (m_position ba + length bs)"
proof (cases "bs = []")
  case True
  then show ?thesis
    using assms by (auto simp: write_ba_def addCapacity_def overwrite_def ba_inv_def)
next
  case False
  then show ?thesis using write_ba_spec [OF assms False, of junk] by metis
qed

lemma write_refines_witness:
  "ba_inv (ByteArray (\<lambda>_ _. 0) 2) \<and>
   (\<exists>ba'. write_ba (\<lambda>_ _. 0) [7, 8, 9] (ByteArray (\<lambda>_ _. 0) 2) = Inr ba' \<and> flat ba' = [7, 8, 9, 0])"
proof
  show inv: "ba_inv (ByteArray (\<lambda>_ _. 0) 2)" by (rule ByteArray_inv) simp
  have "flat (addCapacity (\<lambda>_ _. 0) 3 (ByteArray (\<lambda>_ _. 0) 2)) = [0, 0, 0, 0]"
    by (simp add: addCapacity_def ByteArray_def getCapacity_def ceil_div_def flat_def Node_def Let_def
        numeral_2_eq_2)
  then show "\<exists>ba'. write_ba (\<lambda>_ _. 0) [7, 8, 9] (ByteArray (\<lambda>_ _. 0) 2) = Inr ba' \<and>
      flat ba' = [7, 8, 9, 0]"
    using write_refines [OF inv, of "\<lambda>_ _. 0" "[7, 8, 9]"]
    by (auto simp: overwrite_def numeral_3_eq_3) (simp add: ByteArray_def)
qed

text \<open>
  C14: reading a positive number of bytes hands out the bytes at the position and
  moves past them when the array has that many left, and raises
  \<open>out_of_range\<close> otherwise; it never runs off the block list.
\<close>

theorem read_refines:
  assumes "ba_inv ba" and "0 < n"
  shows "if n \<le> m_size ba - m_position ba
         then \<exists>ba'. read_ba n ba = Inr (take n (drop (m_position ba) (flat ba)), ba') \<and> ba_inv ba' \<and>
                flat ba' = flat ba \<and> m_position ba' = m_position ba + n \<and> m_size ba' = m_size ba
         else read_ba n ba = Inl OutOfRange"
proof (cases "n \<le> m_size ba - m_position ba")
  case True
  then have p: "m_position ba < m_capacity ba" using assms unfolding ba_inv_def by linarith
  let ?ba' = "ba\<lparr>m_position := m_position ba + n,
    m_cur := cur_for (m_baseSize ba) (m_nodes ba) (m_position ba + n)\<rparr>"
  have r: "read_ba n ba = Inr (take n (drop (m_position ba) (flat ba)), ?ba')"
    using read_ba_spec [OF assms(1) _ p, of n] True take_readable [OF True]
      length_readable [OF assms(1)] by simp
  show ?thesis using True r read_ba_inv [OF assms(1) r] by (simp add: flat_def)
next
  case False
  then show ?thesis
    using read_ba_too_much [OF assms(1), of n] length_readable [OF assms(1)] by simp
qed

lemma read_refines_witness:
  "ba_inv (ByteArray (\<lambda>_ _. 0) 2) \<and> (0::nat) < 1 \<and>
   read_ba 1 (ByteArray (\<lambda>_ _. 0) 2) = Inl OutOfRange"
  using read_refines [of "ByteArray (\<lambda>_ _. 0) 2" 1] ByteArray_inv [of 2 "\<lambda>_ _. 0"]
  by (simp add: ByteArray_def)

text \<open>
  Random access.  After \<open>setPosition(v)\<close> inside the capacity, a read of a
  positive number of bytes below the size returns the bytes of the memory at \<open>v\<close>.
\<close>

theorem setPosition_then_read:
  assumes "ba_inv ba" and "0 < n" and "v + n \<le> m_size ba"
  shows "\<exists>ba1 ba2. setPosition v ba = Inr ba1 \<and> ba_inv ba1 \<and>
           read_ba n ba1 = Inr (take n (drop v (flat ba)), ba2) \<and> m_position ba2 = v + n"
proof -
  have v: "v \<le> m_capacity ba" using assms by (simp add: ba_inv_def)
  obtain ba1 where s: "setPosition v ba = Inr ba1" and sz: "m_size ba1 = m_size ba"
    using setPosition_spec [OF assms(1) v] assms(2,3) by (auto simp: max_def)
  note p = setPosition_inv [OF assms(1) s]
  have n: "n \<le> m_size ba1 - m_position ba1" and c: "m_position ba1 < m_capacity ba1"
    using p sz assms(2,3) by (auto simp: ba_inv_def)
  have "read_ba n ba1 = Inr (take n (drop v (flat ba)), ba1\<lparr>m_position := v + n,
      m_cur := cur_for (m_baseSize ba1) (m_nodes ba1) (v + n)\<rparr>)"
    using read_ba_spec [OF p(1) _ c, of n] n take_readable [OF n] length_readable [OF p(1)] p(2,3)
    by simp
  then show ?thesis using s p(1) by simp
qed

lemma setPosition_then_read_witness:
  "\<exists>ba ba1 ba2. write_ba (\<lambda>_ _. 0) [7, 8, 9] (ByteArray (\<lambda>_ _. 0) 2) = Inr ba \<and>
     setPosition 1 ba = Inr ba1 \<and> read_ba 2 ba1 = Inr ([8, 9], ba2) \<and> m_position ba2 = 3"
proof -
  obtain ba where ba: "write_ba (\<lambda>_ _. 0) [7, 8, 9] (ByteArray (\<lambda>_ _. 0) 2) = Inr ba" "ba_inv ba"
    "written ba = [7, 8, 9]" "m_position ba = 3" "m_size ba = 3"
    using write_ba_append [OF ByteArray_inv [of 2 "\<lambda>_ _. 0"], of "\<lambda>_ _. 0" "[7, 8, 9]"]
    by (auto simp: written_def ByteArray_def numeral_3_eq_3)
  have "take 2 (drop 1 (flat ba)) = take 2 (drop 1 (take 3 (flat ba)))" by (simp add: drop_take)
  then have "take 2 (drop 1 (flat ba)) = [8, 9]" using ba(3,4) by (simp add: written_def)
  then show ?thesis using setPosition_then_read [OF ba(2), of 2 1] ba by auto
qed

text \<open>
  Reading nothing when the position is at the end of the last block
  dereferences the null block pointer, although nothing is asked for.
\<close>

theorem read_nothing_at_end:
  assumes "ba_inv ba" and "m_position ba = m_capacity ba"
  shows "read_ba 0 ba = Inl NullDeref"
  using assms by (simp add: read_ba_def ba_inv_def cur_for_def)

lemma read_nothing_at_end_witness:
  "\<exists>ba. setPosition 2 (ByteArray (\<lambda>_ _. 0) 2) = Inr ba \<and> read_ba 0 ba = Inl NullDeref"
proof -
  have inv: "ba_inv (ByteArray (\<lambda>_ _. 0) 2)" by (rule ByteArray_inv) simp
  then obtain ba where ba: "setPosition 2 (ByteArray (\<lambda>_ _. 0) 2) = Inr ba" and "m_capacity ba = 2"
    using setPosition_spec [OF inv, of 2] by (simp add: ByteArray_def)
  then show ?thesis
    using read_nothing_at_end [of ba] setPosition_inv(1,3) [OF inv ba] by simp
qed

end
