(* ===== verification/Byte_Codec.thy ===== *)
theory Byte_Codec
  imports Byte_Array
begin

text \<open>
  The typed readers and writers of src/skt/bytearray: fixed-width integers in
  the array's byte order, variable-length integers (7 bits per byte, low group
  first), zigzag-coded signed integers, floating point numbers and strings.
  \<open>host\<close> is \<open>SKT_BYTE_ORDER\<close>, the byte order of the machine.  Signed and
  unsigned integers of one width are the same \<open>word\<close> (two's complement), a
  float or double is its bit pattern, a string its list of bytes.
\<close>

type_synonym writer_result = "ba_error + bytearray"
type_synonym 'v reader = "bytearray \<Rightarrow> ba_error + ('v \<times> bytearray)"

subsection \<open>Fixed width\<close>

text \<open>The common body of the fixed-width writers, and the macro \<open>XX\<close> of the readers.\<close>

definition write_fixed :: "int \<Rightarrow> junk \<Rightarrow> 'a::len word \<Rightarrow> bytearray \<Rightarrow> writer_result" where
  "write_fixed host junk v ba =
     write_ba junk (mem_bytes host (if m_endian ba \<noteq> host then byteswap v else v)) ba"

definition XX :: "int \<Rightarrow> 'a::len word reader" where
  "XX host ba =
     (case read_ba (LENGTH('a) div 8) ba of Inl e \<Rightarrow> Inl e
      | Inr (bs, ba') \<Rightarrow>
          let v = mem_word host bs :: 'a word
          in Inr (if m_endian ba' = host then v else byteswap v, ba'))"

definition writeFuint8 :: "junk \<Rightarrow> 8 word \<Rightarrow> bytearray \<Rightarrow> writer_result" where
  "writeFuint8 junk v = write_ba junk [v]"

definition writeFint8 :: "junk \<Rightarrow> 8 word \<Rightarrow> bytearray \<Rightarrow> writer_result" where
  "writeFint8 junk v = write_ba junk [v]"

definition writeFint16 :: "int \<Rightarrow> junk \<Rightarrow> 16 word \<Rightarrow> bytearray \<Rightarrow> writer_result" where
  "writeFint16 = write_fixed"

definition writeFuint16 :: "int \<Rightarrow> junk \<Rightarrow> 16 word \<Rightarrow> bytearray \<Rightarrow> writer_result" where
  "writeFuint16 = write_fixed"

definition writeFint32 :: "int \<Rightarrow> junk \<Rightarrow> 32 word \<Rightarrow> bytearray \<Rightarrow> writer_result" where
  "writeFint32 = write_fixed"

definition writeFuint32 :: "int \<Rightarrow> junk \<Rightarrow> 32 word \<Rightarrow> bytearray \<Rightarrow> writer_result" where
  "writeFuint32 = write_fixed"

definition writeFint64 :: "int \<Rightarrow> junk \<Rightarrow> 64 word \<Rightarrow> bytearray \<Rightarrow> writer_result" where
  "writeFint64 = write_fixed"

definition writeFuint64 :: "int \<Rightarrow> junk \<Rightarrow> 64 word \<Rightarrow> bytearray \<Rightarrow> writer_result" where
  "writeFuint64 = write_fixed"

definition readFuint8 :: "8 word reader" where
  "readFuint8 ba =
     (case read_ba 1 ba of Inl e \<Rightarrow> Inl e | Inr (bs, ba') \<Rightarrow> Inr (hd bs, ba'))"

definition readFint8 :: "8 word reader" where
  "readFint8 ba =
     (case read_ba 1 ba of Inl e \<Rightarrow> Inl e | Inr (bs, ba') \<Rightarrow> Inr (hd bs, ba'))"

definition readFint16 :: "int \<Rightarrow> 16 word reader" where "readFint16 = XX"
definition readFuint16 :: "int \<Rightarrow> 16 word reader" where "readFuint16 = XX"
definition readFint32 :: "int \<Rightarrow> 32 word reader" where "readFint32 = XX"
definition readFuint32 :: "int \<Rightarrow> 32 word reader" where "readFuint32 = XX"
definition readFint64 :: "int \<Rightarrow> 64 word reader" where "readFint64 = XX"
definition readFuint64 :: "int \<Rightarrow> 64 word reader" where "readFuint64 = XX"

subsection \<open>Variable width\<close>

text \<open>The bytes collected in \<open>tmp\<close> by the loops of \<open>writeUint32\<close> and \<open>writeUint64\<close>.\<close>

function varint_bytes :: "'a::len word \<Rightarrow> byte list" where
  "varint_bytes v =
     (if unat v \<ge> 0x80 then ucast ((v AND 0x7F) OR 0x80) # varint_bytes (drop_bit 7 v)
      else [ucast v])"
  by pat_completeness auto
termination
proof (relation "measure unat")
  fix v :: "'a::len word"
  assume "unat v \<ge> 0x80"
  then show "(drop_bit 7 v, v) \<in> measure unat"
    unfolding in_measure unat_drop_bit_eq by (simp add: drop_bit_eq_div)
qed simp

definition writeUint32 :: "junk \<Rightarrow> 32 word \<Rightarrow> bytearray \<Rightarrow> writer_result" where
  "writeUint32 junk v = write_ba junk (varint_bytes v)"

definition writeUint64 :: "junk \<Rightarrow> 64 word \<Rightarrow> bytearray \<Rightarrow> writer_result" where
  "writeUint64 junk v = write_ba junk (varint_bytes v)"

text \<open>The loops of \<open>readUint32\<close> and \<open>readUint64\<close>: \<open>i\<close> is the shift, \<open>result\<close> what is read so far.\<close>

function varint_loop :: "nat \<Rightarrow> 'a::len word \<Rightarrow> 'a word reader" where
  "varint_loop i result ba =
     (if i < LENGTH('a) then
        (case readFuint8 ba of Inl e \<Rightarrow> Inl e
         | Inr (b, ba') \<Rightarrow>
             if b < 0x80 then Inr (result OR push_bit i (ucast b), ba')
             else varint_loop (i + 7) (result OR push_bit i (ucast (b AND 0x7f))) ba')
      else Inr (result, ba))"
  by pat_completeness auto
termination
  by (relation "measure (\<lambda>(i, _ :: 'a::len word, _). LENGTH('a) - i)") auto

definition readUint32 :: "32 word reader" where
  "readUint32 = varint_loop 0 0"

definition readUint64 :: "64 word reader" where
  "readUint64 = varint_loop 0 0"

subsection \<open>Zigzag\<close>

text \<open>The arguments are unsigned, as in the source: the test \<open>v < 0\<close> is one of unsigned numbers.\<close>

definition EncodeZigzag32 :: "32 word \<Rightarrow> 32 word" where
  "EncodeZigzag32 v = (if v < 0 then (- v) * 2 - 1 else v * 2)"

definition EncodeZigzag64 :: "64 word \<Rightarrow> 64 word" where
  "EncodeZigzag64 v = (if v < 0 then (- v) * 2 - 1 else v * 2)"

definition DecodeZigzag32 :: "32 word \<Rightarrow> 32 word" where
  "DecodeZigzag32 v = (drop_bit 1 v) XOR (- (v AND 1))"

definition DecodeZigzag64 :: "64 word \<Rightarrow> 64 word" where
  "DecodeZigzag64 v = (drop_bit 1 v) XOR (- (v AND 1))"

definition writeInt32 :: "junk \<Rightarrow> 32 word \<Rightarrow> bytearray \<Rightarrow> writer_result" where
  "writeInt32 junk v = writeUint32 junk (EncodeZigzag32 v)"

definition writeInt64 :: "junk \<Rightarrow> 64 word \<Rightarrow> bytearray \<Rightarrow> writer_result" where
  "writeInt64 junk v = writeUint64 junk (EncodeZigzag64 v)"

definition readInt32 :: "32 word reader" where
  "readInt32 ba =
     (case readUint32 ba of Inl e \<Rightarrow> Inl e | Inr (v, ba') \<Rightarrow> Inr (DecodeZigzag32 v, ba'))"

definition readInt64 :: "64 word reader" where
  "readInt64 ba =
     (case readUint64 ba of Inl e \<Rightarrow> Inl e | Inr (v, ba') \<Rightarrow> Inr (DecodeZigzag64 v, ba'))"

subsection \<open>Floating point\<close>

definition writeFloat :: "junk \<Rightarrow> 32 word \<Rightarrow> bytearray \<Rightarrow> writer_result" where
  "writeFloat junk v = writeUint32 junk v"

definition writeDouble :: "junk \<Rightarrow> 64 word \<Rightarrow> bytearray \<Rightarrow> writer_result" where
  "writeDouble junk v = writeUint64 junk v"

definition readFloat :: "int \<Rightarrow> 32 word reader" where "readFloat host = readFuint32 host"
definition readDouble :: "int \<Rightarrow> 64 word reader" where "readDouble host = readFuint64 host"

subsection \<open>Strings\<close>

definition then_write :: "writer_result \<Rightarrow> (bytearray \<Rightarrow> writer_result) \<Rightarrow> writer_result" where
  "then_write r f = (case r of Inl e \<Rightarrow> Inl e | Inr ba \<Rightarrow> f ba)"

definition writeStringF16 :: "int \<Rightarrow> junk \<Rightarrow> byte list \<Rightarrow> bytearray \<Rightarrow> writer_result" where
  "writeStringF16 host junk s ba =
     then_write (writeFint16 host junk (of_nat (length s)) ba) (write_ba junk s)"

definition writeStringF32 :: "int \<Rightarrow> junk \<Rightarrow> byte list \<Rightarrow> bytearray \<Rightarrow> writer_result" where
  "writeStringF32 host junk s ba =
     then_write (writeFint32 host junk (of_nat (length s)) ba) (write_ba junk s)"

definition writeStringF64 :: "int \<Rightarrow> junk \<Rightarrow> byte list \<Rightarrow> bytearray \<Rightarrow> writer_result" where
  "writeStringF64 host junk s ba =
     then_write (writeFint64 host junk (of_nat (length s)) ba) (write_ba junk s)"

definition writeStringVint :: "junk \<Rightarrow> byte list \<Rightarrow> bytearray \<Rightarrow> writer_result" where
  "writeStringVint junk s ba =
     then_write (writeUint64 junk (of_nat (length s)) ba) (write_ba junk s)"

definition writeStringWithoutLength :: "junk \<Rightarrow> byte list \<Rightarrow> bytearray \<Rightarrow> writer_result" where
  "writeStringWithoutLength junk s = write_ba junk s"

text \<open>The length prefix, then \<open>resize\<close> and \<open>read\<close> of that many bytes.\<close>

definition read_string :: "'a::len word reader \<Rightarrow> byte list reader" where
  "read_string rd_len ba =
     (case rd_len ba of Inl e \<Rightarrow> Inl e | Inr (len, ba') \<Rightarrow> read_ba (unat len) ba')"

definition readStringF16 :: "int \<Rightarrow> byte list reader" where
  "readStringF16 host = read_string (readFuint16 host)"
definition readStringF32 :: "int \<Rightarrow> byte list reader" where
  "readStringF32 host = read_string (readFuint32 host)"
definition readStringF64 :: "int \<Rightarrow> byte list reader" where
  "readStringF64 host = read_string (readFuint64 host)"
definition readStringVint :: "int \<Rightarrow> byte list reader" where
  "readStringVint host = read_string (readFuint64 host)"

subsection \<open>What a writer and a reader do to the array\<close>

definition appended :: "bytearray \<Rightarrow> byte list \<Rightarrow> bytearray \<Rightarrow> bool" where
  "appended ba bs ba' \<longleftrightarrow>
     ba_inv ba' \<and> written ba' = written ba @ bs \<and>
     m_position ba' = m_position ba + length bs \<and>
     m_size ba' = max (m_size ba) (m_position ba + length bs) \<and>
     m_endian ba' = m_endian ba"

definition consumed :: "bytearray \<Rightarrow> byte list \<Rightarrow> bytearray \<Rightarrow> bool" where
  "consumed ba bs ba' \<longleftrightarrow>
     ba_inv ba' \<and> readable ba = bs @ readable ba' \<and> m_endian ba' = m_endian ba"

lemma appended_refl: "ba_inv ba \<Longrightarrow> appended ba [] ba"
  by (simp add: appended_def ba_inv_def)

lemma appended_trans: "appended a xs b \<Longrightarrow> appended b ys c \<Longrightarrow> appended a (xs @ ys) c"
  by (auto simp: appended_def)

lemma consumed_trans: "consumed a xs b \<Longrightarrow> consumed b ys c \<Longrightarrow> consumed a (xs @ ys) c"
  by (auto simp: consumed_def)

lemma write_ba_appended: "ba_inv ba \<Longrightarrow> \<exists>ba'. write_ba junk bs ba = Inr ba' \<and> appended ba bs ba'"
  using write_ba_append [of ba junk bs] by (auto simp: appended_def)

lemma read_ba_consumed:
  assumes "ba_inv ba" and "readable ba = bs @ rest" and "bs \<noteq> []"
  shows "\<exists>ba'. read_ba (length bs) ba = Inr (bs, ba') \<and> consumed ba bs ba' \<and> readable ba' = rest"
  using read_ba_consume [OF assms] assms(2) by (auto simp: consumed_def)

text \<open>A sequence of values written one after the other, and read back by their kinds.\<close>

primrec write_all :: "(junk \<Rightarrow> 'v \<Rightarrow> bytearray \<Rightarrow> writer_result) \<Rightarrow> junk \<Rightarrow> 'v list \<Rightarrow> bytearray \<Rightarrow> writer_result" where
  "write_all wr junk [] ba = Inr ba"
| "write_all wr junk (v # vs) ba =
     (case wr junk v ba of Inl e \<Rightarrow> Inl e | Inr ba' \<Rightarrow> write_all wr junk vs ba')"

primrec read_all :: "('k \<Rightarrow> 'v reader) \<Rightarrow> 'k list \<Rightarrow> 'v list reader" where
  "read_all rd [] ba = Inr ([], ba)"
| "read_all rd (k # ks) ba =
     (case rd k ba of Inl e \<Rightarrow> Inl e
      | Inr (v, ba') \<Rightarrow>
          (case read_all rd ks ba' of Inl e \<Rightarrow> Inl e | Inr (vs, ba'') \<Rightarrow> Inr (v # vs, ba'')))"

text \<open>
  A codec is a writer and a reader that agree on the bytes \<open>enc\<close>, which may
  depend on the byte order of the array, for the values \<open>ok\<close> admits.
\<close>

locale codec =
  fixes wr :: "junk \<Rightarrow> 'v \<Rightarrow> bytearray \<Rightarrow> ba_error + bytearray"
    and rd :: "'k \<Rightarrow> bytearray \<Rightarrow> ba_error + ('v \<times> bytearray)"
    and kind :: "'v \<Rightarrow> 'k"
    and enc :: "int \<Rightarrow> 'v \<Rightarrow> byte list"
    and ok :: "'v \<Rightarrow> bool"
  assumes wr: "ba_inv ba \<Longrightarrow> \<exists>ba'. wr junk v ba = Inr ba' \<and> appended ba (enc (m_endian ba) v) ba'"
    and rd: "ok v \<Longrightarrow> ba_inv ba \<Longrightarrow> readable ba = enc (m_endian ba) v @ rest \<Longrightarrow>
             \<exists>ba'. rd (kind v) ba = Inr (v, ba') \<and> consumed ba (enc (m_endian ba) v) ba' \<and>
                   readable ba' = rest"
begin

lemma write_all_appended:
  "ba_inv ba \<Longrightarrow>
   \<exists>ba'. write_all wr junk vs ba = Inr ba' \<and> appended ba (concat (map (enc (m_endian ba)) vs)) ba'"
proof (induction vs arbitrary: ba)
  case Nil
  then show ?case by (simp add: appended_refl)
next
  case (Cons v vs)
  obtain ba1 where w: "wr junk v ba = Inr ba1" and a: "appended ba (enc (m_endian ba) v) ba1"
    using wr [OF Cons.prems] by blast
  then have "ba_inv ba1" and "m_endian ba1 = m_endian ba" by (simp_all add: appended_def)
  then show ?case using Cons.IH [of ba1] w appended_trans [OF a] by auto
qed

lemma read_all_consumed:
  "list_all ok vs \<Longrightarrow> ba_inv ba \<Longrightarrow>
   readable ba = concat (map (enc (m_endian ba)) vs) @ rest \<Longrightarrow>
   \<exists>ba'. read_all rd (map kind vs) ba = Inr (vs, ba') \<and> ba_inv ba' \<and> readable ba' = rest"
proof (induction vs arbitrary: ba)
  case Nil
  then show ?case by simp
next
  case (Cons v vs)
  let ?rest = "concat (map (enc (m_endian ba)) vs) @ rest"
  have "ok v" and "readable ba = enc (m_endian ba) v @ ?rest" using Cons.prems by simp_all
  from rd [OF this(1) Cons.prems(2) this(2)]
  obtain ba1 where "rd (kind v) ba = Inr (v, ba1)" and "consumed ba (enc (m_endian ba) v) ba1"
    and "readable ba1 = ?rest" by blast
  moreover from this(2) have "ba_inv ba1" and "m_endian ba1 = m_endian ba"
    by (simp_all add: consumed_def)
  ultimately show ?case using Cons.IH [of ba1] Cons.prems(1) by auto
qed

lemma all_roundtrip:
  assumes "ba_inv ba" and "m_position ba = 0" and "m_size ba = 0" and "list_all ok vs"
  shows "\<exists>ba1 ba2 ba3. write_all wr junk vs ba = Inr ba1 \<and> setPosition 0 ba1 = Inr ba2 \<and>
           read_all rd (map kind vs) ba2 = Inr (vs, ba3) \<and> readable ba3 = []"
proof -
  let ?bs = "concat (map (enc (m_endian ba)) vs)"
  obtain ba1 where w: "write_all wr junk vs ba = Inr ba1" and a: "appended ba ?bs ba1"
    using write_all_appended [OF assms(1)] by blast
  then have "ba_inv ba1" and "m_size ba1 = m_position ba1" and "m_endian ba1 = m_endian ba"
    and "written ba1 = ?bs"
    using assms(2,3) by (auto simp: appended_def written_def)
  then obtain ba2 where "setPosition 0 ba1 = Inr ba2" and "ba_inv ba2"
    and "readable ba2 = ?bs" and "m_endian ba2 = m_endian ba"
    using readable_setPosition_0 [of ba1] by metis
  then show ?thesis using read_all_consumed [OF assms(4), of ba2 "[]"] w by auto
qed

end

subsection \<open>Fixed-width codecs\<close>

definition fixed_enc :: "int \<Rightarrow> int \<Rightarrow> 'a::len word \<Rightarrow> byte list" where
  "fixed_enc host e v = mem_bytes host (if e \<noteq> host then byteswap v else v)"

lemma length_fixed_enc [simp]: "length (fixed_enc host e (v :: 'a::len word)) = LENGTH('a) div 8"
  by (simp add: fixed_enc_def)

text \<open>What is written depends on the array's byte order alone, not on the machine.\<close>

lemma fixed_enc_wire:
  assumes "8 dvd LENGTH('a)" and "host \<in> {SKT_LITTLE_ENDIAN, SKT_BIG_ENDIAN}"
    and "e \<in> {SKT_LITTLE_ENDIAN, SKT_BIG_ENDIAN}"
  shows "fixed_enc host e (v :: 'a::len word) =
         (if e = SKT_BIG_ENDIAN then rev (bytes_le v) else bytes_le v)"
proof (cases "e = host")
  case True
  then show ?thesis using assms(2) by (auto simp: fixed_enc_def mem_bytes_def)
next
  case False
  then have "mem_bytes host (byteswap v) = rev (mem_bytes host v)"
    using mem_bytes_byteswap [OF assms(1)] by blast
  then show ?thesis
    using False assms(2,3)
    by (auto simp: fixed_enc_def mem_bytes_def SKT_BIG_ENDIAN_def SKT_LITTLE_ENDIAN_def)
qed

lemma write_fixed_appended:
  "ba_inv ba \<Longrightarrow>
   \<exists>ba'. write_fixed host junk v ba = Inr ba' \<and> appended ba (fixed_enc host (m_endian ba) v) ba'"
  unfolding write_fixed_def fixed_enc_def by (rule write_ba_appended)

lemma XX_consumed:
  assumes w: "8 dvd LENGTH('a)" and inv: "ba_inv ba"
    and r: "readable ba = fixed_enc host (m_endian ba) (v :: 'a::len word) @ rest"
  shows "\<exists>ba'. XX host ba = Inr (v, ba') \<and> consumed ba (fixed_enc host (m_endian ba) v) ba' \<and>
           readable ba' = rest"
proof -
  let ?bs = "fixed_enc host (m_endian ba) v"
  have "8 \<le> LENGTH('a)" using w by (simp add: dvd_imp_le)
  then have "0 < LENGTH('a) div 8" by simp
  then have "?bs \<noteq> []" using length_fixed_enc [of host "m_endian ba" v] by force
  from read_ba_consumed [OF inv r this]
  obtain ba' where rd: "read_ba (LENGTH('a) div 8) ba = Inr (?bs, ba')"
    and c: "consumed ba ?bs ba'" "readable ba' = rest" by auto
  have "m_endian ba' = m_endian ba" using c(1) by (simp add: consumed_def)
  then have "XX host ba = Inr (v, ba')"
    using w rd by (simp add: XX_def Let_def fixed_enc_def mem_word_mem_bytes byteswap_byteswap)
  then show ?thesis using c by blast
qed

lemma readFuint8_consumed:
  assumes "ba_inv ba" and "readable ba = b # rest"
  shows "\<exists>ba'. readFuint8 ba = Inr (b, ba') \<and> consumed ba [b] ba' \<and> readable ba' = rest"
  using read_ba_consumed [OF assms(1), of "[b]" rest] assms(2) by (auto simp: readFuint8_def)

interpretation fint8: codec writeFint8 "\<lambda>_. readFint8" "\<lambda>_. ()" "\<lambda>_ v. [v]" "\<lambda>_. True"
proof unfold_locales
  show "\<exists>ba'. writeFint8 junk v ba = Inr ba' \<and> appended ba [v] ba'" if "ba_inv ba" for ba junk v
    unfolding writeFint8_def by (rule write_ba_appended [OF that])
  show "\<exists>ba'. readFint8 ba = Inr (v, ba') \<and> consumed ba [v] ba' \<and> readable ba' = rest"
    if "ba_inv ba" "readable ba = [v] @ rest" for v ba rest
    using readFuint8_consumed [OF that(1), of v rest] that(2)
    by (simp add: readFint8_def readFuint8_def)
qed

interpretation fuint8: codec writeFuint8 "\<lambda>_. readFuint8" "\<lambda>_. ()" "\<lambda>_ v. [v]" "\<lambda>_. True"
proof unfold_locales
  show "\<exists>ba'. writeFuint8 junk v ba = Inr ba' \<and> appended ba [v] ba'" if "ba_inv ba" for ba junk v
    unfolding writeFuint8_def by (rule write_ba_appended [OF that])
  show "\<exists>ba'. readFuint8 ba = Inr (v, ba') \<and> consumed ba [v] ba' \<and> readable ba' = rest"
    if "ba_inv ba" "readable ba = [v] @ rest" for v ba rest
    using readFuint8_consumed [OF that(1), of v rest] that(2) by simp
qed

interpretation fint16: codec "writeFint16 host" "\<lambda>_. readFint16 host" "\<lambda>_. ()" "fixed_enc host" "\<lambda>_. True"
  for host
  by unfold_locales (simp_all add: writeFint16_def readFint16_def write_fixed_appended XX_consumed)

interpretation fuint16: codec "writeFuint16 host" "\<lambda>_. readFuint16 host" "\<lambda>_. ()" "fixed_enc host" "\<lambda>_. True"
  for host
  by unfold_locales (simp_all add: writeFuint16_def readFuint16_def write_fixed_appended XX_consumed)

interpretation fint32: codec "writeFint32 host" "\<lambda>_. readFint32 host" "\<lambda>_. ()" "fixed_enc host" "\<lambda>_. True"
  for host
  by unfold_locales (simp_all add: writeFint32_def readFint32_def write_fixed_appended XX_consumed)

interpretation fuint32: codec "writeFuint32 host" "\<lambda>_. readFuint32 host" "\<lambda>_. ()" "fixed_enc host" "\<lambda>_. True"
  for host
  by unfold_locales (simp_all add: writeFuint32_def readFuint32_def write_fixed_appended XX_consumed)

interpretation fint64: codec "writeFint64 host" "\<lambda>_. readFint64 host" "\<lambda>_. ()" "fixed_enc host" "\<lambda>_. True"
  for host
  by unfold_locales (simp_all add: writeFint64_def readFint64_def write_fixed_appended XX_consumed)

interpretation fuint64: codec "writeFuint64 host" "\<lambda>_. readFuint64 host" "\<lambda>_. ()" "fixed_enc host" "\<lambda>_. True"
  for host
  by unfold_locales (simp_all add: writeFuint64_def readFuint64_def write_fixed_appended XX_consumed)

subsection \<open>Variable-width codecs\<close>

declare varint_bytes.simps [simp del] varint_loop.simps [simp del]

lemma seven_bits: "(0x7F :: 'a::len word) = mask 7" "(0x80 :: 'a::len word) = 2 ^ 7"
  by (simp_all add: mask_eq_exp_minus_1)

lemma ucast_low_group:
  assumes "8 \<le> LENGTH('a)"
  shows "ucast ((ucast ((v AND 0x7F) OR 0x80) :: byte) AND 0x7F) = (v :: 'a::len word) AND 0x7F"
  by (rule bit_word_eqI)
     (use assms in \<open>auto simp: seven_bits bit_ucast_iff bit_and_iff bit_or_iff bit_mask_iff bit_exp_iff
        simp del: push_bit_of_1 power_numeral\<close>)

lemma byte_less_128: "(b :: byte) < 0x80 \<longleftrightarrow> \<not> bit b 7"
proof -
  have "b < 0x80 \<longleftrightarrow> unat b < 2 ^ 7" by (simp add: word_less_nat_alt)
  also have "\<dots> \<longleftrightarrow> take_bit 7 b = b"
    by (metis take_bit_nat_eq_self_iff unsigned_take_bit_eq word_unat_eq_iff)
  also have "\<dots> \<longleftrightarrow> \<not> bit b 7"
  proof
    assume "take_bit 7 b = b" then show "\<not> bit b 7" by (metis bit_take_bit_iff less_irrefl)
  next
    assume "\<not> bit b 7"
    then show "take_bit 7 b = b"
      by (intro bit_word_eqI) (auto simp: bit_take_bit_iff less_Suc_eq numeral_eq_Suc)
  qed
  finally show ?thesis .
qed

lemma ucast_high_bit:
  assumes "8 \<le> LENGTH('a)"
  shows "\<not> (ucast (((v :: 'a::len word) AND 0x7F) OR 0x80) :: byte) < 0x80"
  unfolding byte_less_128 using assms
  by (simp add: seven_bits bit_ucast_iff bit_or_iff bit_exp_iff del: power_numeral)

lemma push_low_or_high:
  "push_bit i (v AND 0x7F) OR push_bit (i + 7) (drop_bit 7 v) = push_bit i (v :: 'a::len word)"
proof (rule bit_word_eqI)
  fix n
  have "7 + (n - (i + 7)) = n - i" if "\<not> n - i < 7" using that by simp
  then show "bit (push_bit i (v AND 0x7F) OR push_bit (i + 7) (drop_bit 7 v)) n = bit (push_bit i v) n"
    by (cases "n - i < 7")
       (auto simp: seven_bits bit_or_iff bit_push_bit_iff bit_and_iff bit_mask_iff bit_drop_bit_eq)
qed

lemma unat_drop_bit_7: "unat (drop_bit 7 v) = unat v div 2 ^ 7"
  unfolding unat_drop_bit_eq unfolding drop_bit_eq_div ..

lemma varint_loop_spec:
  fixes v :: "'a::len word"
  assumes "8 \<le> LENGTH('a)" and "i < LENGTH('a)" and "unat v < 2 ^ (LENGTH('a) - i)"
    and "ba_inv ba" and "readable ba = varint_bytes v @ rest"
  shows "\<exists>ba'. varint_loop i acc ba = Inr (acc OR push_bit i v, ba') \<and>
           consumed ba (varint_bytes v) ba' \<and> readable ba' = rest"
  using assms
proof (induction v arbitrary: i acc ba rule: varint_bytes.induct)
  case (1 v)
  note w = "1.prems"(1) and i = "1.prems"(2) and v = "1.prems"(3) and inv = "1.prems"(4)
  show ?case
  proof (cases "unat v \<ge> 0x80")
    case False
    then have e: "varint_bytes v = [ucast v]" by (simp add: varint_bytes.simps)
    have u: "unat (ucast v :: byte) = unat v"
    proof -
      have "unat (ucast v :: byte) = take_bit 8 (unat v)" by (simp add: unsigned_ucast_eq)
      also have "\<dots> = unat v" by (rule take_bit_nat_eq_self_iff [THEN iffD2]) (use False in simp)
      finally show ?thesis .
    qed
    obtain ba' where "readFuint8 ba = Inr (ucast v, ba')" "consumed ba [ucast v] ba'"
      "readable ba' = rest"
      using readFuint8_consumed [OF inv] "1.prems"(5) e by auto
    moreover have "(ucast v :: byte) < 0x80" using u False by (simp add: word_less_nat_alt)
    moreover have "(ucast (ucast v :: byte) :: 'a word) = v"
      unfolding word_unat_eq_iff unsigned_ucast_eq [of "ucast v :: byte"] u
      by (rule take_bit_nat_eq_self_iff [THEN iffD2]) (rule unsigned_less)
    ultimately show ?thesis using i e by (subst varint_loop.simps) simp
  next
    case True
    let ?b = "ucast ((v AND 0x7F) OR 0x80) :: byte"
    have e: "varint_bytes v = ?b # varint_bytes (drop_bit 7 v)"
      using True by (subst varint_bytes.simps) simp
    obtain ba1 where r: "readFuint8 ba = Inr (?b, ba1)" and c: "consumed ba [?b] ba1"
      and rest: "readable ba1 = varint_bytes (drop_bit 7 v) @ rest"
      using readFuint8_consumed [OF inv] "1.prems"(5) e by auto
    have inv1: "ba_inv ba1" using c by (simp add: consumed_def)
    have "(2::nat) ^ 7 < 2 ^ (LENGTH('a) - i)" using True v by simp
    then have "7 < LENGTH('a) - i"
      by (metis one_less_numeral_iff power_less_imp_less_exp semiring_norm(76))
    then have i7: "i + 7 < LENGTH('a)" by simp
    have "(2::nat) ^ (LENGTH('a) - i) = 2 ^ (LENGTH('a) - (i + 7)) * 2 ^ 7"
      unfolding power_add [symmetric] using i7 by simp
    then have "unat (drop_bit 7 v) < 2 ^ (LENGTH('a) - (i + 7))"
      using v less_mult_imp_div_less unfolding unat_drop_bit_7 by metis
    from "1.IH" [OF True w i7 this inv1 rest, of "acc OR push_bit i (v AND 0x7F)"]
    obtain ba' where "varint_loop (i + 7) (acc OR push_bit i (v AND 0x7F)) ba1 =
        Inr ((acc OR push_bit i (v AND 0x7F)) OR push_bit (i + 7) (drop_bit 7 v), ba')"
      and "consumed ba1 (varint_bytes (drop_bit 7 v)) ba'" and "readable ba' = rest" by blast
    moreover have "(acc OR push_bit i (v AND 0x7F)) OR push_bit (i + 7) (drop_bit 7 v) =
        acc OR push_bit i v"
      using push_low_or_high [of i v] by (simp add: or.assoc)
    ultimately show ?thesis
      using i r e consumed_trans [OF c] ucast_low_group [OF w, of v] ucast_high_bit [OF w, of v]
      by (subst varint_loop.simps) auto
  qed
qed

lemma varint_bytes_not_Nil: "varint_bytes v \<noteq> []"
  by (simp add: varint_bytes.simps)

text \<open>The local arrays \<open>tmp[5]\<close> and \<open>tmp[10]\<close> are large enough.\<close>

lemma length_varint_bytes:
  fixes v :: "'a::len word"
  shows "unat v < 2 ^ (7 * Suc k) \<Longrightarrow> length (varint_bytes v) \<le> Suc k"
proof (induction k arbitrary: v)
  case 0
  then show ?case by (simp add: varint_bytes.simps)
next
  case (Suc k)
  have "unat v < 2 ^ (7 * Suc k) * 2 ^ 7" using Suc.prems by (simp add: power_add mult.commute)
  then have "unat (drop_bit 7 v) < 2 ^ (7 * Suc k)"
    using less_mult_imp_div_less unfolding unat_drop_bit_7 by metis
  from Suc.IH [OF this] show ?case by (subst varint_bytes.simps) simp
qed

lemma length_varint_32: "length (varint_bytes (v :: 32 word)) \<le> 5"
  using length_varint_bytes [of v 4] unsigned_less [of v, where ?'a = nat] by simp

lemma length_varint_64: "length (varint_bytes (v :: 64 word)) \<le> 10"
  using length_varint_bytes [of v 9] unsigned_less [of v, where ?'a = nat] by simp

lemma varint_consumed:
  fixes v :: "'a::len word"
  assumes "8 \<le> LENGTH('a)" and "ba_inv ba" and "readable ba = varint_bytes v @ rest"
  shows "\<exists>ba'. varint_loop 0 0 ba = Inr (v, ba') \<and> consumed ba (varint_bytes v) ba' \<and>
           readable ba' = rest"
  using varint_loop_spec [OF assms(1) _ _ assms(2,3), of 0 0] unsigned_less [of v] by simp

interpretation uint32: codec writeUint32 "\<lambda>_. readUint32" "\<lambda>_. ()" "\<lambda>_. varint_bytes" "\<lambda>_. True"
  by unfold_locales (simp_all add: writeUint32_def readUint32_def write_ba_appended varint_consumed)

interpretation uint64: codec writeUint64 "\<lambda>_. readUint64" "\<lambda>_. ()" "\<lambda>_. varint_bytes" "\<lambda>_. True"
  by unfold_locales (simp_all add: writeUint64_def readUint64_def write_ba_appended varint_consumed)

text \<open>Zigzag coding drops the top bit of its argument.\<close>

lemma zigzag_drop_top:
  "drop_bit 1 (v * 2) XOR (- ((v * 2) AND 1)) = take_bit (LENGTH('a) - 1) (v :: 'a::len word)"
proof -
  have "even (v * 2)" by simp
  then have "v * 2 AND 1 = 0" unfolding and_one_eq by (metis even_iff_mod_2_eq_zero)
  then show ?thesis
    by (intro bit_word_eqI)
       (auto simp: bit_xor_iff bit_drop_bit_eq bit_double_iff bit_take_bit_iff less_diff_conv
          mult.commute [of v 2])
qed

lemma zigzag32: "DecodeZigzag32 (EncodeZigzag32 v) = take_bit 31 v"
  using zigzag_drop_top [of v] by (simp add: DecodeZigzag32_def EncodeZigzag32_def)

lemma zigzag64: "DecodeZigzag64 (EncodeZigzag64 v) = take_bit 63 v"
  using zigzag_drop_top [of v] by (simp add: DecodeZigzag64_def EncodeZigzag64_def)

lemma take_bit_nonneg_32: "0 \<le> sint v \<Longrightarrow> take_bit 31 (v :: 32 word) = v"
  using bit_last_iff [of v] 
  by (intro bit_word_eqI) (auto simp: bit_take_bit_iff not_less less_Suc_eq numeral_eq_Suc)

lemma take_bit_nonneg_64: "0 \<le> sint v \<Longrightarrow> take_bit 63 (v :: 64 word) = v"
  using bit_last_iff [of v] 
  by (intro bit_word_eqI) (auto simp: bit_take_bit_iff not_less less_Suc_eq numeral_eq_Suc)

interpretation int32: codec writeInt32 "\<lambda>_. readInt32" "\<lambda>_. ()"
  "\<lambda>_ v. varint_bytes (EncodeZigzag32 v)" "\<lambda>v. 0 \<le> sint v"
proof unfold_locales
  show "\<exists>ba'. writeInt32 junk v ba = Inr ba' \<and> appended ba (varint_bytes (EncodeZigzag32 v)) ba'"
    if "ba_inv ba" for ba junk v
    unfolding writeInt32_def by (rule uint32.wr [OF that])
  show "\<exists>ba'. readInt32 ba = Inr (v, ba') \<and> consumed ba (varint_bytes (EncodeZigzag32 v)) ba' \<and>
      readable ba' = rest"
    if "0 \<le> sint v" "ba_inv ba" "readable ba = varint_bytes (EncodeZigzag32 v) @ rest" for v ba rest
    using uint32.rd [OF _ that(2,3)] that(1) by (auto simp: readInt32_def zigzag32 take_bit_nonneg_32)
qed

interpretation int64: codec writeInt64 "\<lambda>_. readInt64" "\<lambda>_. ()"
  "\<lambda>_ v. varint_bytes (EncodeZigzag64 v)" "\<lambda>v. 0 \<le> sint v"
proof unfold_locales
  show "\<exists>ba'. writeInt64 junk v ba = Inr ba' \<and> appended ba (varint_bytes (EncodeZigzag64 v)) ba'"
    if "ba_inv ba" for ba junk v
    unfolding writeInt64_def by (rule uint64.wr [OF that])
  show "\<exists>ba'. readInt64 ba = Inr (v, ba') \<and> consumed ba (varint_bytes (EncodeZigzag64 v)) ba' \<and>
      readable ba' = rest"
    if "0 \<le> sint v" "ba_inv ba" "readable ba = varint_bytes (EncodeZigzag64 v) @ rest" for v ba rest
    using uint64.rd [OF _ that(2,3)] that(1) by (auto simp: readInt64_def zigzag64 take_bit_nonneg_64)
qed

subsection \<open>Strings\<close>

text \<open>A string codec: the length in a codec for words, then the bytes.\<close>

lemma string_appended:
  assumes "ba_inv ba"
    and "\<And>ba. ba_inv ba \<Longrightarrow> \<exists>ba'. wr_len ba = Inr ba' \<and> appended ba (enc_len (m_endian ba)) ba'"
  shows "\<exists>ba'. then_write (wr_len ba) (write_ba junk s) = Inr ba' \<and>
           appended ba (enc_len (m_endian ba) @ s) ba'"
proof -
  obtain ba1 where "wr_len ba = Inr ba1" and a: "appended ba (enc_len (m_endian ba)) ba1"
    using assms by blast
  moreover obtain ba2 where "write_ba junk s ba1 = Inr ba2" and "appended ba1 s ba2"
    using write_ba_appended a by (metis appended_def)
  ultimately show ?thesis using appended_trans [OF a] by (auto simp: then_write_def)
qed

lemma string_consumed:
  assumes "ba_inv ba" and "readable ba = (enc_len @ s) @ rest" and "s \<noteq> []"
    and "\<And>rest. readable ba = enc_len @ rest \<Longrightarrow>
         \<exists>ba'. rd_len ba = Inr (len, ba') \<and> consumed ba enc_len ba' \<and> readable ba' = rest"
    and "unat len = length s"
  shows "\<exists>ba'. read_string rd_len ba = Inr (s, ba') \<and> consumed ba (enc_len @ s) ba' \<and>
           readable ba' = rest"
proof -
  obtain ba1 where l: "rd_len ba = Inr (len, ba1)" and c: "consumed ba enc_len ba1"
    and "readable ba1 = s @ rest"
    using assms(2,4) by auto
  then obtain ba2 where "read_ba (length s) ba1 = Inr (s, ba2)" and "consumed ba1 s ba2"
    and "readable ba2 = rest"
    using read_ba_consumed [of ba1 s rest] assms(3) by (auto simp: consumed_def)
  then show ?thesis using l consumed_trans [OF c] assms(5) by (auto simp: read_string_def)
qed

interpretation stringF16: codec "writeStringF16 host" "\<lambda>_. readStringF16 host" "\<lambda>_. ()"
  "\<lambda>e s. fixed_enc host e (of_nat (length s) :: 16 word) @ s" "\<lambda>s. s \<noteq> [] \<and> length s < 2 ^ 16"
  for host
  by unfold_locales
     (auto simp: writeStringF16_def readStringF16_def readFuint16_def unat_of_nat
        intro!: string_appended string_consumed fint16.wr XX_consumed)

interpretation stringF32: codec "writeStringF32 host" "\<lambda>_. readStringF32 host" "\<lambda>_. ()"
  "\<lambda>e s. fixed_enc host e (of_nat (length s) :: 32 word) @ s" "\<lambda>s. s \<noteq> [] \<and> length s < 2 ^ 32"
  for host
  by unfold_locales
     (auto simp: writeStringF32_def readStringF32_def readFuint32_def unat_of_nat
        intro!: string_appended string_consumed fint32.wr XX_consumed)

interpretation stringF64: codec "writeStringF64 host" "\<lambda>_. readStringF64 host" "\<lambda>_. ()"
  "\<lambda>e s. fixed_enc host e (of_nat (length s) :: 64 word) @ s" "\<lambda>s. s \<noteq> [] \<and> length s < 2 ^ 64"
  for host
  by unfold_locales
     (auto simp: writeStringF64_def readStringF64_def readFuint64_def unat_of_nat
        intro!: string_appended string_consumed fint64.wr XX_consumed)

subsection \<open>Messages\<close>

text \<open>A message of typed fields: each is written by its own writer and read by its own reader.\<close>

datatype field =
    Fint8 "8 word" | Fuint8 "8 word" | Fint16 "16 word" | Fuint16 "16 word"
  | Fint32 "32 word" | Fuint32 "32 word" | Fint64 "64 word" | Fuint64 "64 word"
  | Uint32 "32 word" | Uint64 "64 word" | Int32 "32 word" | Int64 "64 word"
  | StringF16 "byte list" | StringF32 "byte list" | StringF64 "byte list"

datatype field_kind =
    KFint8 | KFuint8 | KFint16 | KFuint16 | KFint32 | KFuint32 | KFint64 | KFuint64
  | KUint32 | KUint64 | KInt32 | KInt64 | KStringF16 | KStringF32 | KStringF64

fun kind_of :: "field \<Rightarrow> field_kind" where
  "kind_of (Fint8 _) = KFint8" | "kind_of (Fuint8 _) = KFuint8"
| "kind_of (Fint16 _) = KFint16" | "kind_of (Fuint16 _) = KFuint16"
| "kind_of (Fint32 _) = KFint32" | "kind_of (Fuint32 _) = KFuint32"
| "kind_of (Fint64 _) = KFint64" | "kind_of (Fuint64 _) = KFuint64"
| "kind_of (Uint32 _) = KUint32" | "kind_of (Uint64 _) = KUint64"
| "kind_of (Int32 _) = KInt32" | "kind_of (Int64 _) = KInt64"
| "kind_of (StringF16 _) = KStringF16" | "kind_of (StringF32 _) = KStringF32"
| "kind_of (StringF64 _) = KStringF64"

fun write_field :: "int \<Rightarrow> junk \<Rightarrow> field \<Rightarrow> bytearray \<Rightarrow> writer_result" where
  "write_field host junk (Fint8 v) = writeFint8 junk v"
| "write_field host junk (Fuint8 v) = writeFuint8 junk v"
| "write_field host junk (Fint16 v) = writeFint16 host junk v"
| "write_field host junk (Fuint16 v) = writeFuint16 host junk v"
| "write_field host junk (Fint32 v) = writeFint32 host junk v"
| "write_field host junk (Fuint32 v) = writeFuint32 host junk v"
| "write_field host junk (Fint64 v) = writeFint64 host junk v"
| "write_field host junk (Fuint64 v) = writeFuint64 host junk v"
| "write_field host junk (Uint32 v) = writeUint32 junk v"
| "write_field host junk (Uint64 v) = writeUint64 junk v"
| "write_field host junk (Int32 v) = writeInt32 junk v"
| "write_field host junk (Int64 v) = writeInt64 junk v"
| "write_field host junk (StringF16 s) = writeStringF16 host junk s"
| "write_field host junk (StringF32 s) = writeStringF32 host junk s"
| "write_field host junk (StringF64 s) = writeStringF64 host junk s"

definition read_as :: "('v \<Rightarrow> field) \<Rightarrow> 'v reader \<Rightarrow> field reader" where
  "read_as con rd ba = (case rd ba of Inl e \<Rightarrow> Inl e | Inr (v, ba') \<Rightarrow> Inr (con v, ba'))"

fun read_field :: "int \<Rightarrow> field_kind \<Rightarrow> field reader" where
  "read_field host KFint8 = read_as Fint8 readFint8"
| "read_field host KFuint8 = read_as Fuint8 readFuint8"
| "read_field host KFint16 = read_as Fint16 (readFint16 host)"
| "read_field host KFuint16 = read_as Fuint16 (readFuint16 host)"
| "read_field host KFint32 = read_as Fint32 (readFint32 host)"
| "read_field host KFuint32 = read_as Fuint32 (readFuint32 host)"
| "read_field host KFint64 = read_as Fint64 (readFint64 host)"
| "read_field host KFuint64 = read_as Fuint64 (readFuint64 host)"
| "read_field host KUint32 = read_as Uint32 readUint32"
| "read_field host KUint64 = read_as Uint64 readUint64"
| "read_field host KInt32 = read_as Int32 readInt32"
| "read_field host KInt64 = read_as Int64 readInt64"
| "read_field host KStringF16 = read_as StringF16 (readStringF16 host)"
| "read_field host KStringF32 = read_as StringF32 (readStringF32 host)"
| "read_field host KStringF64 = read_as StringF64 (readStringF64 host)"

fun field_enc :: "int \<Rightarrow> int \<Rightarrow> field \<Rightarrow> byte list" where
  "field_enc host e (Fint8 v) = [v]"
| "field_enc host e (Fuint8 v) = [v]"
| "field_enc host e (Fint16 v) = fixed_enc host e v"
| "field_enc host e (Fuint16 v) = fixed_enc host e v"
| "field_enc host e (Fint32 v) = fixed_enc host e v"
| "field_enc host e (Fuint32 v) = fixed_enc host e v"
| "field_enc host e (Fint64 v) = fixed_enc host e v"
| "field_enc host e (Fuint64 v) = fixed_enc host e v"
| "field_enc host e (Uint32 v) = varint_bytes v"
| "field_enc host e (Uint64 v) = varint_bytes v"
| "field_enc host e (Int32 v) = varint_bytes (EncodeZigzag32 v)"
| "field_enc host e (Int64 v) = varint_bytes (EncodeZigzag64 v)"
| "field_enc host e (StringF16 s) = fixed_enc host e (of_nat (length s) :: 16 word) @ s"
| "field_enc host e (StringF32 s) = fixed_enc host e (of_nat (length s) :: 32 word) @ s"
| "field_enc host e (StringF64 s) = fixed_enc host e (of_nat (length s) :: 64 word) @ s"

text \<open>
  The fields a message may carry: zigzag integers must not be negative, a
  string must not be empty and its length must fit its prefix.
\<close>

fun field_ok :: "field \<Rightarrow> bool" where
  "field_ok (Int32 v) \<longleftrightarrow> 0 \<le> sint v"
| "field_ok (Int64 v) \<longleftrightarrow> 0 \<le> sint v"
| "field_ok (StringF16 s) \<longleftrightarrow> s \<noteq> [] \<and> length s < 2 ^ 16"
| "field_ok (StringF32 s) \<longleftrightarrow> s \<noteq> [] \<and> length s < 2 ^ 32"
| "field_ok (StringF64 s) \<longleftrightarrow> s \<noteq> [] \<and> length s < 2 ^ 64"
| "field_ok _ \<longleftrightarrow> True"

lemma read_as_consumed:
  "\<exists>ba'. rd ba = Inr (v, ba') \<and> P ba' \<Longrightarrow> \<exists>ba'. read_as con rd ba = Inr (con v, ba') \<and> P ba'"
  by (auto simp: read_as_def)

interpretation message: codec "write_field host" "read_field host" kind_of "field_enc host" field_ok
  for host
proof unfold_locales
  show "\<exists>ba'. write_field host junk v ba = Inr ba' \<and> appended ba (field_enc host (m_endian ba) v) ba'"
    if "ba_inv ba" for ba junk v
    using that
    by (cases v) (simp_all add: fint8.wr fuint8.wr fint16.wr fuint16.wr fint32.wr fuint32.wr fint64.wr
        fuint64.wr uint32.wr uint64.wr int32.wr int64.wr stringF16.wr stringF32.wr stringF64.wr
        del: append_assoc)
  show "\<exists>ba'. read_field host (kind_of v) ba = Inr (v, ba') \<and>
      consumed ba (field_enc host (m_endian ba) v) ba' \<and> readable ba' = rest"
    if "field_ok v" "ba_inv ba" "readable ba = field_enc host (m_endian ba) v @ rest" for v ba rest
    using that
    by (cases v; simp only: kind_of.simps read_field.simps field_enc.simps field_ok.simps)
       (rule read_as_consumed,
        rule fint8.rd fuint8.rd fint16.rd fuint16.rd fint32.rd fuint32.rd fint64.rd fuint64.rd
          uint32.rd uint64.rd int32.rd int64.rd stringF16.rd stringF32.rd stringF64.rd, simp_all)+
qed

lemma varint_bytes_shape:
  fixes v :: "'a::len word"
  assumes "8 \<le> LENGTH('a)"
  shows "last (varint_bytes v) < 0x80 \<and> list_all (\<lambda>b. \<not> b < 0x80) (butlast (varint_bytes v))"
proof (induction v rule: varint_bytes.induct)
  case (1 v)
  show ?case
  proof (cases "unat v \<ge> 0x80")
    case True
    then show ?thesis
      using "1.IH" ucast_high_bit [OF assms, of v] varint_bytes_not_Nil [of "drop_bit 7 v"]
      by (subst (1 2) varint_bytes.simps) simp
  next
    case False
    have "unat (ucast v :: byte) = take_bit 8 (unat v)" by (simp add: unsigned_ucast_eq)
    also have "\<dots> = unat v" by (rule take_bit_nat_eq_self_iff [THEN iffD2]) (use False in simp)
    finally show ?thesis using False by (simp add: varint_bytes.simps word_less_nat_alt)
  qed
qed

subsection \<open>Properties\<close>

text \<open>
  C2: a message of fixed-width, variable-width and length-prefixed string
  fields, written to an empty array in either byte order on either machine and
  read back from position 0 by the kinds of its fields, comes back unchanged and
  leaves nothing unread, across any number of blocks.
\<close>

theorem message_roundtrip:
  assumes "ba_inv ba" and "m_position ba = 0" and "m_size ba = 0" and "list_all field_ok fs"
  shows "\<exists>ba1 ba2 ba3. write_all (write_field host) junk fs ba = Inr ba1 \<and>
           setPosition 0 ba1 = Inr ba2 \<and>
           read_all (read_field host) (map kind_of fs) ba2 = Inr (fs, ba3) \<and>
           readable ba3 = []"
  by (rule message.all_roundtrip [OF assms])

definition sample_message :: "field list" where
  "sample_message =
     [Fint16 0xFFFE, Uint32 300, StringF16 [0x68, 0x69], Int64 7, Fuint8 255, Fuint32 0xDEADBEEF]"

lemma message_roundtrip_witness:
  "\<exists>ba1 ba2 ba3.
     write_all (write_field SKT_LITTLE_ENDIAN) (\<lambda>_ _. 0) sample_message (ByteArray (\<lambda>_ _. 0) 3) = Inr ba1 \<and>
     setPosition 0 ba1 = Inr ba2 \<and>
     read_all (read_field SKT_LITTLE_ENDIAN)
       [KFint16, KUint32, KStringF16, KInt64, KFuint8, KFuint32] ba2 = Inr (sample_message, ba3)"
proof -
  have "m_position (ByteArray (\<lambda>_ _. 0) 3) = 0" and "m_size (ByteArray (\<lambda>_ _. 0) 3) = 0"
    and "list_all field_ok sample_message"
    and "map kind_of sample_message = [KFint16, KUint32, KStringF16, KInt64, KFuint8, KFuint32]"
    by (simp_all add: ByteArray_def sample_message_def)
  then show ?thesis
    using message_roundtrip [OF ByteArray_inv [of 3 "\<lambda>_ _. 0"],
        of sample_message SKT_LITTLE_ENDIAN "\<lambda>_ _. 0"] by auto
qed

text \<open>
  The wire format of a 32-bit field is the array's byte order, not the
  machine's: most significant byte first in a big-endian array (the default),
  least significant first in a little-endian one.
\<close>

theorem wire_format:
  assumes "ba_inv ba" and "host \<in> {SKT_LITTLE_ENDIAN, SKT_BIG_ENDIAN}"
    and "m_endian ba \<in> {SKT_LITTLE_ENDIAN, SKT_BIG_ENDIAN}"
  shows "\<exists>ba'. writeFuint32 host junk v ba = Inr ba' \<and>
           written ba' = written ba @ (if isLittleEndian ba then bytes_le v else rev (bytes_le v))"
proof -
  obtain ba' where "writeFuint32 host junk v ba = Inr ba'"
    and "appended ba (fixed_enc host (m_endian ba) v) ba'"
    using fuint32.wr [OF assms(1)] by blast
  then show ?thesis
    using fixed_enc_wire [OF _ assms(2,3), of v] assms(3)
    by (auto simp: appended_def isLittleEndian_def SKT_LITTLE_ENDIAN_def SKT_BIG_ENDIAN_def)
qed

lemma wire_format_witness:
  "\<exists>ba'. writeFuint32 SKT_LITTLE_ENDIAN (\<lambda>_ _. 0) 0x01020304 (ByteArray (\<lambda>_ _. 0) 8) = Inr ba' \<and>
     written ba' = [1, 2, 3, 4]"
proof -
  have "bytes_le (0x01020304 :: 32 word) = [4, 3, 2, 1]" by code_simp
  then show ?thesis
    using wire_format [OF ByteArray_inv [of 8 "\<lambda>_ _. 0"], where host = SKT_LITTLE_ENDIAN and junk = "\<lambda>_ _. 0" and v = "0x01020304"]
    by (simp add: ByteArray_def isLittleEndian_def SKT_LITTLE_ENDIAN_def SKT_BIG_ENDIAN_def written_def)
qed

text \<open>
  The variable-width writers stay inside their local buffers: at most 5
  bytes for 32 bits and 10 for 64, at least one, and only the last byte has its
  top bit clear.
\<close>

theorem varint_bounds:
  "length (varint_bytes (v :: 32 word)) \<in> {1..5} \<and> length (varint_bytes (w :: 64 word)) \<in> {1..10} \<and>
   last (varint_bytes w) < 0x80 \<and> list_all (\<lambda>b. \<not> b < 0x80) (butlast (varint_bytes w))"
  using length_varint_32 [of v] length_varint_64 [of w] varint_bytes_shape [of w]
    varint_bytes_not_Nil [of v] varint_bytes_not_Nil [of w]
  by (auto simp: Suc_le_eq)

text \<open>
  C40: the zigzag pair loses the sign.  The encoder takes its argument unsigned,
  so its branch for negative numbers is never taken, and what is read back is the
  number with its top bit cleared: the number itself exactly when it was not negative.
\<close>

theorem zigzag_loses_sign:
  "DecodeZigzag32 (EncodeZigzag32 v) = take_bit 31 v \<and>
   DecodeZigzag64 (EncodeZigzag64 w) = take_bit 63 w \<and>
   (DecodeZigzag32 (EncodeZigzag32 v) = v \<longleftrightarrow> 0 \<le> sint v)"
proof -
  have "0 \<le> sint v" if "take_bit 31 v = v"
  proof -
    have "\<not> bit (take_bit 31 v) 31" by (simp add: bit_take_bit_iff)
    then have "\<not> bit v 31" unfolding that .
    then show ?thesis using bit_last_iff [of v] by simp
  qed
  then show ?thesis using zigzag32 [of v] zigzag64 [of w] take_bit_nonneg_32 [of v] by auto
qed

text \<open>
  A float is written with the variable-width writer and read with the
  fixed-width reader.  Every float whose bit pattern is below \<open>2 ^ 21\<close> (zero among
  them), written alone, raises \<open>out_of_range\<close> when it is read back.
\<close>

theorem float_not_read_back:
  assumes "ba_inv ba" and "m_position ba = 0" and "m_size ba = 0" and "unat v < 2 ^ 21"
  shows "\<exists>ba1 ba2. writeFloat junk v ba = Inr ba1 \<and> setPosition 0 ba1 = Inr ba2 \<and>
           readFloat host ba2 = Inl OutOfRange"
proof -
  have len: "length (varint_bytes v) \<le> 3" using length_varint_bytes [of v 2] assms(4) by simp
  obtain ba1 where w: "writeFloat junk v ba = Inr ba1" and a: "appended ba (varint_bytes v) ba1"
    using uint32.wr [OF assms(1)] unfolding writeFloat_def by blast
  have "ba_inv ba1" and "m_size ba1 = m_position ba1" and "written ba1 = varint_bytes v"
    using a assms(2,3) by (simp_all add: appended_def) (simp add: written_def)
  then obtain ba2 where "setPosition 0 ba1 = Inr ba2" and inv: "ba_inv ba2" and "readable ba2 = varint_bytes v"
    using readable_setPosition_0 [of ba1] by metis
  moreover from this have "readFloat host ba2 = Inl OutOfRange"
    using read_ba_too_much [OF inv, of 4] len
    by (simp add: readFloat_def readFuint32_def XX_def)
  ultimately show ?thesis using w by blast
qed

lemma float_not_read_back_witness:
  "\<exists>ba1 ba2. writeFloat (\<lambda>_ _. 0) 0 (ByteArray (\<lambda>_ _. 0) 8) = Inr ba1 \<and> setPosition 0 ba1 = Inr ba2 \<and>
     readFloat SKT_LITTLE_ENDIAN ba2 = Inl OutOfRange"
  using float_not_read_back [OF ByteArray_inv [of 8 "\<lambda>_ _. 0"], of 0 "\<lambda>_ _. 0" SKT_LITTLE_ENDIAN]
  by (simp add: ByteArray_def)

end
