(* ===== verification/Fiber.thy ===== *)
theory Fiber
  imports Prelude
begin

text \<open>
  Fibers (src/skt/fiber).  The fibers of all threads live in one store; \<open>t_fiber\<close>
  (the running fiber), \<open>t_threadFiber\<close> (the thread's main fiber) and the
  scheduler's \<open>t_sheduler_fiber\<close> are thread-local, functions of the thread id.
  A switch of contexts (\<open>swapcontext\<close>) transfers control; what the code of a fiber
  does until it gives control back is summed up in an \<open>outcome\<close>, an argument of the
  model.  \<open>SKT_ASSERT\<close> aborts and is an error value, as is the use of a null fiber
  pointer.  Addresses of new objects are arguments.
\<close>

type_synonym faddr = nat
type_synonym tid = int

datatype State = INIT | HOLD | EXEC | TERM' | READY | EXCEPT

datatype fiber_error = AssertFail | NullFiber

record 'c fiber =
  f_id :: u64
  f_stacksize :: u32
  f_state :: State
  f_stack :: bool
  f_caller :: bool
  f_cb :: "'c option"

record 'c fworld =
  s_fiber_id :: u64
  s_fiber_count :: u64
  fibers :: "faddr \<rightharpoonup> 'c fiber"
  t_fiber :: "tid \<Rightarrow> faddr option"
  t_threadFiber :: "tid \<Rightarrow> faddr option"
  t_sheduler_fiber :: "tid \<Rightarrow> faddr option"

type_synonym 'c fresult = "fiber_error + 'c fworld"

definition upd_fiber :: "faddr \<Rightarrow> ('c fiber \<Rightarrow> 'c fiber) \<Rightarrow> 'c fworld \<Rightarrow> 'c fworld" where
  "upd_fiber a g w =
     (case fibers w a of None \<Rightarrow> w | Some f \<Rightarrow> w\<lparr>fibers := (fibers w)(a \<mapsto> g f)\<rparr>)"

definition getState :: "'c fworld \<Rightarrow> faddr \<Rightarrow> State option" where
  "getState w a = map_option f_state (fibers w a)"

definition SetThis :: "tid \<Rightarrow> faddr option \<Rightarrow> 'c fworld \<Rightarrow> 'c fworld" where
  "SetThis t f w = w\<lparr>t_fiber := (t_fiber w)(t := f)\<rparr>"

definition GetFiberId :: "tid \<Rightarrow> 'c fworld \<Rightarrow> u64" where
  "GetFiberId t w =
     (case t_fiber w t of None \<Rightarrow> 0
      | Some a \<Rightarrow> (case fibers w a of None \<Rightarrow> 0 | Some f \<Rightarrow> f_id f))"

definition TotalFibers :: "'c fworld \<Rightarrow> u64" where
  "TotalFibers w = s_fiber_count w"

subsection \<open>Construction and destruction\<close>

text \<open>The private constructor: the main fiber of a thread, which has no stack of its own.\<close>

definition new_main_Fiber :: "tid \<Rightarrow> faddr \<Rightarrow> 'c fworld \<Rightarrow> 'c fworld" where
  "new_main_Fiber t a w =
     (SetThis t (Some a) w)\<lparr>
       fibers := (fibers w)(a \<mapsto> \<lparr>f_id = 0, f_stacksize = 0, f_state = EXEC, f_stack = False,
                                f_caller = False, f_cb = None\<rparr>),
       s_fiber_count := s_fiber_count w + 1\<rparr>"

text \<open>\<open>config_size\<close> is the value of the configuration variable \<open>fiber.stack_size\<close>.\<close>

definition new_Fiber :: "u32 \<Rightarrow> faddr \<Rightarrow> 'c option \<Rightarrow> u32 \<Rightarrow> bool \<Rightarrow> 'c fworld \<Rightarrow> 'c fworld" where
  "new_Fiber config_size a cb stacksize use_caller w =
     w\<lparr>s_fiber_id := s_fiber_id w + 1,
       s_fiber_count := s_fiber_count w + 1,
       fibers := (fibers w)(a \<mapsto>
         \<lparr>f_id = s_fiber_id w + 1,
          f_stacksize = (if stacksize \<noteq> 0 then stacksize else config_size),
          f_state = INIT, f_stack = True, f_caller = use_caller, f_cb = cb\<rparr>)\<rparr>"

definition delete_Fiber :: "tid \<Rightarrow> faddr \<Rightarrow> 'c fworld \<Rightarrow> 'c fresult" where
  "delete_Fiber t a w =
     (case fibers w a of None \<Rightarrow> Inl NullFiber
      | Some f \<Rightarrow>
          let w = w\<lparr>s_fiber_count := s_fiber_count w - 1, fibers := (fibers w)(a := None)\<rparr>
          in if f_stack f then
               if f_state f = TERM' \<or> f_state f = INIT \<or> f_state f = EXCEPT then Inr w
               else Inl AssertFail
             else if f_cb f \<noteq> None \<or> f_state f \<noteq> EXEC then Inl AssertFail
             else Inr (if t_fiber w t = Some a then SetThis t None w else w))"

text \<open>\<open>GetThis\<close>: the running fiber; a thread without one gets its main fiber at \<open>a\<close>.\<close>

definition GetThis :: "tid \<Rightarrow> faddr \<Rightarrow> 'c fworld \<Rightarrow> faddr \<times> 'c fworld" where
  "GetThis t a w =
     (case t_fiber w t of
        Some f \<Rightarrow> (f, w)
      | None \<Rightarrow>
          let w = new_main_Fiber t a w
          in (a, w\<lparr>t_threadFiber := (t_threadFiber w)(t \<mapsto> a)\<rparr>))"

definition Fiber_reset :: "faddr \<Rightarrow> 'c option \<Rightarrow> 'c fworld \<Rightarrow> 'c fresult" where
  "Fiber_reset a cb w =
     (case fibers w a of None \<Rightarrow> Inl NullFiber
      | Some f \<Rightarrow>
          if \<not> f_stack f then Inl AssertFail
          else if \<not> (f_state f = TERM' \<or> f_state f = INIT \<or> f_state f = EXCEPT) then Inl AssertFail
          else Inr (w\<lparr>fibers := (fibers w)(a \<mapsto> f\<lparr>f_cb := cb, f_caller := False, f_state := INIT\<rparr>)\<rparr>))"

subsection \<open>Switching\<close>

definition Fiber_call :: "tid \<Rightarrow> faddr \<Rightarrow> 'c fworld \<Rightarrow> 'c fresult" where
  "Fiber_call t a w =
     (case fibers w a of None \<Rightarrow> Inl NullFiber
      | Some f \<Rightarrow>
          let w = upd_fiber a (\<lambda>f. f\<lparr>f_state := EXEC\<rparr>) (SetThis t (Some a) w)
          in if t_threadFiber w t = None then Inl NullFiber else Inr w)"

definition Fiber_back :: "tid \<Rightarrow> 'c fworld \<Rightarrow> 'c fresult" where
  "Fiber_back t w =
     (if t_threadFiber w t = None then Inl NullFiber else Inr (SetThis t (t_threadFiber w t) w))"

definition swapIn :: "tid \<Rightarrow> faddr \<Rightarrow> 'c fworld \<Rightarrow> 'c fresult" where
  "swapIn t a w =
     (case fibers w a of None \<Rightarrow> Inl NullFiber
      | Some f \<Rightarrow>
          if f_state f = EXEC then Inl AssertFail
          else let w = upd_fiber a (\<lambda>f. f\<lparr>f_state := EXEC\<rparr>) (SetThis t (Some a) w)
               in if t_sheduler_fiber w t = None then Inl NullFiber else Inr w)"

definition swapOut :: "tid \<Rightarrow> 'c fworld \<Rightarrow> 'c fresult" where
  "swapOut t w =
     (let w = SetThis t (t_sheduler_fiber w t) w
      in if t_fiber w t = None then Inl AssertFail else Inr w)"

definition YieldToReady :: "tid \<Rightarrow> faddr \<Rightarrow> 'c fworld \<Rightarrow> 'c fresult" where
  "YieldToReady t a w =
     (let (cur, w) = GetThis t a w
      in if getState w cur \<noteq> Some EXEC then Inl AssertFail
         else swapOut t (upd_fiber cur (\<lambda>f. f\<lparr>f_state := READY\<rparr>) w))"

definition YieldToHold :: "tid \<Rightarrow> faddr \<Rightarrow> 'c fworld \<Rightarrow> 'c fresult" where
  "YieldToHold t a w =
     (let (cur, w) = GetThis t a w
      in if getState w cur \<noteq> Some EXEC then Inl AssertFail else swapOut t w)"

text \<open>
  The end of \<open>MainFunc\<close> and \<open>CallerMainFunc\<close>, after the callback returned or
  threw; the two differ in where they switch to.
\<close>

definition MainFunc_end :: "tid \<Rightarrow> faddr \<Rightarrow> bool \<Rightarrow> 'c fworld \<Rightarrow> 'c fresult" where
  "MainFunc_end t a threw w =
     (let (cur, w) = GetThis t a w
      in swapOut t (upd_fiber cur (\<lambda>f. if threw then f\<lparr>f_state := EXCEPT\<rparr>
                                     else f\<lparr>f_cb := None, f_state := TERM'\<rparr>) w))"

definition CallerMainFunc_end :: "tid \<Rightarrow> faddr \<Rightarrow> bool \<Rightarrow> 'c fworld \<Rightarrow> 'c fresult" where
  "CallerMainFunc_end t a threw w =
     (let (cur, w) = GetThis t a w
      in Fiber_back t (upd_fiber cur (\<lambda>f. if threw then f\<lparr>f_state := EXCEPT\<rparr>
                                  else f\<lparr>f_cb := None, f_state := TERM'\<rparr>) w))"

text \<open>How the code of a fiber gives control back.\<close>

datatype outcome = YieldsReady | YieldsHold | Returns | Throws

fun gives_back :: "outcome \<Rightarrow> tid \<Rightarrow> faddr \<Rightarrow> 'c fworld \<Rightarrow> 'c fresult" where
  "gives_back YieldsReady t a w = YieldToReady t a w"
| "gives_back YieldsHold t a w = YieldToHold t a w"
| "gives_back Returns t a w = MainFunc_end t a False w"
| "gives_back Throws t a w = MainFunc_end t a True w"

fun state_after :: "outcome \<Rightarrow> State" where
  "state_after YieldsReady = READY"
| "state_after YieldsHold = EXEC"
| "state_after Returns = TERM'"
| "state_after Throws = EXCEPT"

subsection \<open>One slice of a fiber\<close>

lemma getState_upd [simp]:
  "getState (upd_fiber a g w) b =
     (if b = a then map_option (f_state \<circ> g) (fibers w a) else getState w b)"
  by (auto simp: getState_def upd_fiber_def split: option.split)

lemma upd_fiber_fields [simp]:
  "t_fiber (upd_fiber a g w) = t_fiber w" "t_threadFiber (upd_fiber a g w) = t_threadFiber w"
  "t_sheduler_fiber (upd_fiber a g w) = t_sheduler_fiber w"
  "s_fiber_id (upd_fiber a g w) = s_fiber_id w" "s_fiber_count (upd_fiber a g w) = s_fiber_count w"
  "fibers (upd_fiber a g w) b = (if b = a then map_option g (fibers w a) else fibers w b)"
  by (auto simp: upd_fiber_def split: option.split)

lemma SetThis_fields [simp]:
  "fibers (SetThis t f w) = fibers w" "t_threadFiber (SetThis t f w) = t_threadFiber w"
  "t_sheduler_fiber (SetThis t f w) = t_sheduler_fiber w"
  "t_fiber (SetThis t f w) = (t_fiber w)(t := f)"
  "getState (SetThis t f w) = getState w"
  by (auto simp: SetThis_def getState_def)

lemma swapIn_Some:
  assumes "fibers w a = Some f" and "f_state f \<noteq> EXEC" and "t_sheduler_fiber w t = Some m"
  shows "swapIn t a w = Inr (upd_fiber a (\<lambda>f. f\<lparr>f_state := EXEC\<rparr>) (SetThis t (Some a) w))"
  using assms by (simp add: swapIn_def Let_def)

lemma gives_back_Some:
  assumes "t_fiber w t = Some a" and "fibers w a = Some f" and "f_state f = EXEC"
    and "t_sheduler_fiber w t = Some m"
  shows "\<exists>w'. gives_back out t b w = Inr w' \<and> t_fiber w' = (t_fiber w)(t \<mapsto> m) \<and>
           getState w' a = Some (state_after out) \<and>
           (\<forall>c. c \<noteq> a \<longrightarrow> fibers w' c = fibers w c) \<and> t_sheduler_fiber w' = t_sheduler_fiber w"
  using assms
  by (cases out)
     (simp_all add: YieldToReady_def YieldToHold_def MainFunc_end_def GetThis_def swapOut_def
        getState_def Let_def)

end
