(* ===== verification/Scheduler.thy ===== *)
theory Scheduler
  imports Fiber "HOL-Library.Multiset"
begin

text \<open>
  The fiber scheduler (src/skt/scheduler).  A task is a fiber or a callback, for any
  thread (-1) or a given one.  \<open>run\<close>, the loop of every worker thread, is cut where
  other threads can get in between: taking a task under the mutex (\<open>run_pick\<close>),
  switching to a fiber (\<open>run_enter\<close>), and the code after the switch back
  (\<open>run_leave\<close>).  The relation \<open>sys_step\<close> interleaves these steps of any number of
  workers with calls of \<open>schedule\<close> and with fibers giving control back.
\<close>

record 'c task =
  ft_fiber :: "faddr option"
  ft_cb :: "'c option"
  ft_thread :: int

definition FiberAndThread_fiber :: "faddr option \<Rightarrow> int \<Rightarrow> 'c task" where
  "FiberAndThread_fiber f thr = \<lparr>ft_fiber = f, ft_cb = None, ft_thread = thr\<rparr>"

definition FiberAndThread_cb :: "'c option \<Rightarrow> int \<Rightarrow> 'c task" where
  "FiberAndThread_cb c thr = \<lparr>ft_fiber = None, ft_cb = c, ft_thread = thr\<rparr>"

text \<open>The default constructor and \<open>FiberAndThread::reset\<close> give the same value.\<close>

definition no_task :: "'c task" where
  "no_task = \<lparr>ft_fiber = None, ft_cb = None, ft_thread = - 1\<rparr>"

record 'c scheduler =
  m_fibers :: "'c task list"
  m_threads :: "int list"
  m_rootFiber :: "faddr option"
  m_threadIds :: "int list"
  m_threadCount :: nat
  m_activeThreadCount :: nat
  m_idleThreadCount :: nat
  m_stopping :: bool
  m_autoStop :: bool
  m_rootThread :: int

subsection \<open>Construction, scheduling, starting and stopping\<close>

text \<open>
  The constructor: \<open>t\<close> is the calling thread, \<open>has\<close> whether that thread already has a
  scheduler, \<open>m\<close> and \<open>root\<close> the addresses of the thread's main fiber, where it has
  none yet, and of the root fiber, whose callback is \<open>run\<close>.
\<close>

definition new_Scheduler ::
  "nat \<Rightarrow> bool \<Rightarrow> tid \<Rightarrow> bool \<Rightarrow> u32 \<Rightarrow> faddr \<Rightarrow> faddr \<Rightarrow> 'c \<Rightarrow> 'c fworld
   \<Rightarrow> fiber_error + 'c scheduler \<times> 'c fworld" where
  "new_Scheduler threads use_caller t has config_size m root run w =
     (if threads = 0 then Inl AssertFail
      else if use_caller \<and> has then Inl AssertFail
      else let w' = new_Fiber config_size root (Some run) 0 True (snd (GetThis t m w))
           in Inr (\<lparr>m_fibers = [], m_threads = [],
                 m_rootFiber = (if use_caller then Some root else None),
                 m_threadIds = (if use_caller then [t] else []),
                 m_threadCount = (if use_caller then threads - 1 else threads),
                 m_activeThreadCount = 0, m_idleThreadCount = 0, m_stopping = True, m_autoStop = False,
                 m_rootThread = (if use_caller then t else - 1)\<rparr>,
               if use_caller then w'\<lparr>t_sheduler_fiber := (t_sheduler_fiber w')(t \<mapsto> root)\<rparr> else w))"

definition scheduleNoLock :: "'c task \<Rightarrow> 'c scheduler \<Rightarrow> bool \<times> 'c scheduler" where
  "scheduleNoLock ft s =
     (m_fibers s = [],
      if ft_fiber ft \<noteq> None \<or> ft_cb ft \<noteq> None then s\<lparr>m_fibers := m_fibers s @ [ft]\<rparr> else s)"

text \<open>\<open>schedule\<close>: the flag says whether \<open>tickle\<close> is called.\<close>

definition schedule :: "'c task \<Rightarrow> 'c scheduler \<Rightarrow> bool \<times> 'c scheduler" where
  "schedule ft s = scheduleNoLock ft s"

fun schedule_range :: "'c task list \<Rightarrow> bool \<Rightarrow> 'c scheduler \<Rightarrow> bool \<times> 'c scheduler" where
  "schedule_range [] need_tickle s = (need_tickle, s)"
| "schedule_range (ft # fts) need_tickle s =
     (let (b, s) = scheduleNoLock ft s in schedule_range fts (b \<or> need_tickle) s)"

definition hasIdleThreads :: "'c scheduler \<Rightarrow> bool" where
  "hasIdleThreads s \<longleftrightarrow> m_idleThreadCount s > 0"

definition stopping :: "'c scheduler \<Rightarrow> bool" where
  "stopping s \<longleftrightarrow> m_autoStop s \<and> m_stopping s \<and> m_fibers s = [] \<and> m_activeThreadCount s = 0"

text \<open>\<open>start\<close>: \<open>new_id i\<close> is the id of the \<open>i\<close>-th thread the operating system creates.\<close>

definition start :: "(nat \<Rightarrow> int) \<Rightarrow> 'c scheduler \<Rightarrow> fiber_error + 'c scheduler" where
  "start new_id s =
     (if \<not> m_stopping s then Inr s
      else if m_threads s \<noteq> [] then Inl AssertFail
      else let ids = map new_id [0..<m_threadCount s]
           in Inr (s\<lparr>m_stopping := False, m_threads := ids, m_threadIds := m_threadIds s @ ids\<rparr>))"

text \<open>
  \<open>stop\<close> up to the switch to the root fiber and the joins: \<open>here\<close> is whether the
  calling thread belongs to this scheduler.  The result says how many times
  \<open>tickle\<close> is called, whether the root fiber is called, and which threads are joined.
\<close>

definition stop ::
  "bool \<Rightarrow> State option \<Rightarrow> 'c scheduler \<Rightarrow> fiber_error + (nat \<times> bool \<times> int list) \<times> 'c scheduler" where
  "stop here root_state s =
     (let s = s\<lparr>m_autoStop := True\<rparr>;
          quick = (m_rootFiber s \<noteq> None \<and> m_threadCount s = 0 \<and>
                   (root_state = Some TERM' \<or> root_state = Some INIT));
          s = (if quick then s\<lparr>m_stopping := True\<rparr> else s)
      in if quick \<and> stopping s then Inr ((0, False, []), s)
         else if (m_rootThread s \<noteq> - 1) \<noteq> here then Inl AssertFail
         else let s = s\<lparr>m_stopping := True\<rparr>;
                  ticks = m_threadCount s + (if m_rootFiber s \<noteq> None then 1 else 0)
              in Inr ((ticks, m_rootFiber s \<noteq> None \<and> \<not> stopping s, m_threads s), s\<lparr>m_threads := []\<rparr>))"

subsection \<open>The loop of a worker\<close>

text \<open>
  The search under the mutex: the task taken, what is left of the queue, and
  \<open>tickle_me\<close>.
\<close>

fun pick ::
  "tid \<Rightarrow> (faddr \<Rightarrow> State option) \<Rightarrow> 'c task list \<Rightarrow> fiber_error + 'c task option \<times> 'c task list \<times> bool" where
  "pick t st [] = Inr (None, [], False)"
| "pick t st (x # xs) =
     (if ft_thread x \<noteq> - 1 \<and> ft_thread x \<noteq> t then
        and_then (pick t st xs) (\<lambda>(r, ys, b). Inr (r, x # ys, True))
      else if ft_fiber x = None \<and> ft_cb x = None then Inl AssertFail
      else if (case ft_fiber x of Some f \<Rightarrow> st f = Some EXEC | None \<Rightarrow> False) then
        and_then (pick t st xs) (\<lambda>(r, ys, b). Inr (r, x # ys, b))
      else Inr (Some x, xs, xs \<noteq> []))"

datatype slot = InFiber faddr | InCb faddr | InIdle

text \<open>
  Where a worker is: before the search, after it, while the fiber runs, after the
  switch back, after the counter went down, after the loop.
\<close>

datatype pc = Loop | Picked | Running slot | Returned slot | Counted slot | Finished

record 'c worker =
  w_pc :: pc
  w_ft :: "'c task"
  w_is_active :: bool
  w_cb_fiber :: "faddr option"
  w_idle_fiber :: faddr

definition dec :: "nat \<Rightarrow> nat" where
  "dec n = sub64 n 1"

text \<open>
  \<open>run\<close> before its loop: \<open>m\<close> is the address of the main fiber of a thread that has
  none, \<open>i\<close> that of the idle fiber, whose callback is \<open>idle\<close>.
\<close>

definition run_begin ::
  "tid \<Rightarrow> u32 \<Rightarrow> faddr \<Rightarrow> faddr \<Rightarrow> 'c \<Rightarrow> 'c scheduler \<Rightarrow> 'c fworld \<Rightarrow> 'c fworld \<times> 'c worker" where
  "run_begin t config_size m i idle s w =
     (let w = (if t \<noteq> m_rootThread s
               then let (cur, w) = GetThis t m w
                    in w\<lparr>t_sheduler_fiber := (t_sheduler_fiber w)(t \<mapsto> cur)\<rparr>
               else w)
      in (new_Fiber config_size i (Some idle) 0 False w,
          \<lparr>w_pc = Loop, w_ft = no_task, w_is_active = False, w_cb_fiber = None, w_idle_fiber = i\<rparr>))"

definition run_pick ::
  "tid \<Rightarrow> 'c fworld \<Rightarrow> 'c scheduler \<times> 'c worker \<Rightarrow> fiber_error + bool \<times> 'c scheduler \<times> 'c worker" where
  "run_pick t w sk =
     (case sk of (s, k) \<Rightarrow>
        and_then (pick t (getState w) (m_fibers s)) (\<lambda>(r, rest, tickle_me).
          Inr (tickle_me,
               s\<lparr>m_fibers := rest,
                 m_activeThreadCount := m_activeThreadCount s + (if r = None then 0 else 1)\<rparr>,
               k\<lparr>w_ft := (case r of None \<Rightarrow> no_task | Some x \<Rightarrow> x), w_is_active := (r \<noteq> None),
                 w_pc := Picked\<rparr>)))"

definition live :: "State option \<Rightarrow> bool" where
  "live st \<longleftrightarrow> st \<noteq> Some TERM' \<and> st \<noteq> Some EXCEPT"

fun is_live :: "'c fworld \<Rightarrow> faddr option \<Rightarrow> bool" where
  "is_live w None = False"
| "is_live w (Some f) = live (getState w f)"

text \<open>From the end of the search to the switch; \<open>a\<close> is the address of a new fiber.\<close>

definition run_enter ::
  "tid \<Rightarrow> u32 \<Rightarrow> faddr \<Rightarrow> 'c fworld \<times> 'c scheduler \<times> 'c worker
   \<Rightarrow> fiber_error + 'c fworld \<times> 'c scheduler \<times> 'c worker" where
  "run_enter t config_size a wsk =
     (case wsk of (w, s, k) \<Rightarrow>
        (case (if is_live w (ft_fiber (w_ft k)) then ft_fiber (w_ft k) else None,
               ft_cb (w_ft k)) of
           (Some f, cb) \<Rightarrow> and_then (swapIn t f w) (\<lambda>w. Inr (w, s, k\<lparr>w_pc := Running (InFiber f)\<rparr>))
         | (None, Some cb) \<Rightarrow>
             and_then
               (case w_cb_fiber k of
                  Some b \<Rightarrow> and_then (Fiber_reset b (Some cb) w) (\<lambda>w. Inr (b, w))
                | None \<Rightarrow> Inr (a, new_Fiber config_size a (Some cb) 0 False w)) (\<lambda>(b, w).
             and_then (swapIn t b w) (\<lambda>w.
               Inr (w, s, k\<lparr>w_ft := no_task, w_cb_fiber := Some b, w_pc := Running (InCb b)\<rparr>)))
         | (None, None) \<Rightarrow>
             if w_is_active k then
               Inr (w, s\<lparr>m_activeThreadCount := dec (m_activeThreadCount s)\<rparr>, k\<lparr>w_pc := Loop\<rparr>)
             else if getState w (w_idle_fiber k) = Some TERM' then Inr (w, s, k\<lparr>w_pc := Finished\<rparr>)
             else and_then (swapIn t (w_idle_fiber k) w) (\<lambda>w.
                    Inr (w, s\<lparr>m_idleThreadCount := m_idleThreadCount s + 1\<rparr>,
                         k\<lparr>w_pc := Running InIdle\<rparr>))))"

text \<open>The first line after each switch back.\<close>

definition run_count :: "slot \<Rightarrow> 'c scheduler \<times> 'c worker \<Rightarrow> 'c scheduler \<times> 'c worker" where
  "run_count sl sk =
     (case sk of (s, k) \<Rightarrow>
        (case sl of InIdle \<Rightarrow> s\<lparr>m_idleThreadCount := dec (m_idleThreadCount s)\<rparr>
         | _ \<Rightarrow> s\<lparr>m_activeThreadCount := dec (m_activeThreadCount s)\<rparr>,
         k\<lparr>w_pc := Counted sl\<rparr>))"

text \<open>The rest, up to the next turn of the loop; the first component is what it schedules.\<close>

fun run_leave ::
  "slot \<Rightarrow> 'c fworld \<times> 'c scheduler \<times> 'c worker
   \<Rightarrow> fiber_error + 'c task list \<times> 'c fworld \<times> 'c scheduler \<times> 'c worker" where
  "run_leave (InFiber f) (w, s, k) =
     (let k = k\<lparr>w_ft := no_task, w_pc := Loop\<rparr>;
          again = FiberAndThread_fiber (Some f) (- 1)
      in if getState w f = Some READY then Inr ([again], w, snd (schedule again s), k)
         else if live (getState w f) then Inr ([], upd_fiber f (\<lambda>f. f\<lparr>f_state := HOLD\<rparr>) w, s, k)
         else Inr ([], w, s, k))"
| "run_leave (InCb b) (w, s, k) =
     (let k = k\<lparr>w_pc := Loop\<rparr>;
          again = FiberAndThread_fiber (Some b) (- 1)
      in if getState w b = Some READY then
           Inr ([again], w, snd (schedule again s), k\<lparr>w_cb_fiber := None\<rparr>)
         else if \<not> live (getState w b) then and_then (Fiber_reset b None w) (\<lambda>w. Inr ([], w, s, k))
         else Inr ([], upd_fiber b (\<lambda>f. f\<lparr>f_state := HOLD\<rparr>) w, s, k\<lparr>w_cb_fiber := None\<rparr>))"
| "run_leave InIdle (w, s, k) =
     (let k = k\<lparr>w_pc := Loop\<rparr>
      in if live (getState w (w_idle_fiber k)) then
           Inr ([], upd_fiber (w_idle_fiber k) (\<lambda>f. f\<lparr>f_state := HOLD\<rparr>) w, s, k)
         else Inr ([], w, s, k))"

text \<open>
  One turn of the loop with no other thread in between: \<open>out\<close> is how the fiber
  gives control back.
\<close>

definition run_turn ::
  "tid \<Rightarrow> u32 \<Rightarrow> faddr \<Rightarrow> outcome \<Rightarrow> 'c fworld \<times> 'c scheduler \<times> 'c worker
   \<Rightarrow> fiber_error + 'c fworld \<times> 'c scheduler \<times> 'c worker" where
  "run_turn t config_size a out wsk =
     (case wsk of (w, s, k) \<Rightarrow>
        and_then (run_pick t w (s, k)) (\<lambda>(tickle_me, s, k).
        and_then (run_enter t config_size a (w, s, k)) (\<lambda>(w, s, k).
          case w_pc k of
            Running sl \<Rightarrow>
              and_then (gives_back out t a w) (\<lambda>w.
                case run_count sl (s, k) of (s, k) \<Rightarrow>
                and_then (run_leave sl (w, s, k)) (\<lambda>(again, wsk). Inr wsk))
          | _ \<Rightarrow> Inr (w, s, k))))"

text \<open>
  The body of \<open>idle\<close> between two switches: whether it goes on waiting
  (\<open>YieldToHold\<close>) or returns.
\<close>

definition idle :: "'c scheduler \<Rightarrow> outcome" where
  "idle s = (if stopping s then Returns else YieldsHold)"

subsection \<open>Interleaving\<close>

record 'c sys =
  world :: "'c fworld"
  sched :: "'c scheduler"
  workers :: "tid \<rightharpoonup> 'c worker"

datatype 'c event = Sched "'c task list" | Take tid "'c task" | Internal tid

inductive sys_step :: "'c sys \<Rightarrow> 'c event \<Rightarrow> 'c sys \<Rightarrow> bool" where
  schedules:
    "ft_fiber ft \<noteq> None \<or> ft_cb ft \<noteq> None \<Longrightarrow> schedule ft (sched y) = (b, s) \<Longrightarrow>
     sys_step y (Sched [ft]) (y\<lparr>sched := s\<rparr>)"
| picks:
    "workers y t = Some k \<Longrightarrow> w_pc k = Loop \<Longrightarrow>
     run_pick t (world y) (sched y, k) = Inr (b, s, k') \<Longrightarrow>
     sys_step y (if w_is_active k' then Take t (w_ft k') else Internal t)
       (y\<lparr>sched := s, workers := (workers y)(t \<mapsto> k')\<rparr>)"
| enters:
    "workers y t = Some k \<Longrightarrow> w_pc k = Picked \<Longrightarrow>
     run_enter t config_size a (world y, sched y, k) = Inr (w, s, k') \<Longrightarrow>
     sys_step y (Internal t) (y\<lparr>world := w, sched := s, workers := (workers y)(t \<mapsto> k')\<rparr>)"
| switches_back:
    "workers y t = Some k \<Longrightarrow> w_pc k = Running sl \<Longrightarrow>
     gives_back out t a (world y) = Inr w \<Longrightarrow>
     sys_step y (Internal t)
       (y\<lparr>world := w, workers := (workers y)(t \<mapsto> k\<lparr>w_pc := Returned sl\<rparr>)\<rparr>)"
| counts:
    "workers y t = Some k \<Longrightarrow> w_pc k = Returned sl \<Longrightarrow> run_count sl (sched y, k) = (s, k') \<Longrightarrow>
     sys_step y (Internal t) (y\<lparr>sched := s, workers := (workers y)(t \<mapsto> k')\<rparr>)"
| leaves:
    "workers y t = Some k \<Longrightarrow> w_pc k = Counted sl \<Longrightarrow>
     run_leave sl (world y, sched y, k) = Inr (fts, w, s, k') \<Longrightarrow>
     sys_step y (Sched fts) (y\<lparr>world := w, sched := s, workers := (workers y)(t \<mapsto> k')\<rparr>)"

inductive sys_run :: "'c sys \<Rightarrow> 'c event list \<Rightarrow> 'c sys \<Rightarrow> bool" where
  sys_run_Nil: "sys_run y [] y"
| sys_run_step: "sys_run y es z \<Longrightarrow> sys_step z e x \<Longrightarrow> sys_run y (es @ [e]) x"

text \<open>A scheduler none of whose workers has begun to work yet.\<close>

definition fresh_sys :: "'c sys \<Rightarrow> bool" where
  "fresh_sys y \<longleftrightarrow>
     m_fibers (sched y) = [] \<and> m_activeThreadCount (sched y) = 0 \<and> m_idleThreadCount (sched y) = 0 \<and>
     finite (dom (workers y)) \<and> (\<forall>k \<in> ran (workers y). w_pc k = Loop)"

fun busy :: "'c worker \<Rightarrow> bool" where
  "busy k = (case w_pc k of Picked \<Rightarrow> w_is_active k | Running sl \<Rightarrow> sl \<noteq> InIdle
             | Returned sl \<Rightarrow> sl \<noteq> InIdle | _ \<Rightarrow> False)"

fun idling :: "'c worker \<Rightarrow> bool" where
  "idling k = (w_pc k = Running InIdle \<or> w_pc k = Returned InIdle)"

definition count_workers :: "('c worker \<Rightarrow> bool) \<Rightarrow> 'c sys \<Rightarrow> nat" where
  "count_workers P y = card {t. \<exists>k. workers y t = Some k \<and> P k}"

fun scheduled :: "'c event list \<Rightarrow> 'c task multiset" where
  "scheduled [] = {#}"
| "scheduled (e # es) = (case e of Sched fts \<Rightarrow> mset fts | _ \<Rightarrow> {#}) + scheduled es"

fun taken :: "'c event list \<Rightarrow> 'c task multiset" where
  "taken [] = {#}"
| "taken (e # es) = (case e of Take t ft \<Rightarrow> {#ft#} | _ \<Rightarrow> {#}) + taken es"

definition sys_inv :: "'c sys \<Rightarrow> bool" where
  "sys_inv y \<longleftrightarrow>
     finite (dom (workers y)) \<and>
     (\<forall>x \<in> set (m_fibers (sched y)). ft_fiber x \<noteq> None \<or> ft_cb x \<noteq> None) \<and>
     m_activeThreadCount (sched y) = count_workers busy y \<and>
     m_idleThreadCount (sched y) = count_workers idling y \<and>
     (\<forall>k \<in> ran (workers y). w_pc k = Picked \<and> \<not> w_is_active k \<longrightarrow> w_ft k = no_task)"

subsection \<open>The search\<close>

definition eligible :: "tid \<Rightarrow> (faddr \<Rightarrow> State option) \<Rightarrow> 'c task \<Rightarrow> bool" where
  "eligible t st x \<longleftrightarrow>
     (ft_thread x = - 1 \<or> ft_thread x = t) \<and> (\<forall>f. ft_fiber x = Some f \<longrightarrow> st f \<noteq> Some EXEC)"

abbreviation proper :: "'c task \<Rightarrow> bool" where
  "proper x \<equiv> ft_fiber x \<noteq> None \<or> ft_cb x \<noteq> None"

lemma pick_none:
  assumes "\<forall>x \<in> set q. proper x" and "\<forall>x \<in> set q. \<not> eligible t st x"
  shows "pick t st q = Inr (None, q, \<exists>x \<in> set q. ft_thread x \<noteq> - 1 \<and> ft_thread x \<noteq> t)"
  using assms by (induction q) (auto simp: eligible_def split: option.splits)

lemma pick_some:
  assumes "\<forall>x \<in> set q. proper x" and "q = xs @ x # ys" and "eligible t st x"
    and "\<forall>x \<in> set xs. \<not> eligible t st x"
  shows "pick t st q =
     Inr (Some x, xs @ ys, ys \<noteq> [] \<or> (\<exists>x \<in> set xs. ft_thread x \<noteq> - 1 \<and> ft_thread x \<noteq> t))"
  using assms
proof (induction xs arbitrary: q)
  case Nil
  then show ?case by (auto simp: eligible_def split: option.splits)
next
  case (Cons z zs)
  then show ?case by (auto simp: eligible_def split: option.splits)
qed

lemma pick_cases:
  assumes "\<forall>x \<in> set q. proper x"
  obtains "pick t st q = Inr (None, q, \<exists>x \<in> set q. ft_thread x \<noteq> - 1 \<and> ft_thread x \<noteq> t)"
      "\<forall>x \<in> set q. \<not> eligible t st x"
    | xs x ys b where "q = xs @ x # ys" "eligible t st x" "\<forall>x \<in> set xs. \<not> eligible t st x"
      "pick t st q = Inr (Some x, xs @ ys, b)"
proof (cases "\<exists>x \<in> set q. eligible t st x")
  case True
  then obtain xs x ys where "q = xs @ x # ys" "eligible t st x" "\<forall>x \<in> set xs. \<not> eligible t st x"
    using split_list_first_prop [of q "eligible t st"] by blast
  then show ?thesis using pick_some [OF assms] that(2) by blast
next
  case False
  then show ?thesis using pick_none [OF assms] that(1) by blast
qed

lemma run_pick_cases:
  assumes "\<forall>x \<in> set (m_fibers s). proper x" and "run_pick t w (s, k) = Inr (b, s', k')"
  obtains "\<forall>x \<in> set (m_fibers s). \<not> eligible t (getState w) x" "s' = s"
      "k' = k\<lparr>w_ft := no_task, w_is_active := False, w_pc := Picked\<rparr>"
    | xs x ys where "m_fibers s = xs @ x # ys" "eligible t (getState w) x"
      "\<forall>x \<in> set xs. \<not> eligible t (getState w) x"
      "s' = s\<lparr>m_fibers := xs @ ys, m_activeThreadCount := m_activeThreadCount s + 1\<rparr>"
      "k' = k\<lparr>w_ft := x, w_is_active := True, w_pc := Picked\<rparr>"
proof (rule pick_cases [OF assms(1), of t "getState w"])
  assume none: "pick t (getState w) (m_fibers s) =
      Inr (None, m_fibers s, \<exists>x \<in> set (m_fibers s). ft_thread x \<noteq> - 1 \<and> ft_thread x \<noteq> t)"
    and "\<forall>x \<in> set (m_fibers s). \<not> eligible t (getState w) x"
  moreover have "s' = s" "k' = k\<lparr>w_ft := no_task, w_is_active := False, w_pc := Picked\<rparr>"
    using assms(2) by (auto simp: run_pick_def none)
  ultimately show thesis using that(1) by blast
next
  fix xs x ys b'
  assume some: "pick t (getState w) (m_fibers s) = Inr (Some x, xs @ ys, b')"
    and "m_fibers s = xs @ x # ys" "eligible t (getState w) x" "\<forall>x \<in> set xs. \<not> eligible t (getState w) x"
  moreover have "s' = s\<lparr>m_fibers := xs @ ys, m_activeThreadCount := m_activeThreadCount s + 1\<rparr>"
    "k' = k\<lparr>w_ft := x, w_is_active := True, w_pc := Picked\<rparr>"
    using assms(2) by (auto simp: run_pick_def some)
  ultimately show thesis using that(2) by blast
qed

subsection \<open>The counters\<close>

lemma count_upd:
  assumes "finite (dom m)" and "m t = Some k"
  shows "card {u. \<exists>k. (m(t \<mapsto> k')) u = Some k \<and> P k} + of_bool (P k) =
         card {u. \<exists>k. m u = Some k \<and> P k} + of_bool (P k')"
proof -
  let ?R = "{u. u \<noteq> t \<and> (\<exists>k. m u = Some k \<and> P k)}"
  have "finite ?R"
    by (rule finite_subset [OF _ assms(1)]) auto
  moreover have "{u. \<exists>k. (m(t \<mapsto> k')) u = Some k \<and> P k} = (if P k' then insert t ?R else ?R)"
    by auto
  moreover have "{u. \<exists>k. m u = Some k \<and> P k} = (if P k then insert t ?R else ?R)"
    using assms(2) by auto
  ultimately show ?thesis by simp
qed

lemma sys_inv_update:
  assumes "sys_inv y" and "workers y t = Some k" and "\<forall>x \<in> set (m_fibers s). proper x"
    and "m_activeThreadCount s + of_bool (busy k) = m_activeThreadCount (sched y) + of_bool (busy k')"
    and "m_idleThreadCount s + of_bool (idling k) = m_idleThreadCount (sched y) + of_bool (idling k')"
    and "w_pc k' = Picked \<and> \<not> w_is_active k' \<longrightarrow> w_ft k' = no_task"
  shows "sys_inv (y\<lparr>world := w, sched := s, workers := (workers y)(t \<mapsto> k')\<rparr>)"
proof -
  have "finite (dom (workers y))" using assms(1) by (simp add: sys_inv_def)
  note count_upd [OF this assms(2), of k' busy] count_upd [OF this assms(2), of k' idling]
  moreover have "ran ((workers y)(t \<mapsto> k')) \<subseteq> insert k' (ran (workers y))"
    by (auto simp: ran_def)
  ultimately show ?thesis
    using assms unfolding sys_inv_def count_workers_def by (auto simp del: busy.simps idling.simps)
qed

lemma counter_positive:
  assumes "sys_inv y" and "workers y t = Some k"
  shows "busy k \<Longrightarrow> 0 < m_activeThreadCount (sched y)" "idling k \<Longrightarrow> 0 < m_idleThreadCount (sched y)"
proof -
  have fin: "finite {u. \<exists>k. workers y u = Some k \<and> P k}" for P
    by (rule finite_subset [of _ "dom (workers y)"]) (use assms(1) in \<open>auto simp: sys_inv_def\<close>)
  show "busy k \<Longrightarrow> 0 < m_activeThreadCount (sched y)" "idling k \<Longrightarrow> 0 < m_idleThreadCount (sched y)"
    using assms fin by (auto simp: sys_inv_def count_workers_def card_gt_0_iff simp del: busy.simps idling.simps)
qed

lemma sys_step_inv:
  assumes "sys_step y e y'" and inv: "sys_inv y"
  shows "sys_inv y'"
  using assms(1)
proof cases
  case (schedules ft b s)
  then show ?thesis
    using inv by (auto simp: sys_inv_def schedule_def scheduleNoLock_def count_workers_def)
next
  case (picks t k b s k')
  have "\<forall>x \<in> set (m_fibers (sched y)). proper x" using inv by (simp add: sys_inv_def)
  then have "\<forall>x \<in> set (m_fibers s). proper x" "m_idleThreadCount s = m_idleThreadCount (sched y)"
    "m_activeThreadCount s = m_activeThreadCount (sched y) + of_bool (busy k')"
    "\<not> idling k'" "\<not> w_is_active k' \<longrightarrow> w_ft k' = no_task"
    by (rule run_pick_cases [OF _ picks(5)]; auto)+
  then show ?thesis
    using sys_inv_update [OF inv picks(3), of s k' "world y"] picks(2,4) by simp
next
  case (enters t k config_size a w s k')
  have "\<forall>x \<in> set (m_fibers s). proper x"
    "m_activeThreadCount s + of_bool (busy k) = m_activeThreadCount (sched y) + of_bool (busy k')"
    "m_idleThreadCount s + of_bool (idling k) = m_idleThreadCount (sched y) + of_bool (idling k')"
    "w_pc k' \<noteq> Picked"
    using enters counter_positive [OF inv enters(3)] inv
    by (auto simp: run_enter_def and_then_eq_Inr dec_def sys_inv_def ran_def no_task_def
        split: option.splits if_splits)
  then show ?thesis
    using sys_inv_update [OF inv enters(3), of s k' w] enters(2) by simp
next
  case (switches_back t k sl out a w)
  then show ?thesis
    using sys_inv_update [OF inv switches_back(3), of "sched y" "k\<lparr>w_pc := Returned sl\<rparr>" w] inv
    by (auto simp: sys_inv_def)
next
  case (counts t k sl s k')
  have "\<forall>x \<in> set (m_fibers s). proper x"
    "m_activeThreadCount s + of_bool (busy k) = m_activeThreadCount (sched y) + of_bool (busy k')"
    "m_idleThreadCount s + of_bool (idling k) = m_idleThreadCount (sched y) + of_bool (idling k')"
    "w_pc k' \<noteq> Picked"
    using counts counter_positive [OF inv counts(3)] inv
    by (auto simp: run_count_def dec_def sys_inv_def split: slot.splits)
  then show ?thesis
    using sys_inv_update [OF inv counts(3), of s k' "world y"] counts(2) by simp
next
  case (leaves t k sl fts w s k')
  have "\<forall>x \<in> set (m_fibers s). proper x" "m_activeThreadCount s = m_activeThreadCount (sched y)"
    "m_idleThreadCount s = m_idleThreadCount (sched y)" "w_pc k' = Loop"
    using leaves inv
    by (cases sl; auto simp: sys_inv_def Let_def and_then_eq_Inr schedule_def scheduleNoLock_def
        FiberAndThread_fiber_def split: if_splits)+
  then show ?thesis
    using sys_inv_update [OF inv leaves(3), of s k' w] leaves(2,4) by simp
qed

lemma fresh_sys_inv: "fresh_sys y \<Longrightarrow> sys_inv y"
  by (auto simp: fresh_sys_def sys_inv_def count_workers_def ran_def card_eq_0_iff)

lemma sys_run_inv: "sys_run y0 es y \<Longrightarrow> sys_inv y0 \<Longrightarrow> sys_inv y"
  by (induction rule: sys_run.induct) (blast intro: sys_step_inv)+

lemma scheduled_append [simp]: "scheduled (xs @ ys) = scheduled xs + scheduled ys"
  by (induction xs) auto

lemma taken_append [simp]: "taken (xs @ ys) = taken xs + taken ys"
  by (induction xs) auto

lemma sys_step_conserves:
  assumes "sys_step y e y'" and inv: "sys_inv y"
  shows "mset (m_fibers (sched y)) + scheduled [e] = mset (m_fibers (sched y')) + taken [e]"
  using assms(1)
proof cases
  case (schedules ft b s)
  then show ?thesis by (auto simp: schedule_def scheduleNoLock_def)
next
  case (picks t k b s k')
  have "\<forall>x \<in> set (m_fibers (sched y)). proper x" using inv by (simp add: sys_inv_def)
  then show ?thesis
    by (rule run_pick_cases [OF _ picks(5)]) (use picks in simp_all)
next
  case (enters t k config_size a w s k')
  then have "m_fibers s = m_fibers (sched y)"
    by (auto simp: run_enter_def and_then_eq_Inr split: option.splits if_splits)
  then show ?thesis using enters by simp
next
  case (switches_back t k sl out a w)
  then show ?thesis by simp
next
  case (counts t k sl s k')
  then show ?thesis by (auto simp: run_count_def split: slot.splits)
next
  case (leaves t k sl fts w s k')
  then have "mset (m_fibers s) = mset (m_fibers (sched y)) + mset fts"
    by (cases sl) (auto simp: Let_def and_then_eq_Inr schedule_def scheduleNoLock_def
        FiberAndThread_fiber_def split: if_splits)
  then show ?thesis using leaves by simp
qed

lemma sys_run_conserves:
  "sys_run y0 es y \<Longrightarrow> sys_inv y0 \<Longrightarrow>
   mset (m_fibers (sched y0)) + scheduled es = mset (m_fibers (sched y)) + taken es"
proof (induction rule: sys_run.induct)
  case (sys_run_step y es z e x)
  have step: "mset (m_fibers (sched z)) + scheduled [e] = mset (m_fibers (sched x)) + taken [e]"
    using sys_run_step by (blast intro: sys_step_conserves sys_run_inv)
  have "mset (m_fibers (sched y)) + scheduled (es @ [e]) =
        (mset (m_fibers (sched y)) + scheduled es) + scheduled [e]"
    by (simp only: scheduled_append add.assoc)
  also have "\<dots> = (mset (m_fibers (sched z)) + scheduled [e]) + taken es"
    by (subst sys_run_step.IH [OF sys_run_step.prems]) (simp only: ac_simps)
  also have "\<dots> = mset (m_fibers (sched x)) + taken (es @ [e])"
    by (simp only: step taken_append ac_simps)
  finally show ?case .
qed simp

text \<open>
  C15: a turn of the loop of \<open>run\<close> that finds a fiber it may run takes the first such
  task of the queue and leaves the others in order.  Afterwards the fiber is READY
  and back at the end of the queue, HOLD, TERM or EXCEPT, according to how it gave
  control back; the counters are as before, the thread is back on its scheduler
  fiber, and no other fiber has changed.
\<close>

theorem run_turn_fiber:
  assumes "\<forall>x \<in> set (m_fibers s). proper x" and "m_fibers s = xs @ x # ys"
    and "\<forall>x \<in> set xs. \<not> eligible t (getState w) x" and "eligible t (getState w) x"
    and "ft_fiber x = Some f" and "fibers w f = Some fb" and "f_state fb \<in> {INIT, HOLD, READY}"
    and "t_sheduler_fiber w t = Some m"
  shows "\<exists>w' k'. run_turn t config_size a out (w, s, k) =
             Inr (w', s\<lparr>m_fibers := xs @ ys @ (if out = YieldsReady
                              then [FiberAndThread_fiber (Some f) (- 1)] else [])\<rparr>, k') \<and>
           getState w' f = Some (if out = YieldsHold then HOLD else state_after out) \<and>
           w_pc k' = Loop \<and> t_fiber w' t = Some m \<and> (\<forall>g. g \<noteq> f \<longrightarrow> fibers w' g = fibers w g)"
proof -
  let ?w = "upd_fiber f (\<lambda>f. f\<lparr>f_state := EXEC\<rparr>) (SetThis t (Some f) w)"
  have enter: "swapIn t f w = Inr ?w"
    using assms(6-8) by (intro swapIn_Some [of _ _ fb]) auto
  have live: "live (getState w f)" using assms(6,7) by (auto simp: live_def getState_def)
  obtain w' where w': "gives_back out t a ?w = Inr w'" "t_fiber w' = (t_fiber ?w)(t \<mapsto> m)"
      "getState w' f = Some (state_after out)" "\<forall>c. c \<noteq> f \<longrightarrow> fibers w' c = fibers ?w c"
    using gives_back_Some [of ?w t f "fb\<lparr>f_state := EXEC\<rparr>" m out a] assms(6,8) by auto
  obtain fb' where fb': "fibers w' f = Some fb'"
    using w'(3) by (auto simp: getState_def split: option.splits)
  have "pick t (getState w) (m_fibers s) =
      Inr (Some x, xs @ ys, ys \<noteq> [] \<or> (\<exists>x \<in> set xs. ft_thread x \<noteq> - 1 \<and> ft_thread x \<noteq> t))"
    by (rule pick_some [OF assms(1,2,4,3)])
  then show ?thesis
    using live enter w' fb' assms(5)
    by (cases out)
       (simp_all add: run_turn_def run_pick_def run_enter_def run_count_def dec_def live_def Let_def
          schedule_def scheduleNoLock_def FiberAndThread_fiber_def)
qed

subsection \<open>A concrete system\<close>

definition demo_world :: "nat fworld" where
  "demo_world =
     new_Fiber 1000 10 (Some 5) 0 False
       (snd (GetThis 1 0 \<lparr>s_fiber_id = 0, s_fiber_count = 0, fibers = Map.empty, t_fiber = Map.empty,
                        t_threadFiber = Map.empty, t_sheduler_fiber = [1 \<mapsto> 0]\<rparr>))"

definition demo_sched :: "nat scheduler" where
  "demo_sched = \<lparr>m_fibers = [], m_threads = [1], m_rootFiber = None, m_threadIds = [1],
     m_threadCount = 1, m_activeThreadCount = 0, m_idleThreadCount = 0, m_stopping = False,
     m_autoStop = False, m_rootThread = - 1\<rparr>"

definition demo_worker :: "nat worker" where
  "demo_worker = \<lparr>w_pc = Loop, w_ft = no_task, w_is_active = False, w_cb_fiber = None,
     w_idle_fiber = 11\<rparr>"

definition demo_task :: "nat task" where
  "demo_task = FiberAndThread_fiber (Some 10) 1"

definition demo_sys :: "nat sys" where
  "demo_sys = \<lparr>world = demo_world, sched = demo_sched, workers = [1 \<mapsto> demo_worker]\<rparr>"

definition demo_taken :: "nat sys" where
  "demo_taken = demo_sys\<lparr>sched := demo_sched\<lparr>m_activeThreadCount := 1\<rparr>,
     workers := [1 \<mapsto> demo_worker\<lparr>w_ft := demo_task, w_is_active := True, w_pc := Picked\<rparr>]\<rparr>"

lemmas demo_defs = demo_world_def demo_sched_def demo_worker_def demo_task_def demo_sys_def
  demo_taken_def GetThis_def new_main_Fiber_def new_Fiber_def SetThis_def getState_def
  FiberAndThread_fiber_def

lemma demo_fresh: "fresh_sys demo_sys"
  by (simp add: fresh_sys_def demo_defs)

lemma demo_run: "sys_run demo_sys [Sched [demo_task], Take 1 demo_task] demo_taken"
proof -
  let ?y = "demo_sys\<lparr>sched := demo_sched\<lparr>m_fibers := [demo_task]\<rparr>\<rparr>"
  have 1: "sys_step demo_sys (Sched [demo_task]) ?y"
    by (rule schedules [where b = True])
       (simp_all add: schedule_def scheduleNoLock_def demo_defs)
  let ?k = "demo_worker\<lparr>w_ft := demo_task, w_is_active := True, w_pc := Picked\<rparr>"
  have "sys_step ?y (if w_is_active ?k then Take 1 (w_ft ?k) else Internal 1)
      (?y\<lparr>sched := demo_sched\<lparr>m_activeThreadCount := 1\<rparr>, workers := (workers ?y)(1 \<mapsto> ?k)\<rparr>)"
    by (rule picks [where k = demo_worker and b = False])
       (simp_all add: run_pick_def demo_defs)
  then have "sys_step ?y (Take 1 demo_task) demo_taken"
    by (simp add: demo_defs)
  then show ?thesis
    using sys_run_step [OF sys_run_step [OF sys_run_Nil 1]] by simp
qed

lemma run_turn_fiber_witness:
  "\<exists>w' k'. run_turn 1 1000 20 YieldsHold (demo_world, demo_sched\<lparr>m_fibers := [demo_task]\<rparr>, demo_worker) =
     Inr (w', demo_sched, k') \<and> getState w' 10 = Some HOLD \<and> t_fiber w' 1 = Some 0"
proof -
  let ?f = "\<lparr>f_id = 1, f_stacksize = 1000, f_state = INIT, f_stack = True, f_caller = False, f_cb = Some 5\<rparr>"
  let ?s = "demo_sched\<lparr>m_fibers := [demo_task]\<rparr>"
  have h: "\<forall>x \<in> set (m_fibers ?s). proper x" "m_fibers ?s = [] @ demo_task # []"
    "\<forall>x \<in> set []. \<not> eligible 1 (getState demo_world) x" "eligible 1 (getState demo_world) demo_task"
    "ft_fiber demo_task = Some 10" "fibers demo_world 10 = Some ?f" "f_state ?f \<in> {INIT, HOLD, READY}"
    "t_sheduler_fiber demo_world 1 = Some 0"
    by (simp_all add: demo_defs eligible_def)
  have "?s\<lparr>m_fibers := []\<rparr> = demo_sched" by (simp add: demo_sched_def)
  then show ?thesis
    using run_turn_fiber [OF h, of 1000 20 YieldsHold demo_worker] by auto
qed

subsection \<open>Properties of every interleaving\<close>



text \<open>
  C7: no task is lost and none is run twice for one call: in every interleaving the
  tasks given to \<open>schedule\<close> (fibers the workers put back included) are, with
  multiplicity, those the workers have taken and those still queued.
\<close>

theorem tasks_conserved:
  assumes "fresh_sys y0" and "sys_run y0 es y"
  shows "scheduled es = taken es + mset (m_fibers (sched y))"
  using sys_run_conserves [OF assms(2) fresh_sys_inv [OF assms(1)]] assms(1)
  by (simp add: fresh_sys_def add.commute)

lemma tasks_conserved_witness:
  "scheduled [Sched [demo_task], Take 1 demo_task] =
     taken [Sched [demo_task], Take 1 demo_task] + mset (m_fibers (sched demo_taken))"
  by (rule tasks_conserved [OF demo_fresh demo_run])

text \<open>
  The search of \<open>run\<close> takes the first task of the queue that is for any thread or
  for this one and is not a fiber in execution, removes it and keeps the order of the
  rest; it takes nothing exactly when there is no such task.
\<close>

theorem pick_first_eligible:
  assumes "\<forall>x \<in> set q. ft_fiber x \<noteq> None \<or> ft_cb x \<noteq> None"
  shows "\<exists>r rest b. pick t st q = Inr (r, rest, b) \<and>
     (case r of
        None \<Rightarrow> rest = q \<and> (\<forall>x \<in> set q. \<not> eligible t st x)
      | Some x \<Rightarrow> \<exists>xs ys. q = xs @ x # ys \<and> rest = xs @ ys \<and> eligible t st x \<and>
                  (\<forall>x \<in> set xs. \<not> eligible t st x))"
proof (rule pick_cases [OF assms, of t st])
  fix xs x ys b
  assume "q = xs @ x # ys" "eligible t st x" "\<forall>x \<in> set xs. \<not> eligible t st x"
    "pick t st q = Inr (Some x, xs @ ys, b)"
  then show ?thesis by (intro exI [of _ "Some x"] exI [of _ "xs @ ys"] exI [of _ b]) auto
next
  assume "pick t st q = Inr (None, q, \<exists>x \<in> set q. ft_thread x \<noteq> - 1 \<and> ft_thread x \<noteq> t)"
    and "\<forall>x \<in> set q. \<not> eligible t st x"
  then show ?thesis by (intro exI conjI) (assumption, simp)
qed

lemma pick_first_eligible_witness:
  "\<exists>r rest b. pick 1 (\<lambda>f. Some HOLD) [FiberAndThread_cb (Some (7::nat)) 2, FiberAndThread_cb (Some 8) 1] =
     Inr (r, rest, b) \<and> r = Some (FiberAndThread_cb (Some 8) 1) \<and> rest = [FiberAndThread_cb (Some 7) 2]"
  using pick_first_eligible [of "[FiberAndThread_cb (Some (7::nat)) 2, FiberAndThread_cb (Some 8) 1]" 1
      "\<lambda>f. Some HOLD"]
  by (simp add: FiberAndThread_cb_def)

end
