(* ===== verification/Std_Map.thy ===== *)
theory Std_Map
  imports Prelude
begin

text \<open>
  \<open>std::map\<close> and \<open>std::set\<close> as the source uses them: sequences kept in the
  order of a comparator.  The operations take the comparator as an argument,
  as the C++ templates do.  The locale \<open>weak_order\<close> states what the standard
  demands of a comparator and proves the container laws once; the components
  interpret it on the comparators the source defines.
\<close>

fun map_find :: "('k \<Rightarrow> 'k \<Rightarrow> bool) \<Rightarrow> 'k \<Rightarrow> ('k \<times> 'v) list \<Rightarrow> 'v option" where
  "map_find lt k [] = None"
| "map_find lt k ((a, b) # m) =
     (if lt a k then map_find lt k m else if lt k a then None else Some b)"

text \<open>\<open>m[k] = v\<close>: an equivalent key that is present stays, its value is replaced.\<close>

fun map_assign :: "('k \<Rightarrow> 'k \<Rightarrow> bool) \<Rightarrow> 'k \<Rightarrow> 'v \<Rightarrow> ('k \<times> 'v) list \<Rightarrow> ('k \<times> 'v) list" where
  "map_assign lt k v [] = [(k, v)]"
| "map_assign lt k v ((a, b) # m) =
     (if lt a k then (a, b) # map_assign lt k v m
      else if lt k a then (k, v) # (a, b) # m
      else (a, v) # m)"

fun map_erase :: "('k \<Rightarrow> 'k \<Rightarrow> bool) \<Rightarrow> 'k \<Rightarrow> ('k \<times> 'v) list \<Rightarrow> ('k \<times> 'v) list" where
  "map_erase lt k [] = []"
| "map_erase lt k ((a, b) # m) =
     (if lt a k then (a, b) # map_erase lt k m else if lt k a then (a, b) # m else m)"

text \<open>\<open>std::set\<close>: insertion leaves the set alone when an equivalent element is present.\<close>

fun set_insert :: "('a \<Rightarrow> 'a \<Rightarrow> bool) \<Rightarrow> 'a \<Rightarrow> 'a list \<Rightarrow> 'a list" where
  "set_insert lt x [] = [x]"
| "set_insert lt x (y # ys) =
     (if lt y x then y # set_insert lt x ys else if lt x y then x # y # ys else y # ys)"

fun set_find :: "('a \<Rightarrow> 'a \<Rightarrow> bool) \<Rightarrow> 'a \<Rightarrow> 'a list \<Rightarrow> 'a option" where
  "set_find lt x [] = None"
| "set_find lt x (y # ys) =
     (if lt y x then set_find lt x ys else if lt x y then None else Some y)"

fun set_erase :: "('a \<Rightarrow> 'a \<Rightarrow> bool) \<Rightarrow> 'a \<Rightarrow> 'a list \<Rightarrow> 'a list" where
  "set_erase lt x [] = []"
| "set_erase lt x (y # ys) =
     (if lt y x then y # set_erase lt x ys else if lt x y then y # ys else ys)"

text \<open>\<open>lower_bound(x)\<close>: how many elements come before the first one not less than \<open>x\<close>.\<close>

definition lower_bound :: "('a \<Rightarrow> 'a \<Rightarrow> bool) \<Rightarrow> 'a \<Rightarrow> 'a list \<Rightarrow> nat" where
  "lower_bound lt x ys = length (takeWhile (\<lambda>y. lt y x) ys)"

definition equivalent :: "('k \<Rightarrow> 'k \<Rightarrow> bool) \<Rightarrow> 'k \<Rightarrow> 'k \<Rightarrow> bool" where
  "equivalent lt a b \<longleftrightarrow> \<not> lt a b \<and> \<not> lt b a"

definition map_ok :: "('k \<Rightarrow> 'k \<Rightarrow> bool) \<Rightarrow> ('k \<times> 'v) list \<Rightarrow> bool" where
  "map_ok lt m \<longleftrightarrow> sorted_wrt lt (map fst m)"

locale weak_order =
  fixes lt :: "'k \<Rightarrow> 'k \<Rightarrow> bool"
  assumes irrefl: "\<not> lt a a"
    and trans: "lt a b \<Longrightarrow> lt b c \<Longrightarrow> lt a c"
    and neg_trans: "lt a c \<Longrightarrow> lt a b \<or> lt b c"
begin

lemma asym: "lt a b \<Longrightarrow> \<not> lt b a"
  using irrefl trans by blast

lemma equivalent_refl [simp]: "equivalent lt a a"
  by (simp add: equivalent_def irrefl)

lemma equivalent_sym: "equivalent lt a b \<Longrightarrow> equivalent lt b a"
  by (simp add: equivalent_def)

lemma equivalent_trans: "equivalent lt a b \<Longrightarrow> equivalent lt b c \<Longrightarrow> equivalent lt a c"
  unfolding equivalent_def using neg_trans by blast

lemma equivalent_left: "equivalent lt a b \<Longrightarrow> lt a c \<longleftrightarrow> lt b c"
  unfolding equivalent_def using neg_trans by blast

lemma equivalent_right: "equivalent lt a b \<Longrightarrow> lt c a \<longleftrightarrow> lt c b"
  unfolding equivalent_def using neg_trans by blast

lemma map_find_below: "\<forall>x \<in> set (map fst m). lt k x \<Longrightarrow> map_find lt k m = None"
  by (induction m) (auto dest: asym)

lemma find_assign:
  "map_ok lt m \<Longrightarrow>
   map_find lt j (map_assign lt k v m) = (if equivalent lt j k then Some v else map_find lt j m)"
proof (induction m)
  case Nil
  then show ?case by (auto simp: equivalent_def)
next
  case (Cons p m)
  obtain a b where p: "p = (a, b)" by force
  from Cons.prems p have ok: "map_ok lt m" and above: "\<forall>x \<in> set (map fst m). lt a x"
    by (auto simp: map_ok_def)
  note IH = Cons.IH [OF ok]
  consider (less) "lt a k" | (greater) "\<not> lt a k" "lt k a" | (eq) "\<not> lt a k" "\<not> lt k a"
    by blast
  then show ?case
  proof cases
    case less
    then show ?thesis
      using IH p equivalent_right [of j k a] by (auto simp: equivalent_def)
  next
    case greater
    have e: "map_assign lt k v (p # m) = (k, v) # p # m" using p greater by simp
    show ?thesis
    proof (cases "lt j k")
      case True
      then have "lt j a" using greater trans by blast
      then show ?thesis using True e p asym by (simp add: equivalent_def)
    next
      case False
      then show ?thesis using e by (simp add: equivalent_def)
    qed
  next
    case eq
    then have "equivalent lt a k" by (simp add: equivalent_def)
    then show ?thesis
      using p eq equivalent_left [of a k j] equivalent_right [of a k j]
      by (simp add: equivalent_def)
  qed
qed

lemma fst_assign:
  "x \<in> set (map_assign lt k v m) \<Longrightarrow> fst x = k \<or> fst x \<in> fst ` set m"
  by (induction m) (auto split: if_splits)

lemma map_ok_assign: "map_ok lt m \<Longrightarrow> map_ok lt (map_assign lt k v m)"
proof (induction m)
  case Nil
  then show ?case by (simp add: map_ok_def)
next
  case (Cons p m)
  obtain a b where p: "p = (a, b)" by force
  from Cons.prems p have ok: "map_ok lt m" and above: "\<forall>x \<in> set (map fst m). lt a x"
    by (auto simp: map_ok_def)
  have sub: "lt a k \<Longrightarrow> x \<in> set (map_assign lt k v m) \<Longrightarrow> lt a (fst x)" for x
    using fst_assign [of x k v m] above by auto
  have up: "lt k a \<Longrightarrow> x \<in> set m \<Longrightarrow> lt k (fst x)" for x
    using above trans by auto
  show ?case
    using Cons.IH [OF ok] ok above sub up p by (auto simp: map_ok_def)
qed

lemma set_erase_subset: "x \<in> set (map_erase lt k m) \<Longrightarrow> x \<in> set m"
  by (induction m) (auto split: if_splits)

lemma map_ok_erase: "map_ok lt m \<Longrightarrow> map_ok lt (map_erase lt k m)"
proof (induction m)
  case Nil
  then show ?case by (simp add: map_ok_def)
next
  case (Cons p m)
  then show ?case
    by (cases p) (auto simp: map_ok_def dest: set_erase_subset)
qed

lemma find_erase:
  "map_ok lt m \<Longrightarrow>
   map_find lt j (map_erase lt k m) = (if equivalent lt j k then None else map_find lt j m)"
proof (induction m)
  case Nil
  then show ?case by simp
next
  case (Cons p m)
  obtain a b where p: "p = (a, b)" by force
  from Cons.prems p have ok: "map_ok lt m" and above: "\<forall>x \<in> set (map fst m). lt a x"
    by (auto simp: map_ok_def)
  note IH = Cons.IH [OF ok]
  consider (less) "lt a k" | (greater) "\<not> lt a k" "lt k a" | (eq) "equivalent lt a k"
    by (auto simp: equivalent_def)
  then show ?case
  proof cases
    case less
    then show ?thesis
      using IH p equivalent_right [of j k a] by (auto simp: equivalent_def)
  next
    case greater
    then have e: "map_erase lt k (p # m) = p # m" using p by simp
    have "equivalent lt j k \<Longrightarrow> lt j a" using greater equivalent_left [of j k a] by simp
    then show ?thesis using e p asym by auto
  next
    case eq
    have gone: "equivalent lt j k \<Longrightarrow> map_find lt j m = None"
    proof -
      assume "equivalent lt j k"
      with eq have "equivalent lt a j" using equivalent_sym equivalent_trans by blast
      with above have "\<forall>x \<in> set (map fst m). lt j x" using equivalent_left by blast
      then show ?thesis by (rule map_find_below)
    qed
    have e: "map_erase lt k (p # m) = m" using p eq by (simp add: equivalent_def)
    show ?thesis
    proof (cases "equivalent lt j k")
      case True
      with gone e show ?thesis by simp
    next
      case False
      with eq have "\<not> equivalent lt a j" using equivalent_sym equivalent_trans by blast
      then have "lt a j \<or> lt j a" by (simp add: equivalent_def)
      then show ?thesis
      proof
        assume "lt a j"
        then show ?thesis using False e p by simp
      next
        assume j: "lt j a"
        with above have "\<forall>x \<in> set (map fst m). lt j x" using trans by blast
        then have "map_find lt j m = None" by (rule map_find_below)
        then show ?thesis using False e p j asym by simp
      qed
    qed
  qed
qed

end

text \<open>Comparators for which equivalent elements are equal: the set laws.\<close>

locale total_order = weak_order +
  assumes total: "lt a b \<or> lt b a \<or> a = b"
begin

lemma set_set_insert [simp]: "set (set_insert lt x ys) = insert x (set ys)"
proof (induction ys)
  case (Cons y ys)
  then show ?case using total [of x y] by auto
qed simp

lemma sorted_set_insert: "sorted_wrt lt ys \<Longrightarrow> sorted_wrt lt (set_insert lt x ys)"
proof (induction ys)
  case (Cons y ys)
  then show ?case by (auto intro: trans)
qed simp

lemma sorted_distinct: "sorted_wrt lt ys \<Longrightarrow> distinct ys"
  by (induction ys) (auto simp: irrefl)

lemma set_find_mem: "sorted_wrt lt ys \<Longrightarrow> set_find lt x ys = (if x \<in> set ys then Some x else None)"
proof (induction ys)
  case (Cons y ys)
  then show ?case using total [of x y] irrefl asym by (auto intro: trans)
qed simp

lemma set_erase_removes: "sorted_wrt lt ys \<Longrightarrow> set_erase lt x ys = filter (\<lambda>y. y \<noteq> x) ys"
proof (induction ys)
  case (Cons y ys)
  have "filter (\<lambda>z. z \<noteq> x) ys = ys" if "x = y \<or> lt x y"
    using that Cons.prems irrefl by (intro filter_True) (auto dest: asym)
  then show ?case using Cons total [of x y] irrefl asym by auto
qed simp

lemma sorted_set_erase: "sorted_wrt lt ys \<Longrightarrow> sorted_wrt lt (set_erase lt x ys)"
  by (simp add: set_erase_removes sorted_wrt_filter)

lemma hd_least: "sorted_wrt lt ys \<Longrightarrow> y \<in> set ys \<Longrightarrow> y = hd ys \<or> lt (hd ys) y"
  by (cases ys) auto

end

end
