(* ===== verification/Timer.thy ===== *)
theory Timer
  imports Std_Map
begin

text \<open>
  Timers (src/skt/timer).  A \<open>Timer::ptr\<close> is an address; the timers live in a
  store, because \<open>Timer\<close> and \<open>TimerManager\<close> share them.  \<open>m_timers\<close> is the
  \<open>std::set\<close> of addresses in the order of \<open>Timer::Comparator\<close>, which reads the
  store.  The clock (\<open>GetCurrentMs\<close>) and the address of a new object are
  arguments of the operations; \<open>uint64_t\<close> arithmetic wraps.  The mutex makes each
  operation one step.  Erasing \<open>end()\<close> is an error value.
\<close>

type_synonym addr = nat

text \<open>A callback: a function object, or one bound by \<open>addConditionTimer\<close> to a weak pointer.\<close>

datatype ('w, 'c) callback = Fn 'c | Bound 'w 'c

record ('w, 'c) timer =
  m_recurring :: bool
  m_ms :: u64
  m_next :: u64
  m_cb :: "('w, 'c) callback option"

record ('w, 'c) timer_manager =
  store :: "addr \<rightharpoonup> ('w, 'c) timer"
  m_timers :: "addr list"
  m_tickled :: bool
  m_previouseTime :: u64

datatype timer_error = EraseEnd

definition next_of :: "(addr \<rightharpoonup> ('w, 'c) timer) \<Rightarrow> addr \<Rightarrow> u64" where
  "next_of h p = (case h p of Some t \<Rightarrow> m_next t | None \<Rightarrow> 0)"

definition Comparator ::
  "(addr \<rightharpoonup> ('w, 'c) timer) \<Rightarrow> addr option \<Rightarrow> addr option \<Rightarrow> bool" where
  "Comparator h lhs rhs =
     (case (lhs, rhs) of
        (None, None) \<Rightarrow> False
      | (None, Some _) \<Rightarrow> True
      | (Some _, None) \<Rightarrow> False
      | (Some l, Some r) \<Rightarrow>
          if next_of h l < next_of h r then True
          else if next_of h r < next_of h l then False
          else l < r)"

text \<open>The order of the non-null pointers, which is all the set ever holds.\<close>

abbreviation before :: "(addr \<rightharpoonup> ('w, 'c) timer) \<Rightarrow> addr \<Rightarrow> addr \<Rightarrow> bool" where
  "before h l r \<equiv> Comparator h (Some l) (Some r)"

subsection \<open>Timers and the manager\<close>

definition new_Timer :: "u64 \<Rightarrow> u64 \<Rightarrow> ('w, 'c) callback \<Rightarrow> bool \<Rightarrow> ('w, 'c) timer" where
  "new_Timer now ms cb recurring =
     \<lparr>m_recurring = recurring, m_ms = ms, m_next = now + ms, m_cb = Some cb\<rparr>"

text \<open>The private constructor \<open>Timer(uint64_t next)\<close>.\<close>

definition next_Timer :: "u64 \<Rightarrow> ('w, 'c) timer" where
  "next_Timer nxt = \<lparr>m_recurring = False, m_ms = 0, m_next = nxt, m_cb = None\<rparr>"

definition TimerManager :: "u64 \<Rightarrow> ('w, 'c) timer_manager" where
  "TimerManager now = \<lparr>store = Map.empty, m_timers = [], m_tickled = False, m_previouseTime = now\<rparr>"

text \<open>
  The protected \<open>addTimer(val, lock)\<close>; the flag says whether
  \<open>onTimerInsertedAtFront\<close> is called.
\<close>

definition addTimer_locked ::
  "addr \<Rightarrow> ('w, 'c) timer_manager \<Rightarrow> bool \<times> ('w, 'c) timer_manager" where
  "addTimer_locked val tm =
     (let ts = set_insert (before (store tm)) val (m_timers tm);
          at_front = (hd ts = val \<and> \<not> m_tickled tm)
      in (at_front, tm\<lparr>m_timers := ts, m_tickled := (if at_front then True else m_tickled tm)\<rparr>))"

definition addTimer ::
  "u64 \<Rightarrow> addr \<Rightarrow> u64 \<Rightarrow> ('w, 'c) callback \<Rightarrow> bool \<Rightarrow> ('w, 'c) timer_manager
   \<Rightarrow> bool \<times> ('w, 'c) timer_manager" where
  "addTimer now a ms cb recurring tm =
     addTimer_locked a (tm\<lparr>store := (store tm)(a \<mapsto> new_Timer now ms cb recurring)\<rparr>)"

text \<open>\<open>OnTimer\<close>: which function is called, given which weak pointers can still be locked.\<close>

definition OnTimer :: "('w \<Rightarrow> bool) \<Rightarrow> 'w \<Rightarrow> 'c \<Rightarrow> 'c list" where
  "OnTimer alive weak_cond cb = (if alive weak_cond then [cb] else [])"

fun run_callback :: "('w \<Rightarrow> bool) \<Rightarrow> ('w, 'c) callback \<Rightarrow> 'c list" where
  "run_callback alive (Fn cb) = [cb]"
| "run_callback alive (Bound w cb) = OnTimer alive w cb"

definition addConditionTimer ::
  "u64 \<Rightarrow> addr \<Rightarrow> u64 \<Rightarrow> 'c \<Rightarrow> 'w \<Rightarrow> bool \<Rightarrow> ('w, 'c) timer_manager
   \<Rightarrow> bool \<times> ('w, 'c) timer_manager" where
  "addConditionTimer now a ms cb weak_cond recurring tm = addTimer now a ms (Bound weak_cond cb) recurring tm"

definition cancel ::
  "addr \<Rightarrow> ('w, 'c) timer_manager \<Rightarrow> timer_error + bool \<times> ('w, 'c) timer_manager" where
  "cancel p tm =
     (case store tm p of None \<Rightarrow> Inr (False, tm)
      | Some t \<Rightarrow>
          if m_cb t \<noteq> None then
            let h = (store tm)(p \<mapsto> t\<lparr>m_cb := None\<rparr>)
            in case set_find (before h) p (m_timers tm) of
                 None \<Rightarrow> Inl EraseEnd
               | Some q \<Rightarrow> Inr (True, tm\<lparr>store := h, m_timers := set_erase (before h) q (m_timers tm)\<rparr>)
          else Inr (False, tm))"

definition refresh :: "u64 \<Rightarrow> addr \<Rightarrow> ('w, 'c) timer_manager \<Rightarrow> bool \<times> ('w, 'c) timer_manager" where
  "refresh now p tm =
     (case store tm p of None \<Rightarrow> (False, tm)
      | Some t \<Rightarrow>
          if m_cb t = None then (False, tm)
          else case set_find (before (store tm)) p (m_timers tm) of
                 None \<Rightarrow> (False, tm)
               | Some q \<Rightarrow>
                   let ts = set_erase (before (store tm)) q (m_timers tm);
                       h = (store tm)(p \<mapsto> t\<lparr>m_next := now + m_ms t\<rparr>)
                   in (True, tm\<lparr>store := h, m_timers := set_insert (before h) p ts\<rparr>))"

text \<open>\<open>reset\<close>: its result, and whether \<open>onTimerInsertedAtFront\<close> is called.\<close>

definition reset ::
  "u64 \<Rightarrow> addr \<Rightarrow> u64 \<Rightarrow> bool \<Rightarrow> ('w, 'c) timer_manager
   \<Rightarrow> bool \<times> bool \<times> ('w, 'c) timer_manager" where
  "reset now p ms from_now tm =
     (case store tm p of None \<Rightarrow> (False, False, tm)
      | Some t \<Rightarrow>
          if ms = m_ms t \<and> \<not> from_now then (True, False, tm)
          else if m_cb t = None then (False, False, tm)
          else case set_find (before (store tm)) p (m_timers tm) of
                 None \<Rightarrow> (False, False, tm)
               | Some q \<Rightarrow>
                   let ts = set_erase (before (store tm)) q (m_timers tm);
                       start = (if from_now then now else m_next t - m_ms t);
                       h = (store tm)(p \<mapsto> t\<lparr>m_ms := ms, m_next := start + ms\<rparr>)
                   in Pair True (addTimer_locked p (tm\<lparr>store := h, m_timers := ts\<rparr>)))"

definition hasTimer :: "('w, 'c) timer_manager \<Rightarrow> bool" where
  "hasTimer tm \<longleftrightarrow> m_timers tm \<noteq> []"

definition getNextTimer :: "u64 \<Rightarrow> ('w, 'c) timer_manager \<Rightarrow> u64 \<times> ('w, 'c) timer_manager" where
  "getNextTimer now_ms tm =
     (let tm = tm\<lparr>m_tickled := False\<rparr>
      in case m_timers tm of [] \<Rightarrow> (- 1, tm)
         | nxt # _ \<Rightarrow>
             if now_ms > next_of (store tm) nxt then (0, tm)
             else (next_of (store tm) nxt - now_ms, tm))"

definition detectClockRollover ::
  "u64 \<Rightarrow> ('w, 'c) timer_manager \<Rightarrow> bool \<times> ('w, 'c) timer_manager" where
  "detectClockRollover now_ms tm =
     (now_ms < m_previouseTime tm \<and> now_ms < m_previouseTime tm - 60 * 60 * 1000,
      tm\<lparr>m_previouseTime := now_ms\<rparr>)"

text \<open>The loop over the expired timers at the end of \<open>listExpiredCb\<close>.\<close>

fun fire ::
  "u64 \<Rightarrow> addr list \<Rightarrow> ('w, 'c) timer_manager
   \<Rightarrow> ('w, 'c) callback option list \<times> ('w, 'c) timer_manager" where
  "fire now_ms [] tm = ([], tm)"
| "fire now_ms (p # ps) tm =
     (case store tm p of None \<Rightarrow> fire now_ms ps tm
      | Some t \<Rightarrow>
          let tm' =
            (if m_recurring t then
               let h = (store tm)(p \<mapsto> t\<lparr>m_next := now_ms + m_ms t\<rparr>)
               in tm\<lparr>store := h, m_timers := set_insert (before h) p (m_timers tm)\<rparr>
             else tm\<lparr>store := (store tm)(p \<mapsto> t\<lparr>m_cb := None\<rparr>)\<rparr>);
            (cbs, tm'') = fire now_ms ps tm'
          in (m_cb t # cbs, tm''))"

text \<open>
  \<open>listExpiredCb\<close>: \<open>a\<close> is the address of the temporary \<open>now_timer\<close>.  The range
  erased is everything before \<open>it\<close>, given as a count.
\<close>

definition listExpiredCb ::
  "u64 \<Rightarrow> addr \<Rightarrow> ('w, 'c) timer_manager
   \<Rightarrow> ('w, 'c) callback option list \<times> ('w, 'c) timer_manager" where
  "listExpiredCb now_ms a tm =
     (if m_timers tm = [] then ([], tm)
      else let (rollover, tm) = detectClockRollover now_ms tm;
               ts = m_timers tm
           in if \<not> rollover \<and> next_of (store tm) (hd ts) > now_ms then ([], tm)
              else let n = (if rollover then length ts
                            else lower_bound (before ((store tm)(a \<mapsto> next_Timer now_ms))) a ts);
                       it = n + length (takeWhile (\<lambda>p. next_of (store tm) p = now_ms) (drop n ts))
                   in fire now_ms (take it ts) (tm\<lparr>m_timers := drop it ts\<rparr>))"

subsection \<open>The order\<close>

lemma before_iff:
  "before h l r \<longleftrightarrow> next_of h l < next_of h r \<or> next_of h l = next_of h r \<and> l < r"
  by (auto simp: Comparator_def)

interpretation timer_order: total_order "before h" for h
  by unfold_locales (auto simp: before_iff)

lemma next_of_upd: "next_of (h(p \<mapsto> t)) q = (if q = p then m_next t else next_of h q)"
  by (simp add: next_of_def)

lemma sorted_before_cong:
  "(\<And>p. p \<in> set ts \<Longrightarrow> next_of h p = next_of h' p) \<Longrightarrow>
   sorted_wrt (before h) ts = sorted_wrt (before h') ts"
  by (induction ts) (auto simp: before_iff)

lemma sorted_before_upd:
  "p \<notin> set ts \<Longrightarrow> sorted_wrt (before (h(p \<mapsto> t))) ts = sorted_wrt (before h) ts"
  by (rule sorted_before_cong) (auto simp: next_of_upd)

lemma sorted_before_upd_cb:
  "h p = Some t \<Longrightarrow> sorted_wrt (before (h(p \<mapsto> t\<lparr>m_cb := c\<rparr>))) ts = sorted_wrt (before h) ts"
  by (rule sorted_before_cong) (auto simp: next_of_def)

subsection \<open>The invariant\<close>

text \<open>
  The set is sorted by the comparator, and holds exactly the timers whose
  callback is set.
\<close>

definition armed :: "(addr \<rightharpoonup> ('w, 'c) timer) \<Rightarrow> addr \<Rightarrow> bool" where
  "armed h p \<longleftrightarrow> (\<exists>t. h p = Some t \<and> m_cb t \<noteq> None)"

definition tm_inv :: "('w, 'c) timer_manager \<Rightarrow> bool" where
  "tm_inv tm \<longleftrightarrow>
     sorted_wrt (before (store tm)) (m_timers tm) \<and> (\<forall>p. p \<in> set (m_timers tm) \<longleftrightarrow> armed (store tm) p)"

text \<open>The abstract view: the pending timers.\<close>

definition pending :: "('w, 'c) timer_manager \<Rightarrow> addr \<rightharpoonup> ('w, 'c) timer" where
  "pending tm p = (if p \<in> set (m_timers tm) then store tm p else None)"

lemma armed_upd: "armed (h(p \<mapsto> t)) q \<longleftrightarrow> (if q = p then m_cb t \<noteq> None else armed h q)"
  by (simp add: armed_def)

lemma tm_invD:
  assumes "tm_inv tm"
  shows "sorted_wrt (before (store tm)) (m_timers tm)" and "p \<in> set (m_timers tm) \<longleftrightarrow> armed (store tm) p"
  using assms by (simp_all add: tm_inv_def)

lemma TimerManager_inv: "tm_inv (TimerManager now)"
  by (simp add: tm_inv_def TimerManager_def armed_def)

text \<open>Inserting a timer that is not in the set, with any new contents.\<close>

lemma insert_inv:
  assumes "tm_inv tm" and "p \<notin> set ts" and "sorted_wrt (before (store tm)) ts" and "m_cb t \<noteq> None"
    and "insert p (set ts) = insert p (set (m_timers tm))"
  shows "tm_inv (tm\<lparr>store := (store tm)(p \<mapsto> t),
           m_timers := set_insert (before ((store tm)(p \<mapsto> t))) p ts,
           m_tickled := b\<rparr>)"
  unfolding tm_inv_def
proof (intro conjI allI)
  let ?h = "(store tm)(p \<mapsto> t)"
  have "sorted_wrt (before ?h) ts" using assms(2,3) by (simp add: sorted_before_upd)
  then show "sorted_wrt (before (store (tm\<lparr>store := ?h, m_timers := set_insert (before ?h) p ts, m_tickled := b\<rparr>)))
      (m_timers (tm\<lparr>store := ?h, m_timers := set_insert (before ?h) p ts, m_tickled := b\<rparr>))"
    by (simp add: timer_order.sorted_set_insert)
  fix q
  have "q \<in> insert p (set ts) \<longleftrightarrow> (if q = p then True else armed (store tm) q)"
    unfolding assms(5) using tm_invD(2) [OF assms(1), of q] by simp
  then show "(q \<in> set (m_timers (tm\<lparr>store := ?h, m_timers := set_insert (before ?h) p ts, m_tickled := b\<rparr>))) =
      armed (store (tm\<lparr>store := ?h, m_timers := set_insert (before ?h) p ts, m_tickled := b\<rparr>)) q"
    using assms(4) by (simp add: armed_upd)
qed

lemma addTimer_spec:
  assumes "tm_inv tm" and "store tm a = None"
  shows "tm_inv (snd (addTimer now a ms cb recurring tm))"
    and "pending (snd (addTimer now a ms cb recurring tm)) = (pending tm)(a \<mapsto> new_Timer now ms cb recurring)"
proof -
  have a: "a \<notin> set (m_timers tm)" using tm_invD(2) [OF assms(1)] assms(2) by (simp add: armed_def)
  show "tm_inv (snd (addTimer now a ms cb recurring tm))"
    unfolding addTimer_def addTimer_locked_def Let_def
    using insert_inv [OF assms(1) a tm_invD(1) [OF assms(1)], of "new_Timer now ms cb recurring"]
    by (simp add: new_Timer_def)
  show "pending (snd (addTimer now a ms cb recurring tm)) = (pending tm)(a \<mapsto> new_Timer now ms cb recurring)"
    using a by (auto simp: pending_def addTimer_def addTimer_locked_def Let_def)
qed

lemma cancel_spec:
  assumes "tm_inv tm"
  shows "\<exists>tm'. cancel p tm = Inr (p \<in> dom (pending tm), tm') \<and> tm_inv tm' \<and>
           pending tm' = (pending tm)(p := None)"
proof (cases "armed (store tm) p")
  case True
  then obtain t where t: "store tm p = Some t" "m_cb t \<noteq> None" by (auto simp: armed_def)
  let ?h = "(store tm)(p \<mapsto> t\<lparr>m_cb := None\<rparr>)"
  let ?tm = "tm\<lparr>store := ?h, m_timers := filter (\<lambda>q. q \<noteq> p) (m_timers tm)\<rparr>"
  have p: "p \<in> set (m_timers tm)" using True tm_invD(2) [OF assms] by simp
  have s: "sorted_wrt (before ?h) (m_timers tm)"
    using tm_invD(1) [OF assms] t(1) by (simp add: sorted_before_upd_cb)
  then have "cancel p tm = Inr (True, ?tm)"
    using t p by (auto simp: cancel_def Let_def timer_order.set_find_mem timer_order.set_erase_removes)
  moreover have "p \<in> dom (pending tm)" using p t by (simp add: pending_def dom_def)
  moreover have "tm_inv ?tm"
    using s tm_invD(2) [OF assms] by (simp add: tm_inv_def armed_upd sorted_wrt_filter)
  moreover have "pending ?tm = (pending tm)(p := None)" by (auto simp: pending_def)
  ultimately show ?thesis by simp
next
  case False
  then have "pending tm p = None" using tm_invD(2) [OF assms] by (simp add: pending_def)
  moreover have "cancel p tm = Inr (False, tm)"
    using False by (auto simp: cancel_def armed_def split: option.split)
  ultimately show ?thesis using assms by (auto simp: dom_def)
qed

text \<open>Rescheduling a pending timer: it is taken out, changed and put back.\<close>

lemma reinsert_spec:
  assumes inv: "tm_inv tm" and t: "store tm p = Some t" and p: "p \<in> set (m_timers tm)"
    and cb: "m_cb t' = m_cb t"
  defines "h \<equiv> (store tm)(p \<mapsto> t')"
    and "ts \<equiv> filter (\<lambda>q. q \<noteq> p) (m_timers tm)"
  shows "tm_inv (tm\<lparr>store := h, m_timers := set_insert (before h) p ts, m_tickled := b\<rparr>)"
    and "pending (tm\<lparr>store := h, m_timers := set_insert (before h) p ts, m_tickled := b\<rparr>) = (pending tm)(p \<mapsto> t')"
proof -
  have "m_cb t' \<noteq> None" using tm_invD(2) [OF inv] p t cb by (auto simp: armed_def)
  moreover have "sorted_wrt (before (store tm)) ts"
    using tm_invD(1) [OF inv] by (simp add: ts_def sorted_wrt_filter)
  ultimately show "tm_inv (tm\<lparr>store := h, m_timers := set_insert (before h) p ts, m_tickled := b\<rparr>)"
    unfolding h_def by (intro insert_inv [OF inv]) (auto simp: ts_def)
  show "pending (tm\<lparr>store := h, m_timers := set_insert (before h) p ts, m_tickled := b\<rparr>) = (pending tm)(p \<mapsto> t')"
    by (auto simp: pending_def h_def ts_def)
qed

lemma not_armed_pending: "tm_inv tm \<Longrightarrow> pending tm p = None \<longleftrightarrow> \<not> armed (store tm) p"
  using tm_invD(2) [of tm p] by (auto simp: pending_def armed_def)

lemma armed_find:
  "tm_inv tm \<Longrightarrow> armed (store tm) p \<Longrightarrow>
   p \<in> set (m_timers tm) \<and> set_find (before (store tm)) p (m_timers tm) = Some p \<and>
   set_erase (before (store tm)) p (m_timers tm) = filter (\<lambda>q. q \<noteq> p) (m_timers tm)"
  using tm_invD [of tm] by (simp add: timer_order.set_find_mem timer_order.set_erase_removes)

lemma refresh_spec:
  assumes inv: "tm_inv tm"
  shows "fst (refresh now p tm) = (p \<in> dom (pending tm)) \<and> tm_inv (snd (refresh now p tm)) \<and>
         pending (snd (refresh now p tm)) =
           (case pending tm p of None \<Rightarrow> pending tm
            | Some t \<Rightarrow> (pending tm)(p \<mapsto> t\<lparr>m_next := now + m_ms t\<rparr>))"
proof (cases "armed (store tm) p")
  case True
  then obtain t where t: "store tm p = Some t" "m_cb t \<noteq> None" by (auto simp: armed_def)
  note f = armed_find [OF inv True]
  have pd: "pending tm p = Some t" using f t by (simp add: pending_def)
  show ?thesis
    using reinsert_spec [OF inv t(1), of "t\<lparr>m_next := now + m_ms t\<rparr>" "m_tickled tm"] f t pd
    by (simp add: refresh_def Let_def domI)
next
  case False
  then have "refresh now p tm = (False, tm)"
    by (auto simp: refresh_def armed_def split: option.split)
  moreover have "pending tm p = None" using False not_armed_pending [OF inv] by simp
  ultimately show ?thesis using inv by (simp add: domIff)
qed

lemma reset_spec:
  assumes inv: "tm_inv tm" and pd: "pending tm p = Some t" and ch: "\<not> (ms = m_ms t \<and> \<not> from_now)"
  shows "\<exists>tickle tm'. reset now p ms from_now tm = (True, tickle, tm') \<and> tm_inv tm' \<and>
           pending tm' = (pending tm)(p \<mapsto> t\<lparr>m_ms := ms,
             m_next := (if from_now then now else m_next t - m_ms t) + ms\<rparr>)"
proof -
  have t: "store tm p = Some t" and p: "p \<in> set (m_timers tm)"
    using pd by (auto simp: pending_def split: if_splits)
  then have a: "armed (store tm) p" and cb: "m_cb t \<noteq> None"
    using tm_invD(2) [OF inv, of p] by (auto simp: armed_def)
  define t' where "t' = t\<lparr>m_ms := ms, m_next := (if from_now then now else m_next t - m_ms t) + ms\<rparr>"
  define h where "h = (store tm)(p \<mapsto> t')"
  define ts where "ts = filter (\<lambda>q. q \<noteq> p) (m_timers tm)"
  have "reset now p ms from_now tm = (True, addTimer_locked p (tm\<lparr>store := h, m_timers := ts\<rparr>))"
    unfolding reset_def t option.case if_not_P [OF ch] if_not_P [OF cb]
    using armed_find [OF inv a] by (simp add: Let_def h_def ts_def t'_def)
  moreover have "m_cb t' = m_cb t" by (simp add: t'_def)
  note reinsert_spec [OF inv t p this, folded h_def ts_def]
  ultimately show ?thesis by (simp add: addTimer_locked_def Let_def t'_def)
qed

lemma reset_unchanged:
  assumes inv: "tm_inv tm"
    and "pending tm p = None \<or> (\<exists>t. pending tm p = Some t \<and> ms = m_ms t \<and> \<not> from_now)"
  shows "snd (snd (reset now p ms from_now tm)) = tm"
proof (cases "pending tm p")
  case None
  then have "\<not> armed (store tm) p" using not_armed_pending [OF inv] by simp
  then show ?thesis by (auto simp: reset_def armed_def split: option.split)
next
  case (Some t)
  then have "store tm p = Some t" by (simp add: pending_def split: if_splits)
  then show ?thesis using assms(2) Some by (simp add: reset_def)
qed

subsection \<open>Expiry\<close>

text \<open>What happens to an expired timer.\<close>

definition fired :: "u64 \<Rightarrow> ('w, 'c) timer \<Rightarrow> ('w, 'c) timer" where
  "fired now t = (if m_recurring t then t\<lparr>m_next := now + m_ms t\<rparr> else t\<lparr>m_cb := None\<rparr>)"

lemma fire_spec:
  assumes "sorted_wrt (before (store tm)) (m_timers tm)" and "distinct ps"
    and "set ps \<inter> set (m_timers tm) = {}" and "\<And>p. p \<in> set ps \<Longrightarrow> armed (store tm) p"
  shows "\<exists>tm'. fire now ps tm = (map (\<lambda>p. m_cb (the (store tm p))) ps, tm') \<and>
           store tm' = (\<lambda>p. if p \<in> set ps then map_option (fired now) (store tm p) else store tm p) \<and>
           set (m_timers tm') = set (m_timers tm) \<union> {p \<in> set ps. m_recurring (the (store tm p))} \<and>
           sorted_wrt (before (store tm')) (m_timers tm') \<and>
           m_tickled tm' = m_tickled tm \<and> m_previouseTime tm' = m_previouseTime tm"
  using assms
proof (induction ps arbitrary: tm)
  case Nil
  then show ?case by simp
next
  case (Cons p ps)
  obtain t where t: "store tm p = Some t" using Cons.prems(4) by (auto simp: armed_def)
  have np: "p \<notin> set (m_timers tm)" "p \<notin> set ps" using Cons.prems(2,3) by auto
  define h where "h = (store tm)(p \<mapsto> fired now t)"
  define tm1 where "tm1 = (if m_recurring t
      then tm\<lparr>store := h, m_timers := set_insert (before h) p (m_timers tm)\<rparr> else tm\<lparr>store := h\<rparr>)"
  have st: "store tm1 = h" and ts: "set (m_timers tm1) = set (m_timers tm) \<union> (if m_recurring t then {p} else {})"
    by (auto simp: tm1_def)
  have "sorted_wrt (before h) (m_timers tm)"
    using Cons.prems(1) np(1) by (simp add: h_def sorted_before_upd)
  then have sorted: "sorted_wrt (before (store tm1)) (m_timers tm1)"
    by (simp add: tm1_def timer_order.sorted_set_insert)
  have hq: "store tm1 q = store tm q" if "q \<noteq> p" for q using that by (simp add: st h_def)
  have same: "q \<in> set ps \<Longrightarrow> store tm1 q = store tm q" for q using hq np(2) by metis
  have disj: "set ps \<inter> set (m_timers tm1) = {}" using Cons.prems(3) np(2) ts by auto
  have arm: "armed (store tm1) q" if "q \<in> set ps" for q
    using Cons.prems(4) [of q] that same [OF that] by (simp add: armed_def)
  have dist: "distinct ps" using Cons.prems(2) by simp
  obtain tm' where f: "fire now ps tm1 = (map (\<lambda>p. m_cb (the (store tm1 p))) ps, tm')"
    and s': "store tm' = (\<lambda>p. if p \<in> set ps then map_option (fired now) (store tm1 p) else store tm1 p)"
    and t': "set (m_timers tm') = set (m_timers tm1) \<union> {p \<in> set ps. m_recurring (the (store tm1 p))}"
    and r': "sorted_wrt (before (store tm')) (m_timers tm')" "m_tickled tm' = m_tickled tm1"
      "m_previouseTime tm' = m_previouseTime tm1"
    using Cons.IH [OF sorted dist disj arm] by blast
  have "fire now (p # ps) tm = (let (cbs, tm'') = fire now ps tm1 in (m_cb t # cbs, tm''))"
    by (simp add: t tm1_def h_def fired_def Let_def)
  moreover have "map (\<lambda>p. m_cb (the (store tm1 p))) ps = map (\<lambda>p. m_cb (the (store tm p))) ps"
    by (rule map_cong [OF refl]) (simp add: same)
  ultimately have fire: "fire now (p # ps) tm = (map (\<lambda>p. m_cb (the (store tm p))) (p # ps), tm')"
    using f t by simp
  have store: "store tm' = (\<lambda>q. if q \<in> set (p # ps) then map_option (fired now) (store tm q) else store tm q)"
  proof
    fix q
    show "store tm' q = (if q \<in> set (p # ps) then map_option (fired now) (store tm q) else store tm q)"
      unfolding s' using np(2) t by (cases "q = p") (simp_all add: st h_def)
  qed
  have rec: "{q \<in> set ps. m_recurring (the (store tm1 q))} = {q \<in> set ps. m_recurring (the (store tm q))}"
    by (rule Collect_cong) (metis same)
  have "{q \<in> set (p # ps). m_recurring (the (store tm q))} =
      (if m_recurring t then {p} else {}) \<union> {q \<in> set ps. m_recurring (the (store tm q))}"
    using t by auto
  then have timers: "set (m_timers tm') = set (m_timers tm) \<union> {q \<in> set (p # ps). m_recurring (the (store tm q))}"
    unfolding t' ts rec by (simp only: Un_assoc)
  have flags: "m_tickled tm' = m_tickled tm" "m_previouseTime tm' = m_previouseTime tm"
    unfolding r' by (simp_all add: tm1_def)
  show ?case by (intro exI [of _ tm'] conjI fire store timers r'(1) flags)
qed

text \<open>
  The two walks of \<open>listExpiredCb\<close> (\<open>lower_bound\<close>, then the loop over equal
  times) end after the last timer that is due.
\<close>

lemma takeWhile_eq_filter_le:
  assumes "sorted (map f xs)" and "\<And>x. x \<in> set xs \<Longrightarrow> (c :: 'a :: linorder) \<le> f x"
  shows "takeWhile (\<lambda>x. f x = c) xs = filter (\<lambda>x. f x \<le> c) xs"
  using assms
proof (induction xs)
  case (Cons x xs)
  show ?case
  proof (cases "f x = c")
    case True
    then show ?thesis using Cons by simp
  next
    case False
    then have "c < f x" using Cons.prems(2) [of x] by simp
    then have "filter (\<lambda>x. f x \<le> c) xs = []"
      using Cons.prems(1) by (auto simp: filter_empty_conv not_le intro: order_less_le_trans)
    then show ?thesis using \<open>c < f x\<close> False by simp
  qed
qed simp

lemma due_prefix:
  assumes "sorted (map f xs)" and "\<And>x. P x \<Longrightarrow> f x \<le> (c :: 'a :: linorder)" and "\<And>x. f x < c \<Longrightarrow> P x"
  defines "n \<equiv> length (takeWhile P xs)"
  shows "take (n + length (takeWhile (\<lambda>x. f x = c) (drop n xs))) xs = filter (\<lambda>x. f x \<le> c) xs"
  using assms(1) unfolding n_def
proof (induction xs)
  case (Cons x xs)
  show ?case
  proof (cases "P x")
    case True
    then show ?thesis using Cons assms(2) by simp
  next
    case False
    then have ge: "c \<le> f x" using assms(3) by (meson linorder_not_less)
    then have "\<And>y. y \<in> set (x # xs) \<Longrightarrow> c \<le> f y" using Cons.prems by auto
    from takeWhile_eq_filter_le [OF Cons.prems this] show ?thesis
      using False by (metis add_0 drop0 list.size(3) takeWhile.simps(2) takeWhile_eq_take)
  qed
qed simp

lemma take_filter_drop:
  assumes "distinct xs" and "take n xs = filter P xs"
  shows "set (drop n xs) = {x \<in> set xs. \<not> P x}"
proof -
  have "set xs = set (filter P xs) \<union> set (drop n xs)" using assms(2) by (metis append_take_drop_id set_append)
  moreover have "set (take n xs) \<inter> set (drop n xs) = {}"
    using assms(1) by (metis append_take_drop_id distinct_append)
  ultimately show ?thesis using assms(2) by auto
qed

lemma sorted_next:
  assumes "sorted_wrt (before h) ts"
  shows "sorted (map (next_of h) ts)"
  using assms by (auto simp: sorted_wrt_map before_iff intro: sorted_wrt_mono_rel [rotated])

text \<open>The timers due at \<open>now\<close>, in the order of the set; all of them after a clock rollover.\<close>

definition due :: "u64 \<Rightarrow> ('w, 'c) timer_manager \<Rightarrow> addr list" where
  "due now tm = (if fst (detectClockRollover now tm) then m_timers tm
                 else filter (\<lambda>p. next_of (store tm) p \<le> now) (m_timers tm))"

definition expire :: "bool \<Rightarrow> u64 \<Rightarrow> ('w, 'c) timer \<Rightarrow> ('w, 'c) timer option" where
  "expire rollover now t =
     (if rollover \<or> m_next t \<le> now
      then if m_recurring t then Some (t\<lparr>m_next := now + m_ms t\<rparr>) else None
      else Some t)"

lemma due_range:
  assumes inv: "tm_inv tm" and a: "store tm a = None" and roll: "\<not> fst (detectClockRollover now tm)"
  defines "n \<equiv> lower_bound (before ((store tm)(a \<mapsto> next_Timer now))) a (m_timers tm)"
  shows "take (n + length (takeWhile (\<lambda>p. next_of (store tm) p = now) (drop n (m_timers tm)))) (m_timers tm) =
         due now tm"
proof -
  let ?h = "(store tm)(a \<mapsto> next_Timer now)"
  let ?P = "\<lambda>y. next_of (store tm) y < now \<or> next_of (store tm) y = now \<and> y < a"
  have "a \<notin> set (m_timers tm)" using tm_invD(2) [OF inv] a by (simp add: armed_def)
  then have "takeWhile (\<lambda>y. before ?h y a) (m_timers tm) = takeWhile ?P (m_timers tm)"
    by (intro takeWhile_cong refl) (auto simp: before_iff next_of_upd next_Timer_def)
  then have "n = length (takeWhile ?P (m_timers tm))" by (simp add: n_def lower_bound_def)
  moreover have "\<And>y. ?P y \<Longrightarrow> next_of (store tm) y \<le> now" by auto
  moreover have "\<And>y. next_of (store tm) y < now \<Longrightarrow> ?P y" by simp
  ultimately show ?thesis
    using due_prefix [OF sorted_next [OF tm_invD(1) [OF inv]], of ?P now] roll by (simp add: due_def)
qed

lemma fire_due:
  assumes inv: "tm_inv tm" and k: "take k (m_timers tm) = due now tm"
  shows "\<exists>tm'. fire now (take k (m_timers tm)) (tm\<lparr>m_previouseTime := b, m_timers := drop k (m_timers tm)\<rparr>) =
             (map (\<lambda>p. m_cb (the (pending tm p))) (due now tm), tm') \<and> tm_inv tm' \<and>
           (\<forall>p. pending tm' p =
             Option.bind (pending tm p) (expire (fst (detectClockRollover now tm)) now)) \<and>
           m_previouseTime tm' = b"
proof -
  let ?r = "fst (detectClockRollover now tm)" and ?ts = "m_timers tm"
  let ?D = "\<lambda>p. ?r \<or> next_of (store tm) p \<le> now"
  let ?tm = "tm\<lparr>m_previouseTime := b, m_timers := drop k ?ts\<rparr>"
  have s: "sorted_wrt (before (store tm)) ?ts" and d: "distinct ?ts"
    using tm_invD(1) [OF inv] timer_order.sorted_distinct by blast+
  have due: "due now tm = filter ?D ?ts" by (simp add: due_def)
  have drop: "set (drop k ?ts) = {p \<in> set ?ts. \<not> ?D p}"
    by (rule take_filter_drop [OF d]) (simp only: k due)
  have 1: "sorted_wrt (before (store ?tm)) (m_timers ?tm)" using s by (simp add: sorted_wrt_drop)
  have 2: "distinct (due now tm)" using d by (simp add: due)
  have 3: "set (due now tm) \<inter> set (m_timers ?tm) = {}" using drop due by auto
  have 4: "armed (store ?tm) p" if "p \<in> set (due now tm)" for p
    using that tm_invD(2) [OF inv, of p] due by simp
  obtain tm' where f: "fire now (due now tm) ?tm = (map (\<lambda>p. m_cb (the (store ?tm p))) (due now tm), tm')"
    and st: "store tm' = (\<lambda>p. if p \<in> set (due now tm) then map_option (fired now) (store ?tm p) else store ?tm p)"
    and ts: "set (m_timers tm') = set (m_timers ?tm) \<union> {p \<in> set (due now tm). m_recurring (the (store ?tm p))}"
    and so: "sorted_wrt (before (store tm')) (m_timers tm')" and pr: "m_previouseTime tm' = m_previouseTime ?tm"
    using fire_spec [OF 1 2 3 4] by blast
  have pend: "pending tm p = Some t \<Longrightarrow> store tm p = Some t \<and> p \<in> set ?ts \<and> next_of (store tm) p = m_next t" for p t
    by (auto simp: pending_def next_of_def split: if_splits)
  have mem: "p \<in> set (m_timers tm') \<longleftrightarrow>
      p \<in> set ?ts \<and> (?D p \<longrightarrow> m_recurring (the (store tm p)))" for p
    unfolding ts using drop by (auto simp: due)
  have "tm_inv tm'"
    unfolding tm_inv_def
  proof (intro conjI so allI)
    fix p
    show "p \<in> set (m_timers tm') \<longleftrightarrow> armed (store tm') p"
    proof (cases "armed (store tm) p")
      case True
      then obtain t where "store tm p = Some t" "m_cb t \<noteq> None" by (auto simp: armed_def)
      then show ?thesis
        using True tm_invD(2) [OF inv, of p]
        by (cases "?D p"; cases "m_recurring t") (simp_all add: mem armed_def st due fired_def)
    next
      case False
      then have "p \<notin> set ?ts" using tm_invD(2) [OF inv, of p] by simp
      then show ?thesis using False by (simp add: mem armed_def st due)
    qed
  qed
  moreover have "pending tm' p = Option.bind (pending tm p) (expire ?r now)" for p
  proof (cases "pending tm p")
    case None
    then have "p \<notin> set ?ts" using not_armed_pending [OF inv] tm_invD(2) [OF inv, of p] by simp
    then show ?thesis using None mem [of p] by (simp add: pending_def)
  next
    case (Some t)
    then show ?thesis
      using pend [OF Some] mem [of p] by (simp add: pending_def st due expire_def fired_def)
  qed
  moreover have cbs: "map (\<lambda>p. m_cb (the (store ?tm p))) (due now tm) = map (\<lambda>p. m_cb (the (pending tm p))) (due now tm)"
    by (rule map_cong) (auto simp: due pending_def)
  ultimately show ?thesis
    unfolding k by (intro exI [of _ tm'] conjI allI) (simp_all only: f cbs, simp add: pr)
qed

lemma rollover_fields [simp]:
  "store (snd (detectClockRollover now tm)) = store tm"
  "m_timers (snd (detectClockRollover now tm)) = m_timers tm"
  by (simp_all add: detectClockRollover_def)

lemma previouse_inv [simp]:
  "tm_inv (tm\<lparr>m_previouseTime := b\<rparr>) = tm_inv tm" "pending (tm\<lparr>m_previouseTime := b\<rparr>) = pending tm"
  "tm_inv (tm\<lparr>m_tickled := c\<rparr>) = tm_inv tm" "pending (tm\<lparr>m_tickled := c\<rparr>) = pending tm"
  by (simp_all add: tm_inv_def pending_def fun_eq_iff)

lemma next_of_pending: "pending tm p = Some t \<Longrightarrow> p \<in> set (m_timers tm) \<and> next_of (store tm) p = m_next t"
  by (auto simp: pending_def next_of_def split: if_splits)

lemma hd_next_least:
  assumes "tm_inv tm" and "p \<in> set (m_timers tm)"
  shows "next_of (store tm) (hd (m_timers tm)) \<le> next_of (store tm) p"
  using timer_order.hd_least [OF tm_invD(1) [OF assms(1)] assms(2)] by (auto simp: before_iff)

lemma listExpiredCb_spec:
  assumes inv: "tm_inv tm" and a: "store tm a = None"
  shows "\<exists>tm'. listExpiredCb now a tm = (map (\<lambda>p. m_cb (the (pending tm p))) (due now tm), tm') \<and>
           tm_inv tm' \<and>
           (\<forall>p. pending tm' p = Option.bind (pending tm p) (expire (fst (detectClockRollover now tm)) now))"
proof -
  define r where "r = fst (detectClockRollover now tm)"
  let ?tm = "tm\<lparr>m_previouseTime := now\<rparr>"
  let ?ts = "m_timers tm"
  let ?n = "if r then length ?ts
            else lower_bound (before ((store tm)(a \<mapsto> next_Timer now))) a ?ts"
  let ?it = "?n + length (takeWhile (\<lambda>p. next_of (store tm) p = now) (drop ?n ?ts))"
  have roll: "detectClockRollover now tm = (r, ?tm)" by (simp add: r_def detectClockRollover_def)
  have due: "due now tm = (if r then ?ts else filter (\<lambda>p. next_of (store tm) p \<le> now) ?ts)"
    by (simp add: due_def r_def)
  consider (empty) "?ts = []"
    | (early) "?ts \<noteq> []" "\<not> r" "now < next_of (store tm) (hd ?ts)"
    | (fire) "?ts \<noteq> []" "r \<or> \<not> now < next_of (store tm) (hd ?ts)" by blast
  then show ?thesis
  proof cases
    case empty
    then show ?thesis using inv by (simp add: listExpiredCb_def due pending_def)
  next
    case early
    have late: "now < next_of (store tm) p" if "p \<in> set ?ts" for p
      using hd_next_least [OF inv that] early(3) by simp
    then have "due now tm = []" using early(2) by (auto simp: due filter_empty_conv not_le)
    moreover have "Option.bind (pending tm p) (expire r now) = pending tm p" for p
    proof (cases "pending tm p")
      case (Some t)
      then have "now < m_next t" using next_of_pending [OF Some] late [of p] by simp
      then show ?thesis using Some early(2) by (simp add: expire_def not_le)
    qed simp
    moreover have "listExpiredCb now a tm = ([], ?tm)"
      using early by (simp add: listExpiredCb_def roll)
    ultimately show ?thesis using inv by (simp add: r_def [symmetric])
  next
    case fire
    have "take ?it ?ts = due now tm"
      using due_range [OF inv a, of now] unfolding r_def [symmetric] by (cases r) (simp_all add: due)
    from fire_due [OF inv this, of now]
    obtain tm' where f: "fire now (take ?it ?ts) (tm\<lparr>m_previouseTime := now, m_timers := drop ?it ?ts\<rparr>) =
        (map (\<lambda>p. m_cb (the (pending tm p))) (due now tm), tm')" and "tm_inv tm'"
      and "\<forall>p. pending tm' p = Option.bind (pending tm p) (expire r now)"
      unfolding r_def by blast
    have "listExpiredCb now a tm = fire now (take ?it ?ts) (tm\<lparr>m_previouseTime := now, m_timers := drop ?it ?ts\<rparr>)"
      unfolding listExpiredCb_def roll using fire by (auto simp: Let_def)
    then show ?thesis
      using f \<open>tm_inv tm'\<close> \<open>\<forall>p. pending tm' p = Option.bind (pending tm p) (expire r now)\<close>
      unfolding r_def by metis
  qed
qed

subsection \<open>Properties\<close>

text \<open>One call on a manager; a new timer has an address not in use.\<close>

inductive timer_step :: "('w, 'c) timer_manager \<Rightarrow> ('w, 'c) timer_manager \<Rightarrow> bool" where
  add: "store tm a = None \<Longrightarrow> timer_step tm (snd (addTimer now a ms cb recurring tm))"
| add_condition: "store tm a = None \<Longrightarrow> timer_step tm (snd (addConditionTimer now a ms f w recurring tm))"
| cancel: "cancel p tm = Inr (b, tm') \<Longrightarrow> timer_step tm tm'"
| refresh: "timer_step tm (snd (refresh now p tm))"
| reset: "timer_step tm (snd (snd (reset now p ms from_now tm)))"
| next_timer: "timer_step tm (snd (getNextTimer now tm))"
| expired: "store tm a = None \<Longrightarrow> timer_step tm (snd (listExpiredCb now a tm))"

lemma reset_inv:
  assumes "tm_inv tm" shows "tm_inv (snd (snd (reset now p ms from_now tm)))"
proof (cases "pending tm p")
  case None
  then show ?thesis using reset_unchanged [OF assms] assms by simp
next
  case (Some t)
  show ?thesis
  proof (cases "ms = m_ms t \<and> \<not> from_now")
    case True
    then have "snd (snd (reset now p ms from_now tm)) = tm" using reset_unchanged [OF assms] Some by blast
    then show ?thesis using assms by simp
  next
    case False
    then show ?thesis using reset_spec [OF assms Some False, of now] by auto
  qed
qed

lemma getNextTimer_state: "snd (getNextTimer now tm) = tm\<lparr>m_tickled := False\<rparr>"
  by (simp add: getNextTimer_def Let_def split: list.split)

lemma timer_step_inv: "timer_step tm tm' \<Longrightarrow> tm_inv tm \<Longrightarrow> tm_inv tm'"
proof (induction rule: timer_step.induct)
  case (cancel p tm b tm')
  then show ?case using cancel_spec [OF cancel.prems, of p] by auto
next
  case (expired tm a now)
  then show ?case using listExpiredCb_spec [OF expired.prems expired.hyps, of now] by auto
next
  case (refresh tm now p)
  then show ?case using refresh_spec by blast
qed (simp_all add: addTimer_spec addConditionTimer_def reset_inv getNextTimer_state)

lemma getNextTimer_spec:
  assumes inv: "tm_inv tm" and t: "pending tm p = Some t"
  obtains q u where "pending tm q = Some u"
    and "fst (getNextTimer now tm) = (if now > m_next u then 0 else m_next u - now)"
    and "\<And>p t. pending tm p = Some t \<Longrightarrow> m_next u \<le> m_next t"
proof -
  let ?q = "hd (m_timers tm)"
  have ne: "m_timers tm \<noteq> []" using next_of_pending [OF t] by auto
  then have q: "?q \<in> set (m_timers tm)" by simp
  then obtain u where u: "store tm ?q = Some u" using tm_invD(2) [OF inv] by (auto simp: armed_def)
  then have p: "pending tm ?q = Some u" and n: "next_of (store tm) ?q = m_next u"
    using q by (simp_all add: pending_def next_of_def)
  have "fst (getNextTimer now tm) = (if now > m_next u then 0 else m_next u - now)"
    using ne n by (cases "m_timers tm") (simp_all add: getNextTimer_def Let_def)
  moreover have "m_next u \<le> m_next t" if "pending tm p = Some t" for p t
    using hd_next_least [OF inv, of p] next_of_pending [OF that] n by simp
  ultimately show thesis using p that by blast
qed

text \<open>
  C13: any sequence of calls on a fresh manager keeps the set sorted by the
  comparator and holding exactly the timers with a callback.  So \<open>cancel\<close> always
  finds what it erases, and answers whether the timer was pending.
\<close>

theorem timers_reachable:
  assumes "timer_step\<^sup>*\<^sup>* (TimerManager start) tm"
  shows "sorted_wrt (before (store tm)) (m_timers tm) \<and>
         (\<forall>p. p \<in> set (m_timers tm) \<longleftrightarrow> armed (store tm) p) \<and>
         (\<forall>p. \<exists>tm'. cancel p tm = Inr (armed (store tm) p, tm') \<and> pending tm' = (pending tm)(p := None))"
proof -
  have inv: "tm_inv tm"
    using assms by (induction rule: rtranclp_induct) (auto simp: TimerManager_inv timer_step_inv)
  have "p \<in> dom (pending tm) \<longleftrightarrow> armed (store tm) p" for p
    using not_armed_pending [OF inv, of p] by (auto simp: domIff)
  then have "\<exists>tm'. cancel p tm = Inr (armed (store tm) p, tm') \<and> pending tm' = (pending tm)(p := None)" for p
    using cancel_spec [OF inv, of p] by auto
  then show ?thesis using tm_invD [OF inv] by blast
qed

definition demo_timers :: "(nat, nat) timer_manager" where
  "demo_timers = snd (addTimer 100 7 50 (Fn 1) True (TimerManager 100))"

lemma demo_timers_store:
  "store demo_timers = [7 \<mapsto> new_Timer 100 50 (Fn 1) True]" "m_timers demo_timers = [7]"
  "m_previouseTime demo_timers = 100"
  by (simp_all add: demo_timers_def addTimer_def addTimer_locked_def TimerManager_def Let_def)

lemma timers_reachable_witness:
  "\<exists>tm'. cancel 7 demo_timers = Inr (True, tm') \<and> pending tm' = (pending demo_timers)(7 := None)"
proof -
  have "timer_step (TimerManager 100) demo_timers"
    unfolding demo_timers_def by (rule timer_step.add) (simp add: TimerManager_def)
  then have "timer_step\<^sup>*\<^sup>* (TimerManager 100) demo_timers" by (rule r_into_rtranclp)
  from timers_reachable [OF this] show ?thesis
    by (auto simp: demo_timers_store armed_def new_Timer_def dest: spec [of _ 7])
qed

lemma demo_timers_inv: "tm_inv demo_timers"
  by (auto simp: tm_inv_def demo_timers_store armed_def new_Timer_def)

text \<open>
  C4: \<open>listExpiredCb\<close> takes exactly the timers that are due (all of them after a
  clock rollover), hands out their callbacks in the order of their times,
  reschedules the recurring ones from now, drops the others and leaves every
  timer that is not due alone.  The address of its temporary timer does not matter.
\<close>

theorem expiry_exact:
  fixes now :: u64
  assumes "tm_inv tm" and "store tm a = None"
  defines "rollover \<equiv> fst (detectClockRollover now tm)"
  shows "\<exists>tm'. listExpiredCb now a tm = (map (\<lambda>p. m_cb (the (pending tm p))) (due now tm), tm') \<and>
           tm_inv tm' \<and> sorted (map (next_of (store tm)) (due now tm)) \<and>
           set (due now tm) = {p. \<exists>t. pending tm p = Some t \<and> (rollover \<or> m_next t \<le> now)} \<and>
           (\<forall>p. pending tm' p =
             (case pending tm p of None \<Rightarrow> None
              | Some t \<Rightarrow>
                  if rollover \<or> m_next t \<le> now
                  then if m_recurring t then Some (t\<lparr>m_next := now + m_ms t\<rparr>) else None
                  else Some t))"
proof -
  have "sorted (map (next_of (store tm)) (due now tm))"
    using sorted_next [OF tm_invD(1) [OF assms(1)]] by (simp add: due_def sorted_filter)
  moreover have "p \<in> set (due now tm) \<longleftrightarrow>
      (\<exists>t. pending tm p = Some t \<and> (rollover \<or> m_next t \<le> now))" for p
  proof (cases "pending tm p")
    case None
    then show ?thesis
      using not_armed_pending [OF assms(1), of p] tm_invD(2) [OF assms(1), of p] by (auto simp: due_def)
  next
    case (Some t)
    then show ?thesis using next_of_pending [OF Some] by (auto simp: due_def rollover_def)
  qed
  moreover have "Option.bind (pending tm p) (expire rollover now) =
      (case pending tm p of None \<Rightarrow> None
       | Some t \<Rightarrow> if rollover \<or> m_next t \<le> now
           then if m_recurring t then Some (t\<lparr>m_next := now + m_ms t\<rparr>) else None else Some t)" for p
    by (cases "pending tm p") (simp_all add: expire_def)
  ultimately show ?thesis
    using listExpiredCb_spec [OF assms(1,2), of now] unfolding rollover_def [symmetric] by auto
qed

lemma expiry_exact_witness:
  "\<exists>tm'. listExpiredCb 150 8 demo_timers = ([Some (Fn 1)], tm') \<and> tm_inv tm' \<and>
     map_option m_next (pending tm' 7) = Some 200"
proof -
  have "store demo_timers 8 = None" "due 150 demo_timers = [7]" "\<not> fst (detectClockRollover 150 demo_timers)"
    "pending demo_timers 7 = Some (new_Timer 100 50 (Fn 1) True)"
    by (simp_all add: demo_timers_store due_def detectClockRollover_def next_of_def new_Timer_def pending_def)
  then show ?thesis
    using expiry_exact [OF demo_timers_inv, of 8 150] by (auto simp: new_Timer_def dest: spec [of _ 7])
qed

text \<open>
  C22: the delay \<open>getNextTimer\<close> gives is the right one to sleep: waking after it
  at least one timer is due, and waking before it (no clock rollover in between)
  none is.  Without a pending timer it is the largest number.
\<close>

theorem next_timer_exact:
  assumes "tm_inv tm" and "fst (getNextTimer now tm) = d" and "\<not> fst (detectClockRollover later tm)"
  shows "(m_timers tm = [] \<longrightarrow> d = - 1) \<and>
         (m_timers tm \<noteq> [] \<and> unat now + unat d \<le> unat later \<longrightarrow> due later tm \<noteq> []) \<and>
         (m_timers tm \<noteq> [] \<and> now \<le> later \<and> unat later < unat now + unat d \<longrightarrow> due later tm = [])"
proof (cases "m_timers tm")
  case Nil
  then show ?thesis using assms(2) by (auto simp: getNextTimer_def)
next
  case (Cons p ps)
  then have "p \<in> set (m_timers tm)" by simp
  then obtain t where "pending tm p = Some t"
    using tm_invD(2) [OF assms(1), of p] by (auto simp: armed_def pending_def)
  then obtain q u where q: "pending tm q = Some u"
    and d: "d = (if now > m_next u then 0 else m_next u - now)"
    and least: "\<And>p t. pending tm p = Some t \<Longrightarrow> m_next u \<le> m_next t"
    using getNextTimer_spec [OF assms(1), of p t now] assms(2) by metis
  have ud: "unat d = (if now > m_next u then 0 else unat (m_next u) - unat now)"
    using d by (auto simp: unat_sub not_less)
  have due: "due later tm = filter (\<lambda>p. next_of (store tm) p \<le> later) (m_timers tm)"
    using assms(3) by (simp add: due_def)
  have "due later tm \<noteq> []" if "unat now + unat d \<le> unat later"
  proof -
    have "m_next u \<le> later" using that ud by (auto simp: word_le_nat_alt word_less_nat_alt split: if_splits)
    then have "q \<in> set (due later tm)" using next_of_pending [OF q] by (simp add: due)
    then show ?thesis by auto
  qed
  moreover have "due later tm = []" if "now \<le> later" "unat later < unat now + unat d"
  proof -
    have "later < m_next u"
      using that ud by (auto simp: word_le_nat_alt word_less_nat_alt split: if_splits)
    moreover have "m_next u \<le> next_of (store tm) p" if mem: "p \<in> set (m_timers tm)" for p
    proof -
      obtain t where "pending tm p = Some t"
        using mem tm_invD(2) [OF assms(1), of p] by (auto simp: armed_def pending_def)
      then show ?thesis using least next_of_pending by metis
    qed
    ultimately show ?thesis by (auto simp: due filter_empty_conv not_le intro: order_less_le_trans)
  qed
  ultimately show ?thesis using Cons by simp
qed

lemma next_timer_exact_witness:
  "fst (getNextTimer 110 demo_timers) = 40 \<and> due 149 demo_timers = [] \<and> due 150 demo_timers \<noteq> []"
proof -
  have d: "fst (getNextTimer 110 demo_timers) = 40"
    by (simp add: getNextTimer_def demo_timers_store next_of_def new_Timer_def)
  have "\<not> fst (detectClockRollover 149 demo_timers)" "\<not> fst (detectClockRollover 150 demo_timers)"
    by (simp_all add: detectClockRollover_def demo_timers_store)
  then show ?thesis
    using next_timer_exact [OF demo_timers_inv d, of 149] next_timer_exact [OF demo_timers_inv d, of 150] d
    by (simp add: demo_timers_store)
qed

text \<open>
  C23: \<open>addTimer\<close>, \<open>refresh\<close> and \<open>reset\<close> are what they say on the map of pending
  timers: one entry is added or rescheduled (from now, or from where the current
  period began), every other timer is untouched.
\<close>

theorem timer_ops_refine:
  assumes "tm_inv tm" and "pending tm p = Some t" and "store tm a = None"
  shows "pending (snd (addTimer now a ms cb rec tm)) = (pending tm)(a \<mapsto> new_Timer now ms cb rec) \<and>
         fst (refresh now p tm) \<and>
         pending (snd (refresh now p tm)) = (pending tm)(p \<mapsto> t\<lparr>m_next := now + m_ms t\<rparr>) \<and>
         fst (reset now p ms from_now tm) \<and>
         pending (snd (snd (reset now p ms from_now tm))) =
           (pending tm)(p \<mapsto> (if ms = m_ms t \<and> \<not> from_now then t
              else t\<lparr>m_ms := ms, m_next := (if from_now then now else m_next t - m_ms t) + ms\<rparr>))"
proof -
  have "fst (reset now p ms from_now tm) \<and>
         pending (snd (snd (reset now p ms from_now tm))) =
           (pending tm)(p \<mapsto> (if ms = m_ms t \<and> \<not> from_now then t
              else t\<lparr>m_ms := ms, m_next := (if from_now then now else m_next t - m_ms t) + ms\<rparr>))"
  proof (cases "ms = m_ms t \<and> \<not> from_now")
    case True
    have "store tm p = Some t" using assms(2) by (simp add: pending_def split: if_splits)
    then have "reset now p ms from_now tm = (True, False, tm)"
      using True by (simp add: reset_def)
    then show ?thesis using True assms(2) by (simp add: fun_upd_idem)
  next
    case False
    then show ?thesis using reset_spec [OF assms(1,2) False, of now] by auto
  qed
  then show ?thesis
    using addTimer_spec(2) [OF assms(1,3)] refresh_spec [OF assms(1), of now p] assms(2)
    by (simp add: domI)
qed

lemma timer_ops_refine_witness:
  "map_option m_next (pending (snd (refresh 130 7 demo_timers)) 7) = Some 180 \<and>
   map_option m_next (pending (snd (snd (reset 130 7 20 False demo_timers))) 7) = Some 120"
proof -
  have "pending demo_timers 7 = Some (new_Timer 100 50 (Fn 1) True)" "store demo_timers 8 = None"
    by (simp_all add: demo_timers_store pending_def)
  from timer_ops_refine [OF demo_timers_inv this, of 130 20 "Fn 2" True False] show ?thesis
    by (simp add: new_Timer_def)
qed

end
