(* ===== verification/IOManager.thy ===== *)
theory IOManager
  imports Scheduler Timer
begin

text \<open>
  The I/O manager (src/skt/iomanager): a scheduler and a timer manager whose idle
  fiber waits in \<open>epoll_wait\<close>.  The schedulers of the process are numbered; a
  pointer to one is a number, and each has the pipe that \<open>tickle\<close> writes to (the
  bytes in it are counted).  \<open>epoll_ctl\<close> is an argument, a function from operation,
  descriptor and event mask to its result; the events \<open>epoll_wait\<close> reports, the
  running fiber and the clock are arguments too.  The event masks are 32-bit words.
\<close>

datatype io_error = IOAssert | NullScheduler | BadIndex

abbreviation (input) NONE :: u32 where "NONE \<equiv> 0"
abbreviation (input) READ :: u32 where "READ \<equiv> 1"
abbreviation (input) WRITE :: u32 where "WRITE \<equiv> 4"
abbreviation (input) EPOLLIN :: u32 where "EPOLLIN \<equiv> 1"
abbreviation (input) EPOLLOUT :: u32 where "EPOLLOUT \<equiv> 4"
abbreviation (input) EPOLLERR :: u32 where "EPOLLERR \<equiv> 8"
abbreviation (input) EPOLLHUP :: u32 where "EPOLLHUP \<equiv> 16"
abbreviation (input) EPOLLET :: u32 where "EPOLLET \<equiv> 0x80000000"

datatype epoll_op = EPOLL_CTL_ADD | EPOLL_CTL_DEL | EPOLL_CTL_MOD

type_synonym epoll_ctl = "epoll_op \<Rightarrow> int \<Rightarrow> u32 \<Rightarrow> int"

record 'k EventContext =
  ec_scheduler :: "nat option"
  ec_fiber :: "faddr option"
  ec_cb :: "'k option"

record 'k FdContext =
  fc_fd :: nat
  fc_read :: "'k EventContext"
  fc_write :: "'k EventContext"
  fc_events :: u32

record 'k iomanager =
  schedulers :: "nat \<Rightarrow> 'k scheduler"
  pipes :: "nat \<Rightarrow> nat"
  m_pendingEventCount :: nat
  m_fdContexts :: "'k FdContext list"

definition no_ctx :: "'k EventContext" where
  "no_ctx = \<lparr>ec_scheduler = None, ec_fiber = None, ec_cb = None\<rparr>"

definition new_FdContext :: "nat \<Rightarrow> 'k FdContext" where
  "new_FdContext i = \<lparr>fc_fd = i, fc_read = no_ctx, fc_write = no_ctx, fc_events = NONE\<rparr>"

subsection \<open>Contexts\<close>

definition getContext :: "u32 \<Rightarrow> 'k FdContext \<Rightarrow> io_error + 'k EventContext" where
  "getContext event c =
     (if event = READ then Inr (fc_read c) else if event = WRITE then Inr (fc_write c) else Inl IOAssert)"

definition setContext :: "u32 \<Rightarrow> 'k EventContext \<Rightarrow> 'k FdContext \<Rightarrow> 'k FdContext" where
  "setContext event x c = (if event = READ then c\<lparr>fc_read := x\<rparr> else c\<lparr>fc_write := x\<rparr>)"

definition resetContext :: "u32 \<Rightarrow> 'k FdContext \<Rightarrow> 'k FdContext" where
  "resetContext event c = setContext event no_ctx c"

text \<open>\<open>tickle\<close> of the scheduler numbered \<open>i\<close>.\<close>

definition tickle :: "nat \<Rightarrow> 'k iomanager \<Rightarrow> 'k iomanager" where
  "tickle i io =
     (if \<not> hasIdleThreads (schedulers io i) then io
      else io\<lparr>pipes := (pipes io)(i := pipes io i + 1)\<rparr>)"

definition schedule_on :: "nat \<Rightarrow> 'k task \<Rightarrow> 'k iomanager \<Rightarrow> 'k iomanager" where
  "schedule_on i ft io =
     (let (need_tickle, s) = schedule ft (schedulers io i);
          io = io\<lparr>schedulers := (schedulers io)(i := s)\<rparr>
      in if need_tickle then tickle i io else io)"

text \<open>
  \<open>triggerEvent\<close>: \<open>schedule\<close> takes the callback or the fiber by swapping it out of the
  context, which is thereby left empty.
\<close>

definition triggerEvent :: "u32 \<Rightarrow> 'k FdContext \<Rightarrow> 'k iomanager \<Rightarrow> io_error + 'k FdContext \<times> 'k iomanager" where
  "triggerEvent event c io =
     (if fc_events c AND event = 0 then Inl IOAssert
      else let c = c\<lparr>fc_events := fc_events c AND NOT event\<rparr>
           in and_then (getContext event c) (\<lambda>ctx.
                case ec_scheduler ctx of
                  None \<Rightarrow> Inl NullScheduler
                | Some i \<Rightarrow>
                    if ec_cb ctx \<noteq> None then
                      Inr (setContext event (ctx\<lparr>ec_cb := None, ec_scheduler := None\<rparr>) c,
                           schedule_on i (FiberAndThread_cb (ec_cb ctx) (- 1)) io)
                    else
                      Inr (setContext event (ctx\<lparr>ec_fiber := None, ec_scheduler := None\<rparr>) c,
                           schedule_on i (FiberAndThread_fiber (ec_fiber ctx) (- 1)) io)))"

definition contextResize :: "nat \<Rightarrow> 'k FdContext list \<Rightarrow> 'k FdContext list" where
  "contextResize n cs = take n cs @ map new_FdContext [length cs..<n]"

definition new_IOManager :: "(nat \<Rightarrow> 'k scheduler) \<Rightarrow> (nat \<Rightarrow> nat) \<Rightarrow> 'k iomanager" where
  "new_IOManager ss ps =
     \<lparr>schedulers = ss, pipes = ps, m_pendingEventCount = 0, m_fdContexts = contextResize 32 []\<rparr>"

definition put_ctx :: "int \<Rightarrow> 'k FdContext \<Rightarrow> 'k iomanager \<Rightarrow> 'k iomanager" where
  "put_ctx fd c io = io\<lparr>m_fdContexts := (m_fdContexts io)[nat fd := c]\<rparr>"

subsection \<open>Events\<close>

text \<open>
  \<open>addEvent\<close>: \<open>this\<close> is the scheduler of the calling thread, \<open>cur\<close> its running fiber
  and \<open>st\<close> the state of that fiber.  A negative descriptor indexes out of the vector.
\<close>

definition addEvent ::
  "epoll_ctl \<Rightarrow> nat option \<Rightarrow> faddr \<Rightarrow> State \<Rightarrow> int \<Rightarrow> u32 \<Rightarrow> 'k option \<Rightarrow> 'k iomanager
   \<Rightarrow> io_error + int \<times> 'k iomanager" where
  "addEvent epoll_ctl this cur st fd event cb io =
     (let io = (if int (length (m_fdContexts io)) > fd then io
                else io\<lparr>m_fdContexts := contextResize (nat (fd * 3 div 2)) (m_fdContexts io)\<rparr>)
      in if fd < 0 \<or> int (length (m_fdContexts io)) \<le> fd then Inl BadIndex
         else let c = m_fdContexts io ! nat fd;
                  op = (if fc_events c \<noteq> 0 then EPOLL_CTL_MOD else EPOLL_CTL_ADD)
              in if fc_events c AND event \<noteq> 0 then Inl IOAssert
                 else if epoll_ctl op fd (EPOLLET OR fc_events c OR event) \<noteq> 0 then Inr (- 1, io)
                 else let io = io\<lparr>m_pendingEventCount := m_pendingEventCount io + 1\<rparr>;
                          c = c\<lparr>fc_events := fc_events c OR event\<rparr>
                      in and_then (getContext event c) (\<lambda>ctx.
                           if ctx \<noteq> no_ctx then Inl IOAssert
                           else if cb = None \<and> st \<noteq> EXEC then Inl IOAssert
                           else let ctx = \<lparr>ec_scheduler = this,
                                           ec_fiber = (if cb = None then Some cur else None), ec_cb = cb\<rparr>
                                in Inr (0, put_ctx fd (setContext event ctx c) io)))"

definition delEvent ::
  "epoll_ctl \<Rightarrow> int \<Rightarrow> u32 \<Rightarrow> 'k iomanager \<Rightarrow> io_error + bool \<times> 'k iomanager" where
  "delEvent epoll_ctl fd event io =
     (if int (length (m_fdContexts io)) \<le> fd then Inr (False, io)
      else if fd < 0 then Inl BadIndex
      else let c = m_fdContexts io ! nat fd;
               new_events = fc_events c AND NOT event;
               op = (if new_events \<noteq> 0 then EPOLL_CTL_MOD else EPOLL_CTL_DEL)
           in if fc_events c AND event = 0 then Inr (False, io)
              else if epoll_ctl op fd (EPOLLET OR new_events) \<noteq> 0 then Inr (False, io)
              else let io = io\<lparr>m_pendingEventCount := dec (m_pendingEventCount io)\<rparr>;
                       c = c\<lparr>fc_events := new_events\<rparr>
                   in and_then (getContext event c) (\<lambda>ctx.
                        Inr (True, put_ctx fd (resetContext event c) io)))"

definition cancelEvent ::
  "epoll_ctl \<Rightarrow> int \<Rightarrow> u32 \<Rightarrow> 'k iomanager \<Rightarrow> io_error + bool \<times> 'k iomanager" where
  "cancelEvent epoll_ctl fd event io =
     (if int (length (m_fdContexts io)) \<le> fd then Inr (False, io)
      else if fd < 0 then Inl BadIndex
      else let c = m_fdContexts io ! nat fd;
               new_events = fc_events c AND NOT event;
               op = (if new_events \<noteq> 0 then EPOLL_CTL_MOD else EPOLL_CTL_DEL)
           in if fc_events c AND event = 0 then Inr (False, io)
              else if epoll_ctl op fd (EPOLLET OR new_events) \<noteq> 0 then Inr (False, io)
              else and_then (triggerEvent event c io) (\<lambda>(c, io).
                     Inr (True, put_ctx fd c (io\<lparr>m_pendingEventCount := dec (m_pendingEventCount io)\<rparr>))))"

text \<open>The pair of statements that \<open>cancelAll\<close> and \<open>idle\<close> have for each event of a mask.\<close>

definition trigger_if ::
  "u32 \<Rightarrow> u32 \<Rightarrow> 'k FdContext \<times> 'k iomanager \<Rightarrow> io_error + 'k FdContext \<times> 'k iomanager" where
  "trigger_if evs event cio =
     (case cio of (c, io) \<Rightarrow>
        if evs AND event = 0 then Inr (c, io)
        else and_then (triggerEvent event c io) (\<lambda>(c, io).
               Inr (c, io\<lparr>m_pendingEventCount := dec (m_pendingEventCount io)\<rparr>)))"

definition cancelAll :: "epoll_ctl \<Rightarrow> int \<Rightarrow> 'k iomanager \<Rightarrow> io_error + bool \<times> 'k iomanager" where
  "cancelAll epoll_ctl fd io =
     (if int (length (m_fdContexts io)) \<le> fd then Inr (False, io)
      else if fd < 0 then Inl BadIndex
      else let c = m_fdContexts io ! nat fd
           in if fc_events c = 0 then Inr (False, io)
              else if epoll_ctl EPOLL_CTL_DEL fd 0 \<noteq> 0 then Inr (False, io)
              else and_then (trigger_if (fc_events c) READ (c, io)) (\<lambda>(c, io).
                   and_then (trigger_if (fc_events c) WRITE (c, io)) (\<lambda>(c, io).
                     if fc_events c \<noteq> 0 then Inl IOAssert else Inr (True, put_ctx fd c io))))"

subsection \<open>Waiting\<close>

text \<open>\<open>stopping(timeout)\<close> of the manager numbered \<open>self\<close> with timers \<open>tm\<close>.\<close>

definition IOManager_stopping ::
  "nat \<Rightarrow> u64 \<Rightarrow> 'k iomanager \<Rightarrow> ('w, 'c) timer_manager \<Rightarrow> bool \<times> u64 \<times> ('w, 'c) timer_manager" where
  "IOManager_stopping self now io tm =
     (let (timeout, tm) = getNextTimer now tm
      in (timeout = - 1 \<and> m_pendingEventCount io = 0 \<and> stopping (schedulers io self), timeout, tm))"

text \<open>The time given to \<open>epoll_wait\<close>, with the conversions of \<open>uint64_t\<close> to \<open>int\<close>.\<close>

definition to_int :: "u64 \<Rightarrow> int" where
  "to_int x = sint (ucast x :: u32)"

definition wait_time :: "u64 \<Rightarrow> int" where
  "wait_time next_timeout =
     to_int (if next_timeout \<noteq> - 1
             then (if to_int next_timeout > 3000 then 3000 else next_timeout) else 3000)"

text \<open>What an event of \<open>epoll_wait\<close> belongs to: the pipe, or the context of a descriptor.\<close>

datatype target = Pipe | Ctx nat

definition real_events :: "u32 \<Rightarrow> u32" where
  "real_events evs =
     (let evs = (if evs AND (EPOLLERR OR EPOLLHUP) \<noteq> 0 then evs OR (EPOLLIN OR EPOLLOUT) else evs)
      in (if evs AND EPOLLIN \<noteq> 0 then READ else 0) OR (if evs AND EPOLLOUT \<noteq> 0 then WRITE else 0))"

definition handle_event ::
  "epoll_ctl \<Rightarrow> nat \<Rightarrow> target \<times> u32 \<Rightarrow> 'k iomanager \<Rightarrow> io_error + 'k iomanager" where
  "handle_event epoll_ctl self ev io =
     (case ev of
        (Pipe, evs) \<Rightarrow> Inr (io\<lparr>pipes := (pipes io)(self := 0)\<rparr>)
      | (Ctx fd, evs) \<Rightarrow>
          if length (m_fdContexts io) \<le> fd then Inl BadIndex
          else let c = m_fdContexts io ! fd;
                   real = real_events evs;
                   left_events = fc_events c AND NOT real;
                   op = (if left_events \<noteq> 0 then EPOLL_CTL_MOD else EPOLL_CTL_DEL)
               in if fc_events c AND real = NONE then Inr io
                  else if epoll_ctl op (int (fc_fd c)) (EPOLLET OR left_events) \<noteq> 0 then Inr io
                  else and_then (trigger_if real READ (c, io)) (\<lambda>(c, io).
                       and_then (trigger_if real WRITE (c, io)) (\<lambda>(c, io).
                         Inr (put_ctx (int fd) c io))))"

fun handle_events ::
  "epoll_ctl \<Rightarrow> nat \<Rightarrow> (target \<times> u32) list \<Rightarrow> 'k iomanager \<Rightarrow> io_error + 'k iomanager" where
  "handle_events epoll_ctl self [] io = Inr io"
| "handle_events epoll_ctl self (ev # evs) io =
     and_then (handle_event epoll_ctl self ev io) (\<lambda>io. handle_events epoll_ctl self evs io)"

text \<open>
  One turn of the loop of \<open>idle\<close>: \<open>now\<close> is the time before and \<open>later\<close> after the wait,
  \<open>events\<close> what \<open>epoll_wait\<close> reported, \<open>a\<close> the address of the temporary timer of
  \<open>listExpiredCb\<close>.  The outcome says whether the loop ends or the fiber yields.
\<close>

definition IOManager_idle ::
  "epoll_ctl \<Rightarrow> nat \<Rightarrow> u64 \<Rightarrow> u64 \<Rightarrow> addr \<Rightarrow> (target \<times> u32) list
   \<Rightarrow> ('w, 'c) callback iomanager \<times> ('w, 'c) timer_manager
   \<Rightarrow> io_error + outcome \<times> ('w, 'c) callback iomanager \<times> ('w, 'c) timer_manager" where
  "IOManager_idle epoll_ctl self now later a events iotm =
     (case iotm of (io, tm) \<Rightarrow>
        case IOManager_stopping self now io tm of (stopped, next_timeout, tm) \<Rightarrow>
          if stopped then Inr (Returns, io, tm)
          else case listExpiredCb later a tm of (cbs, tm) \<Rightarrow>
            let (need, s) = schedule_range (map (\<lambda>cb. FiberAndThread_cb cb (- 1)) cbs) False (schedulers io self);
                io = io\<lparr>schedulers := (schedulers io)(self := s)\<rparr>;
                io = (if need then tickle self io else io)
            in and_then (handle_events epoll_ctl self events io) (\<lambda>io. Inr (YieldsHold, io, tm)))"

subsection \<open>The waiters\<close>

definition slot_ok :: "u32 \<Rightarrow> 'k FdContext \<Rightarrow> bool" where
  "slot_ok event c \<longleftrightarrow>
     (case getContext event c of Inl e \<Rightarrow> False
      | Inr ctx \<Rightarrow> if fc_events c AND event = 0 then ctx = no_ctx
                  else ec_scheduler ctx \<noteq> None \<and> (ec_cb ctx = None) = (ec_fiber ctx \<noteq> None))"

definition ctx_ok :: "'k FdContext \<Rightarrow> bool" where
  "ctx_ok c \<longleftrightarrow> fc_events c \<in> {0, 1, 4, 5} \<and> slot_ok READ c \<and> slot_ok WRITE c"

definition registered :: "'k FdContext \<Rightarrow> nat" where
  "registered c = of_bool (fc_events c AND READ \<noteq> 0) + of_bool (fc_events c AND WRITE \<noteq> 0)"

definition io_inv :: "'k iomanager \<Rightarrow> bool" where
  "io_inv io \<longleftrightarrow>
     32 \<le> length (m_fdContexts io) \<and>
     (\<forall>i < length (m_fdContexts io). fc_fd (m_fdContexts io ! i) = i) \<and>
     (\<forall>c \<in> set (m_fdContexts io). ctx_ok c) \<and>
     m_pendingEventCount io = sum_list (map registered (m_fdContexts io))"

text \<open>Who waits for an event of a descriptor, and the task that wakes it up.\<close>

definition waiting :: "'k iomanager \<Rightarrow> nat \<Rightarrow> u32 \<Rightarrow> 'k EventContext option" where
  "waiting io fd event =
     (if fd < length (m_fdContexts io) \<and> fc_events (m_fdContexts io ! fd) AND event \<noteq> 0
      then (case getContext event (m_fdContexts io ! fd) of Inl e \<Rightarrow> None | Inr ctx \<Rightarrow> Some ctx)
      else None)"

definition wake :: "'k EventContext \<Rightarrow> 'k task" where
  "wake ctx = (if ec_cb ctx \<noteq> None then FiberAndThread_cb (ec_cb ctx) (- 1)
               else FiberAndThread_fiber (ec_fiber ctx) (- 1))"

lemma events_enum:
  assumes "(e::u32) \<in> {0, 1, 4, 5}" and "event \<in> {1, 4}"
  shows "e AND NOT event \<in> {0, 1, 4, 5}" "e OR event \<in> {0, 1, 4, 5}" "(e AND NOT event) AND event = 0"
    "(e OR event) AND event \<noteq> 0"
    "event' \<in> {1, 4} \<Longrightarrow> event' \<noteq> event \<Longrightarrow> (e AND NOT event) AND event' = e AND event'"
    "event' \<in> {1, 4} \<Longrightarrow> event' \<noteq> event \<Longrightarrow> (e OR event) AND event' = e AND event'"
  using assms by auto

definition cleared :: "u32 \<Rightarrow> 'k FdContext \<Rightarrow> 'k FdContext" where
  "cleared event c = setContext event no_ctx (c\<lparr>fc_events := fc_events c AND NOT event\<rparr>)"

definition occupied :: "u32 \<Rightarrow> 'k EventContext \<Rightarrow> 'k FdContext \<Rightarrow> 'k FdContext" where
  "occupied event ctx c = setContext event ctx (c\<lparr>fc_events := fc_events c OR event\<rparr>)"

abbreviation queue :: "'k iomanager \<Rightarrow> nat \<Rightarrow> 'k task list" where
  "queue io i \<equiv> m_fibers (schedulers io i)"

lemma cleared_ok:
  assumes "ctx_ok c" and "event \<in> {1, 4}" and "fc_events c AND event \<noteq> 0"
  shows "ctx_ok (cleared event c)" "registered (cleared event c) + 1 = registered c"
    "fc_fd (cleared event c) = fc_fd c"
  using assms
  by (auto simp: ctx_ok_def cleared_def slot_ok_def getContext_def setContext_def registered_def)

lemma occupied_ok:
  assumes "ctx_ok c" and "event \<in> {1, 4}" and "fc_events c AND event = 0"
    and "ec_scheduler ctx \<noteq> None" and "(ec_cb ctx = None) = (ec_fiber ctx \<noteq> None)"
  shows "ctx_ok (occupied event ctx c)" "registered (occupied event ctx c) = registered c + 1"
    "fc_fd (occupied event ctx c) = fc_fd c"
  using assms
  by (auto simp: ctx_ok_def occupied_def slot_ok_def getContext_def setContext_def registered_def)

lemma ctx_ok_registered:
  assumes "ctx_ok c" and "event \<in> {1, 4}" and "fc_events c AND event \<noteq> 0"
  obtains ctx i where "getContext event c = Inr ctx" "ec_scheduler ctx = Some i"
    "(ec_cb ctx = None) = (ec_fiber ctx \<noteq> None)" "ft_fiber (wake ctx) \<noteq> None \<or> ft_cb (wake ctx) \<noteq> None"
  using assms
  by (auto simp: ctx_ok_def slot_ok_def getContext_def wake_def FiberAndThread_cb_def
      FiberAndThread_fiber_def)

lemma triggerEvent_ok:
  assumes "ctx_ok c" and "event \<in> {1, 4}" and "fc_events c AND event \<noteq> 0"
    and "getContext event c = Inr ctx" and "ec_scheduler ctx = Some i"
  shows "triggerEvent event c io = Inr (cleared event c, schedule_on i (wake ctx) io)"
proof -
  have "(ec_cb ctx = None) = (ec_fiber ctx \<noteq> None)"
    by (rule ctx_ok_registered [OF assms(1-3)]) (use assms(4) in simp)
  moreover have "getContext event (c\<lparr>fc_events := e\<rparr>) = Inr ctx" for e
    using assms(4) by (simp add: getContext_def split: if_splits)
  moreover have "ctx\<lparr>ec_cb := None, ec_scheduler := None\<rparr> = no_ctx" if "ec_fiber ctx = None"
    using that by (cases ctx) (simp add: no_ctx_def)
  moreover have "ctx\<lparr>ec_fiber := None, ec_scheduler := None\<rparr> = no_ctx" if "ec_cb ctx = None"
    using that by (cases ctx) (simp add: no_ctx_def)
  ultimately show ?thesis
    using assms(3,5) by (auto simp: triggerEvent_def cleared_def wake_def)
qed

lemma schedule_on_fields [simp]:
  "m_fdContexts (schedule_on i ft io) = m_fdContexts io"
  "m_pendingEventCount (schedule_on i ft io) = m_pendingEventCount io"
  by (simp_all add: schedule_on_def tickle_def Let_def split: prod.split)

lemma schedule_on_queue:
  "queue (schedule_on i ft io) j =
     (if j = i \<and> (ft_fiber ft \<noteq> None \<or> ft_cb ft \<noteq> None) then queue io j @ [ft] else queue io j)"
  by (auto simp: schedule_on_def tickle_def Let_def schedule_def scheduleNoLock_def split: prod.split)

lemma sum_list_update_add:
  "i < length xs \<Longrightarrow>
   sum_list (map f (xs[i := c])) + f (xs ! i) = sum_list (map f xs) + (f c :: nat)"
  by (induction xs arbitrary: i) (auto simp: nth_Cons split: nat.split)

lemma put_ctx_fields [simp]:
  "schedulers (put_ctx fd c io) = schedulers io"
  "m_pendingEventCount (put_ctx fd c io) = m_pendingEventCount io"
  "length (m_fdContexts (put_ctx fd c io)) = length (m_fdContexts io)"
  "put_ctx fd c (put_ctx fd c' io) = put_ctx fd c io"
  by (simp_all add: put_ctx_def)

lemma put_ctx_same [simp]: "put_ctx (int fd) (m_fdContexts io ! fd) io = io"
  by (simp add: put_ctx_def)

lemma put_ctx_nth [simp]: "fd < length (m_fdContexts io) \<Longrightarrow> m_fdContexts (put_ctx (int fd) c io) ! fd = c"
  by (simp add: put_ctx_def)

lemma put_ctx_schedule_on:
  "schedule_on i ft (put_ctx fd c io) = put_ctx fd c (schedule_on i ft io)"
  by (simp add: schedule_on_def put_ctx_def tickle_def Let_def split: prod.split)

lemma put_ctx_pending:
  "(put_ctx fd c io)\<lparr>m_pendingEventCount := n\<rparr> = put_ctx fd c (io\<lparr>m_pendingEventCount := n\<rparr>)"
  by (simp add: put_ctx_def)

lemma put_ctx_inv:
  assumes "io_inv io" and "fd < length (m_fdContexts io)" and "ctx_ok c"
    and "fc_fd c = fc_fd (m_fdContexts io ! fd)"
    and "n + registered (m_fdContexts io ! fd) = m_pendingEventCount io + registered c"
    and "m_fdContexts io' = m_fdContexts io" and "m_pendingEventCount io' = n"
  shows "io_inv (put_ctx (int fd) c io')"
proof -
  have "set ((m_fdContexts io)[fd := c]) \<subseteq> insert c (set (m_fdContexts io))"
    by (rule set_update_subset_insert)
  then show ?thesis
    using assms sum_list_update_add [OF assms(2), of registered c]
    by (auto simp: io_inv_def put_ctx_def nth_list_update)
qed

lemma io_inv_ctx: "io_inv io \<Longrightarrow> fd < length (m_fdContexts io) \<Longrightarrow> ctx_ok (m_fdContexts io ! fd)"
  by (simp add: io_inv_def)

lemma registered_le:
  "io_inv io \<Longrightarrow> fd < length (m_fdContexts io) \<Longrightarrow> registered (m_fdContexts io ! fd) \<le> m_pendingEventCount io"
  by (auto simp: io_inv_def intro: member_le_sum_list)

lemma registered_pos: "event \<in> {1, 4} \<Longrightarrow> fc_events c AND event \<noteq> 0 \<Longrightarrow> 0 < registered c"
  by (auto simp: registered_def)

lemma contextResize_inv:
  assumes "io_inv io" and "length (m_fdContexts io) \<le> n"
  shows "io_inv (io\<lparr>m_fdContexts := contextResize n (m_fdContexts io)\<rparr>)"
proof -
  have "ctx_ok (new_FdContext i)" "registered (new_FdContext i) = 0" "fc_fd (new_FdContext i) = i" for i
    by (simp_all add: new_FdContext_def ctx_ok_def slot_ok_def getContext_def registered_def)
  then show ?thesis
    using assms by (auto simp: io_inv_def contextResize_def nth_append comp_def)
qed

lemma new_IOManager_inv: "io_inv (new_IOManager ss ps)"
proof -
  have "ctx_ok (new_FdContext i)" "registered (new_FdContext i) = 0" "fc_fd (new_FdContext i) = i" for i
    by (simp_all add: new_FdContext_def ctx_ok_def slot_ok_def getContext_def registered_def)
  then show ?thesis by (auto simp: io_inv_def new_IOManager_def contextResize_def comp_def)
qed

subsection \<open>The operations\<close>

lemma waiting_put:
  assumes "fd < length (m_fdContexts io)" and "m_fdContexts io' = m_fdContexts io"
  shows "waiting (put_ctx (int fd) c io') g e =
     (if g = fd then (if fc_events c AND e \<noteq> 0
                      then (case getContext e c of Inl e \<Rightarrow> None | Inr ctx \<Rightarrow> Some ctx) else None)
      else waiting io g e)"
  using assms by (auto simp: waiting_def put_ctx_def)

lemma waiting_cleared:
  assumes "io_inv io" and "fd < length (m_fdContexts io)" and "event \<in> {1, 4}"
    and "m_fdContexts io' = m_fdContexts io"
  shows "waiting (put_ctx (int fd) (cleared event (m_fdContexts io ! fd)) io') g e =
     (if g = fd \<and> e = event then None else waiting io g e)"
  using assms io_inv_ctx [OF assms(1,2)] unfolding waiting_put [OF assms(2,4)]
  by (auto simp: waiting_def cleared_def getContext_def setContext_def ctx_ok_def)

lemma waiting_occupied:
  assumes "io_inv io" and "fd < length (m_fdContexts io)" and "event \<in> {1, 4}"
    and "m_fdContexts io' = m_fdContexts io"
  shows "waiting (put_ctx (int fd) (occupied event ctx (m_fdContexts io ! fd)) io') g e =
     (if g = fd \<and> e = event then Some ctx else waiting io g e)"
  using assms io_inv_ctx [OF assms(1,2)] unfolding waiting_put [OF assms(2,4)]
  by (auto simp: waiting_def occupied_def getContext_def setContext_def ctx_ok_def)

lemma waiting_iff:
  assumes "io_inv io" and "event \<in> {1, 4}"
  shows "waiting io fd event = None \<longleftrightarrow>
     length (m_fdContexts io) \<le> fd \<or> fc_events (m_fdContexts io ! fd) AND event = 0"
  using assms by (auto simp: waiting_def getContext_def)

lemma waiting_Some:
  assumes "io_inv io" and "event \<in> {1, 4}" and "waiting io fd event = Some ctx"
  obtains i where "fd < length (m_fdContexts io)" "fc_events (m_fdContexts io ! fd) AND event \<noteq> 0"
    "getContext event (m_fdContexts io ! fd) = Inr ctx" "ec_scheduler ctx = Some i"
    "ft_fiber (wake ctx) \<noteq> None \<or> ft_cb (wake ctx) \<noteq> None"
proof -
  have 1: "fd < length (m_fdContexts io)" "fc_events (m_fdContexts io ! fd) AND event \<noteq> 0"
      "getContext event (m_fdContexts io ! fd) = Inr ctx"
    using assms(3) by (auto simp: waiting_def split: if_splits sum.splits)
  show thesis
    by (rule ctx_ok_registered [OF io_inv_ctx [OF assms(1) 1(1)] assms(2) 1(2)]) (use 1 that in auto)
qed

definition grown :: "int \<Rightarrow> 'k iomanager \<Rightarrow> 'k iomanager" where
  "grown fd io = (if int (length (m_fdContexts io)) > fd then io
     else io\<lparr>m_fdContexts := contextResize (nat (fd * 3 div 2)) (m_fdContexts io)\<rparr>)"

lemma grown_ok:
  assumes "io_inv io" and "0 \<le> fd"
  shows "io_inv (grown fd io)" "nat fd < length (m_fdContexts (grown fd io))"
    "waiting (grown fd io) = waiting io" "schedulers (grown fd io) = schedulers io"
    "m_pendingEventCount (grown fd io) = m_pendingEventCount io"
proof -
  have big: "length (m_fdContexts io) \<le> nat (fd * 3 div 2) \<and> nat fd < nat (fd * 3 div 2)"
    if "\<not> int (length (m_fdContexts io)) > fd"
    using that assms by (auto simp: io_inv_def)
  then show "io_inv (grown fd io)"
    using assms(1) by (simp add: grown_def contextResize_inv)
  show "nat fd < length (m_fdContexts (grown fd io))"
    using big assms(2) by (auto simp: grown_def contextResize_def)
  show "waiting (grown fd io) = waiting io"
    using big by (auto simp: grown_def waiting_def contextResize_def fun_eq_iff nth_append new_FdContext_def)
qed (simp_all add: grown_def)

lemma addEvent_ok:
  assumes "io_inv io" and "0 \<le> fd" and "event \<in> {1, 4}" and "waiting io (nat fd) event = None"
    and "cb = None \<longrightarrow> st = EXEC"
  shows "addEvent ctl (Some i) cur st fd event cb io =
     (let c = m_fdContexts (grown fd io) ! nat fd;
          ctx = \<lparr>ec_scheduler = Some i, ec_fiber = (if cb = None then Some cur else None), ec_cb = cb\<rparr>
      in if ctl (if fc_events c \<noteq> 0 then EPOLL_CTL_MOD else EPOLL_CTL_ADD) fd
              (EPOLLET OR fc_events c OR event) \<noteq> 0
         then Inr (- 1, grown fd io)
         else Inr (0, put_ctx (int (nat fd)) (occupied event ctx c)
                        ((grown fd io)\<lparr>m_pendingEventCount := m_pendingEventCount io + 1\<rparr>)))"
proof -
  let ?io = "grown fd io"
  let ?c = "m_fdContexts ?io ! nat fd"
  have zero: "fc_events ?c AND event = 0"
    using waiting_iff [OF grown_ok(1) [OF assms(1,2)] assms(3), of "nat fd"] grown_ok [OF assms(1,2)] assms(4)
    by auto
  have "ctx_ok ?c" by (rule io_inv_ctx [OF grown_ok(1,2) [OF assms(1,2)]])
  then have "getContext event (?c\<lparr>fc_events := e\<rparr>) = Inr no_ctx" for e
    using zero assms(3) by (auto simp: ctx_ok_def slot_ok_def getContext_def)
  then show ?thesis
    using zero assms(2,5) grown_ok [OF assms(1,2)]
    unfolding addEvent_def grown_def [symmetric] by (auto simp: Let_def occupied_def)
qed

text \<open>The waiter of an event is put in the queue of its scheduler and forgotten.\<close>

definition deliver :: "u32 \<Rightarrow> nat \<Rightarrow> 'k iomanager \<Rightarrow> 'k iomanager" where
  "deliver event fd io =
     (case waiting io fd event of None \<Rightarrow> io
      | Some ctx \<Rightarrow>
          put_ctx (int fd) (cleared event (m_fdContexts io ! fd))
            ((schedule_on (the (ec_scheduler ctx)) (wake ctx) io)
               \<lparr>m_pendingEventCount := dec (m_pendingEventCount io)\<rparr>))"

lemma dec_pending:
  assumes "io_inv io" and "fd < length (m_fdContexts io)" and "event \<in> {1, 4}"
    and "fc_events (m_fdContexts io ! fd) AND event \<noteq> 0"
  shows "dec (m_pendingEventCount io) + registered (m_fdContexts io ! fd) =
         m_pendingEventCount io + registered (cleared event (m_fdContexts io ! fd))"
  using registered_le [OF assms(1,2)] registered_pos [OF assms(3,4)]
    cleared_ok(2) [OF io_inv_ctx [OF assms(1,2)] assms(3,4)]
  by (simp add: dec_def)

lemma cleared_inv:
  assumes "io_inv io" and "fd < length (m_fdContexts io)" and "event \<in> {1, 4}"
    and "fc_events (m_fdContexts io ! fd) AND event \<noteq> 0"
    and "m_fdContexts io' = m_fdContexts io" and "m_pendingEventCount io' = dec (m_pendingEventCount io)"
  shows "io_inv (put_ctx (int fd) (cleared event (m_fdContexts io ! fd)) io')"
  using put_ctx_inv [OF assms(1,2) cleared_ok(1,3) [OF io_inv_ctx [OF assms(1,2)] assms(3,4)]
      dec_pending [OF assms(1-4)] assms(5,6)] .

lemma deliver_ok:
  assumes "io_inv io" and "event \<in> {1, 4}"
  shows "io_inv (deliver event fd io)"
    "waiting (deliver event fd io) g e = (if g = fd \<and> e = event then None else waiting io g e)"
    "queue (deliver event fd io) j = queue io j @
       (case waiting io fd event of None \<Rightarrow> []
        | Some ctx \<Rightarrow> if ec_scheduler ctx = Some j then [wake ctx] else [])"
proof -
  have "io_inv (deliver event fd io) \<and>
        waiting (deliver event fd io) g e = (if g = fd \<and> e = event then None else waiting io g e) \<and>
        queue (deliver event fd io) j = queue io j @
          (case waiting io fd event of None \<Rightarrow> []
           | Some ctx \<Rightarrow> if ec_scheduler ctx = Some j then [wake ctx] else [])"
  proof (cases "waiting io fd event")
    case None
    then show ?thesis using assms by (auto simp: deliver_def)
  next
    case (Some ctx)
    show ?thesis
      by (rule waiting_Some [OF assms Some])
         (use assms Some in \<open>simp add: deliver_def cleared_inv waiting_cleared schedule_on_queue\<close>)
  qed
  then show "io_inv (deliver event fd io)"
    "waiting (deliver event fd io) g e = (if g = fd \<and> e = event then None else waiting io g e)"
    "queue (deliver event fd io) j = queue io j @
       (case waiting io fd event of None \<Rightarrow> []
        | Some ctx \<Rightarrow> if ec_scheduler ctx = Some j then [wake ctx] else [])"
    by simp_all
qed

lemma cancelEvent_ok:
  assumes "io_inv io" and "event \<in> {1, 4}"
  shows "cancelEvent ctl (int fd) event io =
     (let c = m_fdContexts io ! fd; new_events = fc_events c AND NOT event
      in if waiting io fd event = None \<or>
            ctl (if new_events \<noteq> 0 then EPOLL_CTL_MOD else EPOLL_CTL_DEL) (int fd) (EPOLLET OR new_events) \<noteq> 0
         then Inr (False, io) else Inr (True, deliver event fd io))"
proof (cases "waiting io fd event")
  case None
  then show ?thesis using waiting_iff [OF assms, of fd] by (auto simp: cancelEvent_def Let_def)
next
  case (Some ctx)
  obtain i where 1: "fd < length (m_fdContexts io)" "fc_events (m_fdContexts io ! fd) AND event \<noteq> 0"
      "getContext event (m_fdContexts io ! fd) = Inr ctx" "ec_scheduler ctx = Some i"
    by (rule waiting_Some [OF assms Some]) blast
  show ?thesis
    using 1 Some triggerEvent_ok [OF io_inv_ctx [OF assms(1) 1(1)] assms(2) 1(2-4), of io]
    by (simp add: cancelEvent_def Let_def deliver_def)
qed

lemma delEvent_ok:
  assumes "io_inv io" and "event \<in> {1, 4}"
  shows "delEvent ctl (int fd) event io =
     (let c = m_fdContexts io ! fd; new_events = fc_events c AND NOT event
      in if waiting io fd event = None \<or>
            ctl (if new_events \<noteq> 0 then EPOLL_CTL_MOD else EPOLL_CTL_DEL) (int fd) (EPOLLET OR new_events) \<noteq> 0
         then Inr (False, io)
         else Inr (True, put_ctx (int fd) (cleared event c)
                          (io\<lparr>m_pendingEventCount := dec (m_pendingEventCount io)\<rparr>)))"
proof (cases "waiting io fd event")
  case None
  then show ?thesis using waiting_iff [OF assms, of fd] by (auto simp: delEvent_def Let_def)
next
  case (Some ctx)
  obtain i where 1: "fd < length (m_fdContexts io)" "fc_events (m_fdContexts io ! fd) AND event \<noteq> 0"
      "getContext event (m_fdContexts io ! fd) = Inr ctx" "ec_scheduler ctx = Some i"
    by (rule waiting_Some [OF assms Some]) blast
  have "getContext event ((m_fdContexts io ! fd)\<lparr>fc_events := e\<rparr>) = Inr ctx" for e
    using 1(3) by (simp add: getContext_def split: if_splits)
  then show ?thesis
    using 1 Some by (simp add: delEvent_def Let_def resetContext_def cleared_def)
qed

text \<open>
  A conditional trigger on a context taken out of the vector is a delivery on the
  manager with the context put back.
\<close>

lemma trigger_if_ok:
  assumes "io_inv (put_ctx (int fd) c io)" and "fd < length (m_fdContexts io)" and "event \<in> {1, 4}"
    and "evs AND event \<noteq> 0 \<Longrightarrow> fc_events c AND event \<noteq> 0"
  shows "\<exists>c' io'. trigger_if evs event (c, io) = Inr (c', io') \<and>
     put_ctx (int fd) c' io' = (if evs AND event = 0 then put_ctx (int fd) c io
                               else deliver event fd (put_ctx (int fd) c io)) \<and>
     length (m_fdContexts io') = length (m_fdContexts io) \<and>
     fc_events c' = (if evs AND event = 0 then fc_events c else fc_events c AND NOT event)"
proof (cases "evs AND event = 0")
  case False
  then have ev: "fc_events c AND event \<noteq> 0" by (rule assms(4))
  have c: "ctx_ok c" using io_inv_ctx [OF assms(1)] assms(2) by (metis put_ctx_fields(3) put_ctx_nth)
  obtain ctx i where ctx: "getContext event c = Inr ctx" "ec_scheduler ctx = Some i"
    by (rule ctx_ok_registered [OF c assms(3) ev])
  have "waiting (put_ctx (int fd) c io) fd event = Some ctx"
    using assms(2) ev ctx(1) by (simp add: waiting_def)
  then show ?thesis
    using False triggerEvent_ok [OF c assms(3) ev ctx, of io] assms(2,3) ctx(2)
    by (auto simp: trigger_if_def deliver_def put_ctx_schedule_on put_ctx_pending cleared_def setContext_def)
qed (simp add: trigger_if_def)

definition deliver_all :: "u32 \<Rightarrow> nat \<Rightarrow> 'k iomanager \<Rightarrow> 'k iomanager" where
  "deliver_all evs fd io =
     (let io = (if evs AND READ = 0 then io else deliver READ fd io)
      in if evs AND WRITE = 0 then io else deliver WRITE fd io)"

lemma deliver_length [simp]: "length (m_fdContexts (deliver event fd io)) = length (m_fdContexts io)"
  by (simp add: deliver_def split: option.split)

lemma trigger_both:
  assumes "io_inv io" and "fd < length (m_fdContexts io)" and "evs' AND WRITE = evs AND WRITE"
    and "evs AND READ \<noteq> 0 \<Longrightarrow> fc_events (m_fdContexts io ! fd) AND READ \<noteq> 0"
    and "evs AND WRITE \<noteq> 0 \<Longrightarrow> fc_events (m_fdContexts io ! fd) AND WRITE \<noteq> 0"
  shows "\<exists>c1 io1 c2 io2. trigger_if evs READ (m_fdContexts io ! fd, io) = Inr (c1, io1) \<and>
     fc_events c1 = (if evs AND READ = 0 then fc_events (m_fdContexts io ! fd)
                     else fc_events (m_fdContexts io ! fd) AND NOT READ) \<and>
     trigger_if evs' WRITE (c1, io1) = Inr (c2, io2) \<and>
     fc_events c2 = (if evs AND WRITE = 0 then fc_events c1 else fc_events c1 AND NOT WRITE) \<and>
     put_ctx (int fd) c2 io2 = deliver_all evs fd io"
proof -
  let ?c = "m_fdContexts io ! fd"
  obtain c1 io1 where 1: "trigger_if evs READ (?c, io) = Inr (c1, io1)"
      "put_ctx (int fd) c1 io1 = (if evs AND READ = 0 then io else deliver READ fd io)"
      "length (m_fdContexts io1) = length (m_fdContexts io)"
      "fc_events c1 = (if evs AND READ = 0 then fc_events ?c else fc_events ?c AND NOT READ)"
    using trigger_if_ok [of fd ?c io READ evs] assms by auto
  have inv1: "io_inv (put_ctx (int fd) c1 io1)"
    using 1(2) assms(1) by (simp add: deliver_ok)
  have "fc_events ?c \<in> {0, 1, 4, 5}" using io_inv_ctx [OF assms(1,2)] by (simp add: ctx_ok_def)
  then have "fc_events c1 AND WRITE = fc_events ?c AND WRITE"
    using 1(4) events_enum(5) [of "fc_events ?c" READ WRITE] by auto
  then show ?thesis
    using 1 trigger_if_ok [OF inv1, of WRITE evs'] assms(2,3,5) by (auto simp: deliver_all_def Let_def)
qed

lemma deliver_all_ok:
  assumes "io_inv io"
  shows "io_inv (deliver_all evs fd io)"
    "waiting (deliver_all evs fd io) g e =
       (if g = fd \<and> (e = READ \<or> e = WRITE) \<and> evs AND e \<noteq> 0 then None else waiting io g e)"
  using assms by (auto simp: deliver_all_def Let_def deliver_ok)

lemma cancelAll_ok:
  assumes "io_inv io" and "fd < length (m_fdContexts io)" and "fc_events (m_fdContexts io ! fd) \<noteq> 0"
    and "ctl EPOLL_CTL_DEL (int fd) 0 = 0"
  shows "cancelAll ctl (int fd) io = Inr (True, deliver_all (fc_events (m_fdContexts io ! fd)) fd io)"
proof -
  let ?e = "fc_events (m_fdContexts io ! fd)"
  have e: "?e \<in> {0, 1, 4, 5}" using io_inv_ctx [OF assms(1,2)] by (simp add: ctx_ok_def)
  define e' where "e' = (if ?e AND READ = 0 then ?e else ?e AND NOT READ)"
  have "e' AND WRITE = ?e AND WRITE" "(if ?e AND WRITE = 0 then e' else e' AND NOT WRITE) = 0"
    using e by (auto simp: e'_def)
  then show ?thesis
    using trigger_both [OF assms(1,2), of e' ?e] assms(2-4)
    by (auto simp: cancelAll_def Let_def e'_def [symmetric])
qed

lemma handle_event_ok:
  assumes "io_inv io" and "fd < length (m_fdContexts io)"
    and "real_events evs AND NOT (fc_events (m_fdContexts io ! fd)) = 0"
  shows "handle_event ctl self (Ctx fd, evs) io =
     (let e = fc_events (m_fdContexts io ! fd); left = e AND NOT (real_events evs)
      in if real_events evs = 0 \<or>
            ctl (if left \<noteq> 0 then EPOLL_CTL_MOD else EPOLL_CTL_DEL) (int fd) (EPOLLET OR left) \<noteq> 0
         then Inr io else Inr (deliver_all (real_events evs) fd io))"
proof -
  let ?c = "m_fdContexts io ! fd" and ?r = "real_events evs"
  have "fc_events ?c \<in> {0, 1, 4, 5}" using io_inv_ctx [OF assms(1,2)] by (simp add: ctx_ok_def)
  moreover have "?r \<in> {0, 1, 4, 5}" by (simp add: real_events_def Let_def)
  ultimately have sub: "?r AND READ \<noteq> 0 \<Longrightarrow> fc_events ?c AND READ \<noteq> 0"
    "?r AND WRITE \<noteq> 0 \<Longrightarrow> fc_events ?c AND WRITE \<noteq> 0" "fc_events ?c AND ?r = 0 \<longleftrightarrow> ?r = 0"
    using assms(3) by auto
  obtain c1 io1 c2 io2 where "trigger_if ?r READ (?c, io) = Inr (c1, io1)"
      "trigger_if ?r WRITE (c1, io1) = Inr (c2, io2)" "put_ctx (int fd) c2 io2 = deliver_all ?r fd io"
    using trigger_both [OF assms(1,2), of ?r ?r] sub(1,2) by auto
  moreover have "fc_fd ?c = fd" using assms(1,2) by (simp add: io_inv_def)
  ultimately show ?thesis
    using sub(3) assms(2) by (auto simp: handle_event_def Let_def)
qed

lemma occupied_inv:
  assumes "io_inv io" and "fd < length (m_fdContexts io)" and "event \<in> {1, 4}"
    and "waiting io fd event = None"
    and "ec_scheduler ctx \<noteq> None" and "(ec_cb ctx = None) = (ec_fiber ctx \<noteq> None)"
  shows "io_inv (put_ctx (int fd) (occupied event ctx (m_fdContexts io ! fd))
           (io\<lparr>m_pendingEventCount := m_pendingEventCount io + 1\<rparr>))"
proof -
  have "fc_events (m_fdContexts io ! fd) AND event = 0"
    using waiting_iff [OF assms(1,3), of fd] assms(2,4) by auto
  note ok = occupied_ok [OF io_inv_ctx [OF assms(1,2)] assms(3) this assms(5,6)]
  show ?thesis
    by (rule put_ctx_inv [OF assms(1,2) ok(1,3), of "m_pendingEventCount io + 1"]) (simp_all add: ok(2))
qed

text \<open>
  The steps of the manager.  An event is added by a thread of a scheduler, for a
  descriptor nobody waits on for that event (the assertion of \<open>addEvent\<close>), with a
  callback or from a running fiber; the reported events that are handled are ones
  somebody waits for.  The queues also change by the work of the schedulers.
\<close>

inductive io_step :: "'k iomanager \<Rightarrow> 'k iomanager \<Rightarrow> bool" where
  adds: "0 \<le> fd \<Longrightarrow> event \<in> {1, 4} \<Longrightarrow> waiting io (nat fd) event = None \<Longrightarrow> cb = None \<longrightarrow> st = EXEC \<Longrightarrow>
     addEvent ctl (Some i) cur st fd event cb io = Inr (r, io') \<Longrightarrow> io_step io io'"
| deletes: "event \<in> {1, 4} \<Longrightarrow> delEvent ctl (int fd) event io = Inr (b, io') \<Longrightarrow> io_step io io'"
| cancels: "event \<in> {1, 4} \<Longrightarrow> cancelEvent ctl (int fd) event io = Inr (b, io') \<Longrightarrow> io_step io io'"
| cancels_all: "cancelAll ctl (int fd) io = Inr (b, io') \<Longrightarrow> io_step io io'"
| handles: "fd < length (m_fdContexts io) \<Longrightarrow>
     real_events evs AND NOT (fc_events (m_fdContexts io ! fd)) = 0 \<Longrightarrow>
     handle_event ctl self (Ctx fd, evs) io = Inr io' \<Longrightarrow> io_step io io'"
| works: "io_step io (io\<lparr>schedulers := ss, pipes := ps\<rparr>)"

lemma addEvent_inv:
  assumes "io_inv io" and "0 \<le> fd" and "event \<in> {1, 4}" and "waiting io (nat fd) event = None"
    and "cb = None \<longrightarrow> st = EXEC"
  shows "\<exists>r io'. addEvent ctl (Some i) cur st fd event cb io = Inr (r, io') \<and> io_inv io'"
proof -
  let ?ctx = "\<lparr>ec_scheduler = Some i, ec_fiber = (if cb = None then Some cur else None), ec_cb = cb\<rparr>"
  note g = grown_ok [OF assms(1,2)]
  have "io_inv (put_ctx (int (nat fd)) (occupied event ?ctx (m_fdContexts (grown fd io) ! nat fd))
      ((grown fd io)\<lparr>m_pendingEventCount := m_pendingEventCount io + 1\<rparr>))"
    using occupied_inv [OF g(1,2) assms(3), of ?ctx] g(3,5) assms(4) by simp
  then show ?thesis
    unfolding addEvent_ok [OF assms] using g(1) by (simp add: Let_def)
qed

lemma cancelAll_inv:
  assumes "io_inv io"
  shows "\<exists>b io'. cancelAll ctl (int fd) io = Inr (b, io') \<and> io_inv io'"
proof (cases "fd < length (m_fdContexts io) \<and> fc_events (m_fdContexts io ! fd) \<noteq> 0 \<and>
    ctl EPOLL_CTL_DEL (int fd) 0 = 0")
  case True
  then show ?thesis using cancelAll_ok [OF assms, of fd ctl] deliver_all_ok(1) [OF assms] by auto
next
  case False
  then show ?thesis using assms by (auto simp: cancelAll_def Let_def)
qed

lemma delEvent_inv:
  assumes "io_inv io" and "event \<in> {1, 4}"
  shows "\<exists>b io'. delEvent ctl (int fd) event io = Inr (b, io') \<and> io_inv io'"
proof (cases "waiting io fd event = None")
  case False
  then have "fd < length (m_fdContexts io)" "fc_events (m_fdContexts io ! fd) AND event \<noteq> 0"
    using waiting_iff [OF assms, of fd] by auto
  then have "io_inv (put_ctx (int fd) (cleared event (m_fdContexts io ! fd))
      (io\<lparr>m_pendingEventCount := dec (m_pendingEventCount io)\<rparr>))"
    using assms by (intro cleared_inv) simp_all
  then show ?thesis unfolding delEvent_ok [OF assms] using assms(1) by (auto simp: Let_def)
qed (use assms in \<open>auto simp: delEvent_ok\<close>)

lemma cancelEvent_inv:
  assumes "io_inv io" and "event \<in> {1, 4}"
  shows "\<exists>b io'. cancelEvent ctl (int fd) event io = Inr (b, io') \<and> io_inv io'"
  unfolding cancelEvent_ok [OF assms] using assms by (auto simp: Let_def deliver_ok)

lemma handle_event_inv:
  assumes "io_inv io" and "fd < length (m_fdContexts io)"
    and "real_events evs AND NOT (fc_events (m_fdContexts io ! fd)) = 0"
  shows "\<exists>io'. handle_event ctl self (Ctx fd, evs) io = Inr io' \<and> io_inv io'"
  unfolding handle_event_ok [OF assms] using assms(1) by (simp add: Let_def deliver_all_ok)

lemma io_step_inv: "io_step io io' \<Longrightarrow> io_inv io \<Longrightarrow> io_inv io'"
proof (induction rule: io_step.induct)
  case (adds fd event io cb st ctl i cur r io')
  then show ?case using addEvent_inv [of io fd event cb st ctl i cur] by auto
next
  case (deletes event ctl fd io b io')
  then show ?case using delEvent_inv [of io event ctl fd] by auto
next
  case (cancels event ctl fd io b io')
  then show ?case using cancelEvent_inv [of io event ctl fd] by auto
next
  case (cancels_all ctl fd io b io')
  then show ?case using cancelAll_inv [of io ctl fd] by auto
next
  case (handles fd io evs ctl self io')
  then show ?case using handle_event_inv [of io fd evs ctl self] by auto
next
  case (works io ss ps)
  then show ?case by (simp add: io_inv_def)
qed

lemma registered_card: "registered c = card {e \<in> {READ, WRITE}. fc_events c AND e \<noteq> 0}"
proof -
  have "{e \<in> {READ, WRITE}. fc_events c AND e \<noteq> 0} =
      (if fc_events c AND READ \<noteq> 0 then {READ} else {}) \<union> (if fc_events c AND WRITE \<noteq> 0 then {WRITE} else {})"
    by auto
  then show ?thesis by (auto simp: registered_def)
qed

lemma pending_card:
  assumes "io_inv io"
  shows "m_pendingEventCount io = card {(fd, e). e \<in> {READ, WRITE} \<and> waiting io fd e \<noteq> None}"
proof -
  let ?cs = "m_fdContexts io"
  have "{(fd, e). e \<in> {READ, WRITE} \<and> waiting io fd e \<noteq> None} =
      (SIGMA fd:{..<length ?cs}. {e \<in> {READ, WRITE}. fc_events (?cs ! fd) AND e \<noteq> 0})"
    by (auto simp: waiting_def getContext_def split: if_splits)
  moreover have "m_pendingEventCount io = (\<Sum>fd<length ?cs. registered (?cs ! fd))"
    using assms by (simp add: io_inv_def sum_list_sum_nth atLeast0LessThan)
  ultimately show ?thesis by (simp add: registered_card)
qed

lemma io_steps_inv: "io_step\<^sup>*\<^sup>* (new_IOManager ss ps) io \<Longrightarrow> io_inv io"
  by (induction rule: rtranclp_induct) (auto intro: new_IOManager_inv io_step_inv)

subsection \<open>Properties\<close>


definition demo_io :: "nat iomanager" where
  "demo_io = (case addEvent (\<lambda>op fd evs. 0) (Some 0) 3 EXEC 5 READ None
      (new_IOManager (\<lambda>i. demo_sched) (\<lambda>i. 0)) of Inr (r, io) \<Rightarrow> io | Inl e \<Rightarrow> new_IOManager (\<lambda>i. demo_sched) (\<lambda>i. 0))"

lemma demo_io_eq:
  "addEvent (\<lambda>op fd evs. 0) (Some 0) 3 EXEC 5 READ None (new_IOManager (\<lambda>i. demo_sched) (\<lambda>i. 0)) =
     Inr (0, demo_io)"
  "demo_io = put_ctx (int 5) (occupied READ \<lparr>ec_scheduler = Some 0, ec_fiber = Some 3, ec_cb = None\<rparr>
      (m_fdContexts (new_IOManager (\<lambda>i. demo_sched) (\<lambda>i. 0)) ! 5))
      ((new_IOManager (\<lambda>i. demo_sched) (\<lambda>i. 0))\<lparr>m_pendingEventCount := 1\<rparr>)"
proof -
  let ?io = "new_IOManager (\<lambda>i. demo_sched) (\<lambda>i. 0)"
  have w: "waiting ?io (nat 5) READ = None"
    by (simp add: waiting_def new_IOManager_def contextResize_def new_FdContext_def)
  have g: "grown 5 ?io = ?io" by (simp add: grown_def new_IOManager_def contextResize_def)
  have p: "m_pendingEventCount ?io = 0" by (simp add: new_IOManager_def)
  have eq: "addEvent (\<lambda>op fd evs. 0) (Some 0) 3 EXEC 5 READ None ?io =
     Inr (0, put_ctx (int 5) (occupied READ \<lparr>ec_scheduler = Some 0, ec_fiber = Some 3, ec_cb = None\<rparr>
       (m_fdContexts ?io ! 5)) (?io\<lparr>m_pendingEventCount := 1\<rparr>))"
    using addEvent_ok [OF new_IOManager_inv _ _ w, of None EXEC "\<lambda>op fd evs. 0" 0 3]
    by (simp add: Let_def g p)
  then show "addEvent (\<lambda>op fd evs. 0) (Some 0) 3 EXEC 5 READ None ?io = Inr (0, demo_io)"
    "demo_io = put_ctx (int 5) (occupied READ \<lparr>ec_scheduler = Some 0, ec_fiber = Some 3, ec_cb = None\<rparr>
      (m_fdContexts ?io ! 5)) (?io\<lparr>m_pendingEventCount := 1\<rparr>)"
    by (simp_all add: demo_io_def)
qed

lemma demo_io_ctx:
  "5 < length (m_fdContexts demo_io)" "fc_events (m_fdContexts demo_io ! 5) = READ"
  by (simp_all add: demo_io_eq(2) new_IOManager_def contextResize_def occupied_def setContext_def
      new_FdContext_def put_ctx_def)

lemma demo_io_reachable: "io_step\<^sup>*\<^sup>* (new_IOManager (\<lambda>i. demo_sched) (\<lambda>i. 0)) demo_io"
proof -
  have "io_step (new_IOManager (\<lambda>i. demo_sched) (\<lambda>i. 0)) demo_io"
    by (rule adds [OF _ _ _ _ demo_io_eq(1)])
       (simp_all add: waiting_def new_IOManager_def contextResize_def new_FdContext_def)
  then show ?thesis by simp
qed


text \<open>
  C8: with a working \<open>epoll_ctl\<close>, \<open>addEvent\<close> enters one waiter into the map of
  waiters, \<open>delEvent\<close> removes one and wakes nobody, \<open>cancelEvent\<close> removes one and
  puts exactly it at the end of the queue of its scheduler; every other waiter and
  every other queue is untouched, also when the vector of contexts has to grow.
\<close>

theorem io_ops_refine:
  assumes "io_inv io" and "event \<in> {READ, WRITE}" and "\<And>op d evs. ctl op d evs = 0"
  shows "(waiting io fd event = None \<and> (cb = None \<longrightarrow> st = EXEC) \<longrightarrow>
     (\<exists>io'. addEvent ctl (Some i) cur st (int fd) event cb io = Inr (0, io') \<and> schedulers io' = schedulers io \<and>
        waiting io' = (\<lambda>g e. if g = fd \<and> e = event then
            Some \<lparr>ec_scheduler = Some i, ec_fiber = (if cb = None then Some cur else None), ec_cb = cb\<rparr>
          else waiting io g e))) \<and>
     (\<forall>ctx. waiting io fd event = Some ctx \<longrightarrow>
       (\<exists>io'. delEvent ctl (int fd) event io = Inr (True, io') \<and> schedulers io' = schedulers io \<and>
          waiting io' = (\<lambda>g e. if g = fd \<and> e = event then None else waiting io g e)) \<and>
       (\<exists>io'. cancelEvent ctl (int fd) event io = Inr (True, io') \<and>
          (\<forall>j. queue io' j = queue io j @ (if ec_scheduler ctx = Some j then [wake ctx] else [])) \<and>
          waiting io' = (\<lambda>g e. if g = fd \<and> e = event then None else waiting io g e)))"
proof (intro conjI impI allI)
  assume free: "waiting io fd event = None \<and> (cb = None \<longrightarrow> st = EXEC)"
  have fd: "0 \<le> int fd" by simp
  note g = grown_ok [OF assms(1) fd]
  show "\<exists>io'. addEvent ctl (Some i) cur st (int fd) event cb io = Inr (0, io') \<and> schedulers io' = schedulers io \<and>
        waiting io' = (\<lambda>g e. if g = fd \<and> e = event then
            Some \<lparr>ec_scheduler = Some i, ec_fiber = (if cb = None then Some cur else None), ec_cb = cb\<rparr>
          else waiting io g e)"
    using free g waiting_occupied [OF g(1), of fd event] assms
    by (subst addEvent_ok [OF assms(1) fd assms(2)]) (auto simp: Let_def fun_eq_iff)
next
  fix ctx
  assume some: "waiting io fd event = Some ctx"
  then have fd: "fd < length (m_fdContexts io)" using waiting_iff [OF assms(1,2), of fd] by auto
  show "\<exists>io'. delEvent ctl (int fd) event io = Inr (True, io') \<and> schedulers io' = schedulers io \<and>
          waiting io' = (\<lambda>g e. if g = fd \<and> e = event then None else waiting io g e)"
    using some waiting_cleared [OF assms(1) fd assms(2)] assms(3)
    by (simp add: delEvent_ok [OF assms(1,2)] Let_def fun_eq_iff)
  show "\<exists>io'. cancelEvent ctl (int fd) event io = Inr (True, io') \<and>
          (\<forall>j. queue io' j = queue io j @ (if ec_scheduler ctx = Some j then [wake ctx] else [])) \<and>
          waiting io' = (\<lambda>g e. if g = fd \<and> e = event then None else waiting io g e)"
    using some deliver_ok [OF assms(1,2)] assms(3)
    by (simp add: cancelEvent_ok [OF assms(1,2)] Let_def fun_eq_iff)
qed

lemma io_ops_refine_witness:
  "\<exists>ctx io'. waiting demo_io 5 READ = Some ctx \<and>
     cancelEvent (\<lambda>op d evs. 0) (int 5) READ demo_io = Inr (True, io') \<and>
     queue io' 0 = queue demo_io 0 @ [FiberAndThread_fiber (Some 3) (- 1)] \<and> waiting io' 5 READ = None"
proof -
  have inv: "io_inv demo_io" by (rule io_steps_inv [OF demo_io_reachable])
  let ?ctx = "\<lparr>ec_scheduler = Some 0, ec_fiber = Some 3, ec_cb = None\<rparr> :: nat EventContext"
  have "waiting demo_io 5 READ = Some ?ctx"
    unfolding demo_io_eq(2)
    by (subst waiting_occupied [OF new_IOManager_inv]) (simp_all add: new_IOManager_def contextResize_def)
  then show ?thesis
    using io_ops_refine [OF inv, of READ "\<lambda>op d evs. 0" 5 None EXEC 0 3] by (auto simp: wake_def)
qed

text \<open>
  C16: an event reported for a descriptor whose reported directions are all waited for
  wakes exactly those waiters: each is put once into the queue of its scheduler, the
  read side first, and is no longer waiting; nobody else is affected.
\<close>

theorem event_delivery:
  assumes "io_inv io" and "fd < length (m_fdContexts io)" and "real_events evs \<noteq> 0"
    and "real_events evs AND NOT (fc_events (m_fdContexts io ! fd)) = 0"
    and "\<And>op d evs. ctl op d evs = 0"
  shows "\<exists>io'. handle_event ctl self (Ctx fd, evs) io = Inr io' \<and>
    (\<forall>j. queue io' j = queue io j @
       concat (map (\<lambda>e. if real_events evs AND e = 0 then [] else
                 (case waiting io fd e of None \<Rightarrow> []
                  | Some ctx \<Rightarrow> if ec_scheduler ctx = Some j then [wake ctx] else [])) [READ, WRITE])) \<and>
    waiting io' = (\<lambda>g e. if g = fd \<and> e \<in> {READ, WRITE} \<and> real_events evs AND e \<noteq> 0 then None
                        else waiting io g e)"
proof -
  have "queue (deliver_all r fd io) j = queue io j @
       concat (map (\<lambda>e. if r AND e = 0 then [] else
                 (case waiting io fd e of None \<Rightarrow> []
                  | Some ctx \<Rightarrow> if ec_scheduler ctx = Some j then [wake ctx] else [])) [READ, WRITE])" for r j
    using deliver_ok [OF assms(1)] deliver_ok [OF deliver_ok(1) [OF assms(1)]]
    by (simp add: deliver_all_def Let_def)
  then show ?thesis
    unfolding handle_event_ok [OF assms(1,2,4)] using assms(3,5) deliver_all_ok(2) [OF assms(1)]
    by (auto simp: Let_def fun_eq_iff)
qed

lemma event_delivery_witness:
  "\<exists>io'. handle_event (\<lambda>op d evs. 0) 0 (Ctx 5, EPOLLIN) demo_io = Inr io' \<and> waiting io' 5 READ = None"
proof -
  have inv: "io_inv demo_io" by (rule io_steps_inv [OF demo_io_reachable])
  have "real_events EPOLLIN = READ" by (simp add: real_events_def)
  then show ?thesis
    using demo_io_ctx event_delivery [OF inv, of 5 EPOLLIN "\<lambda>op d evs. 0" 0] by auto
qed

text \<open>
  C38: an error or a hang-up on a descriptor that is waited for in one direction only
  aborts the process: \<open>idle\<close> makes both directions of it, and \<open>triggerEvent\<close> asserts
  that the other direction is registered.
\<close>

theorem hangup_aborts:
  assumes "io_inv io" and "fd < length (m_fdContexts io)"
    and "fc_events (m_fdContexts io ! fd) = READ \<or> fc_events (m_fdContexts io ! fd) = WRITE"
    and "evs AND (EPOLLERR OR EPOLLHUP) \<noteq> 0" and "\<And>op d evs. ctl op d evs = 0"
  shows "handle_event ctl self (Ctx fd, evs) io = Inl IOAssert"
proof -
  let ?c = "m_fdContexts io ! fd"
  have "bit ((evs OR 5) AND 1) 0" "bit ((evs OR 5) AND 4) 2"
    by (simp_all add: bit_and_iff bit_or_iff bit_numeral_rec)
  then have "(evs OR 5) AND 1 \<noteq> 0" "(evs OR 5) AND 4 \<noteq> 0"
    by auto
  then have real: "real_events evs = 5"
    using assms(4) by (simp add: real_events_def)
  have c: "ctx_ok ?c" by (rule io_inv_ctx [OF assms(1,2)])
  have "trigger_if 5 READ (?c, io) = Inl IOAssert" if "fc_events ?c = WRITE"
    using that by (simp add: trigger_if_def triggerEvent_def)
  moreover have "\<exists>c' io'. trigger_if 5 READ (?c, io) = Inr (c', io') \<and> fc_events c' = 0" if "fc_events ?c = READ"
    using trigger_if_ok [of fd ?c io READ 5] that assms(1,2) by auto
  moreover have "trigger_if 5 WRITE (c', io') = Inl IOAssert" if "fc_events c' = 0" for c' :: "'a FdContext" and io'
    using that by (simp add: trigger_if_def triggerEvent_def)
  ultimately show ?thesis
    using assms(2,3,5) by (auto simp: handle_event_def real)
qed

lemma hangup_aborts_witness:
  "handle_event (\<lambda>op d evs. 0) 0 (Ctx 5, EPOLLHUP) demo_io = Inl IOAssert"
proof -
  have inv: "io_inv demo_io" by (rule io_steps_inv [OF demo_io_reachable])
  show ?thesis
    using demo_io_ctx hangup_aborts [OF inv, of 5 EPOLLHUP "\<lambda>op d evs. 0" 0] by simp
qed

text \<open>
  C34: the time given to \<open>epoll_wait\<close> lies between 0 and 3000 ms, and is the time to
  the next timer when that is shorter, exactly when bit 31 of that time is clear
  (there is no timer, or it is due in less than about 24.8 days); when the bit is set
  the conversion to \<open>int\<close> gives a negative number, which makes \<open>epoll_wait\<close> wait
  without limit.
\<close>

theorem wait_time_bounds:
  "(0 \<le> wait_time t \<and> wait_time t \<le> 3000 \<longleftrightarrow> t = - 1 \<or> \<not> bit t 31) \<and>
   (unat t < 2 ^ 31 \<longrightarrow> wait_time t = min 3000 (int (unat t))) \<and>
   (wait_time t < 0 \<longleftrightarrow> t \<noteq> - 1 \<and> bit t 31)"
proof -
  have sign: "to_int t < 0 \<longleftrightarrow> bit t 31"
    using bit_last_iff [of "ucast t :: u32"] by (simp add: to_int_def bit_ucast_iff)
  have [simp]: "to_int 3000 = 3000" by (simp add: to_int_def)
  have wait: "wait_time t = (if t = - 1 \<or> to_int t > 3000 then 3000 else to_int t)"
    by (simp add: wait_time_def)
  have small: "to_int t = int (unat t)" if "unat t < 2 ^ 31"
  proof -
    have "int (unat t) < int (2 ^ 31)" using that by (simp only: of_nat_less_iff)
    then have t: "uint t < 2 ^ 31" by simp
    then have "uint (ucast t :: u32) = uint t"
      by (simp add: take_bit_int_eq_self unsigned_ucast_eq)
    moreover have "- (2 ^ 31) \<le> uint t" by (rule order_trans [OF _ uint_ge_0]) simp
    ultimately show ?thesis
      using t signed_take_bit_int_eq_self [of 31 "uint t"] by (simp add: to_int_def sint_uint)
  qed
  then have "unat t < 2 ^ 31 \<longrightarrow> wait_time t = min 3000 (int (unat t))"
    using sign by (auto simp: wait)
  then show ?thesis using sign by (auto simp: wait)
qed

lemma wait_time_bounds_witness: "unat (1200 :: u64) < 2 ^ 31 \<and> wait_time 1200 = min 3000 1200"
  using wait_time_bounds [of 1200] by simp

text \<open>
  The idle fiber of an I/O manager ends exactly when \<open>stop\<close> has been called, no
  timer is set, nobody waits for an event, no task is queued and no worker is
  active; it then leaves everything as it is.
\<close>

theorem idle_exit:
  assumes "io_inv io" and "0 < now"
    and "IOManager_idle ctl self now later a events (io, tm) = Inr (out, io', tm')"
  shows "(out = Returns \<longleftrightarrow> m_timers tm = [] \<and> (\<forall>fd. waiting io fd READ = None \<and> waiting io fd WRITE = None) \<and>
            stopping (schedulers io self)) \<and>
         (out = Returns \<longrightarrow> io' = io) \<and> (out \<noteq> Returns \<longrightarrow> out = YieldsHold)"
proof -
  have "finite {(fd, e). e \<in> {READ, WRITE} \<and> waiting io fd e \<noteq> None}"
    by (rule finite_subset [of _ "{..<length (m_fdContexts io)} \<times> {READ, WRITE}"])
       (auto simp: waiting_def split: if_splits)
  then have pending: "m_pendingEventCount io = 0 \<longleftrightarrow>
      (\<forall>fd. waiting io fd READ = None \<and> waiting io fd WRITE = None)"
    using pending_card [OF assms(1)] by (auto simp: card_eq_0_iff)
  have "fst (getNextTimer now tm) = - 1 \<longleftrightarrow> m_timers tm = []"
  proof (cases "m_timers tm")
    case (Cons p ps)
    have "x - now \<noteq> - 1" if "\<not> x < now" for x
    proof
      assume "x - now = - 1"
      then have "x = now - 1" by (simp add: diff_eq_eq)
      then show False
        using that assms(2) measure_unat [of now] by (simp add: word_less_nat_alt)
    qed
    then show ?thesis using Cons by (simp add: getNextTimer_def Let_def)
  qed (simp add: getNextTimer_def)
  then show ?thesis
    using assms(3) pending
    by (auto simp: IOManager_idle_def IOManager_stopping_def and_then_eq_Inr Let_def split: prod.splits if_splits)
qed

lemma idle_exit_witness:
  "\<exists>io. IOManager_idle (\<lambda>op d evs. 0) 0 100 200 9 []
     (new_IOManager (\<lambda>i. \<lparr>m_fibers = [], m_threads = [], m_rootFiber = None, m_threadIds = [],
        m_threadCount = 1, m_activeThreadCount = 0, m_idleThreadCount = 1, m_stopping = True,
        m_autoStop = True, m_rootThread = - 1\<rparr>) (\<lambda>i. 0), TimerManager 50 :: (nat, nat) timer_manager) =
     Inr (Returns, io, (TimerManager 50)\<lparr>m_tickled := False\<rparr>) \<and> waiting io 3 READ = None"
proof -
  define io :: "(nat, nat) callback iomanager" where
    "io = new_IOManager (\<lambda>i. \<lparr>m_fibers = [], m_threads = [], m_rootFiber = None, m_threadIds = [],
        m_threadCount = 1, m_activeThreadCount = 0, m_idleThreadCount = 1, m_stopping = True,
        m_autoStop = True, m_rootThread = - 1\<rparr>) (\<lambda>i. 0)"
  have inv: "io_inv io" unfolding io_def by (rule new_IOManager_inv)
  have run: "IOManager_idle (\<lambda>op d evs. 0) 0 100 200 9 [] (io, TimerManager 50 :: (nat, nat) timer_manager) =
      Inr (Returns, io, (TimerManager 50)\<lparr>m_tickled := False\<rparr>)"
    by (simp add: IOManager_idle_def IOManager_stopping_def io_def new_IOManager_def getNextTimer_def
        TimerManager_def stopping_def)
  have "waiting io 3 READ = None" using idle_exit [OF inv _ run] by simp
  then show ?thesis using run unfolding io_def by blast
qed

end
