(* ===== verification/Fd_Manager.thy ===== *)
theory Fd_Manager
  imports Prelude
begin

text \<open>
  The table of file descriptors (src/skt/fd_manager) the hooked system calls consult.
  The operating system is an argument, a record of the system calls on a state of any
  type: whether \<open>fstat\<close> fails and else says socket, the descriptor flags of
  \<open>fcntl\<close>, \<open>ioctl\<close> with FIONBIO, and \<open>close\<close>.  A descriptor below -1 indexes out of the vector and is an error value.
\<close>

record 'os syscalls =
  fstat_f :: "int \<Rightarrow> 'os \<Rightarrow> bool option"
  getfl_f :: "int \<Rightarrow> 'os \<Rightarrow> u32"
  setfl_f :: "int \<Rightarrow> u32 \<Rightarrow> 'os \<Rightarrow> int \<times> 'os"
  fionbio_f :: "int \<Rightarrow> bool \<Rightarrow> 'os \<Rightarrow> int \<times> 'os"
  close_f :: "int \<Rightarrow> 'os \<Rightarrow> int \<times> 'os"

abbreviation (input) O_NONBLOCK :: u32 where "O_NONBLOCK \<equiv> 0x800"

datatype timeout_type = SO_RCVTIMEO | SO_SNDTIMEO

datatype fdm_error = FdOutOfRange

record FdCtx =
  m_isInit :: bool
  m_isSocket :: bool
  m_sysNonblock :: bool
  m_userNonblock :: bool
  m_isClosed :: bool
  m_fd :: int
  m_recvTimeout :: u64
  m_sendTimeout :: u64

definition init :: "'os syscalls \<Rightarrow> FdCtx \<Rightarrow> 'os \<Rightarrow> FdCtx \<times> 'os" where
  "init sc c os =
     (if m_isInit c then (c, os)
      else let st = fstat_f sc (m_fd c) os;
               c = c\<lparr>m_recvTimeout := - 1, m_sendTimeout := - 1,
                     m_isInit := (st \<noteq> None), m_isSocket := (st = Some True)\<rparr>;
               flags = getfl_f sc (m_fd c) os;
               os = (if m_isSocket c \<and> flags AND O_NONBLOCK = 0
                     then snd (setfl_f sc (m_fd c) (flags OR O_NONBLOCK) os) else os)
           in (c\<lparr>m_sysNonblock := m_isSocket c, m_userNonblock := False, m_isClosed := False\<rparr>, os))"

definition new_FdCtx :: "'os syscalls \<Rightarrow> int \<Rightarrow> 'os \<Rightarrow> FdCtx \<times> 'os" where
  "new_FdCtx sc fd os =
     init sc \<lparr>m_isInit = False, m_isSocket = False, m_sysNonblock = False, m_userNonblock = False,
             m_isClosed = False, m_fd = fd, m_recvTimeout = - 1, m_sendTimeout = - 1\<rparr> os"

definition setTimeout :: "timeout_type \<Rightarrow> u64 \<Rightarrow> FdCtx \<Rightarrow> FdCtx" where
  "setTimeout ty v c = (if ty = SO_RCVTIMEO then c\<lparr>m_recvTimeout := v\<rparr> else c\<lparr>m_sendTimeout := v\<rparr>)"

definition getTimeout :: "timeout_type \<Rightarrow> FdCtx \<Rightarrow> u64" where
  "getTimeout ty c = (if ty = SO_RCVTIMEO then m_recvTimeout c else m_sendTimeout c)"

type_synonym fdmanager = "FdCtx option list"

definition new_FdManager :: fdmanager where
  "new_FdManager = replicate 64 None"

definition resize :: "nat \<Rightarrow> fdmanager \<Rightarrow> fdmanager" where
  "resize n m = take n m @ replicate (n - length m) None"

definition get :: "'os syscalls \<Rightarrow> int \<Rightarrow> bool \<Rightarrow> fdmanager \<Rightarrow> 'os \<Rightarrow> fdm_error + FdCtx option \<times> fdmanager \<times> 'os" where
  "get sc fd auto_create m os =
     (if fd = - 1 then Inr (None, m, os)
      else if int (length m) \<le> fd \<and> \<not> auto_create then Inr (None, m, os)
      else if fd < 0 then Inl FdOutOfRange
      else if fd < int (length m) \<and> (m ! nat fd \<noteq> None \<or> \<not> auto_create) then Inr (m ! nat fd, m, os)
      else let (ctx, os) = new_FdCtx sc fd os;
               m = (if fd \<ge> int (length m) then resize (nat (fd * 3 div 2)) m else m)
           in if fd \<ge> int (length m) then Inl FdOutOfRange
              else Inr (Some ctx, m[nat fd := Some ctx], os))"

definition del :: "int \<Rightarrow> fdmanager \<Rightarrow> fdm_error + fdmanager" where
  "del fd m =
     (if int (length m) \<le> fd then Inr m
      else if fd < 0 then Inl FdOutOfRange
      else Inr (m[nat fd := None]))"

text \<open>Changing the context of a descriptor through the pointer that \<open>get\<close> returned.\<close>

definition put :: "int \<Rightarrow> FdCtx \<Rightarrow> fdmanager \<Rightarrow> fdmanager" where
  "put fd c m = m[nat fd := Some c]"

definition entry :: "fdmanager \<Rightarrow> int \<Rightarrow> FdCtx option" where
  "entry m fd = (if 0 \<le> fd \<and> fd < int (length m) then m ! nat fd else None)"

lemma new_FdCtx_fields:
  assumes "new_FdCtx sc fd os = (c, os')"
  shows "m_fd c = fd" "m_isSocket c \<longleftrightarrow> fstat_f sc fd os = Some True" "m_sysNonblock c = m_isSocket c"
    "\<not> m_userNonblock c" "\<not> m_isClosed c" "m_recvTimeout c = - 1" "m_sendTimeout c = - 1"
    "os' = (if m_isSocket c \<and> getfl_f sc fd os AND O_NONBLOCK = 0
            then snd (setfl_f sc fd (getfl_f sc fd os OR O_NONBLOCK) os) else os)"
  using assms by (auto simp: new_FdCtx_def init_def Let_def)

lemma get_False:
  assumes "- 1 \<le> fd"
  shows "get sc fd False m os = Inr (entry m fd, m, os)"
  using assms by (auto simp: get_def entry_def)

lemma resize_entry:
  "length m \<le> n \<Longrightarrow> entry (resize n m) g = entry m g"
  by (auto simp: entry_def resize_def nth_append)

lemma get_True:
  assumes "0 \<le> fd" and "64 \<le> length m"
  shows "\<exists>c m' os'. get sc fd True m os = Inr (Some c, m', os') \<and> 64 \<le> length m' \<and>
     (\<forall>g. entry m' g = (if g = fd then Some c else entry m g)) \<and>
     (case entry m fd of Some c' \<Rightarrow> c = c' \<and> os' = os | None \<Rightarrow> (c, os') = new_FdCtx sc fd os)"
proof (cases "entry m fd")
  case (Some c)
  then have "get sc fd True m os = Inr (Some c, m, os)"
    using assms by (auto simp: get_def entry_def split: if_splits)
  then show ?thesis using Some assms by auto
next
  case None
  obtain c os' where new: "new_FdCtx sc fd os = (c, os')" by (cases "new_FdCtx sc fd os")
  define m1 where "m1 = (if fd \<ge> int (length m) then resize (nat (fd * 3 div 2)) m else m)"
  have len: "fd < int (length m1)" "64 \<le> length m1" using assms by (auto simp: m1_def resize_def)
  have old: "entry m1 g = entry m g" for g
    using resize_entry [of m "nat (fd * 3 div 2)" g] assms by (simp add: m1_def)
  have "get sc fd True m os = Inr (Some c, m1[nat fd := Some c], os')"
    using assms(1) None new len(1) unfolding get_def m1_def [symmetric]
    by (auto simp: entry_def)
  moreover have "entry (m1[nat fd := Some c]) g = (if g = fd then Some c else entry m g)" for g
    using old [of g] len(1) assms(1) by (auto simp: entry_def)
  ultimately show ?thesis using len(2) None new by simp
qed

lemma del_entry:
  assumes "0 \<le> fd"
  shows "\<exists>m'. del fd m = Inr m' \<and> length m' = length m \<and> (\<forall>g. entry m' g = (if g = fd then None else entry m g))"
  using assms by (auto simp: del_def entry_def nth_list_update)

lemma put_entry:
  assumes "entry m fd \<noteq> None"
  shows "entry (put fd c m) g = (if g = fd then Some c else entry m g)" "length (put fd c m) = length m"
  using assms by (auto simp: put_def entry_def nth_list_update split: if_splits)

text \<open>
  C28: the table is a map from descriptors to contexts: creating gives the context
  the table already has, or a fresh one (which makes a socket non-blocking) when it
  has none, also beyond the end of the vector; looking up afterwards finds it until
  it is deleted, and no other descriptor is affected.
\<close>

theorem fd_table:
  assumes "0 \<le> fd" and "64 \<le> length m"
  shows "\<exists>c m1 os1 m2. get sc fd True m os = Inr (Some c, m1, os1) \<and>
     (case entry m fd of Some c' \<Rightarrow> c = c' \<and> os1 = os | None \<Rightarrow> (c, os1) = new_FdCtx sc fd os) \<and>
     get sc fd False m1 os1 = Inr (Some c, m1, os1) \<and> 64 \<le> length m1 \<and>
     del fd m1 = Inr m2 \<and> get sc fd False m2 os1 = Inr (None, m2, os1) \<and> 64 \<le> length m2 \<and>
     (\<forall>g. - 1 \<le> g \<and> g \<noteq> fd \<longrightarrow>
        get sc g False m1 os1 = Inr (entry m g, m1, os1) \<and> get sc g False m2 os1 = Inr (entry m g, m2, os1))"
proof -
  obtain c m1 os1 where 1: "get sc fd True m os = Inr (Some c, m1, os1)" "64 \<le> length m1"
      "\<forall>g. entry m1 g = (if g = fd then Some c else entry m g)"
      "case entry m fd of Some c' \<Rightarrow> c = c' \<and> os1 = os | None \<Rightarrow> (c, os1) = new_FdCtx sc fd os"
    using get_True [OF assms, of sc os] by (elim exE conjE) (rule that)
  obtain m2 where 2: "del fd m1 = Inr m2" "length m2 = length m1"
      "\<forall>g. entry m2 g = (if g = fd then None else entry m1 g)"
    using del_entry [OF assms(1), of m1] by (elim exE conjE) (rule that)
  show ?thesis
    by (rule exI [of _ c], rule exI [of _ m1], rule exI [of _ os1], rule exI [of _ m2])
       (use 1(1,2,4) 2(1,2) assms(1) in \<open>simp add: get_False 1(3) 2(3)\<close>)
qed

definition flat_syscalls :: "(int \<Rightarrow> u32) syscalls" where
  "flat_syscalls = \<lparr>fstat_f = (\<lambda>fd os. Some True), getfl_f = (\<lambda>fd os. os fd),
     setfl_f = (\<lambda>fd v os. (0, os(fd := v))),
     fionbio_f = (\<lambda>fd b os. (0, os(fd := (if b then os fd OR O_NONBLOCK else os fd AND NOT O_NONBLOCK)))),
     close_f = (\<lambda>fd os. (0, os(fd := 0)))\<rparr>"

lemma fd_table_witness:
  "\<exists>c m1 os1. get flat_syscalls 100 True new_FdManager (\<lambda>fd. 2) = Inr (Some c, m1, os1) \<and>
     get flat_syscalls 100 False m1 os1 = Inr (Some c, m1, os1)"
  using fd_table [of 100 new_FdManager flat_syscalls "\<lambda>fd. 2"] by (auto simp: new_FdManager_def)

end
