(* ===== verification/Hook.thy ===== *)
theory Hook
  imports IOManager Fd_Manager
begin

text \<open>
  The hooked system calls (src/skt/hook): a call that would block registers the
  running fiber for the event, sets a timer when the descriptor has a timeout, and
  yields; it is tried again when the fiber is resumed.  The system calls below are
  arguments: the \<open>i\<close>-th call of the original function answers \<open>calls e i\<close> (result and
  errno), and \<open>sleeps e i\<close> is what the rest of the process does while the fiber
  waits after it.  The calling thread's I/O manager is \<open>e_this e\<close>; a call without one
  dereferences a null pointer.
\<close>

datatype hook_error = IoError io_error | TimerError timer_error | TableError | NoIOManager

text \<open>The callbacks the hooks give to timers: \<open>cancelEvent\<close> on timeout, \<open>schedule\<close> of a fiber.\<close>

datatype 'c hook_cb = OnTimeout int u32 | WakeFiber faddr | User 'c

type_synonym 'c hcallback = "(nat, 'c hook_cb) callback"

record ('c, 'os) hworld =
  h_io :: "'c hcallback iomanager"
  h_tm :: "(nat, 'c hook_cb) timer_manager"
  h_fds :: fdmanager
  h_os :: 'os
  h_tinfo :: "nat \<Rightarrow> int option"
  h_errno :: int

record ('c, 'os) henv =
  calls :: "nat \<Rightarrow> int \<times> int"
  sleeps :: "nat \<Rightarrow> ('c, 'os) hworld \<Rightarrow> ('c, 'os) hworld"
  clock :: "nat \<Rightarrow> u64"
  new_timer :: "nat \<Rightarrow> addr"
  e_ctl :: epoll_ctl
  e_this :: "nat option"
  e_cur :: faddr
  e_cur_state :: State

abbreviation (input) EINTR :: int where "EINTR \<equiv> 4"
abbreviation (input) EBADF :: int where "EBADF \<equiv> 9"
abbreviation (input) EAGAIN :: int where "EAGAIN \<equiv> 11"
abbreviation (input) ETIMEDOUT :: int where "ETIMEDOUT \<equiv> 110"
abbreviation (input) EINPROGRESS :: int where "EINPROGRESS \<equiv> 115"

definition lift_io :: "io_error + 'a \<Rightarrow> hook_error + 'a" where
  "lift_io r = (case r of Inl e \<Rightarrow> Inl (IoError e) | Inr x \<Rightarrow> Inr x)"

definition lift_timer :: "timer_error + 'a \<Rightarrow> hook_error + 'a" where
  "lift_timer r = (case r of Inl e \<Rightarrow> Inl (TimerError e) | Inr x \<Rightarrow> Inr x)"

definition lift_fd :: "fdm_error + 'a \<Rightarrow> hook_error + 'a" where
  "lift_fd r = (case r of Inl e \<Rightarrow> Inl TableError | Inr x \<Rightarrow> Inr x)"

text \<open>\<open>addTimer\<close> of the I/O manager \<open>i\<close>, with \<open>onTimerInsertedAtFront\<close>, which is \<open>tickle\<close>.\<close>

definition add_timer ::
  "nat \<Rightarrow> u64 \<Rightarrow> addr \<Rightarrow> u64 \<Rightarrow> 'c hcallback \<Rightarrow> ('c, 'os) hworld \<Rightarrow> ('c, 'os) hworld" where
  "add_timer i now a ms cb h =
     (let (front, tm) = addTimer now a ms cb False (h_tm h)
      in h\<lparr>h_tm := tm, h_io := (if front then tickle i (h_io h) else h_io h)\<rparr>)"

definition cancel_timer :: "addr option \<Rightarrow> ('c, 'os) hworld \<Rightarrow> hook_error + ('c, 'os) hworld" where
  "cancel_timer p h =
     (case p of None \<Rightarrow> Inr h
      | Some p \<Rightarrow> and_then (lift_timer (cancel p (h_tm h))) (\<lambda>(b, tm). Inr (h\<lparr>h_tm := tm\<rparr>)))"


text \<open>
  The part from \<open>addConditionTimer\<close> to the switch away: the timer, if any, and the
  result of \<open>addEvent\<close>.
\<close>

definition io_wait ::
  "('c, 'os) henv \<Rightarrow> nat \<Rightarrow> int \<Rightarrow> u32 \<Rightarrow> u64 \<Rightarrow> nat \<Rightarrow> ('c, 'os) hworld
   \<Rightarrow> hook_error + addr option \<times> int \<times> ('c, 'os) hworld" where
  "io_wait e i fd event to winfo h =
     (case e_this e of None \<Rightarrow> Inl NoIOManager
      | Some iom \<Rightarrow>
          let timer = (if to \<noteq> - 1 then Some (new_timer e i) else None);
              h = (case timer of None \<Rightarrow> h
                   | Some a \<Rightarrow> add_timer iom (clock e i) a to (Bound winfo (OnTimeout fd event)) h)
          in and_then (lift_io (addEvent (e_ctl e) (e_this e) (e_cur e) (e_cur_state e) fd event None (h_io h)))
               (\<lambda>(rt, io). Inr (timer, rt, h\<lparr>h_io := io\<rparr>)))"

text \<open>The loop of \<open>do_io\<close> from its label \<open>retry\<close>; None is a loop that never ends.\<close>

partial_function (option) do_io_retry ::
  "('c, 'os) henv \<Rightarrow> int \<Rightarrow> u32 \<Rightarrow> u64 \<Rightarrow> nat \<Rightarrow> nat \<Rightarrow> ('c, 'os) hworld
   \<Rightarrow> (hook_error + int \<times> ('c, 'os) hworld) option" where
  "do_io_retry e fd event to winfo i h =
     (case calls e i of (n, err) \<Rightarrow>
        if n = - 1 \<and> err = EINTR then do_io_retry e fd event to winfo (i + 1) h
        else if n = - 1 \<and> err = EAGAIN then
          (case io_wait e i fd event to winfo h of
             Inl x \<Rightarrow> Some (Inl x)
           | Inr (timer, rt, h) \<Rightarrow>
               if rt \<noteq> 0 then Some (and_then (cancel_timer timer h) (\<lambda>h. Inr (- 1, h)))
               else (case cancel_timer timer (sleeps e i h) of
                       Inl x \<Rightarrow> Some (Inl x)
                     | Inr h \<Rightarrow>
                         if h_tinfo h winfo \<noteq> Some 0
                         then Some (Inr (- 1, h\<lparr>h_errno := (case h_tinfo h winfo of Some c \<Rightarrow> c | None \<Rightarrow> 0)\<rparr>))
                         else do_io_retry e fd event to winfo (i + 1) h))
        else Some (Inr (n, h\<lparr>h_errno := err\<rparr>)))"

text \<open>A call of the original function, without waiting.\<close>

definition plain_call :: "('c, 'os) henv \<Rightarrow> ('c, 'os) hworld \<Rightarrow> int \<times> ('c, 'os) hworld" where
  "plain_call e h = (fst (calls e 0), h\<lparr>h_errno := snd (calls e 0)\<rparr>)"

definition do_io ::
  "bool \<Rightarrow> 'os syscalls \<Rightarrow> ('c, 'os) henv \<Rightarrow> int \<Rightarrow> u32 \<Rightarrow> timeout_type \<Rightarrow> nat \<Rightarrow> ('c, 'os) hworld
   \<Rightarrow> (hook_error + int \<times> ('c, 'os) hworld) option" where
  "do_io t_hook_enable sc e fd event timeout_so winfo h =
     (if \<not> t_hook_enable then Some (Inr (plain_call e h))
      else case lift_fd (get sc fd False (h_fds h) (h_os h)) of
             Inl x \<Rightarrow> Some (Inl x)
           | Inr (None, m, os) \<Rightarrow> Some (Inr (plain_call e h))
           | Inr (Some ctx, m, os) \<Rightarrow>
               if m_isClosed ctx then Some (Inr (- 1, h\<lparr>h_errno := EBADF\<rparr>))
               else if \<not> m_isSocket ctx \<or> m_userNonblock ctx then Some (Inr (plain_call e h))
               else map_option (map_sum id (\<lambda>(n, h). (n, h\<lparr>h_tinfo := (h_tinfo h)(winfo := None)\<rparr>)))
                      (do_io_retry e fd event (getTimeout timeout_so ctx) winfo 0
                         (h\<lparr>h_tinfo := (h_tinfo h)(winfo \<mapsto> 0)\<rparr>)))"

text \<open>
  The wrappers around \<open>do_io\<close>: the event and the timeout each passes on.  \<open>accept\<close>
  then enters the new descriptor into the table.
\<close>

datatype io_call = c_accept | c_read | c_readv | c_recv | c_recvfrom | c_recvmsg
  | c_write | c_writev | c_send | c_sendto | c_sendmsg

fun io_args :: "io_call \<Rightarrow> u32 \<times> timeout_type" where
  "io_args c_accept = (READ, SO_RCVTIMEO)"
| "io_args c_read = (READ, SO_RCVTIMEO)"
| "io_args c_readv = (READ, SO_RCVTIMEO)"
| "io_args c_recv = (READ, SO_RCVTIMEO)"
| "io_args c_recvfrom = (READ, SO_RCVTIMEO)"
| "io_args c_recvmsg = (READ, SO_RCVTIMEO)"
| "io_args c_write = (WRITE, SO_SNDTIMEO)"
| "io_args c_writev = (WRITE, SO_SNDTIMEO)"
| "io_args c_send = (WRITE, SO_SNDTIMEO)"
| "io_args c_sendto = (WRITE, SO_SNDTIMEO)"
| "io_args c_sendmsg = (WRITE, SO_SNDTIMEO)"

definition hooked_io ::
  "io_call \<Rightarrow> bool \<Rightarrow> 'os syscalls \<Rightarrow> ('c, 'os) henv \<Rightarrow> int \<Rightarrow> nat \<Rightarrow> ('c, 'os) hworld
   \<Rightarrow> (hook_error + int \<times> ('c, 'os) hworld) option" where
  "hooked_io c en sc e fd winfo h =
     (case io_args c of (event, ty) \<Rightarrow>
        map_option (\<lambda>r. and_then r (\<lambda>(n, h).
            if c = c_accept \<and> n \<ge> 0 then
              and_then (lift_fd (get sc n True (h_fds h) (h_os h))) (\<lambda>(x, m, os).
                Inr (n, h\<lparr>h_fds := m, h_os := os\<rparr>))
            else Inr (n, h)))
          (do_io en sc e fd event ty winfo h))"

subsection \<open>Sleeping\<close>

text \<open>
  The times in milliseconds, in the types the code computes them with; the parts of
  a \<open>timespec\<close> are not negative.
\<close>

definition sleep_ms :: "u32 \<Rightarrow> u64" where
  "sleep_ms seconds = ucast (seconds * 1000)"

definition usleep_ms :: "u32 \<Rightarrow> u64" where
  "usleep_ms usec = ucast (usec div 1000)"

definition nanosleep_ms :: "int \<Rightarrow> int \<Rightarrow> u64" where
  "nanosleep_ms tv_sec tv_nsec = scast (word_of_int (tv_sec * 1000 + tv_nsec div 1000) :: u32)"

text \<open>The common part of the three: a timer that schedules the fiber, before it yields.\<close>

definition sleep_for ::
  "('c, 'os) henv \<Rightarrow> u64 \<Rightarrow> ('c, 'os) hworld \<Rightarrow> hook_error + ('c, 'os) hworld" where
  "sleep_for e ms h =
     (case e_this e of None \<Rightarrow> Inl NoIOManager
      | Some iom \<Rightarrow> Inr (add_timer iom (clock e 0) (new_timer e 0) ms (Fn (WakeFiber (e_cur e))) h))"

definition sleep :: "('c, 'os) henv \<Rightarrow> u32 \<Rightarrow> ('c, 'os) hworld \<Rightarrow> hook_error + ('c, 'os) hworld" where
  "sleep e seconds h = sleep_for e (sleep_ms seconds) h"

definition usleep :: "('c, 'os) henv \<Rightarrow> u32 \<Rightarrow> ('c, 'os) hworld \<Rightarrow> hook_error + ('c, 'os) hworld" where
  "usleep e usec h = sleep_for e (usleep_ms usec) h"

definition nanosleep ::
  "('c, 'os) henv \<Rightarrow> int \<Rightarrow> int \<Rightarrow> ('c, 'os) hworld \<Rightarrow> hook_error + ('c, 'os) hworld" where
  "nanosleep e tv_sec tv_nsec h = sleep_for e (nanosleep_ms tv_sec tv_nsec) h"

subsection \<open>Descriptors\<close>

definition socket ::
  "bool \<Rightarrow> 'os syscalls \<Rightarrow> int \<Rightarrow> ('c, 'os) hworld \<Rightarrow> hook_error + int \<times> ('c, 'os) hworld" where
  "socket t_hook_enable sc fd h =
     (if \<not> t_hook_enable \<or> fd = - 1 then Inr (fd, h)
      else and_then (lift_fd (get sc fd True (h_fds h) (h_os h))) (\<lambda>(x, m, os).
             Inr (fd, h\<lparr>h_fds := m, h_os := os\<rparr>)))"

text \<open>
  \<open>connect_with_timeout\<close>: \<open>calls e 0\<close> is the answer of \<open>connect_f\<close>, \<open>so\<close> that of
  \<open>getsockopt\<close> (None for -1, else the pending error of the socket).
\<close>

definition connect_with_timeout ::
  "bool \<Rightarrow> 'os syscalls \<Rightarrow> ('c, 'os) henv \<Rightarrow> int \<Rightarrow> u64 \<Rightarrow> int option \<Rightarrow> nat \<Rightarrow> ('c, 'os) hworld
   \<Rightarrow> hook_error + int \<times> ('c, 'os) hworld" where
  "connect_with_timeout t_hook_enable sc e fd timeout_ms so winfo h =
     (if \<not> t_hook_enable then Inr (plain_call e h)
      else and_then (lift_fd (get sc fd False (h_fds h) (h_os h))) (\<lambda>(ctx, m, os).
        if (case ctx of None \<Rightarrow> True | Some c \<Rightarrow> m_isClosed c) then Inr (- 1, h\<lparr>h_errno := EBADF\<rparr>)
        else if \<not> m_isSocket (the ctx) \<or> m_userNonblock (the ctx) then Inr (plain_call e h)
        else if fst (calls e 0) \<noteq> - 1 \<or> snd (calls e 0) \<noteq> EINPROGRESS then Inr (plain_call e h)
        else and_then (io_wait e 0 fd WRITE timeout_ms winfo (h\<lparr>h_tinfo := (h_tinfo h)(winfo \<mapsto> 0)\<rparr>))
          (\<lambda>(timer, rt, h).
             and_then (cancel_timer timer (if rt = 0 then sleeps e 0 h else h)) (\<lambda>h.
               let cancelled = (case h_tinfo h winfo of Some c \<Rightarrow> c | None \<Rightarrow> 0);
                   h = h\<lparr>h_tinfo := (h_tinfo h)(winfo := None)\<rparr>
               in if rt = 0 \<and> cancelled \<noteq> 0 then Inr (- 1, h\<lparr>h_errno := cancelled\<rparr>)
                  else case so of None \<Rightarrow> Inr (- 1, h)
                       | Some err \<Rightarrow> if err = 0 then Inr (0, h) else Inr (- 1, h\<lparr>h_errno := err\<rparr>)))))"

definition connect ::
  "u64 \<Rightarrow> bool \<Rightarrow> 'os syscalls \<Rightarrow> ('c, 'os) henv \<Rightarrow> int \<Rightarrow> int option \<Rightarrow> nat \<Rightarrow> ('c, 'os) hworld
   \<Rightarrow> hook_error + int \<times> ('c, 'os) hworld" where
  "connect s_connect_timeout en sc e fd so winfo h =
     connect_with_timeout en sc e fd s_connect_timeout so winfo h"

definition close ::
  "bool \<Rightarrow> 'os syscalls \<Rightarrow> epoll_ctl \<Rightarrow> nat option \<Rightarrow> int \<Rightarrow> ('c, 'os) hworld
   \<Rightarrow> hook_error + int \<times> ('c, 'os) hworld" where
  "close t_hook_enable sc ctl iom fd h =
     (let fin = (\<lambda>h. let (r, os) = close_f sc fd (h_os h) in Inr (r, h\<lparr>h_os := os\<rparr>))
      in if \<not> t_hook_enable then fin h
         else and_then (lift_fd (get sc fd False (h_fds h) (h_os h))) (\<lambda>(ctx, m, os).
           if ctx = None then fin h
           else and_then (if iom = None then Inr h
                          else and_then (lift_io (cancelAll ctl fd (h_io h))) (\<lambda>(b, io). Inr (h\<lparr>h_io := io\<rparr>)))
             (\<lambda>h. and_then (lift_fd (del fd (h_fds h))) (\<lambda>m. fin (h\<lparr>h_fds := m\<rparr>)))))"

definition unhooked :: "FdCtx option \<Rightarrow> bool" where
  "unhooked ctx = (case ctx of None \<Rightarrow> True | Some c \<Rightarrow> m_isClosed c \<or> \<not> m_isSocket c)"

definition fcntl_setfl ::
  "'os syscalls \<Rightarrow> int \<Rightarrow> u32 \<Rightarrow> ('c, 'os) hworld \<Rightarrow> hook_error + int \<times> ('c, 'os) hworld" where
  "fcntl_setfl sc fd arg h =
     and_then (lift_fd (get sc fd False (h_fds h) (h_os h))) (\<lambda>(ctx, m, os).
       if unhooked ctx then (let (r, os) = setfl_f sc fd arg (h_os h) in Inr (r, h\<lparr>h_os := os\<rparr>))
       else let c = (the ctx)\<lparr>m_userNonblock := (arg AND O_NONBLOCK \<noteq> 0)\<rparr>;
                arg = (if m_sysNonblock c then arg OR O_NONBLOCK else arg AND NOT O_NONBLOCK);
                (r, os) = setfl_f sc fd arg (h_os h)
            in Inr (r, h\<lparr>h_fds := put fd c (h_fds h), h_os := os\<rparr>))"

definition fcntl_getfl :: "'os syscalls \<Rightarrow> int \<Rightarrow> ('c, 'os) hworld \<Rightarrow> hook_error + u32" where
  "fcntl_getfl sc fd h =
     (let arg = getfl_f sc fd (h_os h)
      in and_then (lift_fd (get sc fd False (h_fds h) (h_os h))) (\<lambda>(ctx, m, os).
           if unhooked ctx then Inr arg
           else if m_userNonblock (the ctx) then Inr (arg OR O_NONBLOCK)
           else Inr (arg AND NOT O_NONBLOCK)))"

definition ioctl_fionbio ::
  "'os syscalls \<Rightarrow> int \<Rightarrow> bool \<Rightarrow> ('c, 'os) hworld \<Rightarrow> hook_error + int \<times> ('c, 'os) hworld" where
  "ioctl_fionbio sc fd user_nonblock h =
     and_then (lift_fd (get sc fd False (h_fds h) (h_os h))) (\<lambda>(ctx, m, os).
       let (r, os) = fionbio_f sc fd user_nonblock (h_os h)
       in if unhooked ctx then Inr (r, h\<lparr>h_os := os\<rparr>)
          else Inr (r, h\<lparr>h_fds := put fd ((the ctx)\<lparr>m_userNonblock := user_nonblock\<rparr>) (h_fds h), h_os := os\<rparr>))"

text \<open>\<open>setsockopt\<close> of a timeout; what the original function then does is not part of the model.\<close>

definition setsockopt_timeout ::
  "bool \<Rightarrow> 'os syscalls \<Rightarrow> int \<Rightarrow> timeout_type \<Rightarrow> int \<Rightarrow> int \<Rightarrow> ('c, 'os) hworld
   \<Rightarrow> hook_error + ('c, 'os) hworld" where
  "setsockopt_timeout t_hook_enable sc fd optname tv_sec tv_usec h =
     (if \<not> t_hook_enable then Inr h
      else and_then (lift_fd (get sc fd False (h_fds h) (h_os h))) (\<lambda>(ctx, m, os).
        case ctx of None \<Rightarrow> Inr h
        | Some c \<Rightarrow>
            Inr (h\<lparr>h_fds := put fd (setTimeout optname (word_of_int (tv_sec * 1000 + tv_usec div 1000)) c)
                             (h_fds h)\<rparr>)))"

subsection \<open>The loop of \<open>do_io\<close>\<close>

text \<open>The fiber is registered and asleep, and is awake before its \<open>i\<close>-th call.\<close>

definition awaits :: "('c, 'os) henv \<Rightarrow> int \<Rightarrow> u32 \<Rightarrow> nat \<Rightarrow> nat \<Rightarrow> ('c, 'os) hworld \<Rightarrow> bool" where
  "awaits e fd event winfo i h \<longleftrightarrow>
     io_inv (h_io h) \<and> tm_inv (h_tm h) \<and> waiting (h_io h) (nat fd) event \<noteq> None \<and>
     h_tinfo h winfo = Some 0 \<and> (\<forall>j > i. store (h_tm h) (new_timer e j) = None)"

definition ready :: "('c, 'os) henv \<Rightarrow> int \<Rightarrow> u32 \<Rightarrow> nat \<Rightarrow> nat \<Rightarrow> ('c, 'os) hworld \<Rightarrow> bool" where
  "ready e fd event winfo i h \<longleftrightarrow>
     io_inv (h_io h) \<and> tm_inv (h_tm h) \<and> waiting (h_io h) (nat fd) event = None \<and>
     h_tinfo h winfo = Some 0 \<and> (\<forall>j \<ge> i. store (h_tm h) (new_timer e j) = None)"

text \<open>A thread of an I/O manager whose \<open>epoll_ctl\<close> works and whose timers are distinct objects.\<close>

definition works_ok :: "('c, 'os) henv \<Rightarrow> bool" where
  "works_ok e \<longleftrightarrow> e_this e \<noteq> None \<and> e_cur_state e = EXEC \<and> (\<forall>op fd evs. e_ctl e op fd evs = 0) \<and>
     inj (new_timer e)"

lemma tickle_fields [simp]:
  "m_fdContexts (tickle i io) = m_fdContexts io" "m_pendingEventCount (tickle i io) = m_pendingEventCount io"
  "schedulers (tickle i io) = schedulers io"
  by (simp_all add: tickle_def)

lemma tickle_inv [simp]: "io_inv (tickle i io) = io_inv io" "waiting (tickle i io) = waiting io"
  by (simp_all add: io_inv_def waiting_def fun_eq_iff)

lemma add_timer_fields:
  "h_io (add_timer i now a ms cb h) \<in> {h_io h, tickle i (h_io h)}"
  "h_tm (add_timer i now a ms cb h) = snd (addTimer now a ms cb False (h_tm h))"
  "h_tinfo (add_timer i now a ms cb h) = h_tinfo h" "h_fds (add_timer i now a ms cb h) = h_fds h"
  by (simp_all add: add_timer_def split: prod.split)

lemma addTimer_store: "store (snd (addTimer now a ms cb r tm)) = (store tm)(a \<mapsto> new_Timer now ms cb r)"
  by (simp add: addTimer_def addTimer_locked_def Let_def)

lemma cancel_store: "cancel p tm = Inr (b, tm') \<Longrightarrow> q \<noteq> p \<Longrightarrow> store tm' q = store tm q"
  by (auto simp: cancel_def Let_def split: option.splits if_splits)

lemma cancel_timer_ok:
  assumes "tm_inv (h_tm h)"
  shows "\<exists>tm. cancel_timer p h = Inr (h\<lparr>h_tm := tm\<rparr>) \<and> tm_inv tm \<and> (\<forall>q. p \<noteq> Some q \<longrightarrow> store tm q = store (h_tm h) q)"
proof (cases p)
  case None
  then show ?thesis using assms by (intro exI [of _ "h_tm h"]) (simp add: cancel_timer_def)
next
  case (Some a)
  obtain tm where "cancel a (h_tm h) = Inr (a \<in> dom (pending (h_tm h)), tm)" "tm_inv tm"
    using cancel_spec [OF assms, of a] by blast
  then show ?thesis using Some cancel_store [of a "h_tm h"]
    by (intro exI [of _ tm]) (auto simp: cancel_timer_def lift_timer_def)
qed

lemma io_wait_ok:
  assumes "works_ok e" and "ready e fd event winfo i h" and "0 \<le> fd" and "event \<in> {1, 4}"
  shows "\<exists>timer h'. io_wait e i fd event to winfo h = Inr (timer, 0, h') \<and> awaits e fd event winfo i h' \<and>
     (timer = None \<or> timer = Some (new_timer e i))"
proof -
  obtain iom where iom: "e_this e = Some iom" "e_cur_state e = EXEC" "\<And>op fd evs. e_ctl e op fd evs = 0"
      "inj (new_timer e)"
    using assms(1) by (auto simp: works_ok_def)
  define h1 where "h1 = (if to \<noteq> - 1
      then add_timer iom (clock e i) (new_timer e i) to (Bound winfo (OnTimeout fd event)) h else h)"
  have h1: "io_inv (h_io h1)" "tm_inv (h_tm h1)" "waiting (h_io h1) (nat fd) event = None"
      "h_tinfo h1 winfo = Some 0" "\<forall>j > i. store (h_tm h1) (new_timer e j) = None"
    using assms(2) add_timer_fields(1) [of iom "clock e i" "new_timer e i" to "Bound winfo (OnTimeout fd event)" h]
      iom(4)
    by (auto simp: h1_def ready_def add_timer_fields addTimer_spec addTimer_store inj_eq)
  obtain io' where io': "addEvent (e_ctl e) (Some iom) (e_cur e) EXEC fd event None (h_io h1) = Inr (0, io')"
      "io_inv io'" "waiting io' (nat fd) event \<noteq> None"
    using addEvent_inv [OF h1(1) assms(3,4) h1(3), of None EXEC "e_ctl e" iom "e_cur e"]
      addEvent_ok [OF h1(1) assms(3,4) h1(3), of None EXEC "e_ctl e" iom "e_cur e"] iom(3)
      waiting_occupied [OF grown_ok(1,2) [OF h1(1) assms(3)] assms(4)]
    by (auto simp: Let_def)
  have "io_wait e i fd event to winfo h =
      Inr (if to \<noteq> - 1 then Some (new_timer e i) else None, 0, h1\<lparr>h_io := io'\<rparr>)"
    using io'(1) iom(1,2) by (cases "to = - 1") (simp_all add: io_wait_def h1_def lift_io_def Let_def)
  then show ?thesis using h1 io' by (auto simp: awaits_def)
qed

lemma do_io_retry_step:
  assumes "works_ok e" and "ready e fd event winfo i h" and "0 \<le> fd" and "event \<in> {1, 4}"
    and "calls e i = (- 1, EINTR) \<or> calls e i = (- 1, EAGAIN)"
    and "\<And>i h. awaits e fd event winfo i h \<Longrightarrow> ready e fd event winfo (i + 1) (sleeps e i h)"
  shows "\<exists>h'. do_io_retry e fd event to winfo i h = do_io_retry e fd event to winfo (i + 1) h' \<and>
           ready e fd event winfo (i + 1) h'"
proof (cases "calls e i = (- 1, EINTR)")
  case True
  moreover have "ready e fd event winfo (i + 1) h" using assms(2) by (simp add: ready_def)
  ultimately show ?thesis by (intro exI [of _ h]) (simp add: do_io_retry.simps [of e fd event to winfo i])
next
  case False
  then have again: "calls e i = (- 1, EAGAIN)" using assms(5) by simp
  obtain timer h1 where w: "io_wait e i fd event to winfo h = Inr (timer, 0, h1)" "awaits e fd event winfo i h1"
      "timer = None \<or> timer = Some (new_timer e i)"
    using io_wait_ok [OF assms(1-4), of to] by (elim exE conjE) (rule that)
  let ?h = "sleeps e i h1"
  have r: "ready e fd event winfo (i + 1) ?h" by (rule assms(6) [OF w(2)])
  obtain tm where c: "cancel_timer timer ?h = Inr (?h\<lparr>h_tm := tm\<rparr>)" "tm_inv tm"
      "\<forall>q. timer \<noteq> Some q \<longrightarrow> store tm q = store (h_tm ?h) q"
    using cancel_timer_ok [of ?h timer] r by (auto simp: ready_def)
  have "timer \<noteq> Some (new_timer e j)" if "j \<ge> i + 1" for j
    using w(3) assms(1) that by (auto simp: works_ok_def inj_eq)
  then have "ready e fd event winfo (i + 1) (?h\<lparr>h_tm := tm\<rparr>)"
    using r c(2,3) by (simp add: ready_def)
  moreover have "h_tinfo (?h\<lparr>h_tm := tm\<rparr>) winfo = Some 0" using r by (simp add: ready_def)
  ultimately show ?thesis
    using again w(1) c(1)
    by (intro exI [of _ "?h\<lparr>h_tm := tm\<rparr>"]) (simp add: do_io_retry.simps [of e fd event to winfo i])
qed

lemma do_io_retry_steps:
  assumes "works_ok e" and "ready e fd event winfo 0 h" and "0 \<le> fd" and "event \<in> {1, 4}"
    and "\<And>i. i < m \<Longrightarrow> calls e i = (- 1, EINTR) \<or> calls e i = (- 1, EAGAIN)"
    and "\<And>i h. awaits e fd event winfo i h \<Longrightarrow> ready e fd event winfo (i + 1) (sleeps e i h)"
  shows "\<exists>h'. do_io_retry e fd event to winfo 0 h = do_io_retry e fd event to winfo m h' \<and>
           ready e fd event winfo m h'"
  using assms(5)
proof (induction m)
  case 0
  then show ?case using assms(2) by blast
next
  case (Suc m)
  then obtain h' where "do_io_retry e fd event to winfo 0 h = do_io_retry e fd event to winfo m h'"
      "ready e fd event winfo m h'"
    by (meson less_Suc_eq)
  then show ?case
    using do_io_retry_step [OF assms(1) _ assms(3,4) _ assms(6), of m h' to] Suc.prems [of m] by auto
qed

text \<open>
  C9: on a socket the program sees as blocking, a hooked call never fails with EINTR
  or EAGAIN: whatever the number of interruptions and of waits (each ended by its
  event), it returns the first other answer of the original function, and its errno.
\<close>

theorem do_io_answers:
  assumes "works_ok e" and "0 \<le> fd" and "event \<in> {READ, WRITE}"
    and "entry (h_fds h) fd = Some ctx" and "m_isSocket ctx" and "\<not> m_userNonblock ctx" and "\<not> m_isClosed ctx"
    and "ready e fd event winfo 0 (h\<lparr>h_tinfo := (h_tinfo h)(winfo \<mapsto> 0)\<rparr>)"
    and "\<And>i. i < m \<Longrightarrow> calls e i = (- 1, EINTR) \<or> calls e i = (- 1, EAGAIN)"
    and "calls e m = (n, err)" and "n \<noteq> - 1 \<or> err \<noteq> EINTR \<and> err \<noteq> EAGAIN"
    and "\<And>i h. awaits e fd event winfo i h \<Longrightarrow> ready e fd event winfo (i + 1) (sleeps e i h)"
  shows "\<exists>h'. do_io True sc e fd event ty winfo h = Some (Inr (n, h')) \<and> h_errno h' = err"
proof -
  let ?to = "getTimeout ty ctx"
  obtain h' where "do_io_retry e fd event ?to winfo 0 (h\<lparr>h_tinfo := (h_tinfo h)(winfo \<mapsto> 0)\<rparr>) =
      do_io_retry e fd event ?to winfo m h'"
    using do_io_retry_steps [OF assms(1,8,2,3,9,12)] by blast
  moreover have "do_io_retry e fd event ?to winfo m h' = Some (Inr (n, h'\<lparr>h_errno := err\<rparr>))"
    using assms(10,11) by (auto simp: do_io_retry.simps [of e fd event ?to winfo m])
  ultimately show ?thesis
    using assms(2,4-7) by (simp add: do_io_def get_False lift_fd_def)
qed

text \<open>
  When the \<open>m\<close>-th wait of a hooked call is ended by its timer, the call returns -1
  with errno ETIMEDOUT.
\<close>

theorem do_io_times_out:
  assumes "works_ok e" and "0 \<le> fd" and "event \<in> {READ, WRITE}"
    and "entry (h_fds h) fd = Some ctx" and "m_isSocket ctx" and "\<not> m_userNonblock ctx" and "\<not> m_isClosed ctx"
    and "ready e fd event winfo 0 (h\<lparr>h_tinfo := (h_tinfo h)(winfo \<mapsto> 0)\<rparr>)"
    and "\<And>i. i < m \<Longrightarrow> calls e i = (- 1, EINTR)" and "calls e m = (- 1, EAGAIN)"
    and "\<And>h. awaits e fd event winfo m h \<Longrightarrow>
           tm_inv (h_tm (sleeps e m h)) \<and> h_tinfo (sleeps e m h) winfo = Some ETIMEDOUT"
  shows "\<exists>h'. do_io True sc e fd event ty winfo h = Some (Inr (- 1, h')) \<and> h_errno h' = ETIMEDOUT"
proof -
  let ?to = "getTimeout ty ctx" and ?h = "h\<lparr>h_tinfo := (h_tinfo h)(winfo \<mapsto> 0)\<rparr>"
  have same: "do_io_retry e fd event ?to winfo 0 ?h = do_io_retry e fd event ?to winfo k ?h" if "k \<le> m" for k
    using that assms(9) by (induction k) (auto simp: do_io_retry.simps [of e fd event ?to winfo])
  have "ready e fd event winfo m ?h" using assms(8) by (simp add: ready_def)
  then obtain timer h1 where w: "io_wait e m fd event ?to winfo ?h = Inr (timer, 0, h1)"
      "awaits e fd event winfo m h1"
    using io_wait_ok [OF assms(1) _ assms(2,3), of winfo m ?h ?to] by blast
  then obtain tm where "cancel_timer timer (sleeps e m h1) = Inr ((sleeps e m h1)\<lparr>h_tm := tm\<rparr>)"
    using cancel_timer_ok [of "sleeps e m h1" timer] assms(11) [OF w(2)] by blast
  then have "\<exists>h'. do_io_retry e fd event ?to winfo m ?h = Some (Inr (- 1, h')) \<and> h_errno h' = ETIMEDOUT"
    using w(1) assms(10) assms(11) [OF w(2)] by (simp add: do_io_retry.simps [of e fd event ?to winfo m])
  then show ?thesis
    using same [of m] assms(2,4-7) by (auto simp: do_io_def get_False lift_fd_def)
qed

subsection \<open>A concrete call\<close>

definition demo_ctx :: FdCtx where
  "demo_ctx = \<lparr>m_isInit = True, m_isSocket = True, m_sysNonblock = True, m_userNonblock = False,
     m_isClosed = False, m_fd = 7, m_recvTimeout = 500, m_sendTimeout = - 1\<rparr>"

definition demo_h :: "(nat, int \<Rightarrow> u32) hworld" where
  "demo_h = \<lparr>h_io = new_IOManager (\<lambda>i. \<lparr>m_fibers = [], m_threads = [1], m_rootFiber = None,
       m_threadIds = [1], m_threadCount = 1, m_activeThreadCount = 0, m_idleThreadCount = 0,
       m_stopping = False, m_autoStop = False, m_rootThread = - 1\<rparr>) (\<lambda>i. 0),
     h_tm = TimerManager 0, h_fds = new_FdManager[7 := Some demo_ctx], h_os = (\<lambda>fd. 0x802),
     h_tinfo = Map.empty, h_errno = 0\<rparr>"

definition demo_env ::
  "(nat \<Rightarrow> int \<times> int) \<Rightarrow> (nat \<Rightarrow> (nat, int \<Rightarrow> u32) hworld \<Rightarrow> (nat, int \<Rightarrow> u32) hworld)
   \<Rightarrow> (nat, int \<Rightarrow> u32) henv" where
  "demo_env cs ss = \<lparr>calls = cs, sleeps = ss, clock = (\<lambda>i. 1000), new_timer = (\<lambda>i. i),
     e_ctl = (\<lambda>op fd evs. 0), e_this = Some 0, e_cur = 3, e_cur_state = EXEC\<rparr>"

lemma demo_facts:
  "works_ok (demo_env cs ss)" "entry (h_fds demo_h) 7 = Some demo_ctx"
  "m_isSocket demo_ctx" "\<not> m_userNonblock demo_ctx" "\<not> m_isClosed demo_ctx"
  "ready (demo_env cs ss) 7 READ w 0 (demo_h\<lparr>h_tinfo := (h_tinfo demo_h)(w \<mapsto> 0)\<rparr>)"
  by (simp_all add: works_ok_def demo_env_def demo_h_def demo_ctx_def entry_def new_FdManager_def ready_def
      new_IOManager_inv TimerManager_inv)
     (simp_all add: waiting_def new_IOManager_def contextResize_def new_FdContext_def TimerManager_def)

lemma do_io_answers_witness:
  "\<exists>h'. do_io True flat_syscalls (demo_env (\<lambda>i. if i = 0 then (- 1, EAGAIN) else (5, 0))
      (\<lambda>i h. h\<lparr>h_io := deliver READ 7 (h_io h)\<rparr>)) 7 READ SO_RCVTIMEO 0 demo_h = Some (Inr (5, h')) \<and>
    h_errno h' = 0"
  by (rule do_io_answers [where m = 1 and ctx = demo_ctx])
     (simp_all only: demo_facts,
      simp_all add: demo_env_def awaits_def ready_def deliver_ok)

lemma do_io_times_out_witness:
  "\<exists>h'. do_io True flat_syscalls (demo_env (\<lambda>i. if i = 0 then (- 1, EINTR) else (- 1, EAGAIN))
      (\<lambda>i h. h\<lparr>h_tinfo := (h_tinfo h)(0 \<mapsto> ETIMEDOUT)\<rparr>)) 7 READ SO_RCVTIMEO 0 demo_h = Some (Inr (- 1, h')) \<and>
    h_errno h' = ETIMEDOUT"
  by (rule do_io_times_out [where m = 1 and ctx = demo_ctx])
     (simp_all only: demo_facts, simp_all add: demo_env_def awaits_def)

subsection \<open>Event against timeout\<close>



subsection \<open>Descriptor flags, sleeping and closing\<close>

text \<open>
  C30: on a hooked socket the program reads back with \<open>fcntl(F_GETFL)\<close> the O_NONBLOCK
  bit it set with \<open>fcntl(F_SETFL)\<close>, while the descriptor itself stays non-blocking; but
  \<open>ioctl(FIONBIO, 0)\<close> makes the descriptor itself blocking, although the table still
  says it is non-blocking.  The kernel is assumed to keep that bit as it was set.
\<close>

theorem nonblock_view:
  assumes "\<And>fd v os. getfl_f sc fd (snd (setfl_f sc fd v os)) AND O_NONBLOCK = v AND O_NONBLOCK"
    and "\<And>fd os. getfl_f sc fd (snd (fionbio_f sc fd False os)) AND O_NONBLOCK = 0"
    and "0 \<le> fd" and "entry (h_fds h) fd = Some ctx" and "m_isSocket ctx" and "\<not> m_isClosed ctx"
    and "m_sysNonblock ctx"
  shows "\<exists>r h' v r2 h2. fcntl_setfl sc fd arg h = Inr (r, h') \<and> fcntl_getfl sc fd h' = Inr v \<and>
     v AND O_NONBLOCK = arg AND O_NONBLOCK \<and> getfl_f sc fd (h_os h') AND O_NONBLOCK \<noteq> 0 \<and>
     ioctl_fionbio sc fd False h = Inr (r2, h2) \<and> getfl_f sc fd (h_os h2) AND O_NONBLOCK = 0 \<and>
     map_option m_sysNonblock (entry (h_fds h2) fd) = Some True"
proof -
  have [simp]: "get sc fd False m os = Inr (entry m fd, m, os)" for m os
    using assms(3) by (intro get_False) simp
  have ent: "entry (h_fds h) fd \<noteq> None" using assms(4) by simp
  have on: "(w OR O_NONBLOCK) AND O_NONBLOCK = O_NONBLOCK" for w :: u32
    by (rule bit_word_eqI) (auto simp: bit_simps)
  have off: "(w AND NOT O_NONBLOCK) AND O_NONBLOCK = 0" for w :: u32
    by (rule bit_word_eqI) (auto simp: bit_simps)
  have bit: "w AND O_NONBLOCK = 0 \<or> w AND O_NONBLOCK = O_NONBLOCK" for w :: u32
  proof (cases "bit w 11")
    case True
    then have "w AND O_NONBLOCK = O_NONBLOCK"
      by (intro bit_word_eqI) (auto simp: bit_simps bit_numeral_rec numeral_eq_Suc less_Suc_eq)
    then show ?thesis ..
  next
    case False
    then have "w AND O_NONBLOCK = 0"
      by (intro bit_word_eqI) (auto simp: bit_simps bit_numeral_rec numeral_eq_Suc less_Suc_eq)
    then show ?thesis ..
  qed
  obtain r os where set: "setfl_f sc fd (arg OR O_NONBLOCK) (h_os h) = (r, os)"
    by (cases "setfl_f sc fd (arg OR O_NONBLOCK) (h_os h)")
  have kern: "getfl_f sc fd os AND O_NONBLOCK = O_NONBLOCK"
    using assms(1) [of fd "arg OR O_NONBLOCK" "h_os h"] set on by simp
  obtain r2 os2 where io: "fionbio_f sc fd False (h_os h) = (r2, os2)"
    by (cases "fionbio_f sc fd False (h_os h)")
  show ?thesis
    using assms(2) [of fd "h_os h"] assms(4-7) set kern io bit [of arg] on [of "getfl_f sc fd os"]
      off [of "getfl_f sc fd os"]
    by (auto simp: fcntl_setfl_def fcntl_getfl_def ioctl_fionbio_def lift_fd_def unhooked_def
        put_entry [OF ent])
qed

lemma nonblock_view_witness:
  "\<exists>r h' v. fcntl_setfl flat_syscalls 7 2 demo_h = Inr (r, h') \<and> fcntl_getfl flat_syscalls 7 h' = Inr v \<and>
     v AND O_NONBLOCK = 2 AND O_NONBLOCK"
proof -
  have "((w :: u32) AND NOT O_NONBLOCK) AND O_NONBLOCK = 0" for w
    by (rule bit_word_eqI) (auto simp: bit_simps)
  then show ?thesis
    using nonblock_view [of flat_syscalls 7 demo_h demo_ctx 2] demo_facts(2-5)
    by (auto simp: flat_syscalls_def demo_ctx_def)
qed

text \<open>
  The hooked sleeps wait for the number of milliseconds asked for, rounded down,
  except that \<open>sleep\<close> wraps for more than about 49 days, and that \<open>nanosleep\<close> counts
  the microseconds of its fraction as milliseconds: half a second sleeps for 500
  seconds.
\<close>

theorem sleep_times:
  "(unat seconds * 1000 < 2 ^ 32 \<longrightarrow> unat (sleep_ms seconds) = unat seconds * 1000) \<and>
   unat (sleep_ms 4294968) = 704 \<and> unat (usleep_ms usec) = unat usec div 1000 \<and>
   (0 \<le> sec \<and> 0 \<le> nsec \<and> sec * 1000 + nsec div 1000 < 2 ^ 31 \<longrightarrow>
      unat (nanosleep_ms sec nsec) = nat (sec * 1000 + nsec div 1000)) \<and>
   unat (nanosleep_ms 0 500000000) = 500000"
proof -
  have a: "unat (sleep_ms seconds) = unat seconds * 1000" if "unat seconds * 1000 < 2 ^ 32"
    using that by (simp add: sleep_ms_def unat_word_ariths unsigned_ucast_eq take_bit_nat_eq_self)
  have b: "unat (usleep_ms usec) = unat usec div 1000"
  proof -
    have "unat usec < 2 ^ 32" by (rule order_less_le_trans [OF unsigned_less]) simp
    then have "unat usec div 1000 < 2 ^ 32" by (rule order_le_less_trans [OF div_le_dividend])
    then show ?thesis by (simp add: usleep_ms_def unat_div unsigned_ucast_eq take_bit_nat_eq_self)
  qed
  have c: "unat (nanosleep_ms sec nsec) = nat (sec * 1000 + nsec div 1000)"
    if "0 \<le> sec" "0 \<le> nsec" "sec * 1000 + nsec div 1000 < 2 ^ 31"
  proof -
    have "unat (scast (word_of_int k :: u32) :: u64) = nat k" if "0 \<le> k" "k < 2 ^ 31" for k
      using that
      by (simp add: scast_eq sint_sbintrunc' signed_take_bit_int_eq_self unat_eq_nat_uint
          uint_word_of_int_eq take_bit_int_eq_self)
    from this [of "sec * 1000 + nsec div 1000"] show ?thesis
      unfolding nanosleep_ms_def using that by (simp only:)
  qed
  show ?thesis using a b c by (simp add: sleep_ms_def nanosleep_ms_def)
qed

lemma sleep_times_witness: "unat (sleep_ms 3) = 3000 \<and> unat (nanosleep_ms 2 5000000) = 7000"
  using sleep_times [of 3 0 2 5000000] by simp

text \<open>
  C24: closing a descriptor of the table wakes everybody who waits on it, takes it out
  of the table and calls the original function; nobody waits on it afterwards, and no
  other waiter or descriptor is affected.
\<close>

theorem close_wakes:
  assumes "io_inv (h_io h)" and "entry (h_fds h) (int fd) \<noteq> None" and "\<And>op fd evs. ctl op fd evs = 0"
  shows "\<exists>h'. close True sc ctl (Some i) (int fd) h = Inr (fst (close_f sc (int fd) (h_os h)), h') \<and>
     io_inv (h_io h') \<and>
     (\<forall>g event. event \<in> {READ, WRITE} \<longrightarrow>
        waiting (h_io h') g event = (if g = fd then None else waiting (h_io h) g event)) \<and>
     (\<forall>g. entry (h_fds h') g = (if g = int fd then None else entry (h_fds h) g)) \<and>
     (\<forall>j. queue (h_io h') j = queue (h_io h) j @
        concat (map (\<lambda>event. case waiting (h_io h) fd event of None \<Rightarrow> []
           | Some ctx \<Rightarrow> if ec_scheduler ctx = Some j then [wake ctx] else []) [READ, WRITE]))"
proof -
  have get: "get sc (int fd) False (h_fds h) (h_os h) = Inr (entry (h_fds h) (int fd), h_fds h, h_os h)"
    by (rule get_False) simp
  obtain m where m: "del (int fd) (h_fds h) = Inr m"
      "\<forall>g. entry m g = (if g = int fd then None else entry (h_fds h) g)"
    using del_entry [of "int fd" "h_fds h"] by auto
  define evs where "evs = (if fd < length (m_fdContexts (h_io h)) then fc_events (m_fdContexts (h_io h) ! fd) else 0)"
  have none: "waiting (h_io h) fd event = None" if "evs AND event = 0" "event \<in> {READ, WRITE}" for event
    using that waiting_iff [OF assms(1) that(2), of fd] by (auto simp: evs_def split: if_splits)
  have cancel: "\<exists>b. cancelAll ctl (int fd) (h_io h) = Inr (b, deliver_all evs fd (h_io h))"
  proof (cases "evs = 0")
    case True
    then show ?thesis by (auto simp: cancelAll_def deliver_all_def evs_def Let_def split: if_splits)
  next
    case False
    then show ?thesis
      using cancelAll_ok [OF assms(1), of fd ctl] assms(3) by (auto simp: evs_def split: if_splits)
  qed
  have "queue (deliver_all evs fd (h_io h)) j = queue (h_io h) j @
        concat (map (\<lambda>event. case waiting (h_io h) fd event of None \<Rightarrow> []
           | Some ctx \<Rightarrow> if ec_scheduler ctx = Some j then [wake ctx] else []) [READ, WRITE])" for j
    using deliver_ok [OF assms(1)] deliver_ok [OF deliver_ok(1) [OF assms(1)]] none [of READ] none [of WRITE]
    by (simp add: deliver_all_def Let_def)
  moreover have "waiting (deliver_all evs fd (h_io h)) g event =
      (if g = fd then None else waiting (h_io h) g event)" if "event \<in> {READ, WRITE}" for g event
    using deliver_all_ok(2) [OF assms(1), of evs fd g event] none [OF _ that] that by auto
  ultimately show ?thesis
    using get m cancel assms(2) deliver_all_ok(1) [OF assms(1), of evs fd]
    by (auto simp: close_def lift_fd_def lift_io_def Let_def split: prod.splits)
qed

lemma close_wakes_witness:
  "\<exists>h'. close True flat_syscalls (\<lambda>op fd evs. 0) (Some 0) (int 7) demo_h = Inr (0, h') \<and>
     entry (h_fds h') 7 = None"
proof -
  have "io_inv (h_io demo_h)" by (simp add: demo_h_def new_IOManager_inv)
  from close_wakes [OF this, of 7 "\<lambda>op fd evs. 0" flat_syscalls 0] show ?thesis
    using demo_facts(2) by (auto simp: flat_syscalls_def)
qed

end
