(* ===== verification/Address.thy ===== *)
theory Address
  imports Endian Std_Map
begin

text \<open>
  Socket addresses (src/skt/address).  The fields of a \<open>sockaddr\<close> are words as they
  stand in memory on a machine of byte order \<open>host\<close>; \<open>addr_image\<close> is the memory the
  comparisons look at (bytes after the object, which \<open>setAddrLen\<close> can include, read
  as zero).  \<open>getaddrinfo\<close>, \<open>getifaddrs\<close> and \<open>inet_pton\<close> are arguments.  A shift that
  C++ leaves undefined, an index out of an array, a null pointer and an exception are
  error values; a null \<open>Address::ptr\<close> is None.
\<close>

datatype address_error = UndefinedShift | OutOfArray | PathTooLong | NullPointer

abbreviation (input) AF_UNSPEC :: int where "AF_UNSPEC \<equiv> 0"
abbreviation (input) AF_UNIX :: int where "AF_UNIX \<equiv> 1"
abbreviation (input) AF_INET :: int where "AF_INET \<equiv> 2"
abbreviation (input) AF_INET6 :: int where "AF_INET6 \<equiv> 10"

record IPv4Address =
  sin_port :: u16
  s_addr :: u32
  sin_zero :: "byte list"

record IPv6Address =
  sin6_port :: u16
  sin6_flowinfo :: u32
  s6_addr :: "byte list"
  sin6_scope_id :: u32

record UnixAddress =
  sun_path :: "byte list"
  m_length :: nat

record UnknowAddress =
  sa_family :: u16
  sa_data :: "byte list"

datatype address = V4 IPv4Address | V6 IPv6Address | Ux UnixAddress | Unknow UnknowAddress

subsection \<open>Masks\<close>

text \<open>
  \<open>CreateMask\<close>: the arithmetic is that of \<open>int\<close>.  For 32 bits, a shift by 32 or more
  is undefined, and a shift by 31 overflows.
\<close>

definition CreateMask32 :: "u32 \<Rightarrow> u32 option" where
  "CreateMask32 bits = (if 2 \<le> bits \<and> bits \<le> 32 then Some (push_bit (32 - unat bits) 1 - 1) else None)"

definition CreateMask8 :: "u32 \<Rightarrow> byte" where
  "CreateMask8 bits = ucast (push_bit (8 - unat bits) (1 :: u32) - 1)"

lemma and_minus_one_less: "(v :: 'a::len word) \<noteq> 0 \<Longrightarrow> v AND (v - 1) < v"
  using measure_unat [of v] word_and_le1 [of v "v - 1"] by (simp add: word_less_nat_alt word_le_nat_alt)

function CountBytes :: "'a::len word \<Rightarrow> u32 \<Rightarrow> u32" where
  "CountBytes v res = (if v = 0 then res else CountBytes (v AND (v - 1)) (res + 1))"
  by auto
termination
  by (relation "measure (\<lambda>(v, res). unat v)") (auto simp: and_minus_one_less unat_mono)

declare CountBytes.simps [simp del]

subsection \<open>Construction\<close>

definition IPv4Address :: "int \<Rightarrow> u32 \<Rightarrow> u16 \<Rightarrow> IPv4Address" where
  "IPv4Address host address port =
     \<lparr>sin_port = byteswapOnLittleEndian host port, s_addr = byteswapOnLittleEndian host address,
      sin_zero = replicate 8 0\<rparr>"

definition new_IPv6Address :: IPv6Address where
  "new_IPv6Address = \<lparr>sin6_port = 0, sin6_flowinfo = 0, s6_addr = replicate 16 0, sin6_scope_id = 0\<rparr>"

definition IPv6Address :: "int \<Rightarrow> byte list \<Rightarrow> u16 \<Rightarrow> IPv6Address" where
  "IPv6Address host address port =
     new_IPv6Address\<lparr>sin6_port := byteswapOnLittleEndian host port, s6_addr := take 16 address\<rparr>"

text \<open>\<open>inet_pton\<close> gives the bytes of the address, or None.\<close>

definition IPv4Address_Create ::
  "(string \<Rightarrow> byte list option) \<Rightarrow> int \<Rightarrow> string \<Rightarrow> u16 \<Rightarrow> IPv4Address option" where
  "IPv4Address_Create inet_pton host address port =
     (let rt = (IPv4Address host 0 0)\<lparr>sin_port := byteswapOnLittleEndian host port\<rparr>
      in case inet_pton address of None \<Rightarrow> None | Some bs \<Rightarrow> Some (rt\<lparr>s_addr := mem_word host bs\<rparr>))"

definition IPv6Address_Create ::
  "(string \<Rightarrow> byte list option) \<Rightarrow> int \<Rightarrow> string \<Rightarrow> u16 \<Rightarrow> IPv6Address option" where
  "IPv6Address_Create inet_pton host address port =
     (let rt = new_IPv6Address\<lparr>sin6_port := byteswapOnLittleEndian host port\<rparr>
      in case inet_pton address of None \<Rightarrow> None | Some bs \<Rightarrow> Some (rt\<lparr>s6_addr := bs\<rparr>))"

definition new_UnixAddress :: UnixAddress where
  "new_UnixAddress = \<lparr>sun_path = replicate 108 0, m_length = 2 + 107\<rparr>"

definition UnixAddress :: "byte list \<Rightarrow> address_error + UnixAddress" where
  "UnixAddress path =
     (let n = length path + 1;
          n = (if path \<noteq> [] \<and> hd path = 0 then n - 1 else n)
      in if n > 108 then Inl PathTooLong
         else Inr \<lparr>sun_path = take n (path @ [0]) @ replicate (108 - n) 0, m_length = n + 2\<rparr>)"

definition setAddrLen :: "nat \<Rightarrow> UnixAddress \<Rightarrow> UnixAddress" where
  "setAddrLen v a = a\<lparr>m_length := v\<rparr>"

definition UnknowAddress :: "int \<Rightarrow> UnknowAddress" where
  "UnknowAddress family = \<lparr>sa_family = word_of_int family, sa_data = replicate 14 0\<rparr>"

text \<open>A \<open>sockaddr\<close> as the system hands it over, by family.\<close>

datatype sockaddr = SaIn IPv4Address | SaIn6 IPv6Address | SaOther UnknowAddress

definition Address_Create :: "sockaddr option \<Rightarrow> address option" where
  "Address_Create addr =
     (case addr of None \<Rightarrow> None
      | Some (SaIn a) \<Rightarrow> Some (V4 a)
      | Some (SaIn6 a) \<Rightarrow> Some (V6 a)
      | Some (SaOther a) \<Rightarrow> Some (Unknow a))"

definition getFamily :: "address \<Rightarrow> int" where
  "getFamily a = (case a of V4 _ \<Rightarrow> AF_INET | V6 _ \<Rightarrow> AF_INET6 | Ux _ \<Rightarrow> AF_UNIX | Unknow u \<Rightarrow> uint (sa_family u))"

definition getPort :: "int \<Rightarrow> address \<Rightarrow> u16 option" where
  "getPort host a =
     (case a of V4 x \<Rightarrow> Some (byteswapOnLittleEndian host (sin_port x))
      | V6 x \<Rightarrow> Some (byteswapOnLittleEndian host (sin6_port x)) | _ \<Rightarrow> None)"

definition setPort :: "int \<Rightarrow> u16 \<Rightarrow> address \<Rightarrow> address" where
  "setPort host v a =
     (case a of V4 x \<Rightarrow> V4 (x\<lparr>sin_port := byteswapOnLittleEndian host v\<rparr>)
      | V6 x \<Rightarrow> V6 (x\<lparr>sin6_port := byteswapOnLittleEndian host v\<rparr>) | _ \<Rightarrow> a)"

subsection \<open>Comparison\<close>

definition getAddrLen :: "address \<Rightarrow> nat" where
  "getAddrLen a = (case a of V4 _ \<Rightarrow> 16 | V6 _ \<Rightarrow> 28 | Ux u \<Rightarrow> m_length u | Unknow _ \<Rightarrow> 16)"

definition getAddr :: "int \<Rightarrow> address \<Rightarrow> byte list" where
  "getAddr host a =
     (case a of
        V4 x \<Rightarrow> mem_bytes host (2 :: u16) @ mem_bytes host (sin_port x) @ mem_bytes host (s_addr x) @ sin_zero x
      | V6 x \<Rightarrow> mem_bytes host (10 :: u16) @ mem_bytes host (sin6_port x) @ mem_bytes host (sin6_flowinfo x) @
               s6_addr x @ mem_bytes host (sin6_scope_id x)
      | Ux x \<Rightarrow> mem_bytes host (1 :: u16) @ sun_path x
      | Unknow x \<Rightarrow> mem_bytes host (sa_family x) @ sa_data x)"

definition addr_image :: "int \<Rightarrow> address \<Rightarrow> byte list" where
  "addr_image host a = take (getAddrLen a) (getAddr host a @ replicate (getAddrLen a) 0)"

fun memcmp :: "byte list \<Rightarrow> byte list \<Rightarrow> int" where
  "memcmp (a # as) (b # bs) = (if a = b then memcmp as bs else int (unat a) - int (unat b))"
| "memcmp [] bs = 0"
| "memcmp as [] = 0"

definition operator_less :: "int \<Rightarrow> address \<Rightarrow> address \<Rightarrow> bool" where
  "operator_less host lhs rhs =
     (let minlen = min (getAddrLen lhs) (getAddrLen rhs);
          result = memcmp (take minlen (addr_image host lhs)) (take minlen (addr_image host rhs))
      in if result < 0 then True else if result > 0 then False
         else getAddrLen lhs < getAddrLen rhs)"

definition operator_eq :: "int \<Rightarrow> address \<Rightarrow> address \<Rightarrow> bool" where
  "operator_eq host lhs rhs \<longleftrightarrow>
     getAddrLen lhs = getAddrLen rhs \<and> memcmp (addr_image host lhs) (addr_image host rhs) = 0"

definition operator_neq :: "int \<Rightarrow> address \<Rightarrow> address \<Rightarrow> bool" where
  "operator_neq host lhs rhs \<longleftrightarrow> \<not> operator_eq host lhs rhs"

subsection \<open>Text\<close>

definition octet :: "nat \<Rightarrow> u32 \<Rightarrow> string" where
  "octet n addr = nat_dec (unat (drop_bit n addr AND 0xff))"

definition IPv4Address_insert :: "int \<Rightarrow> IPv4Address \<Rightarrow> string" where
  "IPv4Address_insert host a =
     (let addr = byteswapOnLittleEndian host (s_addr a)
      in octet 24 addr @ ''.'' @ octet 16 addr @ ''.'' @ octet 8 addr @ ''.'' @ octet 0 addr @
         '':'' @ nat_dec (unat (byteswapOnLittleEndian host (sin_port a))))"

definition hex_digit :: "nat \<Rightarrow> char" where
  "hex_digit d = (if d < 10 then digit_char d else char_of (87 + d))"

fun nat_hex :: "nat \<Rightarrow> string" where
  "nat_hex n = (if n < 16 then [hex_digit n] else nat_hex (n div 16) @ [hex_digit (n mod 16)])"

text \<open>
  The loop over the eight groups: \<open>passed\<close> are the groups already passed (newest
  first), which the code looks at through \<open>i\<close> and \<open>addr[i - 1]\<close>.
\<close>

fun insert_groups :: "u16 list \<Rightarrow> bool \<Rightarrow> u16 list \<Rightarrow> string \<times> bool" where
  "insert_groups passed used_zeros [] = ([], used_zeros)"
| "insert_groups passed used_zeros (g # gs) =
     (if g = 0 \<and> \<not> used_zeros then insert_groups (g # passed) used_zeros gs
      else let zeros = (passed \<noteq> [] \<and> hd passed = 0 \<and> \<not> used_zeros);
               (text, used) = insert_groups (g # passed) (used_zeros \<or> zeros) gs
           in ((if zeros then '':'' else []) @ (if passed \<noteq> [] then '':'' else []) @ nat_hex (unat g) @ text,
               used))"

text \<open>The groups in network order, which \<open>byteswapOnLittleEndian\<close> makes of the memory.\<close>

definition groups :: "int \<Rightarrow> byte list \<Rightarrow> u16 list" where
  "groups host bs =
     map (\<lambda>i. byteswapOnLittleEndian host (mem_word host [bs ! (2 * i), bs ! (2 * i + 1)])) [0..<8]"

definition IPv6Address_insert :: "int \<Rightarrow> IPv6Address \<Rightarrow> string" where
  "IPv6Address_insert host a =
     (let addr = groups host (s6_addr a);
          (text, used_zeros) = insert_groups [] False addr
      in ''['' @ text @ (if \<not> used_zeros \<and> addr ! 7 = 0 then ''::'' else []) @ '']:'' @
         nat_dec (unat (byteswapOnLittleEndian host (sin6_port a))))"

definition UnixAddress_insert :: "UnixAddress \<Rightarrow> byte list" where
  "UnixAddress_insert a =
     (if m_length a > 2 \<and> hd (sun_path a) = 0
      then [0x5c, 0x30] @ take (m_length a - 2 - 1) (tl (sun_path a))
      else takeWhile (\<lambda>b. b \<noteq> 0) (sun_path a))"

definition UnknowAddress_insert :: "UnknowAddress \<Rightarrow> string" where
  "UnknowAddress_insert a = ''[UnkonwAddress family='' @ nat_dec (unat (sa_family a)) @ '']''"

subsection \<open>Networks\<close>



definition subnetMask4 :: "int \<Rightarrow> u32 \<Rightarrow> address_error + IPv4Address" where
  "subnetMask4 host prefix_len =
     (case CreateMask32 prefix_len of None \<Rightarrow> Inl UndefinedShift
      | Some m \<Rightarrow> Inr \<lparr>sin_port = 0, s_addr = NOT (byteswapOnLittleEndian host m), sin_zero = replicate 8 0\<rparr>)"

definition broadcastAddress6 :: "u32 \<Rightarrow> IPv6Address \<Rightarrow> address_error + IPv6Address" where
  "broadcastAddress6 prefix_len a =
     (let k = unat (prefix_len div 8)
      in if k \<ge> 16 then Inl OutOfArray
         else Inr (a\<lparr>s6_addr := (take (k + 1) (s6_addr a))[k := s6_addr a ! k OR CreateMask8 (prefix_len mod 8)] @
                               replicate (16 - (k + 1)) 0xff\<rparr>))"

definition networkAddress6 :: "u32 \<Rightarrow> IPv6Address \<Rightarrow> address_error + IPv6Address" where
  "networkAddress6 prefix_len a =
     (let k = unat (prefix_len div 8)
      in if k \<ge> 16 then Inl OutOfArray
         else Inr (a\<lparr>s6_addr := (take (k + 1) (s6_addr a))[k := s6_addr a ! k AND CreateMask8 (prefix_len mod 8)] @
                               replicate (16 - (k + 1)) 0xff\<rparr>))"

definition subnetMask6 :: "u32 \<Rightarrow> address_error + IPv6Address" where
  "subnetMask6 prefix_len =
     (let k = unat (prefix_len div 8)
      in if k \<ge> 16 then Inl OutOfArray
         else Inr (new_IPv6Address\<lparr>s6_addr := replicate k 0xff @ [NOT (CreateMask8 (prefix_len mod 8))] @
                                             replicate (16 - (k + 1)) 0\<rparr>))"

subsection \<open>Lookup\<close>

definition split_at :: "char \<Rightarrow> string \<Rightarrow> (string \<times> string) option" where
  "split_at c s = (if c \<in> set s then Some (takeWhile (\<lambda>x. x \<noteq> c) s, tl (dropWhile (\<lambda>x. x \<noteq> c) s)) else None)"

text \<open>The node and the service that \<open>Lookup\<close> makes of a host string.\<close>

definition split_host :: "string \<Rightarrow> string \<times> string option" where
  "split_host host =
     (let (node, service) =
            (if host \<noteq> [] \<and> hd host = CHR ''['' then
               (case split_at (CHR '']'') (tl host) of None \<Rightarrow> ([], None)
                | Some (n, rest) \<Rightarrow> (n, if rest \<noteq> [] \<and> hd rest = CHR '':'' then Some (tl rest) else None))
             else ([], None));
          (node, service) =
            (if node = [] then
               (case split_at (CHR '':'') host of None \<Rightarrow> (node, None)
                | Some (n, rest) \<Rightarrow>
                    if CHR '':'' \<notin> set rest then (n, Some rest) else (node, Some (CHR '':'' # rest)))
             else (node, service))
      in (if node = [] then host else node, service))"

text \<open>\<open>getaddrinfo\<close> answers with an error (None) or a list of addresses.\<close>

definition Lookup ::
  "(string \<Rightarrow> string option \<Rightarrow> sockaddr list option) \<Rightarrow> string \<Rightarrow> address list \<Rightarrow> bool \<times> address list" where
  "Lookup getaddrinfo host result =
     (let (node, service) = split_host host
      in case getaddrinfo (c_str node) (map_option c_str service) of
           None \<Rightarrow> (False, result)
         | Some addrs \<Rightarrow>
             let result = result @ List.map_filter (\<lambda>a. Address_Create (Some a)) addrs
             in (result \<noteq> [], result))"

definition LookupAny ::
  "(string \<Rightarrow> string option \<Rightarrow> sockaddr list option) \<Rightarrow> string \<Rightarrow> address option" where
  "LookupAny getaddrinfo host =
     (let (ok, result) = Lookup getaddrinfo host [] in if ok then Some (hd result) else None)"

definition LookupAnyIPAddress ::
  "(string \<Rightarrow> string option \<Rightarrow> sockaddr list option) \<Rightarrow> string \<Rightarrow> address option" where
  "LookupAnyIPAddress getaddrinfo host =
     (let (ok, result) = Lookup getaddrinfo host []
      in if ok then find (\<lambda>a. case a of V4 _ \<Rightarrow> True | V6 _ \<Rightarrow> True | _ \<Rightarrow> False) result else None)"

text \<open>
  \<open>IPAddress::Create\<close>: an answer of \<open>getaddrinfo\<close> is the error \<open>EAI_NONAME\<close>, another
  error, or the first address; after another error \<open>results\<close> is used all the same.
\<close>

datatype gai = EAI_NONAME | EAI_OTHER | GaiOk sockaddr

definition IPAddress_Create :: "(string \<Rightarrow> gai) \<Rightarrow> int \<Rightarrow> string \<Rightarrow> u16 \<Rightarrow> address_error + address option" where
  "IPAddress_Create getaddrinfo host address port =
     (case getaddrinfo address of
        EAI_NONAME \<Rightarrow> Inr None
      | EAI_OTHER \<Rightarrow> Inl NullPointer
      | GaiOk (SaOther a) \<Rightarrow> Inl NullPointer
      | GaiOk a \<Rightarrow> Inr (map_option (setPort host port) (Address_Create (Some a))))"

subsection \<open>Interfaces\<close>

record ifaddr =
  ifa_name :: string
  ifa_addr :: "sockaddr option"
  ifa_netmask :: "byte list"

text \<open>The netmask is a word for an IPv4 address and 16 bytes for an IPv6 address.\<close>

definition prefix_length :: "int \<Rightarrow> ifaddr \<Rightarrow> address \<Rightarrow> u32" where
  "prefix_length host i a =
     (case a of V4 _ \<Rightarrow> CountBytes (mem_word host (ifa_netmask i) :: u32) 0
      | V6 _ \<Rightarrow> sum_list (map (\<lambda>b. CountBytes b 0) (ifa_netmask i)) | _ \<Rightarrow> - 1)"

text \<open>\<open>std::multimap::insert\<close>: after the entries whose key is not greater.\<close>

fun multimap_insert :: "('k \<Rightarrow> 'k \<Rightarrow> bool) \<Rightarrow> 'k \<Rightarrow> 'v \<Rightarrow> ('k \<times> 'v) list \<Rightarrow> ('k \<times> 'v) list" where
  "multimap_insert lt k v [] = [(k, v)]"
| "multimap_insert lt k v ((a, b) # m) = (if lt k a then (k, v) # (a, b) # m else (a, b) # multimap_insert lt k v m)"

fun collect_interfaces ::
  "int \<Rightarrow> int \<Rightarrow> ifaddr list \<Rightarrow> (string \<times> address \<times> u32) list \<Rightarrow> address_error + (string \<times> address \<times> u32) list" where
  "collect_interfaces host family [] result = Inr result"
| "collect_interfaces host family (i # is) result =
     (case Address_Create (ifa_addr i) of
        None \<Rightarrow> Inl NullPointer
      | Some a \<Rightarrow>
          if family \<noteq> AF_UNSPEC \<and> family \<noteq> getFamily a then collect_interfaces host family is result
          else if getFamily a = AF_INET \<or> getFamily a = AF_INET6
          then collect_interfaces host family is
                 (multimap_insert str_less (ifa_name i) (a, prefix_length host i a) result)
          else collect_interfaces host family is result)"

definition GetInterfaceAddresses ::
  "ifaddr list option \<Rightarrow> int \<Rightarrow> string \<Rightarrow> int \<Rightarrow> address_error + (address \<times> u32) list option" where
  "GetInterfaceAddresses getifaddrs host iface family =
     (if iface = [] \<or> iface = ''*'' then
        Inr (Some ((if family = AF_INET \<or> family = AF_UNSPEC then [(V4 (IPv4Address host 0 0), 0)] else []) @
                   (if family = AF_INET6 \<or> family = AF_UNSPEC then [(V6 new_IPv6Address, 0)] else [])))
      else case getifaddrs of None \<Rightarrow> Inr None
           | Some is \<Rightarrow>
               and_then (collect_interfaces host family is []) (\<lambda>results.
                 Inr (Some (map snd (filter (\<lambda>(k, v). equivalent str_less k iface) results)))))"

subsection \<open>Comparison is lexicographic\<close>

lemma memcmp_sign:
  "length xs = length ys \<Longrightarrow> (memcmp xs ys < 0 \<longleftrightarrow> xs < ys) \<and> (memcmp xs ys > 0 \<longleftrightarrow> ys < xs) \<and>
     (memcmp xs ys = 0 \<longleftrightarrow> xs = ys)"
  by (induction xs ys rule: memcmp.induct) (auto simp: word_less_def word_uint_eq_iff)

lemma less_take_iff:
  fixes xs ys :: "'a::linorder list"
  shows "xs < ys \<longleftrightarrow> take (min (length xs) (length ys)) xs < take (min (length xs) (length ys)) ys \<or>
     take (min (length xs) (length ys)) xs = take (min (length xs) (length ys)) ys \<and> length xs < length ys"
proof (induction xs arbitrary: ys)
  case Nil
  then show ?case by (cases ys) auto
next
  case (Cons x xs)
  then show ?case by (cases ys) auto
qed

lemma length_image [simp]: "length (addr_image host a) = getAddrLen a"
  by (simp add: addr_image_def)

lemma operator_less_iff: "operator_less host a b \<longleftrightarrow> addr_image host a < addr_image host b"
  using memcmp_sign [of "take (min (getAddrLen a) (getAddrLen b)) (addr_image host a)"
      "take (min (getAddrLen a) (getAddrLen b)) (addr_image host b)"]
    less_take_iff [of "addr_image host a" "addr_image host b"]
  by (auto simp: operator_less_def Let_def)

lemma operator_eq_iff: "operator_eq host a b \<longleftrightarrow> addr_image host a = addr_image host b"
  unfolding operator_eq_def using memcmp_sign [of "addr_image host a" "addr_image host b"] by (metis length_image)

interpretation address_order: weak_order "operator_less host" for host
  by unfold_locales (auto simp: operator_less_iff)

text \<open>
  C31: \<open>operator<\<close> is a strict weak order on the addresses of all kinds, as \<open>std::map\<close> and
  \<open>std::set\<close> demand of a key, and two addresses are equivalent in it exactly when
  \<open>operator==\<close> says they are equal.
\<close>

theorem addresses_ordered:
  "\<not> operator_less host a a \<and>
   (operator_less host a b \<and> operator_less host b c \<longrightarrow> operator_less host a c) \<and>
   (operator_less host a c \<longrightarrow> operator_less host a b \<or> operator_less host b c) \<and>
   (equivalent (operator_less host) a b \<longleftrightarrow> operator_eq host a b) \<and>
   (operator_neq host a b \<longleftrightarrow> operator_less host a b \<or> operator_less host b a)"
  using address_order.irrefl [of host a] address_order.trans [of host a b c]
    address_order.neg_trans [of host a c b]
  by (auto simp: equivalent_def operator_neq_def operator_eq_iff operator_less_iff)

lemma addresses_ordered_witness:
  "operator_less 1 (V4 (IPv4Address 1 1 80)) (V4 (IPv4Address 1 2 80)) \<and>
   operator_neq 1 (V4 (IPv4Address 1 1 80)) (V4 (IPv4Address 1 2 80))"
proof -
  have "operator_less 1 (V4 (IPv4Address 1 1 80)) (V4 (IPv4Address 1 2 80))" by code_simp
  then show ?thesis
    using addresses_ordered [of 1 "V4 (IPv4Address 1 1 80)" "V4 (IPv4Address 1 2 80)"] by blast
qed

subsection \<open>IPv4 networks\<close>

lemma bit_byteswap:
  assumes "8 dvd LENGTH('a)"
  shows "bit (byteswap (v :: 'a::len word)) n \<longleftrightarrow>
     n < LENGTH('a) \<and> bit v (8 * (LENGTH('a) div 8 - 1 - n div 8) + n mod 8)"
proof (cases "n < LENGTH('a)")
  case True
  have i: "n div 8 < LENGTH('a) div 8"
    using True assms by (metis dvd_div_mult_self less_mult_imp_div_less)
  let ?k = "LENGTH('a) div 8 - 1 - n div 8"
  have "n < 8 * length (rev (bytes_le v))" using True assms by simp
  moreover have "rev (bytes_le v) ! (n div 8) = bytes_le v ! ?k"
    using i by (subst rev_nth) simp_all
  moreover have "bytes_le v ! ?k = ucast (drop_bit (8 * ?k) v)"
    by (rule nth_bytes_le) (use i in simp)
  moreover have "bit (ucast (drop_bit (8 * ?k) v) :: byte) (n mod 8) = bit v (8 * ?k + n mod 8)"
    by (simp add: bit_ucast_iff bit_drop_bit_eq)
  ultimately show ?thesis unfolding byteswap_def bit_word_of_le using True by simp
qed (auto dest: bit_imp_le_length)

lemma byteswap_bitwise:
  assumes "8 dvd LENGTH('a)"
  shows "byteswap (v OR w) = byteswap v OR byteswap (w :: 'a::len word)"
    "byteswap (v AND w) = byteswap v AND byteswap w" "byteswap (NOT v) = NOT (byteswap v)"
proof -
  have bound: "8 * (LENGTH('a) div 8 - 1 - n div 8) + n mod 8 < LENGTH('a)" if "n < LENGTH('a)" for n
  proof -
    define k where "k = LENGTH('a) div 8"
    have "n div 8 < k"
      unfolding k_def using that assms by (metis dvd_div_mult_self less_mult_imp_div_less)
    moreover have "n mod 8 < 8" by simp
    ultimately have "8 * (k - 1 - n div 8) + n mod 8 < 8 * k" by arith
    then show ?thesis using assms by (simp add: k_def)
  qed
  show "byteswap (v OR w) = byteswap v OR byteswap w"
    by (rule bit_word_eqI) (auto simp only: bit_byteswap [OF assms] bit_or_iff)
  show "byteswap (v AND w) = byteswap v AND byteswap w"
    by (rule bit_word_eqI) (auto simp only: bit_byteswap [OF assms] bit_and_iff)
  show "byteswap (NOT v) = NOT (byteswap v)"
    by (rule bit_word_eqI) (auto simp only: bit_byteswap [OF assms] bit_not_iff possible_bit_word bound)
qed

lemma swap_bitwise:
  "byteswapOnLittleEndian host (v OR w) = byteswapOnLittleEndian host v OR byteswapOnLittleEndian host (w :: u32)"
  "byteswapOnLittleEndian host (v AND w) = byteswapOnLittleEndian host v AND byteswapOnLittleEndian host w"
  "byteswapOnLittleEndian host (NOT v) = NOT (byteswapOnLittleEndian host v)"
  by (simp_all add: byteswapOnLittleEndian_def byteswap_bitwise)

lemma swap_swap [simp]:
  "8 dvd LENGTH('a) \<Longrightarrow> byteswapOnLittleEndian host (byteswapOnLittleEndian host v) = (v :: 'a::len word)"
  by (simp add: byteswapOnLittleEndian_def byteswap_byteswap)


lemma CreateMask32_mask:
  "2 \<le> p \<Longrightarrow> p \<le> 32 \<Longrightarrow> CreateMask32 p = Some (mask (32 - unat p))"
  by (simp add: CreateMask32_def mask_eq_exp_minus_1 push_bit_of_1)



subsection \<open>The text of an IPv4 address\<close>

lemma digits_prefix:
  assumes "list_all is_digit d" and "list_all is_digit d'" and "\<not> is_digit c" and "d @ c # r = d' @ c # r'"
  shows "d = d' \<and> r = r'"
  using assms
proof (induction d arbitrary: d')
  case Nil
  then show ?case by (cases d') auto
next
  case (Cons x d)
  then show ?case by (cases d') auto
qed

lemma word_octets:
  fixes x y :: u32
  assumes "\<And>k. k \<in> {0, 8, 16, 24} \<Longrightarrow> drop_bit k x AND 0xff = drop_bit k y AND 0xff"
  shows "x = y"
proof (rule bit_word_eqI)
  fix n assume n: "n < LENGTH(32)"
  let ?k = "8 * (n div 8)"
  have "n div 8 < 4" using n by simp
  then have "?k \<in> {0, 8, 16, 24}" by auto
  then have "bit (drop_bit ?k x AND 0xff) (n mod 8) = bit (drop_bit ?k y AND 0xff) (n mod 8)"
    using assms by simp
  moreover have "(0xff :: u32) = mask 8" by (simp add: mask_eq_exp_minus_1)
  moreover have "bit (drop_bit ?k z AND mask 8) (n mod 8) = bit z n" for z :: u32
    using mod_less_divisor [of 8 n] by (auto simp: bit_and_iff bit_drop_bit_eq bit_mask_iff)
  ultimately show "bit x n = bit y n" by metis
qed

text \<open>
  The printed form of an IPv4 address identifies it: two addresses with the same
  text have the same address and the same port, on machines of both byte orders.
\<close>

theorem ipv4_text_injective:
  assumes "IPv4Address_insert host a = IPv4Address_insert host b"
  shows "s_addr a = s_addr b \<and> sin_port a = sin_port b"
proof -
  let ?x = "byteswapOnLittleEndian host (s_addr a)" and ?y = "byteswapOnLittleEndian host (s_addr b)"
  let ?p = "byteswapOnLittleEndian host (sin_port a)" and ?q = "byteswapOnLittleEndian host (sin_port b)"
  have dig: "list_all is_digit (octet k w)" for k w by (simp add: octet_def nat_dec_digits)
  have sep: "\<not> is_digit (CHR ''.'')" "\<not> is_digit (CHR '':'')" by code_simp+
  have 1: "octet 24 ?x @ CHR ''.'' # octet 16 ?x @ CHR ''.'' # octet 8 ?x @ CHR ''.'' # octet 0 ?x @
      CHR '':'' # nat_dec (unat ?p) =
    octet 24 ?y @ CHR ''.'' # octet 16 ?y @ CHR ''.'' # octet 8 ?y @ CHR ''.'' # octet 0 ?y @
      CHR '':'' # nat_dec (unat ?q)"
    using assms by (simp add: IPv4Address_insert_def Let_def)
  note 2 = digits_prefix [OF dig dig sep(1) 1]
  note 3 = digits_prefix [OF dig dig sep(1) conjunct2 [OF 2]]
  note 4 = digits_prefix [OF dig dig sep(1) conjunct2 [OF 3]]
  note 5 = digits_prefix [OF dig dig sep(2) conjunct2 [OF 4]]
  have inj: "u = v" if "unat u = unat v" for u v :: "'a::len word"
    using that by (rule unsigned_word_eqI)
  have oct: "drop_bit k x AND 0xff = drop_bit k y AND 0xff" if "octet k x = octet k y" for k x y
    using that unfolding octet_def nat_dec_inject by (rule inj)
  have "drop_bit k ?x AND 0xff = drop_bit k ?y AND 0xff" if "k \<in> {0, 8, 16, 24}" for k
    using that oct [OF conjunct1 [OF 2]] oct [OF conjunct1 [OF 3]] oct [OF conjunct1 [OF 4]]
      oct [OF conjunct1 [OF 5]] by blast
  then have "?x = ?y" by (rule word_octets)
  moreover have "?p = ?q" using conjunct2 [OF 5] unfolding nat_dec_inject by (rule inj)
  ultimately have "byteswapOnLittleEndian host ?x = byteswapOnLittleEndian host ?y"
    "byteswapOnLittleEndian host ?p = byteswapOnLittleEndian host ?q" by simp_all
  then show ?thesis by simp
qed

lemma ipv4_text_injective_witness:
  "s_addr (IPv4Address 1 0x7F000001 80) = s_addr \<lparr>sin_port = 0x5000, s_addr = 0x0100007F, sin_zero = []\<rparr> \<and>
   IPv4Address_insert 1 (IPv4Address 1 0x7F000001 80) = ''127.0.0.1:80''"
proof -
  have "IPv4Address_insert 1 (IPv4Address 1 0x7F000001 80) = ''127.0.0.1:80''"
    "IPv4Address_insert 1 \<lparr>sin_port = 0x5000, s_addr = 0x0100007F, sin_zero = []\<rparr> = ''127.0.0.1:80''"
    by code_simp+
  then show ?thesis
    using ipv4_text_injective [of 1 "IPv4Address 1 0x7F000001 80"
        "\<lparr>sin_port = 0x5000, s_addr = 0x0100007F, sin_zero = []\<rparr>"] by simp
qed

subsection \<open>Host strings\<close>

lemma split_at_first: "c \<notin> set x \<Longrightarrow> split_at c (x @ c # y) = Some (x, y)"
  by (simp add: split_at_def) (induction x; auto)

lemma split_at_none: "c \<notin> set x \<Longrightarrow> split_at c x = None"
  by (simp add: split_at_def)

text \<open>
  C33: \<open>Lookup\<close> asks for the node and the service of \<open>node:service\<close>, \<open>node\<close>,
  \<open>[ipv6]:service\<close> and \<open>[ipv6]\<close>; but of a bare address with several colons it asks for
  the whole as the node and for everything from the first colon on as the service.
\<close>

theorem lookup_split:
  assumes "node \<noteq> []" and "hd node \<noteq> CHR ''[''" and "CHR '':'' \<notin> set node" and "CHR '':'' \<notin> set service"
    and "ip6 \<noteq> []" and "CHR '']'' \<notin> set ip6"
  shows "split_host (node @ '':'' @ service) = (node, Some service) \<and>
    split_host node = (node, None) \<and>
    split_host (''['' @ ip6 @ '']:'' @ service) = (ip6, Some service) \<and>
    split_host (''['' @ ip6 @ '']'') = (ip6, None) \<and>
    split_host (node @ '':'' @ x @ '':'' @ y) = (node @ '':'' @ x @ '':'' @ y, Some ('':'' @ x @ '':'' @ y))"
  using assms by (simp add: split_host_def split_at_first split_at_none)

lemma lookup_split_witness:
  "split_host ''localhost:8080'' = (''localhost'', Some ''8080'') \<and>
   split_host ''[::1]:80'' = (''::1'', Some ''80'') \<and>
   split_host ''fe80::1'' = (''fe80::1'', Some ''::1'')"
  using lookup_split [of "''localhost''" "''8080''" "''::1''" "[]" "[]"]
    lookup_split [of "''fe80''" "''80''" "''::1''" "[]" "''1''"] by simp

subsection \<open>Prefix lengths\<close>

lemma card_bits_nat:
  "card {k. bit (n::nat) k} = n mod 2 + card {k. bit (n div 2) k}"
proof -
  have fin: "finite {k. bit m k}" for m :: nat
  proof (rule finite_subset [of _ "{..m}"])
    show "{k. bit m k} \<subseteq> {..m}"
    proof
      fix k assume "k \<in> {k. bit m k}"
      then have "2 ^ k \<le> m" by (auto simp: bit_iff_odd) (metis div_less dvd_0_right not_le)
      then show "k \<in> {..m}" using order_less_le_trans [OF less_exp] by fastforce
    qed
  qed simp
  have "{k. bit n k} = (if odd n then {0} else {}) \<union> Suc ` {k. bit (n div 2) k}"
    by (auto simp: bit_0 bit_Suc image_iff) (metis bit_0 bit_Suc not0_implies_Suc)+
  then show ?thesis
    using fin [of "n div 2"] by (auto simp: card_image odd_iff_mod_2_eq_one)
qed

lemma card_and_pred: "0 < n \<Longrightarrow> Suc (card {k. bit (n AND (n - 1)) k}) = card {k. bit (n::nat) k}"
proof (induction n rule: less_induct)
  case (less n)
  show ?case
  proof (cases "even n")
    case True
    then obtain m where m: "n = 2 * m" "0 < m" using less.prems by auto
    have "n AND (n - 1) = 2 * (m AND (m - 1))"
    proof -
      have "(2 * m - 1) div 2 = m - 1" using m(2) by (cases m) simp_all
      then show ?thesis using m by (simp add: and_nat_unfold [of "2 * m"])
    qed
    then have "card {k. bit (n AND (n - 1)) k} = card {k. bit (m AND (m - 1)) k}"
      using card_bits_nat [of "n AND (n - 1)"] by simp
    then show ?thesis using less.IH [of m] m card_bits_nat [of n] by simp
  next
    case False
    then obtain m where m: "n = 2 * m + 1" by (auto elim: oddE)
    have "n AND (n - 1) = 2 * m"
      using m by (simp add: and_nat_unfold [of "Suc (2 * m)"])
    then show ?thesis using card_bits_nat [of n] card_bits_nat [of "2 * m"] m by simp
  qed
qed

lemma CountBytes_card: "CountBytes v res = res + of_nat (card {k. bit v k})"
proof (induction v res rule: CountBytes.induct)
  case (1 v res)
  show ?case
  proof (cases "v = 0")
    case False
    have "unat (v AND (v - 1)) = unat v AND (unat v - 1)"
      using False by (simp add: unsigned_and_eq unat_minus_one)
    moreover have "{k. bit w k} = {k. bit (unat w) k}" for w :: "'a word" by (auto simp: bit_unsigned_iff dest: bit_imp_le_length)
    ultimately have "Suc (card {k. bit (v AND (v - 1)) k}) = card {k. bit v k}"
      using card_and_pred [of "unat v"] False by (simp add: unat_gt_0)
    then show ?thesis using 1 False
      by (subst CountBytes.simps) (simp add: algebra_simps flip: of_nat_Suc)
  qed (simp add: CountBytes.simps)
qed

lemma card_byteswap: "card {k. bit (byteswap w) k} = card {k. bit (w :: u32) k}"
proof -
  define f :: "nat \<Rightarrow> nat" where "f k = 8 * (3 - k div 8) + k mod 8" for k
  have ff: "f (f k) = k" "f k < 32" if "k < 32" for k
  proof -
    have "k div 8 \<le> 3" using that by simp
    then show "f (f k) = k" unfolding f_def by simp
    have "k mod 8 < 8" by simp
    then show "f k < 32" unfolding f_def by arith
  qed
  have lt: "k < 32" if "bit w k" for k using bit_imp_le_length [OF that] by simp
  have "{k. bit (byteswap w) k} = f ` {k. bit w k}"
    using ff lt by (auto simp: bit_byteswap f_def [symmetric] image_iff) metis
  moreover have "inj_on f {k. bit w k}" using ff(1) lt by (metis inj_on_def mem_Collect_eq)
  ultimately show ?thesis by (simp add: card_image)
qed

text \<open>
  \<open>CountBytes\<close> ends and counts the bits that are set, so the prefix length computed
  from the netmask of an interface is the one \<open>subnetMask\<close> made the mask from.
\<close>

theorem prefix_length_counts:
  fixes v :: "'a::len word"
  shows "CountBytes v 0 = of_nat (card {k. bit v k}) \<and>
    (2 \<le> p \<and> p \<le> 32 \<longrightarrow> (\<exists>s. subnetMask4 host p = Inr s \<and> CountBytes (s_addr s) 0 = p))"
proof -
  have "\<exists>s. subnetMask4 host p = Inr s \<and> CountBytes (s_addr s) 0 = p" if p: "2 \<le> p" "p \<le> 32"
  proof -
    let ?m = "mask (32 - unat p) :: u32"
    have up: "unat p \<le> 32" using p(2) by (simp add: word_le_nat_alt)
    have "{k. bit (NOT ?m) k} = {32 - unat p..<32}" by (auto simp: bit_simps)
    then have "card {k. bit (byteswapOnLittleEndian host (NOT ?m)) k} = unat p"
      using up by (simp add: byteswapOnLittleEndian_def card_byteswap)
    then show ?thesis
      using CreateMask32_mask [OF p] by (simp add: subnetMask4_def CountBytes_card flip: swap_bitwise(3))
  qed
  then show ?thesis by (simp add: CountBytes_card)
qed

lemma prefix_length_counts_witness: "\<exists>s. subnetMask4 1 24 = Inr s \<and> CountBytes (s_addr s) 0 = 24"
  using prefix_length_counts [of "0 :: byte" 24 1] by simp

end
