(* ===== verification/Socket.thy ===== *)
theory Socket
  imports Address Fd_Manager IOManager
begin

text \<open>
  Sockets (src/skt/socket).  The system calls are an argument, a record of functions on a
  state of any type; so is \<open>FdMgr\<close>'s answer for a descriptor.  The length arguments of
  system calls go with the data they describe.  \<open>getsockname\<close> and \<open>getpeername\<close> get an
  empty address of the family and answer with the filled one and its length, or fail.
  What is only written to the log is left out.
\<close>

record 'w os =
  os_socket :: "int \<Rightarrow> int \<Rightarrow> int \<Rightarrow> 'w \<Rightarrow> int \<times> 'w"
  os_setsockopt :: "int \<Rightarrow> int \<Rightarrow> int \<Rightarrow> int list \<Rightarrow> 'w \<Rightarrow> int \<times> 'w"
  os_getsockopt :: "int \<Rightarrow> int \<Rightarrow> int \<Rightarrow> 'w \<Rightarrow> (int \<times> int) \<times> 'w"
  os_accept :: "int \<Rightarrow> 'w \<Rightarrow> int \<times> 'w"
  os_bind :: "int \<Rightarrow> address \<Rightarrow> 'w \<Rightarrow> int \<times> 'w"
  os_connect :: "int \<Rightarrow> address \<Rightarrow> 'w \<Rightarrow> int \<times> 'w"
  os_connect_with_timeout :: "int \<Rightarrow> address \<Rightarrow> u64 \<Rightarrow> 'w \<Rightarrow> int \<times> 'w"
  os_listen :: "int \<Rightarrow> int \<Rightarrow> 'w \<Rightarrow> int \<times> 'w"
  os_close :: "int \<Rightarrow> 'w \<Rightarrow> 'w"
  os_send :: "int \<Rightarrow> byte list \<Rightarrow> int \<Rightarrow> 'w \<Rightarrow> int \<times> 'w"
  os_sendto :: "int \<Rightarrow> byte list \<Rightarrow> int \<Rightarrow> address \<Rightarrow> 'w \<Rightarrow> int \<times> 'w"
  os_sendmsg :: "int \<Rightarrow> byte list list \<Rightarrow> address option \<Rightarrow> int \<Rightarrow> 'w \<Rightarrow> int \<times> 'w"
  os_recv :: "int \<Rightarrow> nat \<Rightarrow> int \<Rightarrow> 'w \<Rightarrow> int \<times> byte list \<times> 'w"
  os_recvfrom :: "int \<Rightarrow> nat \<Rightarrow> int \<Rightarrow> address \<Rightarrow> 'w \<Rightarrow> int \<times> byte list \<times> address \<times> 'w"
  os_recvmsg :: "int \<Rightarrow> nat list \<Rightarrow> address option \<Rightarrow> int \<Rightarrow> 'w \<Rightarrow> int \<times> byte list \<times> address option \<times> 'w"
  os_getpeername :: "int \<Rightarrow> address \<Rightarrow> 'w \<Rightarrow> (address \<times> nat) option"
  os_getsockname :: "int \<Rightarrow> address \<Rightarrow> 'w \<Rightarrow> (address \<times> nat) option"
  os_fdctx :: "int \<Rightarrow> 'w \<Rightarrow> FdCtx option"

record Socket =
  m_sock :: int
  m_family :: int
  m_type :: int
  m_protocol :: int
  m_isConnected :: bool
  m_localAddress :: "address option"
  m_remoteAddress :: "address option"

abbreviation (input) TCP :: int where "TCP \<equiv> 1"
abbreviation (input) UDP :: int where "UDP \<equiv> 2"
abbreviation (input) SOL_SOCKET :: int where "SOL_SOCKET \<equiv> 1"
abbreviation (input) SO_REUSEADDR :: int where "SO_REUSEADDR \<equiv> 2"
abbreviation (input) SO_ERROR :: int where "SO_ERROR \<equiv> 4"
abbreviation (input) OPT_RCVTIMEO :: int where "OPT_RCVTIMEO \<equiv> 20"
abbreviation (input) OPT_SNDTIMEO :: int where "OPT_SNDTIMEO \<equiv> 21"
abbreviation (input) IPPROTO_TCP :: int where "IPPROTO_TCP \<equiv> 6"
abbreviation (input) TCP_NODELAY :: int where "TCP_NODELAY \<equiv> 1"

definition new_Socket :: "int \<Rightarrow> int \<Rightarrow> int \<Rightarrow> Socket" where
  "new_Socket family type protocol =
     \<lparr>m_sock = - 1, m_family = family, m_type = type, m_protocol = protocol, m_isConnected = False,
      m_localAddress = None, m_remoteAddress = None\<rparr>"


subsection \<open>Options\<close>

definition setOption :: "'w os \<Rightarrow> int \<Rightarrow> int \<Rightarrow> int list \<Rightarrow> Socket \<Rightarrow> 'w \<Rightarrow> bool \<times> 'w" where
  "setOption os level option result s w =
     (case os_setsockopt os (m_sock s) level option result w of (rt, w) \<Rightarrow> (rt = 0, w))"

definition getOption :: "'w os \<Rightarrow> int \<Rightarrow> int \<Rightarrow> Socket \<Rightarrow> 'w \<Rightarrow> int option \<times> 'w" where
  "getOption os level option s w =
     (case os_getsockopt os (m_sock s) level option w of
        ((rt, v), w) \<Rightarrow> (if rt = 0 then Some v else None, w))"

definition getError :: "'w os \<Rightarrow> Socket \<Rightarrow> 'w \<Rightarrow> int \<times> 'w" where
  "getError os s w =
     (case getOption os SOL_SOCKET SO_ERROR s w of (None, w) \<Rightarrow> (- 1, w) | (Some v, w) \<Rightarrow> (v, w))"

text \<open>
  The timeouts: \<open>timeval\<close> holds two \<open>int\<close>s; C++ division truncates.  The getters turn the
  64-bit unsigned number of the context into a signed one.
\<close>

definition timeval :: "int \<Rightarrow> int list" where
  "timeval v =
     (let q = sgn v * (\<bar>v\<bar> div 1000)
      in [sint (word_of_int q :: u32), sint (word_of_int ((v - q * 1000) * 1000) :: u32)])"

definition setSendTimeout :: "'w os \<Rightarrow> int \<Rightarrow> Socket \<Rightarrow> 'w \<Rightarrow> 'w" where
  "setSendTimeout os v s w = snd (setOption os SOL_SOCKET OPT_SNDTIMEO (timeval v) s w)"

definition setRecvTimeout :: "'w os \<Rightarrow> int \<Rightarrow> Socket \<Rightarrow> 'w \<Rightarrow> 'w" where
  "setRecvTimeout os v s w = snd (setOption os SOL_SOCKET OPT_RCVTIMEO (timeval v) s w)"

definition getSendTimeout :: "'w os \<Rightarrow> Socket \<Rightarrow> 'w \<Rightarrow> int" where
  "getSendTimeout os s w =
     (case os_fdctx os (m_sock s) w of None \<Rightarrow> - 1 | Some ctx \<Rightarrow> sint (getTimeout SO_SNDTIMEO ctx))"

definition getRecvTimeout :: "'w os \<Rightarrow> Socket \<Rightarrow> 'w \<Rightarrow> int" where
  "getRecvTimeout os s w =
     (case os_fdctx os (m_sock s) w of None \<Rightarrow> - 1 | Some ctx \<Rightarrow> sint (getTimeout SO_RCVTIMEO ctx))"

definition initSock :: "'w os \<Rightarrow> Socket \<Rightarrow> 'w \<Rightarrow> 'w" where
  "initSock os s w =
     (let w = snd (setOption os SOL_SOCKET SO_REUSEADDR [1] s w)
      in if m_type s = TCP then snd (setOption os IPPROTO_TCP TCP_NODELAY [1] s w) else w)"

definition newSock :: "'w os \<Rightarrow> Socket \<Rightarrow> 'w \<Rightarrow> Socket \<times> 'w" where
  "newSock os s w =
     (case os_socket os (m_family s) (m_type s) (m_protocol s) w of (fd, w) \<Rightarrow>
        let s = s\<lparr>m_sock := fd\<rparr>
        in if fd \<noteq> - 1 then (s, initSock os s w) else (s, w))"

subsection \<open>Addresses\<close>

definition empty_address :: "int \<Rightarrow> address" where
  "empty_address family =
     (if family = AF_INET then V4 (IPv4Address 1 0 0)
      else if family = AF_INET6 then V6 new_IPv6Address
      else if family = AF_UNIX then Ux new_UnixAddress else Unknow (UnknowAddress family))"

definition filled_address :: "int \<Rightarrow> address \<Rightarrow> nat \<Rightarrow> address" where
  "filled_address family a len =
     (case a of Ux u \<Rightarrow> if family = AF_UNIX then Ux (setAddrLen len u) else a | _ \<Rightarrow> a)"

definition getRemoteAddress :: "'w os \<Rightarrow> Socket \<Rightarrow> 'w \<Rightarrow> address \<times> Socket" where
  "getRemoteAddress os s w =
     (case m_remoteAddress s of
        Some a \<Rightarrow> (a, s)
      | None \<Rightarrow>
          (case os_getpeername os (m_sock s) (empty_address (m_family s)) w of
             None \<Rightarrow> (Unknow (UnknowAddress (m_family s)), s)
           | Some (a, len) \<Rightarrow>
               let a = filled_address (m_family s) a len in (a, s\<lparr>m_remoteAddress := Some a\<rparr>)))"

definition getLocalAddress :: "'w os \<Rightarrow> Socket \<Rightarrow> 'w \<Rightarrow> address \<times> Socket" where
  "getLocalAddress os s w =
     (case m_localAddress s of
        Some a \<Rightarrow> (a, s)
      | None \<Rightarrow>
          (case os_getsockname os (m_sock s) (empty_address (m_family s)) w of
             None \<Rightarrow> (Unknow (UnknowAddress (m_family s)), s)
           | Some (a, len) \<Rightarrow>
               let a = filled_address (m_family s) a len in (a, s\<lparr>m_localAddress := Some a\<rparr>)))"

subsection \<open>Opening and closing\<close>

definition Socket_close :: "'w os \<Rightarrow> Socket \<Rightarrow> 'w \<Rightarrow> bool \<times> Socket \<times> 'w" where
  "Socket_close os s w =
     (if \<not> m_isConnected s \<and> m_sock s = - 1 then (True, s, w)
      else let s = s\<lparr>m_isConnected := False\<rparr>
           in if m_sock s \<noteq> - 1 then (False, s\<lparr>m_sock := - 1\<rparr>, os_close os (m_sock s) w) else (False, s, w))"

definition Socket_init :: "'w os \<Rightarrow> int \<Rightarrow> Socket \<Rightarrow> 'w \<Rightarrow> bool \<times> Socket \<times> 'w" where
  "Socket_init os sock s w =
     (case os_fdctx os sock w of
        None \<Rightarrow> (False, s, w)
      | Some ctx \<Rightarrow>
          if m_isSocket ctx \<and> \<not> m_isClosed ctx then
            let s = s\<lparr>m_sock := sock, m_isConnected := True\<rparr>;
                w = initSock os s w;
                s = snd (getLocalAddress os s w);
                s = snd (getRemoteAddress os s w)
            in (True, s, w)
          else (False, s, w))"

text \<open>A socket that is returned as a null pointer is destroyed, which closes it.\<close>

definition Socket_accept :: "'w os \<Rightarrow> Socket \<Rightarrow> 'w \<Rightarrow> Socket option \<times> 'w" where
  "Socket_accept os s w =
     (case os_accept os (m_sock s) w of (newsock, w) \<Rightarrow>
        let sock = new_Socket (m_family s) (m_type s) (m_protocol s)
        in if newsock = - 1 then (None, snd (snd (Socket_close os sock w)))
           else (case Socket_init os newsock sock w of
                   (True, sock, w) \<Rightarrow> (Some sock, w)
                 | (False, sock, w) \<Rightarrow> (None, snd (snd (Socket_close os sock w)))))"




definition CreateTCP :: "address \<Rightarrow> Socket" where
  "CreateTCP address = new_Socket (getFamily address) TCP 0"

definition CreateUDP :: "'w os \<Rightarrow> address \<Rightarrow> 'w \<Rightarrow> Socket \<times> 'w" where
  "CreateUDP os address w =
     (case newSock os (new_Socket (getFamily address) UDP 0) w of (s, w) \<Rightarrow> (s\<lparr>m_isConnected := True\<rparr>, w))"

definition CreateTCPSocket :: Socket where
  "CreateTCPSocket = new_Socket AF_INET TCP 0"

definition CreateUDPSocket :: "'w os \<Rightarrow> 'w \<Rightarrow> Socket \<times> 'w" where
  "CreateUDPSocket os w =
     (case newSock os (new_Socket AF_INET UDP 0) w of (s, w) \<Rightarrow> (s\<lparr>m_isConnected := True\<rparr>, w))"

definition CreateTCPSocket6 :: Socket where
  "CreateTCPSocket6 = new_Socket AF_INET6 TCP 0"

definition CreateUDPSocket6 :: "'w os \<Rightarrow> 'w \<Rightarrow> Socket \<times> 'w" where
  "CreateUDPSocket6 os w =
     (case newSock os (new_Socket AF_INET6 UDP 0) w of (s, w) \<Rightarrow> (s\<lparr>m_isConnected := True\<rparr>, w))"

definition CreateUnixTCPSocket :: Socket where
  "CreateUnixTCPSocket = new_Socket AF_UNIX TCP 0"

definition CreateUnixUDPSocket :: Socket where
  "CreateUnixUDPSocket = new_Socket AF_UNIX UDP 0"

subsection \<open>Sending and receiving\<close>

definition Socket_send :: "'w os \<Rightarrow> byte list \<Rightarrow> int \<Rightarrow> Socket \<Rightarrow> 'w \<Rightarrow> int \<times> 'w" where
  "Socket_send os buffer flags s w =
     (if m_isConnected s then os_send os (m_sock s) buffer flags w else (- 1, w))"

definition Socket_send_iov :: "'w os \<Rightarrow> byte list list \<Rightarrow> int \<Rightarrow> Socket \<Rightarrow> 'w \<Rightarrow> int \<times> 'w" where
  "Socket_send_iov os buffer flags s w =
     (if m_isConnected s then os_sendmsg os (m_sock s) buffer None flags w else (- 1, w))"

definition Socket_sendTo :: "'w os \<Rightarrow> byte list \<Rightarrow> address \<Rightarrow> int \<Rightarrow> Socket \<Rightarrow> 'w \<Rightarrow> int \<times> 'w" where
  "Socket_sendTo os buffer to flags s w =
     (if m_isConnected s then os_sendto os (m_sock s) buffer flags to w else (- 1, w))"

definition Socket_sendTo_iov :: "'w os \<Rightarrow> byte list list \<Rightarrow> address \<Rightarrow> int \<Rightarrow> Socket \<Rightarrow> 'w \<Rightarrow> int \<times> 'w" where
  "Socket_sendTo_iov os buffer to flags s w =
     (if m_isConnected s then os_sendmsg os (m_sock s) buffer (Some to) flags w else (- 1, w))"

definition Socket_recv :: "'w os \<Rightarrow> nat \<Rightarrow> int \<Rightarrow> Socket \<Rightarrow> 'w \<Rightarrow> int \<times> byte list \<times> 'w" where
  "Socket_recv os len flags s w =
     (if m_isConnected s then os_recv os (m_sock s) len flags w else (- 1, [], w))"

definition Socket_recv_iov :: "'w os \<Rightarrow> nat list \<Rightarrow> int \<Rightarrow> Socket \<Rightarrow> 'w \<Rightarrow> int \<times> byte list \<times> 'w" where
  "Socket_recv_iov os lens flags s w =
     (if m_isConnected s then
        (case os_recvmsg os (m_sock s) lens None flags w of (n, bs, _, w) \<Rightarrow> (n, bs, w))
      else (- 1, [], w))"

text \<open>The address object \<open>from\<close> is filled in by the system call.\<close>

definition Socket_recvFrom ::
  "'w os \<Rightarrow> nat \<Rightarrow> address \<Rightarrow> int \<Rightarrow> Socket \<Rightarrow> 'w \<Rightarrow> int \<times> byte list \<times> address \<times> 'w" where
  "Socket_recvFrom os len from flags s w =
     (if m_isConnected s then os_recvfrom os (m_sock s) len flags from w else (- 1, [], from, w))"

definition Socket_recvFrom_iov ::
  "'w os \<Rightarrow> nat list \<Rightarrow> address \<Rightarrow> int \<Rightarrow> Socket \<Rightarrow> 'w \<Rightarrow> int \<times> byte list \<times> address \<times> 'w" where
  "Socket_recvFrom_iov os lens from flags s w =
     (if m_isConnected s then
        (case os_recvmsg os (m_sock s) lens (Some from) flags w of
           (n, bs, a, w) \<Rightarrow> (n, bs, (case a of None \<Rightarrow> from | Some a \<Rightarrow> a), w))
      else (- 1, [], from, w))"

subsection \<open>Text and cancellation\<close>

definition Address_toString :: "int \<Rightarrow> address \<Rightarrow> string" where
  "Address_toString host a =
     (case a of
        V4 x \<Rightarrow> IPv4Address_insert host x
      | V6 x \<Rightarrow> IPv6Address_insert host x
      | Ux x \<Rightarrow> map (\<lambda>b. char_of (unat b)) (UnixAddress_insert x)
      | Unknow x \<Rightarrow> UnknowAddress_insert x)"

definition Socket_dump :: "int \<Rightarrow> Socket \<Rightarrow> string" where
  "Socket_dump host s =
     ''(Socket sock='' @ int_dec (m_sock s) @ '' is_connected='' @ (if m_isConnected s then ''1'' else ''0'') @
     '' family='' @ int_dec (m_family s) @ '' type='' @ int_dec (m_type s) @ '' protocol='' @ int_dec (m_protocol s) @
     (case m_localAddress s of None \<Rightarrow> [] | Some a \<Rightarrow> '' local_address='' @ Address_toString host a) @
     (case m_remoteAddress s of None \<Rightarrow> [] | Some a \<Rightarrow> '' remote_address='' @ Address_toString host a) @ '')''"

definition cancelRead :: "epoll_ctl \<Rightarrow> Socket \<Rightarrow> 'k iomanager \<Rightarrow> io_error + bool \<times> 'k iomanager" where
  "cancelRead epoll_ctl s io = cancelEvent epoll_ctl (m_sock s) READ io"

definition cancelWrite :: "epoll_ctl \<Rightarrow> Socket \<Rightarrow> 'k iomanager \<Rightarrow> io_error + bool \<times> 'k iomanager" where
  "cancelWrite epoll_ctl s io = cancelEvent epoll_ctl (m_sock s) WRITE io"

definition cancelAccept :: "epoll_ctl \<Rightarrow> Socket \<Rightarrow> 'k iomanager \<Rightarrow> io_error + bool \<times> 'k iomanager" where
  "cancelAccept epoll_ctl s io = cancelEvent epoll_ctl (m_sock s) READ io"

definition Socket_cancelAll :: "epoll_ctl \<Rightarrow> Socket \<Rightarrow> 'k iomanager \<Rightarrow> io_error + bool \<times> 'k iomanager" where
  "Socket_cancelAll epoll_ctl s io = cancelAll epoll_ctl (m_sock s) io"

subsection \<open>Descriptors\<close>


















end
