(* ===== verification/Ragel.thy ===== *)
theory Ragel
  imports Prelude
begin

text \<open>
  The state machines under src/skt/http and src/skt/uri are written as Ragel grammars
  and kept in the repository as generated C++: a switch over the states, each with
  tests on the current character that lead to a transition, which performs actions and
  goes to the next state.  Here is what the three machines share.  A state is its
  number, the characters it widens under a condition, and its transitions: the ranges
  of characters, the actions in their order and the target.  State 0 is the error
  state.
\<close>

type_synonym 'a edges = "((int \<times> int) list \<times> 'a list \<times> nat) list"
type_synonym 'a state = "nat \<times> int list \<times> 'a edges"

text \<open>Characters are signed.\<close>

definition schar :: "char \<Rightarrow> int" where
  "schar c = (if char_nat c < 128 then int (char_nat c) else int (char_nat c) - 256)"

definition widec :: "int list \<Rightarrow> bool \<Rightarrow> int \<Rightarrow> int" where
  "widec conds cond c = (if c \<in> set conds then 128 + (c + 128) + (if cond then 256 else 0) else c)"

fun select :: "int \<Rightarrow> 'a edges \<Rightarrow> ('a list \<times> nat) option" where
  "select c [] = None"
| "select c ((ranges, acts, target) # es) =
     (if \<exists>r \<in> set ranges. fst r \<le> c \<and> c \<le> snd r then Some (acts, target) else select c es)"

definition edge :: "'a state list \<Rightarrow> bool \<Rightarrow> nat \<Rightarrow> char \<Rightarrow> ('a list \<times> nat) option" where
  "edge table cond cs c =
     (case map_of table cs of
        None \<Rightarrow> None
      | Some (conds, es) \<Rightarrow> select (widec conds cond (schar c)) es)"

text \<open>The actions of one transition at position \<open>p\<close>.\<close>

primrec run_actions :: "('a \<Rightarrow> nat \<Rightarrow> 's \<Rightarrow> 'e + 's) \<Rightarrow> 'a list \<Rightarrow> nat \<Rightarrow> 's \<Rightarrow> 'e + 's" where
  "run_actions act [] p s = Inr s"
| "run_actions act (a # as) p s = and_then (act a p s) (run_actions act as p)"

text \<open>
  The machine on the rest \<open>bs\<close> of its input, from position \<open>p\<close>: an action in \<open>brk\<close> ends
  the run behind its character, a character without transition ends it in state 0.  The
  result is the position, the state and what the actions computed.
\<close>

primrec machine ::
  "'a state list \<Rightarrow> bool \<Rightarrow> ('a \<Rightarrow> nat \<Rightarrow> 's \<Rightarrow> 'e + 's) \<Rightarrow> ('a \<Rightarrow> bool)
   \<Rightarrow> string \<Rightarrow> nat \<Rightarrow> nat \<Rightarrow> 's \<Rightarrow> 'e + nat \<times> nat \<times> 's" where
  "machine table cond act brk [] p cs s = Inr (p, cs, s)"
| "machine table cond act brk (b # bs) p cs s =
     (case edge table cond cs b of
        None \<Rightarrow> Inr (p, 0, s)
      | Some (as, target) \<Rightarrow>
          and_then (run_actions act as p s) (\<lambda>s.
            if \<exists>a \<in> set as. brk a then Inr (p + 1, target, s)
            else machine table cond act brk bs (p + 1) target s))"

text \<open>
  Entering the generated switch: a state that has no case there (the error state) falls
  through to the first label behind the switch, which sets the state \<open>fall\<close>.
\<close>

definition run_machine ::
  "nat \<Rightarrow> 'a state list \<Rightarrow> bool \<Rightarrow> ('a \<Rightarrow> nat \<Rightarrow> 's \<Rightarrow> 'e + 's) \<Rightarrow> ('a \<Rightarrow> bool)
   \<Rightarrow> string \<Rightarrow> nat \<Rightarrow> nat \<Rightarrow> 's \<Rightarrow> 'e + nat \<times> nat \<times> 's" where
  "run_machine fall table cond act brk bs p cs s =
     (if bs \<noteq> [] \<and> map_of table cs = None then Inr (p, fall, s)
      else machine table cond act brk bs p cs s)"

subsection \<open>Looking up states\<close>

text \<open>
  A table is the concatenation of its stretches; \<open>lookup_simps\<close> finds the stretch of a
  state from the lists of their state numbers, without unfolding the others.
\<close>

lemma map_of_skip: "n \<notin> set (map fst xs) \<Longrightarrow> map_of (xs @ ys) n = map_of ys n"
  using map_of_eq_None_iff [of xs n] by (simp add: map_add_def split: option.split)

lemma map_of_hit: "n \<in> set (map fst xs) \<Longrightarrow> map_of (xs @ ys) n = map_of xs n"
  using map_of_eq_None_iff [of xs n] by (auto simp: map_add_def split: option.split)

lemmas lookup_simps = concat.simps map_of_skip map_of_hit list.set insert_iff empty_iff simp_thms
  rel_simps numeral_eq_iff one_eq_numeral_iff numeral_eq_one_iff

lemma char_nat_less: "char_nat c < 256"
  by (simp add: char_nat_def)

lemma schar_bounds: "- 128 \<le> schar c" "schar c < 128"
  using char_nat_less [of c] by (auto simp: schar_def)

lemma widec_Nil [simp]: "widec [] cond c = c"
  by (simp add: widec_def)

lemma edge_row: "map_of table cs = Some (conds, es) \<Longrightarrow>
    edge table cond cs c = select (widec conds cond (schar c)) es"
  by (simp add: edge_def)

lemma select_SomeD: "select c es = Some (as, t) \<Longrightarrow> \<exists>rs. (rs, as, t) \<in> set es"
  by (induction c es rule: select.induct) (auto split: if_splits)

lemma edge_SomeD:
  assumes "edge table cond n c = Some (as, t)"
  shows "\<exists>conds es rs. (n, conds, es) \<in> set table \<and> (rs, as, t) \<in> set es"
proof -
  obtain conds es where "map_of table n = Some (conds, es)"
    and "select (widec conds cond (schar c)) es = Some (as, t)"
    using assms by (auto simp: edge_def split: option.splits)
  then show ?thesis by (blast dest: map_of_SomeD select_SomeD)
qed

text \<open>Classes of characters, given by their ranges.\<close>

definition in_class :: "(int \<times> int) list \<Rightarrow> char \<Rightarrow> bool" where
  "in_class rs c \<longleftrightarrow> (\<exists>r \<in> set rs. fst r \<le> schar c \<and> schar c \<le> snd r)"

definition outside :: "int \<Rightarrow> int \<times> int \<Rightarrow> bool" where
  "outside k r \<longleftrightarrow> k < fst r \<or> snd r < k"

lemma select_class:
  assumes "in_class rs c" and "set rs \<subseteq> set ranges" and "\<forall>k \<in> set conds. \<forall>r \<in> set rs. outside k r"
  shows "select (widec conds cond (schar c)) ((ranges, acts, t) # es) = Some (acts, t)"
proof -
  from assms(1) obtain r where r: "r \<in> set rs" "fst r \<le> schar c" "schar c \<le> snd r"
    by (auto simp: in_class_def)
  then have "schar c \<notin> set conds" using assms(3) unfolding outside_def by (meson not_le)
  then show ?thesis using r assms(2) by (auto simp: widec_def)
qed

lemma select_other:
  assumes "in_class rs c" and "\<forall>r \<in> set rs. \<forall>q \<in> set ranges. snd r < fst q \<or> snd q < fst r"
  shows "select (schar c) ((ranges, acts, t) # es) = select (schar c) es"
proof -
  from assms(1) obtain r where r: "r \<in> set rs" "fst r \<le> schar c" "schar c \<le> snd r"
    by (auto simp: in_class_def)
  have "\<not> (\<exists>q \<in> set ranges. fst q \<le> schar c \<and> schar c \<le> snd q)"
    using assms(2) r by fastforce
  then show ?thesis by (simp only: select.simps if_False)
qed

text \<open>The ranges left of \<open>a\<close> to \<open>b\<close> when the numbers of a sorted list are taken out.\<close>

fun split_range :: "int \<Rightarrow> int \<Rightarrow> int list \<Rightarrow> (int \<times> int) list \<Rightarrow> bool" where
  "split_range a b [] rs \<longleftrightarrow> a > b \<or> (a, b) \<in> set rs"
| "split_range a b (x # xs) rs \<longleftrightarrow>
     (if a \<le> x \<and> x \<le> b then (a > x - 1 \<or> (a, x - 1) \<in> set rs) \<and> split_range (x + 1) b xs rs
      else split_range a b xs rs)"

lemma split_range_hit:
  "split_range a b xs rs \<Longrightarrow> a \<le> k \<Longrightarrow> k \<le> b \<Longrightarrow> k \<notin> set xs \<Longrightarrow> \<exists>r \<in> set rs. fst r \<le> k \<and> k \<le> snd r"
proof (induction a b xs rs rule: split_range.induct)
  case (2 a b x xs rs)
  show ?case
  proof (cases "a \<le> x \<and> x \<le> b \<and> k < x")
    case True
    then show ?thesis using 2 by (intro bexI [of _ "(a, x - 1)"]) auto
  next
    case False
    then show ?thesis using 2 by (auto split: if_splits)
  qed
qed force

lemma select_split:
  assumes "in_class cls c" and "schar c \<notin> set xs" and "list_all (\<lambda>(a, b). split_range a b xs rs) cls"
  shows "select (schar c) ((rs, acts, t) # es) = Some (acts, t)"
proof -
  obtain a b where "(a, b) \<in> set cls" "a \<le> schar c" "schar c \<le> b"
    using assms(1) by (auto simp: in_class_def)
  then have "\<exists>r \<in> set rs. fst r \<le> schar c \<and> schar c \<le> snd r"
    using assms(2,3) by (intro split_range_hit [of a b xs]) (auto simp: list_all_iff)
  then show ?thesis by simp
qed

lemma select_others:
  assumes "in_class cls c"
    and "list_all (\<lambda>(rs, _). list_all (\<lambda>r. list_all (\<lambda>q. snd r < fst q \<or> snd q < fst r) rs) cls) pre"
  shows "select (schar c) (pre @ es) = select (schar c) es"
  using assms(2)
proof (induction pre)
  case (Cons e pre)
  obtain rs as t where e: "e = (rs, as, t)" by (cases e)
  have "select (schar c) ((rs, as, t) # pre @ es) = select (schar c) (pre @ es)"
    by (rule select_other [OF assms(1)]) (use Cons.prems e in \<open>auto simp: list_all_iff\<close>)
  then show ?case using Cons e by simp
qed simp

lemma select_hit:
  "in_class rs c \<Longrightarrow> set rs \<subseteq> set ranges \<Longrightarrow> select (schar c) ((ranges, acts, t) # es) = Some (acts, t)"
  using select_class [of rs c ranges "[]"] by (simp del: select.simps)

abbreviation digits :: "(int \<times> int) list" where
  "digits \<equiv> [(48, 57)]"

lemma digit_class: "is_digit c \<longleftrightarrow> in_class digits c"
  using char_nat_less [of c] by (auto simp: is_digit_def in_class_def schar_def)

text \<open>Text in which a percent sign is followed by two hexadecimal digits.\<close>

abbreviation xdigits :: "(int \<times> int) list" where
  "xdigits \<equiv> [(48, 57), (65, 70), (97, 102)]"

fun encoded :: "(int \<times> int) list \<Rightarrow> string \<Rightarrow> bool" where
  "encoded rs [] = True"
| "encoded rs (c # s) =
     (if c = CHR ''%'' then
        (case s of a # b # s' \<Rightarrow> in_class xdigits a \<and> in_class xdigits b \<and> encoded rs s' | _ \<Rightarrow> False)
      else in_class rs c \<and> encoded rs s)"

subsection \<open>Runs\<close>

lemma drop_text: "drop p B = s @ rest \<Longrightarrow> drop (p + length s) B = rest"
  by (metis add.commute append_eq_conv_conj drop_drop)

lemma run_actions_append:
  "run_actions act (as @ bs) p s = and_then (run_actions act as p s) (run_actions act bs p)"
  by (induction as arbitrary: s) (auto simp: and_then_def split: sum.splits)

text \<open>A run over characters that all lead to the same state without action skips them.\<close>

lemma machine_skip:
  assumes "\<And>b. b \<in> set bs \<Longrightarrow> edge table cond cs b = Some ([], cs)"
  shows "machine table cond act brk (bs @ rest) p cs s =
    machine table cond act brk rest (p + length bs) cs s"
  using assms by (induction bs arbitrary: p) simp_all

text \<open>
  Encoded text that leads back to state \<open>n\<close>, the percent sign by way of \<open>n1\<close> and \<open>n2\<close>; and
  the same when the first character comes from another state \<open>m\<close>, with actions.
\<close>

lemma machine_encoded:
  assumes "\<And>c. in_class rs c \<Longrightarrow> edge table cond n c = Some ([], n)"
    and "edge table cond n (CHR ''%'') = Some ([], n1)"
    and "\<And>c. in_class xdigits c \<Longrightarrow> edge table cond n1 c = Some ([], n2)"
    and "\<And>c. in_class xdigits c \<Longrightarrow> edge table cond n2 c = Some ([], n)"
    and "encoded rs s"
  shows "machine table cond act brk (s @ rest) p n st = machine table cond act brk rest (p + length s) n st"
  using assms(1,5)
proof (induction rs s arbitrary: p rule: encoded.induct)
  case (2 rs c s)
  then show ?case
    using assms(2-4) by (auto split: if_splits list.splits)
qed simp

lemma machine_encoded_first:
  assumes "\<And>c. in_class rs c \<Longrightarrow> edge table cond n c = Some ([], n)"
    and "edge table cond n (CHR ''%'') = Some ([], n1)"
    and "\<And>c. in_class xdigits c \<Longrightarrow> edge table cond n1 c = Some ([], n2)"
    and "\<And>c. in_class xdigits c \<Longrightarrow> edge table cond n2 c = Some ([], n)"
    and "encoded rs s" and "s \<noteq> []"
    and "hd s \<noteq> CHR ''%'' \<Longrightarrow> edge table cond m (hd s) = Some (as, n)"
    and "edge table cond m (CHR ''%'') = Some (as, n1)" and "\<And>a. a \<in> set as \<Longrightarrow> \<not> brk a"
  shows "machine table cond act brk (s @ rest) p m st =
    and_then (run_actions act as p st) (machine table cond act brk rest (p + length s) n)"
proof -
  note enc = machine_encoded [OF assms(1-4), where act = act and brk = brk and rest = rest]
  obtain c s' where s: "s = c # s'" using assms(6) by (cases s) auto
  have nb: "\<not> (\<exists>a \<in> set as. brk a)" using assms(9) by blast
  show ?thesis
  proof (cases "c = CHR ''%''")
    case True
    then obtain a b s'' where s': "s' = a # b # s''" "in_class xdigits a" "in_class xdigits b" "encoded rs s''"
      using assms(5) s by (auto split: list.splits)
    then show ?thesis using True s assms(3,4,8) nb enc [where s = s'' and p = "p + 3"]
      by (cases "run_actions act as p st") (simp_all add: numeral_eq_Suc)
  next
    case False
    then show ?thesis using s assms(5,7) nb enc [where s = s' and p = "p + 1"]
      by (cases "run_actions act as p st") simp_all
  qed
qed

text \<open>The machine never moves beyond its input.\<close>

lemma machine_position:
  assumes "machine table cond act brk bs p cs s = Inr (p', cs', s')"
  shows "p \<le> p' \<and> p' \<le> p + length bs"
  using assms
proof (induction bs arbitrary: p cs s)
  case (Cons b bs)
  from Cons.prems show ?case
    using Cons.IH [of "Suc p"]
    by (fastforce simp: and_then_eq_Inr split: option.splits if_splits)
qed simp

text \<open>What every action keeps is kept by a run.\<close>

lemma run_actions_keeps:
  assumes "run_actions act as p s = Inr s'" and "Q s" and "\<And>a s s'. act a p s = Inr s' \<Longrightarrow> Q s \<Longrightarrow> Q s'"
  shows "Q s'"
  using assms(1,2) by (induction as arbitrary: s) (auto simp: and_then_eq_Inr intro: assms(3))

lemma machine_keeps:
  assumes "machine table cond act brk bs p cs s = Inr (p', cs', s')" and "Q s"
    and act: "\<And>a q s s'. act a q s = Inr s' \<Longrightarrow> Q s \<Longrightarrow> Q s'"
  shows "Q s'"
  using assms(1,2)
proof (induction bs arbitrary: p cs s)
  case (Cons b bs)
  then show ?case
    by (fastforce simp: and_then_eq_Inr split: option.splits if_splits dest: run_actions_keeps [where Q = Q, OF _ _ act])
qed simp

text \<open>The same for what an action at a position inside the input keeps.\<close>

lemma run_actions_bounded:
  assumes "run_actions act as q s = Inr s'" and "Q q s" and "\<And>a s s'. act a q s = Inr s' \<Longrightarrow> Q q s \<Longrightarrow> Q q s'"
  shows "Q q s'"
  using assms(1,2) by (induction as arbitrary: s) (auto simp: and_then_eq_Inr intro: assms(3))

lemma machine_bounded:
  assumes "machine table cond act brk bs p cs s = Inr (p', cs', s')" and "Q p s"
    and "\<And>a q s s'. act a q s = Inr s' \<Longrightarrow> Q q s \<Longrightarrow> q < p + length bs \<Longrightarrow> Q q s'"
    and mono: "\<And>q s. Q q s \<Longrightarrow> Q (Suc q) s"
  shows "Q p' s'"
  using assms(1-3)
proof (induction bs arbitrary: p cs s)
  case (Cons b bs)
  show ?case
  proof (cases "edge table cond cs b")
    case None
    then show ?thesis using Cons.prems by auto
  next
    case (Some e)
    obtain as t where e: "e = (as, t)" by (cases e)
    obtain s1 where s1: "run_actions act as p s = Inr s1"
      using Cons.prems(1) Some e by (auto simp: and_then_eq_Inr)
    have "Q p s1" by (rule run_actions_bounded [where Q = Q, OF s1 Cons.prems(2)]) (use Cons.prems(3) in auto)
    then have "Q (Suc p) s1" by (rule mono)
    then show ?thesis
      using Cons.prems(1,3) Some e s1 Cons.IH [of "Suc p" t s1] by (auto split: if_splits)
  qed
qed simp

text \<open>
  Invariants of the state and the position: if every transition leads from a state of the
  invariant, without error, to a state of the invariant, the run ends in one.
\<close>

lemma machine_total:
  assumes "Q cs p s"
    and step: "\<And>cs c as t q s. edge table cond cs c = Some (as, t) \<Longrightarrow> Q cs q s \<Longrightarrow> q < p + length bs \<Longrightarrow>
        \<exists>s'. run_actions act as q s = Inr s' \<and> Q t (Suc q) s'"
    and err: "\<And>cs q s. Q cs q s \<Longrightarrow> Q 0 q s"
  shows "\<exists>p' cs' s'. machine table cond act brk bs p cs s = Inr (p', cs', s') \<and> Q cs' p' s'"
  using assms(1) step
proof (induction bs arbitrary: p cs s)
  case (Cons b bs)
  show ?case
  proof (cases "edge table cond cs b")
    case None
    then show ?thesis using Cons.prems(1) err by auto
  next
    case (Some e)
    obtain as t where e: "e = (as, t)" by (cases e)
    obtain s' where "run_actions act as p s = Inr s'" "Q t (Suc p) s'"
      using Cons.prems(2) [OF Some [unfolded e] Cons.prems(1)] by auto
    then show ?thesis using Some e Cons.IH [of t "Suc p" s'] Cons.prems(2) by auto
  qed
qed simp

text \<open>
  The input may come in pieces as far as the states are concerned: a run that uses up the
  first piece without a break and without error goes on in the second.
\<close>

lemma machine_append:
  assumes "machine table cond act brk xs p cs s = Inr (p', cs', s')"
    and "cs' \<noteq> 0" and "\<And>a n c as. edge table cond n c = Some (as, cs') \<Longrightarrow> a \<in> set as \<Longrightarrow> \<not> brk a"
  shows "machine table cond act brk (xs @ ys) p cs s = machine table cond act brk ys p' cs' s'"
  using assms(1)
proof (induction xs arbitrary: p cs s)
  case (Cons b bs)
  then show ?case using assms(2,3)
    by (fastforce simp: and_then_eq_Inr split: option.splits if_splits)
qed simp

end
