(* ===== verification/Http11_Table.thy ===== *)
theory Http11_Table
  imports Ragel
begin

text \<open>
  The state machine of the request grammar, as it stands in
  src/skt/http/http11_parser.rl.cpp: each list has the states of one stretch of the
  generated switch in their order there.  The labels \<open>trN\<close> of the source are the pairs of
  an action list and a target; tests on the character are merged into ranges.  In the
  states with \<open>relaxed_chars\<close> the characters \<open>^\<close>, \<open>{\<close> and \<open>}\<close> are widened (to 350, 379
  and 381, or with \<open>uri_relaxed\<close> to 606, 635 and 637) before they are tested.
\<close>

datatype http11_action =
    H_mark | H_start_field | H_write_field | H_start_value | H_write_value
  | H_request_method | H_request_uri | H_fragment | H_start_query | H_query_string
  | H_http_version | H_request_path | H_done | H_xml | H_json

definition relaxed_chars :: "int list" where
  "relaxed_chars = [94, 123, 125]"

definition http11_states_1 :: "http11_action state list" where
  "http11_states_1 = [
     (1, [], [([(48, 57), (65, 90)], [H_mark], 2),
         ([(60, 60)], [H_mark], 194),
         ([(64, 64)], [H_mark], 198)]),
     (2, [], [([(32, 32)], [H_request_method], 3),
         ([(48, 57), (65, 90)], [], 175)]),
     (3, relaxed_chars, [([(32, 32)], [H_mark, H_request_path, H_request_uri], 4),
         ([(33, 33), (36, 36), (38, 46), (48, 57), (59, 59), (61, 61), (64, 64), (95, 95), (126,
           126), (606, 606), (635, 635), (637, 637)], [H_mark], 19),
         ([(35, 35)], [H_mark, H_request_path, H_request_uri], 20),
         ([(37, 37)], [H_mark], 24),
         ([(47, 47)], [H_mark], 33),
         ([(63, 63)], [H_mark, H_request_path], 29),
         ([(65, 90), (97, 122)], [H_mark], 173)])]"

definition http11_states_2 :: "http11_action state list" where
  "http11_states_2 = [
     (4, [], [([(72, 72)], [H_mark], 5)]),
     (5, [], [([(84, 84)], [], 6)]),
     (6, [], [([(84, 84)], [], 7)]),
     (7, [], [([(80, 80)], [], 8)]),
     (8, [], [([(47, 47)], [], 9)]),
     (9, [], [([(49, 49)], [], 10)]),
     (10, [], [([(46, 46)], [], 11)]),
     (11, [], [([(48, 49)], [], 12)]),
     (12, [], [([(10, 10)], [H_http_version], 13),
         ([(13, 13)], [H_http_version], 17)])]"

definition http11_states_3 :: "http11_action state list" where
  "http11_states_3 = [
     (13, [], [([(1, 8), (11, 12), (14, 31), (33, 33), (35, 39), (42, 43), (45, 46), (48, 57), (65,
           90), (94, 122), (124, 124), (126, 126)], [H_start_field], 14),
         ([(10, 10)], [H_start_field, H_done], 348),
         ([(13, 13)], [H_start_field], 18)]),
     (14, [], [([(1, 8), (10, 31), (33, 33), (35, 39), (42, 43), (45, 46), (48, 57), (65, 90), (94,
           122), (124, 124), (126, 126)], [], 14),
         ([(58, 58)], [H_write_field], 15)]),
     (15, [], [([(- 128, - 1), (1, 8), (11, 12), (14, 31), (33, 126)], [H_start_value], 16),
         ([(9, 9), (32, 32)], [H_start_value], 15),
         ([(10, 10)], [H_start_value, H_write_value], 13),
         ([(13, 13)], [H_start_value, H_write_value], 17)]),
     (16, [], [([(- 128, - 1), (1, 9), (11, 12), (14, 126)], [], 16),
         ([(10, 10)], [H_write_value], 13),
         ([(13, 13)], [H_write_value], 17)])]"

definition http11_states_4 :: "http11_action state list" where
  "http11_states_4 = [
     (17, [], [([(10, 10)], [], 13)]),
     (348, [], [([(1, 8), (10, 31), (33, 33), (35, 39), (42, 43), (45, 46), (48, 57), (65, 90), (94,
           122), (124, 124), (126, 126)], [], 14),
         ([(58, 58)], [H_write_field], 15)]),
     (18, [], [([(1, 8), (11, 31), (33, 33), (35, 39), (42, 43), (45, 46), (48, 57), (65, 90), (94,
           122), (124, 124), (126, 126)], [], 14),
         ([(10, 10)], [H_done], 348),
         ([(58, 58)], [H_write_field], 15)])]"

definition http11_states_5 :: "http11_action state list" where
  "http11_states_5 = [
     (19, relaxed_chars, [([(32, 32)], [H_request_path, H_request_uri], 4),
         ([(33, 33), (36, 36), (38, 46), (48, 57), (59, 59), (61, 61), (64, 90), (95, 95), (97,
           122), (126, 126), (606, 606), (635, 635), (637, 637)], [], 19),
         ([(35, 35)], [H_request_path, H_request_uri], 20),
         ([(37, 37)], [], 24),
         ([(47, 47)], [], 26),
         ([(63, 63)], [H_request_path], 29)])]"

definition http11_states_6 :: "http11_action state list" where
  "http11_states_6 = [
     (20, relaxed_chars, [([(- 128, - 1), (33, 33), (36, 36), (38, 59), (61, 61), (63, 90), (95,
           95), (97, 122), (126, 126), (606, 606), (635, 635), (637, 637)], [H_mark], 21),
         ([(32, 32)], [H_mark, H_fragment], 4),
         ([(37, 37)], [H_mark], 22)])]"

definition http11_states_7 :: "http11_action state list" where
  "http11_states_7 = [
     (21, relaxed_chars, [([(- 128, - 1), (33, 33), (36, 36), (38, 59), (61, 61), (63, 90), (95,
           95), (97, 122), (126, 126), (606, 606), (635, 635), (637, 637)], [], 21),
         ([(32, 32)], [H_fragment], 4),
         ([(37, 37)], [], 22)]),
     (22, [], [([(48, 57), (65, 70), (97, 102)], [], 23)]),
     (23, [], [([(48, 57), (65, 70), (97, 102)], [], 21)]),
     (24, [], [([(48, 57), (65, 70), (97, 102)], [], 25)]),
     (25, [], [([(48, 57), (65, 70), (97, 102)], [], 19)])]"

definition http11_states_8 :: "http11_action state list" where
  "http11_states_8 = [
     (26, relaxed_chars, [([(- 128, - 1), (33, 33), (36, 36), (38, 59), (61, 61), (64, 90), (95,
           95), (97, 122), (126, 126), (606, 606), (635, 635), (637, 637)], [], 26),
         ([(32, 32)], [H_request_path, H_request_uri], 4),
         ([(35, 35)], [H_request_path, H_request_uri], 20),
         ([(37, 37)], [], 27),
         ([(63, 63)], [H_request_path], 29)]),
     (27, [], [([(48, 57), (65, 70), (97, 102)], [], 28)]),
     (28, [], [([(48, 57), (65, 70), (97, 102)], [], 26)])]"

definition http11_states_9 :: "http11_action state list" where
  "http11_states_9 = [
     (29, relaxed_chars, [([(- 128, - 1), (33, 33), (36, 36), (38, 59), (61, 61), (63, 90), (95,
           95), (97, 122), (126, 126), (606, 606), (635, 635), (637, 637)], [H_start_query], 30),
         ([(32, 32)], [H_start_query, H_query_string, H_request_uri], 4),
         ([(35, 35)], [H_start_query, H_query_string, H_request_uri], 20),
         ([(37, 37)], [H_start_query], 31)]),
     (30, relaxed_chars, [([(- 128, - 1), (33, 33), (36, 36), (38, 59), (61, 61), (63, 90), (95,
           95), (97, 122), (126, 126), (606, 606), (635, 635), (637, 637)], [], 30),
         ([(32, 32)], [H_query_string, H_request_uri], 4),
         ([(35, 35)], [H_query_string, H_request_uri], 20),
         ([(37, 37)], [], 31)]),
     (31, [], [([(48, 57), (65, 70), (97, 102)], [], 32)])]"

definition http11_states_10 :: "http11_action state list" where
  "http11_states_10 = [
     (32, [], [([(48, 57), (65, 70), (97, 102)], [], 30)]),
     (33, relaxed_chars, [([(- 128, - 1), (33, 33), (36, 36), (38, 46), (48, 59), (61, 61), (64,
           90), (95, 95), (97, 122), (126, 126), (606, 606), (635, 635), (637, 637)], [], 26),
         ([(32, 32)], [H_request_path, H_request_uri], 4),
         ([(35, 35)], [H_request_path, H_request_uri], 20),
         ([(37, 37)], [], 27),
         ([(47, 47)], [], 34),
         ([(63, 63)], [H_request_path], 29)]),
     (34, relaxed_chars, [([(32, 32)], [H_request_path, H_request_uri], 4),
         ([(33, 33), (36, 36), (38, 46), (48, 57), (59, 59), (61, 61), (65, 90), (95, 95), (97,
           122), (126, 126), (606, 606), (635, 635), (637, 637)], [], 35),
         ([(35, 35)], [H_request_path, H_request_uri], 20),
         ([(37, 37)], [], 36),
         ([(47, 47)], [], 26),
         ([(58, 58)], [], 38),
         ([(63, 63)], [H_request_path], 29),
         ([(64, 64)], [], 42),
         ([(91, 91)], [], 47)])]"

definition http11_states_11 :: "http11_action state list" where
  "http11_states_11 = [
     (35, relaxed_chars, [([(32, 32)], [H_request_path, H_request_uri], 4),
         ([(33, 33), (36, 36), (38, 46), (48, 57), (59, 59), (61, 61), (65, 90), (95, 95), (97,
           122), (126, 126), (606, 606), (635, 635), (637, 637)], [], 35),
         ([(35, 35)], [H_request_path, H_request_uri], 20),
         ([(37, 37)], [], 36),
         ([(47, 47)], [], 26),
         ([(58, 58)], [], 38),
         ([(63, 63)], [H_request_path], 29),
         ([(64, 64)], [], 42)]),
     (36, [], [([(48, 57), (65, 70), (97, 102)], [], 37)]),
     (37, [], [([(48, 57), (65, 70), (97, 102)], [], 35)]),
     (38, relaxed_chars, [([(32, 32)], [H_request_path, H_request_uri], 4),
         ([(33, 33), (36, 36), (38, 46), (58, 59), (61, 61), (65, 90), (95, 95), (97, 122), (126,
           126), (606, 606), (635, 635), (637, 637)], [], 39),
         ([(35, 35)], [H_request_path, H_request_uri], 20),
         ([(37, 37)], [], 40),
         ([(47, 47)], [], 26),
         ([(48, 57)], [], 38),
         ([(63, 63)], [H_request_path], 29),
         ([(64, 64)], [], 42)])]"

definition http11_states_12 :: "http11_action state list" where
  "http11_states_12 = [
     (39, relaxed_chars, [([(33, 33), (36, 36), (38, 46), (48, 59), (61, 61), (65, 90), (95, 95),
           (97, 122), (126, 126), (606, 606), (635, 635), (637, 637)], [], 39),
         ([(37, 37)], [], 40),
         ([(64, 64)], [], 42)]),
     (40, [], [([(48, 57), (65, 70), (97, 102)], [], 41)]),
     (41, [], [([(48, 57), (65, 70), (97, 102)], [], 39)]),
     (42, relaxed_chars, [([(32, 32)], [H_request_path, H_request_uri], 4),
         ([(33, 33), (36, 36), (38, 46), (48, 57), (59, 59), (61, 61), (65, 90), (95, 95), (97,
           122), (126, 126), (606, 606), (635, 635), (637, 637)], [], 43),
         ([(35, 35)], [H_request_path, H_request_uri], 20),
         ([(37, 37)], [], 44),
         ([(47, 47)], [], 26),
         ([(58, 58)], [], 46),
         ([(63, 63)], [H_request_path], 29),
         ([(91, 91)], [], 47)])]"

definition http11_states_13 :: "http11_action state list" where
  "http11_states_13 = [
     (43, relaxed_chars, [([(32, 32)], [H_request_path, H_request_uri], 4),
         ([(33, 33), (36, 36), (38, 46), (48, 57), (59, 59), (61, 61), (65, 90), (95, 95), (97,
           122), (126, 126), (606, 606), (635, 635), (637, 637)], [], 43),
         ([(35, 35)], [H_request_path, H_request_uri], 20),
         ([(37, 37)], [], 44),
         ([(47, 47)], [], 26),
         ([(58, 58)], [], 46),
         ([(63, 63)], [H_request_path], 29)]),
     (44, [], [([(48, 57), (65, 70), (97, 102)], [], 45)]),
     (45, [], [([(48, 57), (65, 70), (97, 102)], [], 43)]),
     (46, [], [([(32, 32)], [H_request_path, H_request_uri], 4),
         ([(35, 35)], [H_request_path, H_request_uri], 20),
         ([(47, 47)], [], 26),
         ([(48, 57)], [], 46),
         ([(63, 63)], [H_request_path], 29)]),
     (47, [], [([(6, 6)], [], 48),
         ([(48, 57), (65, 70), (97, 102)], [], 91),
         ([(58, 58)], [], 167),
         ([(118, 118)], [], 169)]),
     (48, [], [([(48, 57), (65, 70), (97, 102)], [], 49)]),
     (49, [], [([(48, 57), (65, 70), (97, 102)], [], 50),
         ([(58, 58)], [], 53)]),
     (50, [], [([(48, 57), (65, 70), (97, 102)], [], 51),
         ([(58, 58)], [], 53)])]"

definition http11_states_14 :: "http11_action state list" where
  "http11_states_14 = [
     (51, [], [([(48, 57), (65, 70), (97, 102)], [], 52),
         ([(58, 58)], [], 53)]),
     (52, [], [([(58, 58)], [], 53)]),
     (53, [], [([(48, 48), (51, 57)], [], 54),
         ([(49, 49)], [], 84),
         ([(50, 50)], [], 87),
         ([(65, 70), (97, 102)], [], 90)]),
     (54, [], [([(46, 46)], [], 55),
         ([(48, 57), (65, 70), (97, 102)], [], 77),
         ([(58, 58)], [], 80)]),
     (55, [], [([(48, 48), (51, 57)], [], 56),
         ([(49, 49)], [], 72),
         ([(50, 50)], [], 74)]),
     (56, [], [([(46, 46)], [], 57)]),
     (57, [], [([(48, 48), (51, 57)], [], 58),
         ([(49, 49)], [], 67),
         ([(50, 50)], [], 69)]),
     (58, [], [([(46, 46)], [], 59)]),
     (59, [], [([(48, 48), (51, 57)], [], 60),
         ([(49, 49)], [], 62),
         ([(50, 50)], [], 64)]),
     (60, [], [([(93, 93)], [], 61)]),
     (61, [], [([(32, 32)], [H_request_path, H_request_uri], 4),
         ([(35, 35)], [H_request_path, H_request_uri], 20),
         ([(47, 47)], [], 26),
         ([(58, 58)], [], 46),
         ([(63, 63)], [H_request_path], 29)]),
     (62, [], [([(48, 57)], [], 63),
         ([(93, 93)], [], 61)]),
     (63, [], [([(48, 57)], [], 60),
         ([(93, 93)], [], 61)]),
     (64, [], [([(48, 48)], [], 65),
         ([(53, 53)], [], 66),
         ([(93, 93)], [], 61)])]"

definition http11_states_15 :: "http11_action state list" where
  "http11_states_15 = [
     (65, [], [([(48, 57)], [], 60)]),
     (66, [], [([(48, 48)], [], 60)]),
     (67, [], [([(46, 46)], [], 59),
         ([(48, 57)], [], 68)]),
     (68, [], [([(46, 46)], [], 59),
         ([(48, 57)], [], 58)]),
     (69, [], [([(46, 46)], [], 59),
         ([(48, 48)], [], 70),
         ([(53, 53)], [], 71)]),
     (70, [], [([(48, 57)], [], 58)]),
     (71, [], [([(48, 48)], [], 58)]),
     (72, [], [([(46, 46)], [], 57),
         ([(48, 57)], [], 73)]),
     (73, [], [([(46, 46)], [], 57),
         ([(48, 57)], [], 56)]),
     (74, [], [([(46, 46)], [], 57),
         ([(48, 48)], [], 75),
         ([(53, 53)], [], 76)]),
     (75, [], [([(48, 57)], [], 56)]),
     (76, [], [([(48, 48)], [], 56)]),
     (77, [], [([(48, 57), (65, 70), (97, 102)], [], 78),
         ([(58, 58)], [], 80)]),
     (78, [], [([(48, 57), (65, 70), (97, 102)], [], 79),
         ([(58, 58)], [], 80)]),
     (79, [], [([(58, 58)], [], 80)]),
     (80, [], [([(48, 57), (65, 70), (97, 102)], [], 81)])]"

definition http11_states_16 :: "http11_action state list" where
  "http11_states_16 = [
     (81, [], [([(48, 57), (65, 70), (97, 102)], [], 82),
         ([(93, 93)], [], 61)]),
     (82, [], [([(48, 57), (65, 70), (97, 102)], [], 83),
         ([(93, 93)], [], 61)]),
     (83, [], [([(48, 57), (65, 70), (97, 102)], [], 60),
         ([(93, 93)], [], 61)]),
     (84, [], [([(46, 46)], [], 55),
         ([(48, 57)], [], 85),
         ([(58, 58)], [], 80),
         ([(65, 70), (97, 102)], [], 77)]),
     (85, [], [([(46, 46)], [], 55),
         ([(48, 57)], [], 86),
         ([(58, 58)], [], 80),
         ([(65, 70), (97, 102)], [], 78)]),
     (86, [], [([(46, 46)], [], 55),
         ([(48, 57), (65, 70), (97, 102)], [], 79),
         ([(58, 58)], [], 80)]),
     (87, [], [([(46, 46)], [], 55),
         ([(48, 48)], [], 88),
         ([(49, 52), (54, 57), (65, 70), (97, 102)], [], 77),
         ([(53, 53)], [], 89),
         ([(58, 58)], [], 80)]),
     (88, [], [([(48, 57)], [], 86),
         ([(58, 58)], [], 80),
         ([(65, 70), (97, 102)], [], 78)]),
     (89, [], [([(48, 48)], [], 86),
         ([(49, 57), (65, 70), (97, 102)], [], 78),
         ([(58, 58)], [], 80)])]"

definition http11_states_17 :: "http11_action state list" where
  "http11_states_17 = [
     (90, [], [([(48, 57), (65, 70), (97, 102)], [], 77),
         ([(58, 58)], [], 80)]),
     (91, [], [([(48, 57), (65, 70), (97, 102)], [], 92),
         ([(58, 58)], [], 95)]),
     (92, [], [([(48, 57), (65, 70), (97, 102)], [], 93),
         ([(58, 58)], [], 95)]),
     (93, [], [([(48, 57), (65, 70), (97, 102)], [], 94),
         ([(58, 58)], [], 95)]),
     (94, [], [([(58, 58)], [], 95)]),
     (95, [], [([(48, 57), (65, 70), (97, 102)], [], 96),
         ([(58, 58)], [], 166)]),
     (96, [], [([(48, 57), (65, 70), (97, 102)], [], 97),
         ([(58, 58)], [], 100)]),
     (97, [], [([(48, 57), (65, 70), (97, 102)], [], 98),
         ([(58, 58)], [], 100)]),
     (98, [], [([(48, 57), (65, 70), (97, 102)], [], 99),
         ([(58, 58)], [], 100)]),
     (99, [], [([(58, 58)], [], 100)]),
     (100, [], [([(48, 57), (65, 70), (97, 102)], [], 101),
         ([(58, 58)], [], 165)])]"

definition http11_states_18 :: "http11_action state list" where
  "http11_states_18 = [
     (101, [], [([(48, 57), (65, 70), (97, 102)], [], 102),
         ([(58, 58)], [], 105)]),
     (102, [], [([(48, 57), (65, 70), (97, 102)], [], 103),
         ([(58, 58)], [], 105)]),
     (103, [], [([(48, 57), (65, 70), (97, 102)], [], 104),
         ([(58, 58)], [], 105)]),
     (104, [], [([(58, 58)], [], 105)]),
     (105, [], [([(48, 57), (65, 70), (97, 102)], [], 106),
         ([(58, 58)], [], 164)]),
     (106, [], [([(48, 57), (65, 70), (97, 102)], [], 107),
         ([(58, 58)], [], 110)]),
     (107, [], [([(48, 57), (65, 70), (97, 102)], [], 108),
         ([(58, 58)], [], 110)]),
     (108, [], [([(48, 57), (65, 70), (97, 102)], [], 109),
         ([(58, 58)], [], 110)]),
     (109, [], [([(58, 58)], [], 110)]),
     (110, [], [([(48, 57), (65, 70), (97, 102)], [], 111),
         ([(58, 58)], [], 163)]),
     (111, [], [([(48, 57), (65, 70), (97, 102)], [], 112),
         ([(58, 58)], [], 115)])]"

definition http11_states_19 :: "http11_action state list" where
  "http11_states_19 = [
     (112, [], [([(48, 57), (65, 70), (97, 102)], [], 113),
         ([(58, 58)], [], 115)]),
     (113, [], [([(48, 57), (65, 70), (97, 102)], [], 114),
         ([(58, 58)], [], 115)]),
     (114, [], [([(58, 58)], [], 115)]),
     (115, [], [([(48, 57), (65, 70), (97, 102)], [], 116),
         ([(58, 58)], [], 151)]),
     (116, [], [([(48, 57), (65, 70), (97, 102)], [], 117),
         ([(58, 58)], [], 120)]),
     (117, [], [([(48, 57), (65, 70), (97, 102)], [], 118),
         ([(58, 58)], [], 120)]),
     (118, [], [([(48, 57), (65, 70), (97, 102)], [], 119),
         ([(58, 58)], [], 120)]),
     (119, [], [([(58, 58)], [], 120)]),
     (120, [], [([(48, 57), (65, 70), (97, 102)], [], 121),
         ([(58, 58)], [], 150)]),
     (121, [], [([(48, 57), (65, 70), (97, 102)], [], 122),
         ([(58, 58)], [], 125)]),
     (122, [], [([(48, 57), (65, 70), (97, 102)], [], 123),
         ([(58, 58)], [], 125)])]"

definition http11_states_20 :: "http11_action state list" where
  "http11_states_20 = [
     (123, [], [([(48, 57), (65, 70), (97, 102)], [], 124),
         ([(58, 58)], [], 125)]),
     (124, [], [([(58, 58)], [], 125)]),
     (125, [], [([(48, 57), (65, 70), (97, 102)], [], 121),
         ([(58, 58)], [], 126)]),
     (126, [], [([(2, 3)], [], 48),
         ([(48, 48), (51, 57)], [], 127),
         ([(49, 49)], [], 143),
         ([(50, 50)], [], 146),
         ([(65, 70), (97, 102)], [], 149),
         ([(93, 93)], [], 61)]),
     (127, [], [([(46, 46)], [], 55),
         ([(48, 57), (65, 70), (97, 102)], [], 128),
         ([(58, 58)], [], 131),
         ([(93, 93)], [], 61)]),
     (128, [], [([(48, 57), (65, 70), (97, 102)], [], 129),
         ([(58, 58)], [], 131),
         ([(93, 93)], [], 61)]),
     (129, [], [([(48, 57), (65, 70), (97, 102)], [], 130),
         ([(58, 58)], [], 131),
         ([(93, 93)], [], 61)]),
     (130, [], [([(58, 58)], [], 131),
         ([(93, 93)], [], 61)]),
     (131, [], [([(48, 48), (51, 57)], [], 132),
         ([(49, 49)], [], 136),
         ([(50, 50)], [], 139),
         ([(65, 70), (97, 102)], [], 142)])]"

definition http11_states_21 :: "http11_action state list" where
  "http11_states_21 = [
     (132, [], [([(46, 46)], [], 55),
         ([(48, 57), (65, 70), (97, 102)], [], 133),
         ([(58, 58)], [], 80),
         ([(93, 93)], [], 61)]),
     (133, [], [([(48, 57), (65, 70), (97, 102)], [], 134),
         ([(58, 58)], [], 80),
         ([(93, 93)], [], 61)]),
     (134, [], [([(48, 57), (65, 70), (97, 102)], [], 135),
         ([(58, 58)], [], 80),
         ([(93, 93)], [], 61)]),
     (135, [], [([(58, 58)], [], 80),
         ([(93, 93)], [], 61)]),
     (136, [], [([(46, 46)], [], 55),
         ([(48, 57)], [], 137),
         ([(58, 58)], [], 80),
         ([(65, 70), (97, 102)], [], 133),
         ([(93, 93)], [], 61)]),
     (137, [], [([(46, 46)], [], 55),
         ([(48, 57)], [], 138),
         ([(58, 58)], [], 80),
         ([(65, 70), (97, 102)], [], 134),
         ([(93, 93)], [], 61)]),
     (138, [], [([(46, 46)], [], 55),
         ([(48, 57), (65, 70), (97, 102)], [], 135),
         ([(58, 58)], [], 80),
         ([(93, 93)], [], 61)]),
     (139, [], [([(46, 46)], [], 55),
         ([(48, 48)], [], 140),
         ([(49, 52), (54, 57), (65, 70), (97, 102)], [], 133),
         ([(53, 53)], [], 141),
         ([(58, 58)], [], 80),
         ([(93, 93)], [], 61)])]"

definition http11_states_22 :: "http11_action state list" where
  "http11_states_22 = [
     (140, [], [([(48, 57)], [], 138),
         ([(58, 58)], [], 80),
         ([(65, 70), (97, 102)], [], 134),
         ([(93, 93)], [], 61)]),
     (141, [], [([(48, 48)], [], 138),
         ([(49, 57), (65, 70), (97, 102)], [], 134),
         ([(58, 58)], [], 80),
         ([(93, 93)], [], 61)]),
     (142, [], [([(48, 57), (65, 70), (97, 102)], [], 133),
         ([(58, 58)], [], 80),
         ([(93, 93)], [], 61)]),
     (143, [], [([(46, 46)], [], 55),
         ([(48, 57)], [], 144),
         ([(58, 58)], [], 131),
         ([(65, 70), (97, 102)], [], 128),
         ([(93, 93)], [], 61)]),
     (144, [], [([(46, 46)], [], 55),
         ([(48, 57)], [], 145),
         ([(58, 58)], [], 131),
         ([(65, 70), (97, 102)], [], 129),
         ([(93, 93)], [], 61)]),
     (145, [], [([(46, 46)], [], 55),
         ([(48, 57), (65, 70), (97, 102)], [], 130),
         ([(58, 58)], [], 131),
         ([(93, 93)], [], 61)]),
     (146, [], [([(46, 46)], [], 55),
         ([(48, 48)], [], 147),
         ([(49, 52), (54, 57), (65, 70), (97, 102)], [], 128),
         ([(53, 53)], [], 148),
         ([(58, 58)], [], 131),
         ([(93, 93)], [], 61)]),
     (147, [], [([(48, 57)], [], 145),
         ([(58, 58)], [], 131),
         ([(65, 70), (97, 102)], [], 129),
         ([(93, 93)], [], 61)])]"

definition http11_states_23 :: "http11_action state list" where
  "http11_states_23 = [
     (148, [], [([(48, 48)], [], 145),
         ([(49, 57), (65, 70), (97, 102)], [], 129),
         ([(58, 58)], [], 131),
         ([(93, 93)], [], 61)]),
     (149, [], [([(48, 57), (65, 70), (97, 102)], [], 128),
         ([(58, 58)], [], 131),
         ([(93, 93)], [], 61)]),
     (150, [], [([(2, 3)], [], 48),
         ([(48, 48), (51, 57)], [], 127),
         ([(49, 49)], [], 143),
         ([(50, 50)], [], 146),
         ([(65, 70), (97, 102)], [], 149)]),
     (151, [], [([(2, 3)], [], 48),
         ([(48, 48), (51, 57)], [], 152),
         ([(49, 49)], [], 156),
         ([(50, 50)], [], 159),
         ([(65, 70), (97, 102)], [], 162)]),
     (152, [], [([(46, 46)], [], 55),
         ([(48, 57), (65, 70), (97, 102)], [], 153),
         ([(58, 58)], [], 131)]),
     (153, [], [([(48, 57), (65, 70), (97, 102)], [], 154),
         ([(58, 58)], [], 131)]),
     (154, [], [([(48, 57), (65, 70), (97, 102)], [], 155),
         ([(58, 58)], [], 131)]),
     (155, [], [([(58, 58)], [], 131)]),
     (156, [], [([(46, 46)], [], 55),
         ([(48, 57)], [], 157),
         ([(58, 58)], [], 131),
         ([(65, 70), (97, 102)], [], 153)])]"

definition http11_states_24 :: "http11_action state list" where
  "http11_states_24 = [
     (157, [], [([(46, 46)], [], 55),
         ([(48, 57)], [], 158),
         ([(58, 58)], [], 131),
         ([(65, 70), (97, 102)], [], 154)]),
     (158, [], [([(46, 46)], [], 55),
         ([(48, 57), (65, 70), (97, 102)], [], 155),
         ([(58, 58)], [], 131)]),
     (159, [], [([(46, 46)], [], 55),
         ([(48, 48)], [], 160),
         ([(49, 52), (54, 57), (65, 70), (97, 102)], [], 153),
         ([(53, 53)], [], 161),
         ([(58, 58)], [], 131)]),
     (160, [], [([(48, 57)], [], 158),
         ([(58, 58)], [], 131),
         ([(65, 70), (97, 102)], [], 154)]),
     (161, [], [([(48, 48)], [], 158),
         ([(49, 57), (65, 70), (97, 102)], [], 154),
         ([(58, 58)], [], 131)]),
     (162, [], [([(48, 57), (65, 70), (97, 102)], [], 153),
         ([(58, 58)], [], 131)]),
     (163, [], [([(2, 3)], [], 48),
         ([(48, 57), (65, 70), (97, 102)], [], 49)]),
     (164, [], [([(2, 3)], [], 48)]),
     (165, [], [([(3, 3)], [], 48)]),
     (166, [], [([(4, 4)], [], 48)]),
     (167, [], [([(58, 58)], [], 168)])]"

definition http11_states_25 :: "http11_action state list" where
  "http11_states_25 = [
     (168, [], [([(2, 5)], [], 48),
         ([(48, 48), (51, 57)], [], 127),
         ([(49, 49)], [], 143),
         ([(50, 50)], [], 146),
         ([(65, 70), (97, 102)], [], 149),
         ([(93, 93)], [], 61)]),
     (169, [], [([(48, 57), (65, 70), (97, 102)], [], 170)]),
     (170, [], [([(46, 46)], [], 171),
         ([(48, 57), (65, 70), (97, 102)], [], 170)]),
     (171, relaxed_chars, [([(33, 33), (36, 36), (38, 46), (48, 59), (61, 61), (65, 90), (95, 95),
           (97, 122), (126, 126), (606, 606), (635, 635), (637, 637)], [], 172)]),
     (172, relaxed_chars, [([(33, 33), (36, 36), (38, 46), (48, 59), (61, 61), (65, 90), (95, 95),
           (97, 122), (126, 126), (606, 606), (635, 635), (637, 637)], [], 172),
         ([(93, 93)], [], 61)])]"

definition http11_states_26 :: "http11_action state list" where
  "http11_states_26 = [
     (173, relaxed_chars, [([(32, 32)], [H_request_path, H_request_uri], 4),
         ([(33, 33), (36, 36), (38, 42), (44, 44), (59, 59), (61, 61), (64, 64), (95, 95), (126,
           126), (606, 606), (635, 635), (637, 637)], [], 19),
         ([(35, 35)], [H_request_path, H_request_uri], 20),
         ([(37, 37)], [], 24),
         ([(43, 43), (45, 46), (48, 57), (65, 90), (97, 122)], [], 173),
         ([(47, 47)], [], 26),
         ([(58, 58)], [], 174),
         ([(63, 63)], [H_request_path], 29)]),
     (174, relaxed_chars, [([(- 128, - 1), (33, 33), (36, 36), (38, 46), (48, 59), (61, 61), (64,
           90), (95, 95), (97, 122), (126, 126), (606, 606), (635, 635), (637, 637)], [H_mark], 26),
         ([(32, 32)], [H_mark, H_request_path, H_request_uri], 4),
         ([(35, 35)], [H_mark, H_request_path, H_request_uri], 20),
         ([(37, 37)], [H_mark], 27),
         ([(47, 47)], [H_mark], 33),
         ([(63, 63)], [H_mark, H_request_path], 29)]),
     (175, [], [([(32, 32)], [H_request_method], 3),
         ([(48, 57), (65, 90)], [], 176)]),
     (176, [], [([(32, 32)], [H_request_method], 3),
         ([(48, 57), (65, 90)], [], 177)]),
     (177, [], [([(32, 32)], [H_request_method], 3),
         ([(48, 57), (65, 90)], [], 178)])]"

definition http11_states_27 :: "http11_action state list" where
  "http11_states_27 = [
     (178, [], [([(32, 32)], [H_request_method], 3),
         ([(48, 57), (65, 90)], [], 179)]),
     (179, [], [([(32, 32)], [H_request_method], 3),
         ([(48, 57), (65, 90)], [], 180)]),
     (180, [], [([(32, 32)], [H_request_method], 3),
         ([(48, 57), (65, 90)], [], 181)]),
     (181, [], [([(32, 32)], [H_request_method], 3),
         ([(48, 57), (65, 90)], [], 182)]),
     (182, [], [([(32, 32)], [H_request_method], 3),
         ([(48, 57), (65, 90)], [], 183)]),
     (183, [], [([(32, 32)], [H_request_method], 3),
         ([(48, 57), (65, 90)], [], 184)]),
     (184, [], [([(32, 32)], [H_request_method], 3),
         ([(48, 57), (65, 90)], [], 185)]),
     (185, [], [([(32, 32)], [H_request_method], 3),
         ([(48, 57), (65, 90)], [], 186)]),
     (186, [], [([(32, 32)], [H_request_method], 3),
         ([(48, 57), (65, 90)], [], 187)]),
     (187, [], [([(32, 32)], [H_request_method], 3),
         ([(48, 57), (65, 90)], [], 188)]),
     (188, [], [([(32, 32)], [H_request_method], 3),
         ([(48, 57), (65, 90)], [], 189)]),
     (189, [], [([(32, 32)], [H_request_method], 3),
         ([(48, 57), (65, 90)], [], 190)])]"

definition http11_states_28 :: "http11_action state list" where
  "http11_states_28 = [
     (190, [], [([(32, 32)], [H_request_method], 3),
         ([(48, 57), (65, 90)], [], 191)]),
     (191, [], [([(32, 32)], [H_request_method], 3),
         ([(48, 57), (65, 90)], [], 192)]),
     (192, [], [([(32, 32)], [H_request_method], 3),
         ([(48, 57), (65, 90)], [], 193)]),
     (193, [], [([(32, 32)], [H_request_method], 3)]),
     (194, [], [([(45, 46), (48, 57), (65, 90), (97, 122)], [], 195)]),
     (195, [], [([(9, 13), (32, 32), (47, 47), (62, 62)], [H_request_path], 196),
         ([(45, 46), (48, 57), (65, 90), (97, 122)], [], 195)]),
     (196, [], [([(- 128, 61), (63, 127)], [], 196),
         ([(62, 62)], [], 197)]),
     (197, [], [([(- 128, - 1), (1, 61), (63, 127)], [], 196),
         ([(0, 0)], [H_xml, H_done], 349),
         ([(62, 62)], [], 197)])]"

definition http11_states_29 :: "http11_action state list" where
  "http11_states_29 = [
     (349, [], []),
     (198, relaxed_chars, [([(32, 32)], [H_request_path], 199),
         ([(33, 33), (36, 36), (38, 46), (48, 57), (59, 59), (61, 61), (64, 90), (95, 95), (97,
           122), (126, 126), (606, 606), (635, 635), (637, 637)], [], 202),
         ([(37, 37)], [], 203),
         ([(47, 47)], [], 208)]),
     (199, [], [([(123, 123)], [H_mark], 200)]),
     (200, [], [([(- 128, 124), (126, 127)], [], 200),
         ([(125, 125)], [], 201)]),
     (201, [], [([(- 128, - 1), (1, 124), (126, 127)], [], 200),
         ([(0, 0)], [H_json, H_done], 349),
         ([(125, 125)], [], 201)])]"

definition http11_states_30 :: "http11_action state list" where
  "http11_states_30 = [
     (202, relaxed_chars, [([(32, 32)], [H_request_path], 199),
         ([(33, 33), (36, 36), (38, 46), (48, 57), (59, 59), (61, 61), (64, 90), (95, 95), (97,
           122), (126, 126), (606, 606), (635, 635), (637, 637)], [], 202),
         ([(37, 37)], [], 203),
         ([(47, 47)], [], 205)]),
     (203, [], [([(48, 57), (65, 70), (97, 102)], [], 204)]),
     (204, [], [([(48, 57), (65, 70), (97, 102)], [], 202)]),
     (205, relaxed_chars, [([(- 128, - 1), (33, 33), (36, 36), (38, 59), (61, 61), (64, 90), (95,
           95), (97, 122), (126, 126), (606, 606), (635, 635), (637, 637)], [], 205),
         ([(32, 32)], [H_request_path], 199),
         ([(37, 37)], [], 206)]),
     (206, [], [([(48, 57), (65, 70), (97, 102)], [], 207)]),
     (207, [], [([(48, 57), (65, 70), (97, 102)], [], 205)])]"

definition http11_states_31 :: "http11_action state list" where
  "http11_states_31 = [
     (208, relaxed_chars, [([(- 128, - 1), (33, 33), (36, 36), (38, 46), (48, 59), (61, 61), (64,
           90), (95, 95), (97, 122), (126, 126), (606, 606), (635, 635), (637, 637)], [], 205),
         ([(32, 32)], [H_request_path], 199),
         ([(37, 37)], [], 206),
         ([(47, 47)], [], 209)]),
     (209, relaxed_chars, [([(32, 32)], [H_request_path], 199),
         ([(33, 33), (36, 36), (38, 46), (48, 57), (59, 59), (61, 61), (65, 90), (95, 95), (97,
           122), (126, 126), (606, 606), (635, 635), (637, 637)], [], 210),
         ([(37, 37)], [], 211),
         ([(47, 47)], [], 205),
         ([(58, 58)], [], 213),
         ([(64, 64)], [], 217),
         ([(91, 91)], [], 222)]),
     (210, relaxed_chars, [([(32, 32)], [H_request_path], 199),
         ([(33, 33), (36, 36), (38, 46), (48, 57), (59, 59), (61, 61), (65, 90), (95, 95), (97,
           122), (126, 126), (606, 606), (635, 635), (637, 637)], [], 210),
         ([(37, 37)], [], 211),
         ([(47, 47)], [], 205),
         ([(58, 58)], [], 213),
         ([(64, 64)], [], 217)])]"

definition http11_states_32 :: "http11_action state list" where
  "http11_states_32 = [
     (211, [], [([(48, 57), (65, 70), (97, 102)], [], 212)]),
     (212, [], [([(48, 57), (65, 70), (97, 102)], [], 210)]),
     (213, relaxed_chars, [([(32, 32)], [H_request_path], 199),
         ([(33, 33), (36, 36), (38, 46), (58, 59), (61, 61), (65, 90), (95, 95), (97, 122), (126,
           126), (606, 606), (635, 635), (637, 637)], [], 214),
         ([(37, 37)], [], 215),
         ([(47, 47)], [], 205),
         ([(48, 57)], [], 213),
         ([(64, 64)], [], 217)]),
     (214, relaxed_chars, [([(33, 33), (36, 36), (38, 46), (48, 59), (61, 61), (65, 90), (95, 95),
           (97, 122), (126, 126), (606, 606), (635, 635), (637, 637)], [], 214),
         ([(37, 37)], [], 215),
         ([(64, 64)], [], 217)]),
     (215, [], [([(48, 57), (65, 70), (97, 102)], [], 216)])]"

definition http11_states_33 :: "http11_action state list" where
  "http11_states_33 = [
     (216, [], [([(48, 57), (65, 70), (97, 102)], [], 214)]),
     (217, relaxed_chars, [([(32, 32)], [H_request_path], 199),
         ([(33, 33), (36, 36), (38, 46), (48, 57), (59, 59), (61, 61), (65, 90), (95, 95), (97,
           122), (126, 126), (606, 606), (635, 635), (637, 637)], [], 218),
         ([(37, 37)], [], 219),
         ([(47, 47)], [], 205),
         ([(58, 58)], [], 221),
         ([(91, 91)], [], 222)]),
     (218, relaxed_chars, [([(32, 32)], [H_request_path], 199),
         ([(33, 33), (36, 36), (38, 46), (48, 57), (59, 59), (61, 61), (65, 90), (95, 95), (97,
           122), (126, 126), (606, 606), (635, 635), (637, 637)], [], 218),
         ([(37, 37)], [], 219),
         ([(47, 47)], [], 205),
         ([(58, 58)], [], 221)]),
     (219, [], [([(48, 57), (65, 70), (97, 102)], [], 220)]),
     (220, [], [([(48, 57), (65, 70), (97, 102)], [], 218)]),
     (221, [], [([(32, 32)], [H_request_path], 199),
         ([(47, 47)], [], 205),
         ([(48, 57)], [], 221)])]"

definition http11_states_34 :: "http11_action state list" where
  "http11_states_34 = [
     (222, [], [([(6, 6)], [], 223),
         ([(48, 57), (65, 70), (97, 102)], [], 266),
         ([(58, 58)], [], 342),
         ([(118, 118)], [], 344)]),
     (223, [], [([(48, 57), (65, 70), (97, 102)], [], 224)]),
     (224, [], [([(48, 57), (65, 70), (97, 102)], [], 225),
         ([(58, 58)], [], 228)]),
     (225, [], [([(48, 57), (65, 70), (97, 102)], [], 226),
         ([(58, 58)], [], 228)]),
     (226, [], [([(48, 57), (65, 70), (97, 102)], [], 227),
         ([(58, 58)], [], 228)]),
     (227, [], [([(58, 58)], [], 228)]),
     (228, [], [([(48, 48), (51, 57)], [], 229),
         ([(49, 49)], [], 259),
         ([(50, 50)], [], 262),
         ([(65, 70), (97, 102)], [], 265)]),
     (229, [], [([(46, 46)], [], 230),
         ([(48, 57), (65, 70), (97, 102)], [], 252),
         ([(58, 58)], [], 255)]),
     (230, [], [([(48, 48), (51, 57)], [], 231),
         ([(49, 49)], [], 247),
         ([(50, 50)], [], 249)]),
     (231, [], [([(46, 46)], [], 232)]),
     (232, [], [([(48, 48), (51, 57)], [], 233),
         ([(49, 49)], [], 242),
         ([(50, 50)], [], 244)])]"

definition http11_states_35 :: "http11_action state list" where
  "http11_states_35 = [
     (233, [], [([(46, 46)], [], 234)]),
     (234, [], [([(48, 48), (51, 57)], [], 235),
         ([(49, 49)], [], 237),
         ([(50, 50)], [], 239)]),
     (235, [], [([(93, 93)], [], 236)]),
     (236, [], [([(32, 32)], [H_request_path], 199),
         ([(47, 47)], [], 205),
         ([(58, 58)], [], 221)]),
     (237, [], [([(48, 57)], [], 238),
         ([(93, 93)], [], 236)]),
     (238, [], [([(48, 57)], [], 235),
         ([(93, 93)], [], 236)]),
     (239, [], [([(48, 48)], [], 240),
         ([(53, 53)], [], 241),
         ([(93, 93)], [], 236)]),
     (240, [], [([(48, 57)], [], 235)]),
     (241, [], [([(48, 48)], [], 235)]),
     (242, [], [([(46, 46)], [], 234),
         ([(48, 57)], [], 243)]),
     (243, [], [([(46, 46)], [], 234),
         ([(48, 57)], [], 233)]),
     (244, [], [([(46, 46)], [], 234),
         ([(48, 48)], [], 245),
         ([(53, 53)], [], 246)]),
     (245, [], [([(48, 57)], [], 233)]),
     (246, [], [([(48, 48)], [], 233)]),
     (247, [], [([(46, 46)], [], 232),
         ([(48, 57)], [], 248)]),
     (248, [], [([(46, 46)], [], 232),
         ([(48, 57)], [], 231)]),
     (249, [], [([(46, 46)], [], 232),
         ([(48, 48)], [], 250),
         ([(53, 53)], [], 251)])]"

definition http11_states_36 :: "http11_action state list" where
  "http11_states_36 = [
     (250, [], [([(48, 57)], [], 231)]),
     (251, [], [([(48, 48)], [], 231)]),
     (252, [], [([(48, 57), (65, 70), (97, 102)], [], 253),
         ([(58, 58)], [], 255)]),
     (253, [], [([(48, 57), (65, 70), (97, 102)], [], 254),
         ([(58, 58)], [], 255)]),
     (254, [], [([(58, 58)], [], 255)]),
     (255, [], [([(48, 57), (65, 70), (97, 102)], [], 256)]),
     (256, [], [([(48, 57), (65, 70), (97, 102)], [], 257),
         ([(93, 93)], [], 236)]),
     (257, [], [([(48, 57), (65, 70), (97, 102)], [], 258),
         ([(93, 93)], [], 236)]),
     (258, [], [([(48, 57), (65, 70), (97, 102)], [], 235),
         ([(93, 93)], [], 236)]),
     (259, [], [([(46, 46)], [], 230),
         ([(48, 57)], [], 260),
         ([(58, 58)], [], 255),
         ([(65, 70), (97, 102)], [], 252)]),
     (260, [], [([(46, 46)], [], 230),
         ([(48, 57)], [], 261),
         ([(58, 58)], [], 255),
         ([(65, 70), (97, 102)], [], 253)])]"

definition http11_states_37 :: "http11_action state list" where
  "http11_states_37 = [
     (261, [], [([(46, 46)], [], 230),
         ([(48, 57), (65, 70), (97, 102)], [], 254),
         ([(58, 58)], [], 255)]),
     (262, [], [([(46, 46)], [], 230),
         ([(48, 48)], [], 263),
         ([(49, 52), (54, 57), (65, 70), (97, 102)], [], 252),
         ([(53, 53)], [], 264),
         ([(58, 58)], [], 255)]),
     (263, [], [([(48, 57)], [], 261),
         ([(58, 58)], [], 255),
         ([(65, 70), (97, 102)], [], 253)]),
     (264, [], [([(48, 48)], [], 261),
         ([(49, 57), (65, 70), (97, 102)], [], 253),
         ([(58, 58)], [], 255)]),
     (265, [], [([(48, 57), (65, 70), (97, 102)], [], 252),
         ([(58, 58)], [], 255)]),
     (266, [], [([(48, 57), (65, 70), (97, 102)], [], 267),
         ([(58, 58)], [], 270)]),
     (267, [], [([(48, 57), (65, 70), (97, 102)], [], 268),
         ([(58, 58)], [], 270)]),
     (268, [], [([(48, 57), (65, 70), (97, 102)], [], 269),
         ([(58, 58)], [], 270)]),
     (269, [], [([(58, 58)], [], 270)]),
     (270, [], [([(48, 57), (65, 70), (97, 102)], [], 271),
         ([(58, 58)], [], 341)])]"

definition http11_states_38 :: "http11_action state list" where
  "http11_states_38 = [
     (271, [], [([(48, 57), (65, 70), (97, 102)], [], 272),
         ([(58, 58)], [], 275)]),
     (272, [], [([(48, 57), (65, 70), (97, 102)], [], 273),
         ([(58, 58)], [], 275)]),
     (273, [], [([(48, 57), (65, 70), (97, 102)], [], 274),
         ([(58, 58)], [], 275)]),
     (274, [], [([(58, 58)], [], 275)]),
     (275, [], [([(48, 57), (65, 70), (97, 102)], [], 276),
         ([(58, 58)], [], 340)]),
     (276, [], [([(48, 57), (65, 70), (97, 102)], [], 277),
         ([(58, 58)], [], 280)]),
     (277, [], [([(48, 57), (65, 70), (97, 102)], [], 278),
         ([(58, 58)], [], 280)]),
     (278, [], [([(48, 57), (65, 70), (97, 102)], [], 279),
         ([(58, 58)], [], 280)]),
     (279, [], [([(58, 58)], [], 280)]),
     (280, [], [([(48, 57), (65, 70), (97, 102)], [], 281),
         ([(58, 58)], [], 339)]),
     (281, [], [([(48, 57), (65, 70), (97, 102)], [], 282),
         ([(58, 58)], [], 285)])]"

definition http11_states_39 :: "http11_action state list" where
  "http11_states_39 = [
     (282, [], [([(48, 57), (65, 70), (97, 102)], [], 283),
         ([(58, 58)], [], 285)]),
     (283, [], [([(48, 57), (65, 70), (97, 102)], [], 284),
         ([(58, 58)], [], 285)]),
     (284, [], [([(58, 58)], [], 285)]),
     (285, [], [([(48, 57), (65, 70), (97, 102)], [], 286),
         ([(58, 58)], [], 338)]),
     (286, [], [([(48, 57), (65, 70), (97, 102)], [], 287),
         ([(58, 58)], [], 290)]),
     (287, [], [([(48, 57), (65, 70), (97, 102)], [], 288),
         ([(58, 58)], [], 290)]),
     (288, [], [([(48, 57), (65, 70), (97, 102)], [], 289),
         ([(58, 58)], [], 290)]),
     (289, [], [([(58, 58)], [], 290)]),
     (290, [], [([(48, 57), (65, 70), (97, 102)], [], 291),
         ([(58, 58)], [], 326)]),
     (291, [], [([(48, 57), (65, 70), (97, 102)], [], 292),
         ([(58, 58)], [], 295)]),
     (292, [], [([(48, 57), (65, 70), (97, 102)], [], 293),
         ([(58, 58)], [], 295)])]"

definition http11_states_40 :: "http11_action state list" where
  "http11_states_40 = [
     (293, [], [([(48, 57), (65, 70), (97, 102)], [], 294),
         ([(58, 58)], [], 295)]),
     (294, [], [([(58, 58)], [], 295)]),
     (295, [], [([(48, 57), (65, 70), (97, 102)], [], 296),
         ([(58, 58)], [], 325)]),
     (296, [], [([(48, 57), (65, 70), (97, 102)], [], 297),
         ([(58, 58)], [], 300)]),
     (297, [], [([(48, 57), (65, 70), (97, 102)], [], 298),
         ([(58, 58)], [], 300)]),
     (298, [], [([(48, 57), (65, 70), (97, 102)], [], 299),
         ([(58, 58)], [], 300)]),
     (299, [], [([(58, 58)], [], 300)]),
     (300, [], [([(48, 57), (65, 70), (97, 102)], [], 296),
         ([(58, 58)], [], 301)]),
     (301, [], [([(2, 3)], [], 223),
         ([(48, 48), (51, 57)], [], 302),
         ([(49, 49)], [], 318),
         ([(50, 50)], [], 321),
         ([(65, 70), (97, 102)], [], 324),
         ([(93, 93)], [], 236)]),
     (302, [], [([(46, 46)], [], 230),
         ([(48, 57), (65, 70), (97, 102)], [], 303),
         ([(58, 58)], [], 306),
         ([(93, 93)], [], 236)])]"

definition http11_states_41 :: "http11_action state list" where
  "http11_states_41 = [
     (303, [], [([(48, 57), (65, 70), (97, 102)], [], 304),
         ([(58, 58)], [], 306),
         ([(93, 93)], [], 236)]),
     (304, [], [([(48, 57), (65, 70), (97, 102)], [], 305),
         ([(58, 58)], [], 306),
         ([(93, 93)], [], 236)]),
     (305, [], [([(58, 58)], [], 306),
         ([(93, 93)], [], 236)]),
     (306, [], [([(48, 48), (51, 57)], [], 307),
         ([(49, 49)], [], 311),
         ([(50, 50)], [], 314),
         ([(65, 70), (97, 102)], [], 317)]),
     (307, [], [([(46, 46)], [], 230),
         ([(48, 57), (65, 70), (97, 102)], [], 308),
         ([(58, 58)], [], 255),
         ([(93, 93)], [], 236)]),
     (308, [], [([(48, 57), (65, 70), (97, 102)], [], 309),
         ([(58, 58)], [], 255),
         ([(93, 93)], [], 236)]),
     (309, [], [([(48, 57), (65, 70), (97, 102)], [], 310),
         ([(58, 58)], [], 255),
         ([(93, 93)], [], 236)]),
     (310, [], [([(58, 58)], [], 255),
         ([(93, 93)], [], 236)]),
     (311, [], [([(46, 46)], [], 230),
         ([(48, 57)], [], 312),
         ([(58, 58)], [], 255),
         ([(65, 70), (97, 102)], [], 308),
         ([(93, 93)], [], 236)])]"

definition http11_states_42 :: "http11_action state list" where
  "http11_states_42 = [
     (312, [], [([(46, 46)], [], 230),
         ([(48, 57)], [], 313),
         ([(58, 58)], [], 255),
         ([(65, 70), (97, 102)], [], 309),
         ([(93, 93)], [], 236)]),
     (313, [], [([(46, 46)], [], 230),
         ([(48, 57), (65, 70), (97, 102)], [], 310),
         ([(58, 58)], [], 255),
         ([(93, 93)], [], 236)]),
     (314, [], [([(46, 46)], [], 230),
         ([(48, 48)], [], 315),
         ([(49, 52), (54, 57), (65, 70), (97, 102)], [], 308),
         ([(53, 53)], [], 316),
         ([(58, 58)], [], 255),
         ([(93, 93)], [], 236)]),
     (315, [], [([(48, 57)], [], 313),
         ([(58, 58)], [], 255),
         ([(65, 70), (97, 102)], [], 309),
         ([(93, 93)], [], 236)]),
     (316, [], [([(48, 48)], [], 313),
         ([(49, 57), (65, 70), (97, 102)], [], 309),
         ([(58, 58)], [], 255),
         ([(93, 93)], [], 236)]),
     (317, [], [([(48, 57), (65, 70), (97, 102)], [], 308),
         ([(58, 58)], [], 255),
         ([(93, 93)], [], 236)]),
     (318, [], [([(46, 46)], [], 230),
         ([(48, 57)], [], 319),
         ([(58, 58)], [], 306),
         ([(65, 70), (97, 102)], [], 303),
         ([(93, 93)], [], 236)]),
     (319, [], [([(46, 46)], [], 230),
         ([(48, 57)], [], 320),
         ([(58, 58)], [], 306),
         ([(65, 70), (97, 102)], [], 304),
         ([(93, 93)], [], 236)])]"

definition http11_states_43 :: "http11_action state list" where
  "http11_states_43 = [
     (320, [], [([(46, 46)], [], 230),
         ([(48, 57), (65, 70), (97, 102)], [], 305),
         ([(58, 58)], [], 306),
         ([(93, 93)], [], 236)]),
     (321, [], [([(46, 46)], [], 230),
         ([(48, 48)], [], 322),
         ([(49, 52), (54, 57), (65, 70), (97, 102)], [], 303),
         ([(53, 53)], [], 323),
         ([(58, 58)], [], 306),
         ([(93, 93)], [], 236)]),
     (322, [], [([(48, 57)], [], 320),
         ([(58, 58)], [], 306),
         ([(65, 70), (97, 102)], [], 304),
         ([(93, 93)], [], 236)]),
     (323, [], [([(48, 48)], [], 320),
         ([(49, 57), (65, 70), (97, 102)], [], 304),
         ([(58, 58)], [], 306),
         ([(93, 93)], [], 236)]),
     (324, [], [([(48, 57), (65, 70), (97, 102)], [], 303),
         ([(58, 58)], [], 306),
         ([(93, 93)], [], 236)]),
     (325, [], [([(2, 3)], [], 223),
         ([(48, 48), (51, 57)], [], 302),
         ([(49, 49)], [], 318),
         ([(50, 50)], [], 321),
         ([(65, 70), (97, 102)], [], 324)]),
     (326, [], [([(2, 3)], [], 223),
         ([(48, 48), (51, 57)], [], 327),
         ([(49, 49)], [], 331),
         ([(50, 50)], [], 334),
         ([(65, 70), (97, 102)], [], 337)]),
     (327, [], [([(46, 46)], [], 230),
         ([(48, 57), (65, 70), (97, 102)], [], 328),
         ([(58, 58)], [], 306)])]"

definition http11_states_44 :: "http11_action state list" where
  "http11_states_44 = [
     (328, [], [([(48, 57), (65, 70), (97, 102)], [], 329),
         ([(58, 58)], [], 306)]),
     (329, [], [([(48, 57), (65, 70), (97, 102)], [], 330),
         ([(58, 58)], [], 306)]),
     (330, [], [([(58, 58)], [], 306)]),
     (331, [], [([(46, 46)], [], 230),
         ([(48, 57)], [], 332),
         ([(58, 58)], [], 306),
         ([(65, 70), (97, 102)], [], 328)]),
     (332, [], [([(46, 46)], [], 230),
         ([(48, 57)], [], 333),
         ([(58, 58)], [], 306),
         ([(65, 70), (97, 102)], [], 329)]),
     (333, [], [([(46, 46)], [], 230),
         ([(48, 57), (65, 70), (97, 102)], [], 330),
         ([(58, 58)], [], 306)]),
     (334, [], [([(46, 46)], [], 230),
         ([(48, 48)], [], 335),
         ([(49, 52), (54, 57), (65, 70), (97, 102)], [], 328),
         ([(53, 53)], [], 336),
         ([(58, 58)], [], 306)]),
     (335, [], [([(48, 57)], [], 333),
         ([(58, 58)], [], 306),
         ([(65, 70), (97, 102)], [], 329)]),
     (336, [], [([(48, 48)], [], 333),
         ([(49, 57), (65, 70), (97, 102)], [], 329),
         ([(58, 58)], [], 306)])]"

definition http11_states_45 :: "http11_action state list" where
  "http11_states_45 = [
     (337, [], [([(48, 57), (65, 70), (97, 102)], [], 328),
         ([(58, 58)], [], 306)]),
     (338, [], [([(2, 3)], [], 223),
         ([(48, 57), (65, 70), (97, 102)], [], 224)]),
     (339, [], [([(2, 3)], [], 223)]),
     (340, [], [([(3, 3)], [], 223)]),
     (341, [], [([(4, 4)], [], 223)]),
     (342, [], [([(58, 58)], [], 343)]),
     (343, [], [([(2, 5)], [], 223),
         ([(48, 48), (51, 57)], [], 302),
         ([(49, 49)], [], 318),
         ([(50, 50)], [], 321),
         ([(65, 70), (97, 102)], [], 324),
         ([(93, 93)], [], 236)]),
     (344, [], [([(48, 57), (65, 70), (97, 102)], [], 345)]),
     (345, [], [([(46, 46)], [], 346),
         ([(48, 57), (65, 70), (97, 102)], [], 345)])]"

definition http11_states_46 :: "http11_action state list" where
  "http11_states_46 = [
     (346, relaxed_chars, [([(33, 33), (36, 36), (38, 46), (48, 59), (61, 61), (65, 90), (95, 95),
           (97, 122), (126, 126), (606, 606), (635, 635), (637, 637)], [], 347)]),
     (347, relaxed_chars, [([(33, 33), (36, 36), (38, 46), (48, 59), (61, 61), (65, 90), (95, 95),
           (97, 122), (126, 126), (606, 606), (635, 635), (637, 637)], [], 347),
         ([(93, 93)], [], 236)])]"

definition http11_table :: "http11_action state list" where
  "http11_table = concat [
     http11_states_1, http11_states_2, http11_states_3, http11_states_4, http11_states_5,
     http11_states_6, http11_states_7, http11_states_8, http11_states_9, http11_states_10,
     http11_states_11, http11_states_12, http11_states_13, http11_states_14, http11_states_15,
     http11_states_16, http11_states_17, http11_states_18, http11_states_19, http11_states_20,
     http11_states_21, http11_states_22, http11_states_23, http11_states_24, http11_states_25,
     http11_states_26, http11_states_27, http11_states_28, http11_states_29, http11_states_30,
     http11_states_31, http11_states_32, http11_states_33, http11_states_34, http11_states_35,
     http11_states_36, http11_states_37, http11_states_38, http11_states_39, http11_states_40,
     http11_states_41, http11_states_42, http11_states_43, http11_states_44, http11_states_45,
     http11_states_46]"

lemmas http11_states =
  http11_states_1_def http11_states_2_def http11_states_3_def http11_states_4_def
  http11_states_5_def http11_states_6_def http11_states_7_def http11_states_8_def
  http11_states_9_def http11_states_10_def http11_states_11_def http11_states_12_def
  http11_states_13_def http11_states_14_def http11_states_15_def http11_states_16_def
  http11_states_17_def http11_states_18_def http11_states_19_def http11_states_20_def
  http11_states_21_def http11_states_22_def http11_states_23_def http11_states_24_def
  http11_states_25_def http11_states_26_def http11_states_27_def http11_states_28_def
  http11_states_29_def http11_states_30_def http11_states_31_def http11_states_32_def
  http11_states_33_def http11_states_34_def http11_states_35_def http11_states_36_def
  http11_states_37_def http11_states_38_def http11_states_39_def http11_states_40_def
  http11_states_41_def http11_states_42_def http11_states_43_def http11_states_44_def
  http11_states_45_def http11_states_46_def

text \<open>The numbers of the states of each stretch.\<close>

lemma http11_keys:
  "map fst http11_states_1 = [1, 2, 3]"
  "map fst http11_states_2 = [4, 5, 6, 7, 8, 9, 10, 11, 12]"
  "map fst http11_states_3 = [13, 14, 15, 16]"
  "map fst http11_states_4 = [17, 348, 18]"
  "map fst http11_states_5 = [19]"
  "map fst http11_states_6 = [20]"
  "map fst http11_states_7 = [21, 22, 23, 24, 25]"
  "map fst http11_states_8 = [26, 27, 28]"
  "map fst http11_states_9 = [29, 30, 31]"
  "map fst http11_states_10 = [32, 33, 34]"
  "map fst http11_states_11 = [35, 36, 37, 38]"
  "map fst http11_states_12 = [39, 40, 41, 42]"
  "map fst http11_states_13 = [43, 44, 45, 46, 47, 48, 49, 50]"
  "map fst http11_states_14 = [51, 52, 53, 54, 55, 56, 57, 58, 59, 60, 61, 62, 63, 64]"
  "map fst http11_states_15 = [65, 66, 67, 68, 69, 70, 71, 72, 73, 74, 75, 76, 77, 78, 79, 80]"
  "map fst http11_states_16 = [81, 82, 83, 84, 85, 86, 87, 88, 89]"
  "map fst http11_states_17 = [90, 91, 92, 93, 94, 95, 96, 97, 98, 99, 100]"
  "map fst http11_states_18 = [101, 102, 103, 104, 105, 106, 107, 108, 109, 110, 111]"
  "map fst http11_states_19 = [112, 113, 114, 115, 116, 117, 118, 119, 120, 121, 122]"
  "map fst http11_states_20 = [123, 124, 125, 126, 127, 128, 129, 130, 131]"
  "map fst http11_states_21 = [132, 133, 134, 135, 136, 137, 138, 139]"
  "map fst http11_states_22 = [140, 141, 142, 143, 144, 145, 146, 147]"
  "map fst http11_states_23 = [148, 149, 150, 151, 152, 153, 154, 155, 156]"
  "map fst http11_states_24 = [157, 158, 159, 160, 161, 162, 163, 164, 165, 166, 167]"
  "map fst http11_states_25 = [168, 169, 170, 171, 172]"
  "map fst http11_states_26 = [173, 174, 175, 176, 177]"
  "map fst http11_states_27 = [178, 179, 180, 181, 182, 183, 184, 185, 186, 187, 188, 189]"
  "map fst http11_states_28 = [190, 191, 192, 193, 194, 195, 196, 197]"
  "map fst http11_states_29 = [349, 198, 199, 200, 201]"
  "map fst http11_states_30 = [202, 203, 204, 205, 206, 207]"
  "map fst http11_states_31 = [208, 209, 210]"
  "map fst http11_states_32 = [211, 212, 213, 214, 215]"
  "map fst http11_states_33 = [216, 217, 218, 219, 220, 221]"
  "map fst http11_states_34 = [222, 223, 224, 225, 226, 227, 228, 229, 230, 231, 232]"
  "map fst http11_states_35 = [233, 234, 235, 236, 237, 238, 239, 240, 241, 242, 243, 244, 245,
    246, 247, 248, 249]"
  "map fst http11_states_36 = [250, 251, 252, 253, 254, 255, 256, 257, 258, 259, 260]"
  "map fst http11_states_37 = [261, 262, 263, 264, 265, 266, 267, 268, 269, 270]"
  "map fst http11_states_38 = [271, 272, 273, 274, 275, 276, 277, 278, 279, 280, 281]"
  "map fst http11_states_39 = [282, 283, 284, 285, 286, 287, 288, 289, 290, 291, 292]"
  "map fst http11_states_40 = [293, 294, 295, 296, 297, 298, 299, 300, 301, 302]"
  "map fst http11_states_41 = [303, 304, 305, 306, 307, 308, 309, 310, 311]"
  "map fst http11_states_42 = [312, 313, 314, 315, 316, 317, 318, 319]"
  "map fst http11_states_43 = [320, 321, 322, 323, 324, 325, 326, 327]"
  "map fst http11_states_44 = [328, 329, 330, 331, 332, 333, 334, 335, 336]"
  "map fst http11_states_45 = [337, 338, 339, 340, 341, 342, 343, 344, 345]"
  "map fst http11_states_46 = [346, 347]"
  by (simp_all only: http11_states list.map fst_conv)

end
