(* ===== verification/Http11_Parser.thy ===== *)
theory Http11_Parser
  imports Http11_Table
begin

text \<open>
  The request parser around the generated machine (src/skt/http/http11_parser.h,
  http11_parser.rl and its generated C++): the struct \<open>http_parser\<close> with its callbacks,
  the actions of the grammar and the functions \<open>http_parser_init\<close>, \<open>_execute\<close>,
  \<open>_finish\<close>, \<open>_has_error\<close> and \<open>_is_finished\<close>.  A buffer is the string of its valid
  bytes; a callback gets the text from its pointer on, a length, and the object the
  \<open>data\<close> pointer of the struct stands for.  A callback may throw \<open>std::length_error\<close>;
  \<open>Wild_copy\<close> is a \<open>memmove\<close> with a wild offset, in the response parser.
\<close>

datatype parse_error = Length_error | Assertion | Wild_copy

type_synonym 'd element_cb = "string \<Rightarrow> nat \<Rightarrow> 'd \<Rightarrow> parse_error + 'd"
type_synonym 'd field_cb = "string \<Rightarrow> nat \<Rightarrow> string \<Rightarrow> nat \<Rightarrow> 'd \<Rightarrow> parse_error + 'd"

record 'd http_parser =
  hp_cs :: nat
  hp_body_start :: nat
  hp_content_len :: int
  hp_nread :: nat
  hp_mark :: nat
  hp_field_start :: nat
  hp_field_len :: nat
  hp_query_start :: nat
  hp_xml_sent :: bool
  hp_json_sent :: bool
  hp_uri_relaxed :: bool
  hp_http_field :: "'d field_cb option"
  hp_request_method :: "'d element_cb option"
  hp_request_uri :: "'d element_cb option"
  hp_fragment :: "'d element_cb option"
  hp_request_path :: "'d element_cb option"
  hp_query_string :: "'d element_cb option"
  hp_http_version :: "'d element_cb option"
  hp_header_done :: "'d element_cb option"

text \<open>The members \<open>http_parser_init\<close> leaves alone keep what they held.\<close>

definition http_parser_init :: "'d http_parser \<Rightarrow> 'd http_parser" where
  "http_parser_init parser =
     parser\<lparr>hp_cs := 1, hp_body_start := 0, hp_content_len := 0, hp_mark := 0, hp_nread := 0,
       hp_field_len := 0, hp_field_start := 0, hp_xml_sent := False, hp_json_sent := False\<rparr>"

definition http_parser_has_error :: "'d http_parser \<Rightarrow> bool" where
  "http_parser_has_error parser \<longleftrightarrow> hp_cs parser = 0"

definition http_parser_is_finished :: "'d http_parser \<Rightarrow> bool" where
  "http_parser_is_finished parser \<longleftrightarrow> hp_cs parser \<ge> 348"

definition http_parser_finish :: "'d http_parser \<Rightarrow> int" where
  "http_parser_finish parser =
     (if http_parser_has_error parser then - 1 else if http_parser_is_finished parser then 1 else 0)"

subsection \<open>Actions\<close>

text \<open>A call through a function pointer that may be null.\<close>

definition call :: "'d element_cb option \<Rightarrow> string \<Rightarrow> nat \<Rightarrow> 'p \<times> 'd \<Rightarrow> parse_error + 'p \<times> 'd" where
  "call cb at len s =
     (case cb of None \<Rightarrow> Inr s | Some f \<Rightarrow> and_then (f at len (snd s)) (\<lambda>d. Inr (fst s, d)))"

text \<open>\<open>LEN\<close> and \<open>PTR_TO\<close>: \<open>p\<close> is the offset of the current character in the buffer.\<close>

abbreviation LEN :: "nat \<Rightarrow> nat \<Rightarrow> nat" where
  "LEN at p \<equiv> sub64 p at"

abbreviation PTR_TO :: "string \<Rightarrow> nat \<Rightarrow> string" where
  "PTR_TO buffer at \<equiv> drop at buffer"

definition write_value :: "string \<Rightarrow> nat \<Rightarrow> 'd http_parser \<times> 'd \<Rightarrow> parse_error + 'd http_parser \<times> 'd" where
  "write_value buffer p s =
     (let hp = fst s
      in case hp_http_field hp of
           None \<Rightarrow> Inr s
         | Some f \<Rightarrow>
             and_then (f (PTR_TO buffer (hp_field_start hp)) (hp_field_len hp)
                         (PTR_TO buffer (hp_mark hp)) (LEN (hp_mark hp) p) (snd s))
               (\<lambda>d. Inr (hp, d)))"

definition done_action :: "string \<Rightarrow> nat \<Rightarrow> 'd http_parser \<times> 'd \<Rightarrow> parse_error + 'd http_parser \<times> 'd" where
  "done_action buffer p s =
     (let hp = fst s
      in if hp_xml_sent hp \<or> hp_json_sent hp then
           let hp = hp\<lparr>hp_body_start := hp_mark hp\<rparr>
           in Inr (hp\<lparr>hp_content_len := sint (word_of_nat (sub64 p (hp_body_start hp) + 1) :: u32)\<rparr>, snd s)
         else
           let hp = hp\<lparr>hp_body_start := p + 1\<rparr>
           in call (hp_header_done hp) (PTR_TO buffer (p + 1)) (length buffer - p - 1) (hp, snd s))"

fun http11_act :: "string \<Rightarrow> http11_action \<Rightarrow> nat \<Rightarrow> 'd http_parser \<times> 'd
    \<Rightarrow> parse_error + 'd http_parser \<times> 'd" where
  "http11_act buffer H_mark p (hp, d) = Inr (hp\<lparr>hp_mark := p\<rparr>, d)"
| "http11_act buffer H_start_field p (hp, d) = Inr (hp\<lparr>hp_field_start := p\<rparr>, d)"
| "http11_act buffer H_write_field p (hp, d) = Inr (hp\<lparr>hp_field_len := LEN (hp_field_start hp) p\<rparr>, d)"
| "http11_act buffer H_start_value p (hp, d) = Inr (hp\<lparr>hp_mark := p\<rparr>, d)"
| "http11_act buffer H_write_value p s = write_value buffer p s"
| "http11_act buffer H_request_method p (hp, d) =
     call (hp_request_method hp) (PTR_TO buffer (hp_mark hp)) (LEN (hp_mark hp) p) (hp, d)"
| "http11_act buffer H_request_uri p (hp, d) =
     call (hp_request_uri hp) (PTR_TO buffer (hp_mark hp)) (LEN (hp_mark hp) p) (hp, d)"
| "http11_act buffer H_fragment p (hp, d) =
     call (hp_fragment hp) (PTR_TO buffer (hp_mark hp)) (LEN (hp_mark hp) p) (hp, d)"
| "http11_act buffer H_start_query p (hp, d) = Inr (hp\<lparr>hp_query_start := p\<rparr>, d)"
| "http11_act buffer H_query_string p (hp, d) =
     call (hp_query_string hp) (PTR_TO buffer (hp_query_start hp)) (LEN (hp_query_start hp) p) (hp, d)"
| "http11_act buffer H_http_version p (hp, d) =
     call (hp_http_version hp) (PTR_TO buffer (hp_mark hp)) (LEN (hp_mark hp) p) (hp, d)"
| "http11_act buffer H_request_path p (hp, d) =
     call (hp_request_path hp) (PTR_TO buffer (hp_mark hp)) (LEN (hp_mark hp) p) (hp, d)"
| "http11_act buffer H_done p s = done_action buffer p s"
| "http11_act buffer H_xml p (hp, d) = Inr (hp\<lparr>hp_xml_sent := True\<rparr>, d)"
| "http11_act buffer H_json p (hp, d) = Inr (hp\<lparr>hp_json_sent := True\<rparr>, d)"

definition http11_break :: "http11_action \<Rightarrow> bool" where
  "http11_break a \<longleftrightarrow> a = H_done"

text \<open>
  \<open>http_parser_execute\<close> with \<open>len\<close> the length of the buffer: the number of bytes
  consumed.  The state is kept once it is the error state.
\<close>

definition http_parser_execute ::
  "'d http_parser \<Rightarrow> string \<Rightarrow> nat \<Rightarrow> 'd \<Rightarrow> parse_error + nat \<times> 'd http_parser \<times> 'd" where
  "http_parser_execute parser buffer off d =
     (let len = length buffer
      in if len = 0 then Inr (0, parser, d)
         else
           let parser = parser\<lparr>hp_nread := 0, hp_mark := 0, hp_field_len := 0, hp_field_start := 0\<rparr>;
               cs = hp_cs parser
           in if \<not> off \<le> len then Inl Assertion
              else and_then (run_machine 2 http11_table (hp_uri_relaxed parser) (http11_act buffer)
                       http11_break (drop off buffer) off cs (parser, d))
                (\<lambda>(p, cs, parser, d).
                   let parser = (if http_parser_has_error parser then parser else parser\<lparr>hp_cs := cs\<rparr>);
                       parser = parser\<lparr>hp_nread := hp_nread parser + (p - off)\<rparr>
                   in if hp_nread parser \<le> len \<and> hp_body_start parser \<le> len \<and> hp_mark parser < len \<and>
                         hp_field_len parser \<le> len \<and> hp_field_start parser < len
                      then Inr (hp_nread parser, parser, d)
                      else Inl Assertion))"

subsection \<open>The states of an ordinary request\<close>

text \<open>The states that a request goes through whose target is a path.\<close>

lemma http11_rows:
  "map_of http11_table 1 = map_of http11_states_1 1"
  "map_of http11_table 2 = map_of http11_states_1 2"
  "map_of http11_table 3 = map_of http11_states_1 3"
  "map_of http11_table 4 = map_of http11_states_2 4"
  "map_of http11_table 5 = map_of http11_states_2 5"
  "map_of http11_table 6 = map_of http11_states_2 6"
  "map_of http11_table 7 = map_of http11_states_2 7"
  "map_of http11_table 8 = map_of http11_states_2 8"
  "map_of http11_table 9 = map_of http11_states_2 9"
  "map_of http11_table 10 = map_of http11_states_2 10"
  "map_of http11_table 11 = map_of http11_states_2 11"
  "map_of http11_table 12 = map_of http11_states_2 12"
  "map_of http11_table 13 = map_of http11_states_3 13"
  "map_of http11_table 14 = map_of http11_states_3 14"
  "map_of http11_table 15 = map_of http11_states_3 15"
  "map_of http11_table 16 = map_of http11_states_3 16"
  "map_of http11_table 17 = map_of http11_states_4 17"
  "map_of http11_table 18 = map_of http11_states_4 18"
  "map_of http11_table 20 = map_of http11_states_6 20"
  "map_of http11_table 21 = map_of http11_states_7 21"
  "map_of http11_table 22 = map_of http11_states_7 22"
  "map_of http11_table 23 = map_of http11_states_7 23"
  "map_of http11_table 26 = map_of http11_states_8 26"
  "map_of http11_table 27 = map_of http11_states_8 27"
  "map_of http11_table 28 = map_of http11_states_8 28"
  "map_of http11_table 29 = map_of http11_states_9 29"
  "map_of http11_table 30 = map_of http11_states_9 30"
  "map_of http11_table 31 = map_of http11_states_9 31"
  "map_of http11_table 32 = map_of http11_states_10 32"
  "map_of http11_table 33 = map_of http11_states_10 33"
  "map_of http11_table 175 = map_of http11_states_26 175"
  "map_of http11_table 176 = map_of http11_states_26 176"
  "map_of http11_table 177 = map_of http11_states_26 177"
  "map_of http11_table 178 = map_of http11_states_27 178"
  "map_of http11_table 179 = map_of http11_states_27 179"
  "map_of http11_table 180 = map_of http11_states_27 180"
  "map_of http11_table 181 = map_of http11_states_27 181"
  "map_of http11_table 182 = map_of http11_states_27 182"
  "map_of http11_table 183 = map_of http11_states_27 183"
  "map_of http11_table 184 = map_of http11_states_27 184"
  "map_of http11_table 185 = map_of http11_states_27 185"
  "map_of http11_table 186 = map_of http11_states_27 186"
  "map_of http11_table 187 = map_of http11_states_27 187"
  "map_of http11_table 188 = map_of http11_states_27 188"
  "map_of http11_table 189 = map_of http11_states_27 189"
  "map_of http11_table 190 = map_of http11_states_28 190"
  "map_of http11_table 191 = map_of http11_states_28 191"
  "map_of http11_table 192 = map_of http11_states_28 192"
  "map_of http11_table 193 = map_of http11_states_28 193"
  by (simp_all only: http11_table_def http11_keys lookup_simps)

text \<open>The characters of method names, paths, queries and fragments, header names and values.\<close>

abbreviation method_chars :: "(int \<times> int) list" where
  "method_chars \<equiv> [(48, 57), (65, 90)]"

abbreviation path_chars :: "(int \<times> int) list" where
  "path_chars \<equiv> [(- 128, - 1), (33, 33), (36, 36), (38, 59), (61, 61), (64, 90), (95, 95), (97, 122),
     (126, 126)]"

abbreviation path_first :: "(int \<times> int) list" where
  "path_first \<equiv> [(- 128, - 1), (33, 33), (36, 36), (38, 46), (48, 59), (61, 61), (64, 90), (95, 95),
     (97, 122), (126, 126)]"

abbreviation query_chars :: "(int \<times> int) list" where
  "query_chars \<equiv> [(- 128, - 1), (33, 33), (36, 36), (38, 59), (61, 61), (63, 90), (95, 95), (97, 122),
     (126, 126)]"

abbreviation token_chars :: "(int \<times> int) list" where
  "token_chars \<equiv> [(33, 33), (35, 39), (42, 43), (45, 46), (48, 57), (65, 90), (94, 122), (124, 124),
     (126, 126)]"

abbreviation value_first :: "(int \<times> int) list" where
  "value_first \<equiv> [(- 128, - 1), (33, 126)]"

abbreviation value_chars :: "(int \<times> int) list" where
  "value_chars \<equiv> [(- 128, - 1), (1, 9), (11, 12), (14, 126)]"

lemma edge_class:
  "in_class method_chars c \<Longrightarrow> edge http11_table cond 1 c = Some ([H_mark], 2)"
  "in_class path_chars c \<Longrightarrow> edge http11_table cond 26 c = Some ([], 26)"
  "in_class path_first c \<Longrightarrow> edge http11_table cond 33 c = Some ([], 26)"
  "in_class xdigits c \<Longrightarrow> edge http11_table cond 27 c = Some ([], 28)"
  "in_class xdigits c \<Longrightarrow> edge http11_table cond 28 c = Some ([], 26)"
  "in_class query_chars c \<Longrightarrow> edge http11_table cond 29 c = Some ([H_start_query], 30)"
  "in_class query_chars c \<Longrightarrow> edge http11_table cond 30 c = Some ([], 30)"
  "in_class xdigits c \<Longrightarrow> edge http11_table cond 31 c = Some ([], 32)"
  "in_class xdigits c \<Longrightarrow> edge http11_table cond 32 c = Some ([], 30)"
  "in_class query_chars c \<Longrightarrow> edge http11_table cond 20 c = Some ([H_mark], 21)"
  "in_class query_chars c \<Longrightarrow> edge http11_table cond 21 c = Some ([], 21)"
  "in_class xdigits c \<Longrightarrow> edge http11_table cond 22 c = Some ([], 23)"
  "in_class xdigits c \<Longrightarrow> edge http11_table cond 23 c = Some ([], 21)"
  "in_class token_chars c \<Longrightarrow> edge http11_table cond 13 c = Some ([H_start_field], 14)"
  "in_class token_chars c \<Longrightarrow> edge http11_table cond 14 c = Some ([], 14)"
  "in_class value_first c \<Longrightarrow> edge http11_table cond 15 c = Some ([H_start_value], 16)"
  "in_class value_chars c \<Longrightarrow> edge http11_table cond 16 c = Some ([], 16)"
  by (simp_all add: edge_def http11_rows http11_states select_class relaxed_chars_def outside_def
      del: select.simps widec_Nil One_nat_def)

lemma edge_char:
  "edge http11_table cond 3 (CHR ''/'') = Some ([H_mark], 33)"
  "edge http11_table cond 33 (CHR ''%'') = Some ([], 27)"
  "edge http11_table cond 33 (CHR '' '') = Some ([H_request_path, H_request_uri], 4)"
  "edge http11_table cond 33 (CHR ''#'') = Some ([H_request_path, H_request_uri], 20)"
  "edge http11_table cond 33 (CHR ''?'') = Some ([H_request_path], 29)"
  "edge http11_table cond 26 (CHR ''%'') = Some ([], 27)"
  "edge http11_table cond 26 (CHR '' '') = Some ([H_request_path, H_request_uri], 4)"
  "edge http11_table cond 26 (CHR ''#'') = Some ([H_request_path, H_request_uri], 20)"
  "edge http11_table cond 26 (CHR ''?'') = Some ([H_request_path], 29)"
  "edge http11_table cond 29 (CHR ''%'') = Some ([H_start_query], 31)"
  "edge http11_table cond 30 (CHR ''%'') = Some ([], 31)"
  "edge http11_table cond 30 (CHR '' '') = Some ([H_query_string, H_request_uri], 4)"
  "edge http11_table cond 30 (CHR ''#'') = Some ([H_query_string, H_request_uri], 20)"
  "edge http11_table cond 20 (CHR ''%'') = Some ([H_mark], 22)"
  "edge http11_table cond 21 (CHR ''%'') = Some ([], 22)"
  "edge http11_table cond 21 (CHR '' '') = Some ([H_fragment], 4)"
  "edge http11_table cond 4 (CHR ''H'') = Some ([H_mark], 5)"
  "edge http11_table cond 5 (CHR ''T'') = Some ([], 6)"
  "edge http11_table cond 6 (CHR ''T'') = Some ([], 7)"
  "edge http11_table cond 7 (CHR ''P'') = Some ([], 8)"
  "edge http11_table cond 8 (CHR ''/'') = Some ([], 9)"
  "edge http11_table cond 9 (CHR ''1'') = Some ([], 10)"
  "edge http11_table cond 10 (CHR ''.'') = Some ([], 11)"
  "edge http11_table cond 11 (CHR ''0'') = Some ([], 12)"
  "edge http11_table cond 11 (CHR ''1'') = Some ([], 12)"
  "edge http11_table cond 12 (CHR 0x0D) = Some ([H_http_version], 17)"
  "edge http11_table cond 17 (CHR 0x0A) = Some ([], 13)"
  "edge http11_table cond 13 (CHR 0x0D) = Some ([H_start_field], 18)"
  "edge http11_table cond 18 (CHR 0x0A) = Some ([H_done], 348)"
  "edge http11_table cond 14 (CHR '':'') = Some ([H_write_field], 15)"
  "edge http11_table cond 15 (CHR 0x0D) = Some ([H_start_value, H_write_value], 17)"
  "edge http11_table cond 15 (CHR '' '') = Some ([H_start_value], 15)"
  "edge http11_table cond 16 (CHR 0x0D) = Some ([H_write_value], 17)"
  by (simp_all add: edge_def http11_rows http11_states schar_def char_nat_def widec_def relaxed_chars_def)

text \<open>The states of a method name: \<open>method_state k\<close> after \<open>k\<close> characters.\<close>

definition method_state :: "nat \<Rightarrow> nat" where
  "method_state k = (if k = 1 then 2 else k + 173)"

lemma edge_method:
  "1 \<le> k \<Longrightarrow> k < 20 \<Longrightarrow> in_class method_chars c \<Longrightarrow>
     edge http11_table cond (method_state k) c = Some ([], method_state (Suc k))"
  "1 \<le> k \<Longrightarrow> k \<le> 20 \<Longrightarrow>
     edge http11_table cond (method_state k) (CHR '' '') = Some ([H_request_method], 3)"
proof -
  assume k: "1 \<le> k" "k < 20" and c: "in_class method_chars c"
  have hit: "select (schar c) ((ranges, acts, t) # es) = Some (acts, t)"
    if "set method_chars \<subseteq> set ranges" for ranges and acts :: "http11_action list" and t es
    using select_class [OF c that, of "[]"] by (simp del: select.simps)
  from k have "k \<in> set [1..<20]" by simp
  with c show "edge http11_table cond (method_state k) c = Some ([], method_state (Suc k))"
    by (auto simp: upt_conv_Cons method_state_def edge_def http11_rows http11_states
        select_other [OF c] hit simp del: select.simps)
next
  assume k: "1 \<le> k" "k \<le> 20"
  from k have "k \<in> set [1..<21]" by simp
  then show "edge http11_table cond (method_state k) (CHR '' '') = Some ([H_request_method], 3)"
    by (auto simp: upt_conv_Cons method_state_def edge_def http11_rows http11_states schar_def char_nat_def)
qed

subsection \<open>Positions\<close>

text \<open>What the assertions at the end of \<open>http_parser_execute\<close> ask for, at position \<open>q\<close> of the buffer.\<close>

definition in_buffer :: "nat \<Rightarrow> nat \<Rightarrow> 'd http_parser \<Rightarrow> bool" where
  "in_buffer len q hp \<longleftrightarrow>
     hp_mark hp \<le> q \<and> hp_mark hp < len \<and> hp_field_start hp \<le> q \<and> hp_field_start hp < len \<and>
     hp_field_len hp \<le> len \<and> hp_body_start hp \<le> len \<and> hp_nread hp = 0"

text \<open>
  The start of a query and the name of a header are remembered before they are used: the
  states of a query are entered with \<open>start_query\<close>, those of a header value with
  \<open>write_field\<close>, and the callbacks are called from these states or right behind that
  action.
\<close>

definition query_states :: "nat set" where
  "query_states = {30, 31, 32}"

definition value_states :: "nat set" where
  "value_states = {15, 16}"

definition places_edge :: "nat \<Rightarrow> http11_action list \<Rightarrow> nat \<Rightarrow> bool" where
  "places_edge n as t \<longleftrightarrow>
     (H_query_string \<in> set as \<or> t \<in> query_states \<longrightarrow> n \<in> query_states \<or> take 1 as = [H_start_query]) \<and>
     (H_write_value \<in> set as \<or> t \<in> value_states \<longrightarrow>
        n \<in> value_states \<and> H_start_field \<notin> set as \<or> as = [H_write_field])"

definition places_row :: "http11_action state \<Rightarrow> bool" where
  "places_row = (\<lambda>(n, conds, es). list_all (\<lambda>(rs, as, t). places_edge n as t) es)"

lemma places_rows:
  "list_all places_row http11_states_1"
  "list_all places_row http11_states_2"
  "list_all places_row http11_states_3"
  "list_all places_row http11_states_4"
  "list_all places_row http11_states_5"
  "list_all places_row http11_states_6"
  "list_all places_row http11_states_7"
  "list_all places_row http11_states_8"
  "list_all places_row http11_states_9"
  "list_all places_row http11_states_10"
  "list_all places_row http11_states_11"
  "list_all places_row http11_states_12"
  "list_all places_row http11_states_13"
  "list_all places_row http11_states_14"
  "list_all places_row http11_states_15"
  "list_all places_row http11_states_16"
  "list_all places_row http11_states_17"
  "list_all places_row http11_states_18"
  "list_all places_row http11_states_19"
  "list_all places_row http11_states_20"
  "list_all places_row http11_states_21"
  "list_all places_row http11_states_22"
  "list_all places_row http11_states_23"
  "list_all places_row http11_states_24"
  "list_all places_row http11_states_25"
  "list_all places_row http11_states_26"
  "list_all places_row http11_states_27"
  "list_all places_row http11_states_28"
  "list_all places_row http11_states_29"
  "list_all places_row http11_states_30"
  "list_all places_row http11_states_31"
  "list_all places_row http11_states_32"
  "list_all places_row http11_states_33"
  "list_all places_row http11_states_34"
  "list_all places_row http11_states_35"
  "list_all places_row http11_states_36"
  "list_all places_row http11_states_37"
  "list_all places_row http11_states_38"
  "list_all places_row http11_states_39"
  "list_all places_row http11_states_40"
  "list_all places_row http11_states_41"
  "list_all places_row http11_states_42"
  "list_all places_row http11_states_43"
  "list_all places_row http11_states_44"
  "list_all places_row http11_states_45"
  "list_all places_row http11_states_46"
  by (simp_all add: http11_states places_row_def places_edge_def query_states_def value_states_def)

lemma places_edges:
  assumes "edge http11_table cond n c = Some (as, t)"
  shows "places_edge n as t"
proof -
  have "list_all places_row http11_table" by (simp add: http11_table_def places_rows)
  then show ?thesis using edge_SomeD [OF assms] by (auto simp: places_row_def list_all_iff)
qed

definition places_ok :: "nat \<Rightarrow> nat \<Rightarrow> nat \<Rightarrow> 'd http_parser \<Rightarrow> bool" where
  "places_ok len cs q hp \<longleftrightarrow> in_buffer len q hp \<and>
     (cs \<in> query_states \<longrightarrow> hp_query_start hp \<le> q) \<and>
     (cs \<in> value_states \<longrightarrow> hp_field_start hp + hp_field_len hp \<le> q)"

end
