(* ===== verification/Http.thy ===== *)
theory Http
  imports Std_Map
begin

text \<open>
  HTTP messages (src/skt/http/http.h, http.cpp): methods and status codes with
  their names, requests and responses with their header, parameter and cookie
  maps, and the text \<open>dump\<close> writes.  A status is the \<open>int\<close> under the enum
  (the response parser casts arbitrary codes to it), a method a constructor.
  \<open>boost::lexical_cast\<close> is an argument.  A stream is the string written to it.
  The field \<open>m_status\<close> of a request is never initialised and never read in the
  source, and is left out.
\<close>

subsection \<open>Methods and status codes\<close>

datatype HttpMethod =
  DELETE | GET | HEAD | POST | PUT | CONNECT | OPTIONS | TRACE | COPY | LOCK | MKCOL | MOVE
   | PROPFIND | PROPPATCH | SEARCH | UNLOCK | BIND | REBIND | UNBIND | ACL | REPORT | MKACTIVITY
   | CHECKOUT | MERGE | MSEARCH | NOTIFY | SUBSCRIBE | UNSUBSCRIBE | PATCH | PURGE | MKCALENDAR
   | LINK | UNLINK | SOURCE | INVALID_METHOD

text \<open>\<open>HTTP_METHOD_MAP\<close>: number, enumerator and name.\<close>

definition HTTP_METHOD_MAP :: "(nat \<times> HttpMethod \<times> string) list" where
  "HTTP_METHOD_MAP =
     [(0, DELETE, ''DELETE''), (1, GET, ''GET''), (2, HEAD, ''HEAD''), (3, POST, ''POST'')
      , (4, PUT, ''PUT''), (5, CONNECT, ''CONNECT''), (6, OPTIONS, ''OPTIONS''), (7, TRACE, ''TRACE'')
      , (8, COPY, ''COPY''), (9, LOCK, ''LOCK''), (10, MKCOL, ''MKCOL''), (11, MOVE, ''MOVE'')
      , (12, PROPFIND, ''PROPFIND''), (13, PROPPATCH, ''PROPPATCH''), (14, SEARCH, ''SEARCH'')
      , (15, UNLOCK, ''UNLOCK''), (16, BIND, ''BIND''), (17, REBIND, ''REBIND'')
      , (18, UNBIND, ''UNBIND''), (19, ACL, ''ACL''), (20, REPORT, ''REPORT'')
      , (21, MKACTIVITY, ''MKACTIVITY''), (22, CHECKOUT, ''CHECKOUT''), (23, MERGE, ''MERGE'')
      , (24, MSEARCH, ''M-SEARCH''), (25, NOTIFY, ''NOTIFY''), (26, SUBSCRIBE, ''SUBSCRIBE'')
      , (27, UNSUBSCRIBE, ''UNSUBSCRIBE''), (28, PATCH, ''PATCH''), (29, PURGE, ''PURGE'')
      , (30, MKCALENDAR, ''MKCALENDAR''), (31, LINK, ''LINK''), (32, UNLINK, ''UNLINK'')
      , (33, SOURCE, ''SOURCE'')]"

text \<open>\<open>HTTP_STATUS_MAP\<close>: code, enumerator and description.\<close>

type_synonym HttpStatus = int

definition HTTP_STATUS_MAP :: "(int \<times> string \<times> string) list" where
  "HTTP_STATUS_MAP =
     [(100, ''CONTINUE'', ''Continue''), (101, ''SWITCHING_PROTOCOLS'', ''Switching Protocols'')
      , (102, ''PROCESSING'', ''Processing''), (200, ''OK'', ''OK''), (201, ''CREATED'', ''Created'')
      , (202, ''ACCEPTED'', ''Accepted'')
      , (203, ''NON_AUTHORITATIVE_INFORMATION'', ''Non-Authoritative Information'')
      , (204, ''NO_CONTENT'', ''No Content''), (205, ''RESET_CONTENT'', ''Reset Content'')
      , (206, ''PARTIAL_CONTENT'', ''Partial Content''), (207, ''MULTI_STATUS'', ''Multi-Status'')
      , (208, ''ALREADY_REPORTED'', ''Already Reported''), (226, ''IM_USED'', ''IM Used'')
      , (300, ''MULTIPLE_CHOICES'', ''Multiple Choices'')
      , (301, ''MOVED_PERMANENTLY'', ''Moved Permanently''), (302, ''FOUND'', ''Found'')
      , (303, ''SEE_OTHER'', ''See Other''), (304, ''NOT_MODIFIED'', ''Not Modified'')
      , (305, ''USE_PROXY'', ''Use Proxy''), (307, ''TEMPORARY_REDIRECT'', ''Temporary Redirect'')
      , (308, ''PERMANENT_REDIRECT'', ''Permanent Redirect''), (400, ''BAD_REQUEST'', ''Bad Request'')
      , (401, ''UNAUTHORIZED'', ''Unauthorized''), (402, ''PAYMENT_REQUIRED'', ''Payment Required'')
      , (403, ''FORBIDDEN'', ''Forbidden''), (404, ''NOT_FOUND'', ''Not Found'')
      , (405, ''METHOD_NOT_ALLOWED'', ''Method Not Allowed'')
      , (406, ''NOT_ACCEPTABLE'', ''Not Acceptable'')
      , (407, ''PROXY_AUTHENTICATION_REQUIRED'', ''Proxy Authentication Required'')
      , (408, ''REQUEST_TIMEOUT'', ''Request Timeout''), (409, ''CONFLICT'', ''Conflict'')
      , (410, ''GONE'', ''Gone''), (411, ''LENGTH_REQUIRED'', ''Length Required'')
      , (412, ''PRECONDITION_FAILED'', ''Precondition Failed'')
      , (413, ''PAYLOAD_TOO_LARGE'', ''Payload Too Large''), (414, ''URI_TOO_LONG'', ''URI Too Long'')
      , (415, ''UNSUPPORTED_MEDIA_TYPE'', ''Unsupported Media Type'')
      , (416, ''RANGE_NOT_SATISFIABLE'', ''Range Not Satisfiable'')
      , (417, ''EXPECTATION_FAILED'', ''Expectation Failed'')
      , (421, ''MISDIRECTED_REQUEST'', ''Misdirected Request'')
      , (422, ''UNPROCESSABLE_ENTITY'', ''Unprocessable Entity''), (423, ''LOCKED'', ''Locked'')
      , (424, ''FAILED_DEPENDENCY'', ''Failed Dependency'')
      , (426, ''UPGRADE_REQUIRED'', ''Upgrade Required'')
      , (428, ''PRECONDITION_REQUIRED'', ''Precondition Required'')
      , (429, ''TOO_MANY_REQUESTS'', ''Too Many Requests'')
      , (431, ''REQUEST_HEADER_FIELDS_TOO_LARGE'', ''Request Header Fields Too Large'')
      , (451, ''UNAVAILABLE_FOR_LEGAL_REASONS'', ''Unavailable For Legal Reasons'')
      , (500, ''INTERNAL_SERVER_ERROR'', ''Internal Server Error'')
      , (501, ''NOT_IMPLEMENTED'', ''Not Implemented''), (502, ''BAD_GATEWAY'', ''Bad Gateway'')
      , (503, ''SERVICE_UNAVAILABLE'', ''Service Unavailable'')
      , (504, ''GATEWAY_TIMEOUT'', ''Gateway Timeout'')
      , (505, ''HTTP_VERSION_NOT_SUPPORTED'', ''HTTP Version Not Supported'')
      , (506, ''VARIANT_ALSO_NEGOTIATES'', ''Variant Also Negotiates'')
      , (507, ''INSUFFICIENT_STORAGE'', ''Insufficient Storage'')
      , (508, ''LOOP_DETECTED'', ''Loop Detected''), (510, ''NOT_EXTENDED'', ''Not Extended'')
      , (511, ''NETWORK_AUTHENTICATION_REQUIRED'', ''Network Authentication Required'')]"

definition method_num :: "HttpMethod \<Rightarrow> nat" where
  "method_num m =
     (case find (\<lambda>(_, e, _). e = m) HTTP_METHOD_MAP of
        Some (n, _, _) \<Rightarrow> n | None \<Rightarrow> length HTTP_METHOD_MAP)"

definition StringToHttpMethod :: "string \<Rightarrow> HttpMethod" where
  "StringToHttpMethod m =
     (case find (\<lambda>(_, _, str). strcmp str m = 0) HTTP_METHOD_MAP of
        Some (_, name, _) \<Rightarrow> name | None \<Rightarrow> INVALID_METHOD)"

definition CharsToHttpMethod :: "string \<Rightarrow> HttpMethod" where
  "CharsToHttpMethod m =
     (case find (\<lambda>(_, _, str). strncmp str m (length str) = 0) HTTP_METHOD_MAP of
        Some (_, name, _) \<Rightarrow> name | None \<Rightarrow> INVALID_METHOD)"

definition s_method_string :: "string list" where
  "s_method_string = map (snd \<circ> snd) HTTP_METHOD_MAP"

definition HttpMethodToString :: "HttpMethod \<Rightarrow> string" where
  "HttpMethodToString m =
     (let idx = method_num m in
      if idx \<ge> length s_method_string then ''<UNKONW>'' else s_method_string ! idx)"

definition HttpStatusToString :: "HttpStatus \<Rightarrow> string" where
  "HttpStatusToString s =
     (case find (\<lambda>(code, _). code = s) HTTP_STATUS_MAP of
        Some (_, _, desc) \<Rightarrow> desc | None \<Rightarrow> ''<unkonw>'')"

subsection \<open>Maps of strings\<close>

definition CaseInsensitiveLess :: "string \<Rightarrow> string \<Rightarrow> bool" where
  "CaseInsensitiveLess lhs rhs \<longleftrightarrow> strcasecmp lhs rhs < 0"

type_synonym MapType = "(string \<times> string) list"

text \<open>\<open>checkGetAs\<close>: the value to store and whether it was found and converted.\<close>

definition checkGetAs :: "(string \<Rightarrow> 't option) \<Rightarrow> MapType \<Rightarrow> string \<Rightarrow> 't \<Rightarrow> 't \<times> bool" where
  "checkGetAs lexical_cast m key def =
     (case map_find CaseInsensitiveLess key m of
        None \<Rightarrow> (def, False)
      | Some str \<Rightarrow> (case lexical_cast str of Some v \<Rightarrow> (v, True) | None \<Rightarrow> (def, False)))"

definition getAs :: "(string \<Rightarrow> 't option) \<Rightarrow> MapType \<Rightarrow> string \<Rightarrow> 't \<Rightarrow> 't" where
  "getAs lexical_cast m key def =
     (case map_find CaseInsensitiveLess key m of
        None \<Rightarrow> def
      | Some str \<Rightarrow> (case lexical_cast str of Some v \<Rightarrow> v | None \<Rightarrow> def))"

definition get_or :: "MapType \<Rightarrow> string \<Rightarrow> string \<Rightarrow> string" where
  "get_or m key def = (case map_find CaseInsensitiveLess key m of None \<Rightarrow> def | Some v \<Rightarrow> v)"

subsection \<open>Requests\<close>

record HttpRequest =
  m_method :: HttpMethod
  m_version :: byte
  m_close :: bool
  m_path :: string
  m_query :: string
  m_fragment :: string
  m_body :: string
  m_headers :: MapType
  m_params :: MapType
  m_cookies :: MapType

definition new_HttpRequest :: "byte \<Rightarrow> bool \<Rightarrow> HttpRequest" where
  "new_HttpRequest version close =
     \<lparr>m_method = GET, m_version = version, m_close = close, m_path = ''/'', m_query = [],
      m_fragment = [], m_body = [], m_headers = [], m_params = [], m_cookies = []\<rparr>"

definition getHeader :: "string \<Rightarrow> string \<Rightarrow> HttpRequest \<Rightarrow> string" where
  "getHeader key def r = get_or (m_headers r) key def"

definition getParam :: "string \<Rightarrow> string \<Rightarrow> HttpRequest \<Rightarrow> string" where
  "getParam key def r = get_or (m_params r) key def"

definition getCookie :: "string \<Rightarrow> string \<Rightarrow> HttpRequest \<Rightarrow> string" where
  "getCookie key def r = get_or (m_cookies r) key def"

definition setHeader :: "string \<Rightarrow> string \<Rightarrow> HttpRequest \<Rightarrow> HttpRequest" where
  "setHeader key v r = r\<lparr>m_headers := map_assign CaseInsensitiveLess key v (m_headers r)\<rparr>"

definition setParam :: "string \<Rightarrow> string \<Rightarrow> HttpRequest \<Rightarrow> HttpRequest" where
  "setParam key v r = r\<lparr>m_params := map_assign CaseInsensitiveLess key v (m_params r)\<rparr>"

definition setCookie :: "string \<Rightarrow> string \<Rightarrow> HttpRequest \<Rightarrow> HttpRequest" where
  "setCookie key v r = r\<lparr>m_cookies := map_assign CaseInsensitiveLess key v (m_cookies r)\<rparr>"

definition delHeader :: "string \<Rightarrow> HttpRequest \<Rightarrow> HttpRequest" where
  "delHeader key r = r\<lparr>m_headers := map_erase CaseInsensitiveLess key (m_headers r)\<rparr>"

definition delParam :: "string \<Rightarrow> HttpRequest \<Rightarrow> HttpRequest" where
  "delParam key r = r\<lparr>m_params := map_erase CaseInsensitiveLess key (m_params r)\<rparr>"

definition delCookie :: "string \<Rightarrow> HttpRequest \<Rightarrow> HttpRequest" where
  "delCookie key r = r\<lparr>m_cookies := map_erase CaseInsensitiveLess key (m_cookies r)\<rparr>"

text \<open>\<open>hasHeader\<close> and its siblings: the value for \<open>*val\<close>, if the key is there.\<close>

definition hasHeader :: "string \<Rightarrow> HttpRequest \<Rightarrow> string option" where
  "hasHeader key r = map_find CaseInsensitiveLess key (m_headers r)"

definition hasParam :: "string \<Rightarrow> HttpRequest \<Rightarrow> string option" where
  "hasParam key r = map_find CaseInsensitiveLess key (m_params r)"

definition hasCookie :: "string \<Rightarrow> HttpRequest \<Rightarrow> string option" where
  "hasCookie key r = map_find CaseInsensitiveLess key (m_cookies r)"

definition CRLF :: string where
  "CRLF = [CHR 0x0D, CHR 0x0A]"

definition version_text :: "byte \<Rightarrow> string" where
  "version_text v = ''HTTP/'' @ nat_dec (unat (drop_bit 4 v)) @ ''.'' @ nat_dec (unat (v AND 0x0F))"

text \<open>The loop over the headers in both \<open>dump\<close>s, with the separator each uses.\<close>

definition dump_headers :: "string \<Rightarrow> MapType \<Rightarrow> string" where
  "dump_headers sep m =
     concat (map (\<lambda>(k, v). if strcasecmp k ''connection'' = 0 then [] else k @ sep @ v @ CRLF) m)"

definition dump_body :: "string \<Rightarrow> string" where
  "dump_body body =
     (if body \<noteq> [] then ''content-length: '' @ nat_dec (length body) @ CRLF @ CRLF @ body else CRLF)"

definition HttpRequest_dump :: "HttpRequest \<Rightarrow> string" where
  "HttpRequest_dump r =
     HttpMethodToString (m_method r) @ '' '' @ m_path r @
     (if m_query r = [] then [] else ''?'') @ m_query r @
     (if m_fragment r = [] then [] else ''#'') @ m_fragment r @ '' '' @
     version_text (m_version r) @ CRLF @
     ''connection: '' @ (if m_close r then ''close'' else ''keep=alive'') @ CRLF @
     dump_headers '':'' (m_headers r) @ dump_body (m_body r)"

definition HttpRequest_toString :: "HttpRequest \<Rightarrow> string" where
  "HttpRequest_toString r = HttpRequest_dump r"

subsection \<open>Responses\<close>

record HttpResponse =
  r_status :: HttpStatus
  r_version :: byte
  r_close :: bool
  r_body :: string
  r_reason :: string
  r_headers :: MapType

definition new_HttpResponse :: "byte \<Rightarrow> bool \<Rightarrow> HttpResponse" where
  "new_HttpResponse version close =
     \<lparr>r_status = 200, r_version = version, r_close = close, r_body = [], r_reason = [], r_headers = []\<rparr>"

definition HttpResponse_getHeader :: "string \<Rightarrow> string \<Rightarrow> HttpResponse \<Rightarrow> string" where
  "HttpResponse_getHeader key def r = get_or (r_headers r) key def"

definition HttpResponse_setHeader :: "string \<Rightarrow> string \<Rightarrow> HttpResponse \<Rightarrow> HttpResponse" where
  "HttpResponse_setHeader key v r = r\<lparr>r_headers := map_assign CaseInsensitiveLess key v (r_headers r)\<rparr>"

definition HttpResponse_delHeader :: "string \<Rightarrow> HttpResponse \<Rightarrow> HttpResponse" where
  "HttpResponse_delHeader key r = r\<lparr>r_headers := map_erase CaseInsensitiveLess key (r_headers r)\<rparr>"

definition HttpResponse_dump :: "HttpResponse \<Rightarrow> string" where
  "HttpResponse_dump r =
     version_text (r_version r) @ '' '' @ nat_dec (nat (r_status r mod 2 ^ 32)) @ '' '' @
     (if r_reason r = [] then HttpStatusToString (r_status r) else r_reason r) @ CRLF @
     dump_headers '': '' (r_headers r) @
     ''connection: '' @ (if r_close r then ''close'' else ''keep-alive'') @ CRLF @
     dump_body (r_body r)"

definition HttpResponse_toString :: "HttpResponse \<Rightarrow> string" where
  "HttpResponse_toString r = HttpResponse_dump r"

subsection \<open>Method names\<close>

lemma method_table:
  "distinct (map (snd \<circ> snd) HTTP_METHOD_MAP)"
  "list_all (\<lambda>(_, _, s). CHR 0x00 \<notin> set s) HTTP_METHOD_MAP"
  by (simp_all add: HTTP_METHOD_MAP_def)

text \<open>No method name begins another one, so the prefix test of \<open>CharsToHttpMethod\<close> is not ambiguous.\<close>

lemma method_prefix_free:
  "list_all (\<lambda>(_, _, s). list_all (\<lambda>(_, _, t). take (length s) t = s \<longrightarrow> s = t) HTTP_METHOD_MAP)
     HTTP_METHOD_MAP"
  by (simp add: HTTP_METHOD_MAP_def)

lemma method_entry:
  "m \<noteq> INVALID_METHOD \<Longrightarrow>
   \<exists>n. (n, m, HttpMethodToString m) \<in> set HTTP_METHOD_MAP"
  by (cases m) (simp_all add: HttpMethodToString_def method_num_def s_method_string_def
      HTTP_METHOD_MAP_def Let_def)

lemma find_only:
  assumes "(n, m, s) \<in> set xs" and "distinct (map (snd \<circ> snd) xs)"
    and "\<And>n' m' s'. (n', m', s') \<in> set xs \<Longrightarrow> P (n', m', s') \<longleftrightarrow> s' = s"
  shows "find P xs = Some (n, m, s)"
  using assms
proof (induction xs)
  case (Cons x xs)
  obtain n' m' s' where x: "x = (n', m', s')" by (cases x)
  show ?case
  proof (cases "s' = s")
    case True
    then have "x = (n, m, s)" using Cons.prems(1,2) x by force
    then show ?thesis using Cons.prems(3) [of n m s] by simp
  next
    case False
    then show ?thesis using Cons x by simp
  qed
qed simp

lemma method_name_no_nul: "(n, m, s) \<in> set HTTP_METHOD_MAP \<Longrightarrow> CHR 0x00 \<notin> set s"
  using method_table(2) by (auto simp: list_all_iff)

lemma StringToHttpMethod_name:
  "(n, m, s) \<in> set HTTP_METHOD_MAP \<Longrightarrow> StringToHttpMethod s = m"
  unfolding StringToHttpMethod_def
  by (subst find_only [OF _ method_table(1)])
     (auto simp: strcmp_zero_iff c_str_no_nul [OF method_name_no_nul])

lemma CharsToHttpMethod_prefix:
  assumes "(n, m, s) \<in> set HTTP_METHOD_MAP"
  shows "CharsToHttpMethod (s @ rest) = m"
proof -
  have cs: "c_str (s @ rest) = s @ c_str rest"
    using method_name_no_nul [OF assms] by (induction s) (auto simp: c_str_def)
  have "find (\<lambda>(_, _, t). strncmp t (s @ rest) (length t) = 0) HTTP_METHOD_MAP = Some (n, m, s)"
  proof (rule find_only [OF assms method_table(1)])
    fix n' m' s' assume s': "(n', m', s') \<in> set HTTP_METHOD_MAP"
    have "take (length s') (s @ c_str rest) = s' \<longleftrightarrow> s' = s"
    proof
      assume p: "take (length s') (s @ c_str rest) = s'"
      show "s' = s"
      proof (cases "length s' \<le> length s")
        case True
        then show ?thesis using p method_prefix_free assms s' by (auto simp: list_all_iff)
      next
        case False
        then have "take (length s) s' = s" using p by (metis append_eq_conv_conj nat_le_linear take_all take_append take_take min_def)
        then show ?thesis using method_prefix_free assms s' by (auto simp: list_all_iff)
      qed
    qed simp
    then show "(case (n', m', s') of (_, _, t) \<Rightarrow> strncmp t (s @ rest) (length t) = 0) \<longleftrightarrow> s' = s"
      using strncmp_prefix [OF method_name_no_nul [OF s'], of "s @ rest"] cs by simp
  qed
  then show ?thesis by (simp add: CharsToHttpMethod_def)
qed

subsection \<open>Case-insensitive maps\<close>

lemma CaseInsensitiveLess_iff: "CaseInsensitiveLess a b \<longleftrightarrow> fold_case a < fold_case b"
  by (simp add: CaseInsensitiveLess_def strcasecmp_less_iff)

interpretation ci_order: weak_order CaseInsensitiveLess
  by unfold_locales (auto simp: CaseInsensitiveLess_iff)

lemma ci_equivalent: "equivalent CaseInsensitiveLess a b \<longleftrightarrow> fold_case a = fold_case b"
  by (auto simp: equivalent_def CaseInsensitiveLess_iff)

definition request_ok :: "HttpRequest \<Rightarrow> bool" where
  "request_ok r \<longleftrightarrow>
     map_ok CaseInsensitiveLess (m_headers r) \<and> map_ok CaseInsensitiveLess (m_params r) \<and>
     map_ok CaseInsensitiveLess (m_cookies r)"

lemma new_HttpRequest_ok: "request_ok (new_HttpRequest v c)"
  by (simp add: request_ok_def new_HttpRequest_def map_ok_def)

subsection \<open>Framing\<close>

text \<open>A reader of the text: lines up to CRLF, a head up to an empty line, then the body.\<close>

fun take_line :: "string \<Rightarrow> (string \<times> string) option" where
  "take_line [] = None"
| "take_line [c] = None"
| "take_line (c # d # s) =
     (if c = CHR 0x0D \<and> d = CHR 0x0A then Some ([], s)
      else map_option (\<lambda>(l, r). (c # l, r)) (take_line (d # s)))"

lemma take_line_shorter: "take_line s = Some (l, r) \<Longrightarrow> length r < length s"
  by (induction s arbitrary: l rule: take_line.induct) (fastforce split: if_splits)+

function read_head :: "string \<Rightarrow> (string list \<times> string) option" where
  "read_head s =
     (case take_line s of None \<Rightarrow> None
      | Some (l, r) \<Rightarrow>
          if l = [] then Some ([], r) else map_option (\<lambda>(ls, b). (l # ls, b)) (read_head r))"
  by pat_completeness auto
termination
  by (relation "measure length") (auto dest: take_line_shorter)

declare read_head.simps [simp del]

lemma take_line_CRLF: "CHR 0x0D \<notin> set l \<Longrightarrow> take_line (l @ CRLF @ s) = Some (l, s)"
proof (induction l)
  case Nil
  then show ?case by (simp add: CRLF_def)
next
  case (Cons c l)
  then show ?case by (cases l) (auto simp: CRLF_def)
qed

lemma read_head_line:
  assumes "CHR 0x0D \<notin> set l" and "l \<noteq> []" and "read_head s = Some (ls, b)"
  shows "read_head (l @ CRLF @ s) = Some (l # ls, b)"
  using assms take_line_CRLF [OF assms(1), of s] by (subst read_head.simps) simp

lemma read_head_end: "read_head (CRLF @ s) = Some ([], s)"
  using take_line_CRLF [of "[]" s] by (subst read_head.simps) simp

definition header_line :: "string \<Rightarrow> string \<times> string \<Rightarrow> string" where
  "header_line sep kv = fst kv @ sep @ snd kv"

definition connection_line :: "string \<Rightarrow> string" where
  "connection_line v = ''connection: '' @ v"

definition length_line :: "string \<Rightarrow> string" where
  "length_line body = ''content-length: '' @ nat_dec (length body)"

definition plain :: "string \<Rightarrow> bool" where
  "plain s \<longleftrightarrow> CHR 0x0D \<notin> set s"

definition plain_map :: "MapType \<Rightarrow> bool" where
  "plain_map m \<longleftrightarrow> list_all (\<lambda>(k, v). plain k \<and> plain v) m"

definition dumped :: "MapType \<Rightarrow> MapType" where
  "dumped m = filter (\<lambda>(k, _). strcasecmp k ''connection'' \<noteq> 0) m"

lemma nat_dec_plain [simp]: "CHR 0x0D \<notin> set (nat_dec n)"
proof
  assume "CHR 0x0D \<in> set (nat_dec n)"
  then have "is_digit (CHR 0x0D)" using nat_dec_digits [of n] by (simp add: list_all_iff)
  then show False by (simp add: is_digit_def char_nat_def)
qed

lemma read_head_body:
  "read_head (dump_body b) = Some ((if b = [] then [] else [length_line b]), b)"
proof (cases "b = []")
  case True
  then show ?thesis using read_head_end [of "[]"] by (simp add: dump_body_def)
next
  case False
  have "read_head (length_line b @ CRLF @ CRLF @ b) = Some ([length_line b], b)"
    by (rule read_head_line [OF _ _ read_head_end]) (simp_all add: length_line_def)
  then show ?thesis using False by (simp add: dump_body_def length_line_def)
qed

lemma read_head_headers:
  assumes "plain_map m" and "CHR 0x0D \<notin> set sep" and "sep \<noteq> []" and "read_head s = Some (ls, b)"
  shows "read_head (dump_headers sep m @ s) = Some (map (header_line sep) (dumped m) @ ls, b)"
  using assms(1)
proof (induction m)
  case Nil
  then show ?case using assms(4) by (simp add: dump_headers_def dumped_def)
next
  case (Cons kv m)
  obtain k v where kv: "kv = (k, v)" by force
  have IH: "read_head (dump_headers sep m @ s) = Some (map (header_line sep) (dumped m) @ ls, b)"
    using Cons by (simp add: plain_map_def)
  have "read_head ((k @ sep @ v) @ CRLF @ dump_headers sep m @ s) =
      Some ((k @ sep @ v) # map (header_line sep) (dumped m) @ ls, b)"
    by (rule read_head_line [OF _ _ IH]) (use Cons.prems assms(2,3) kv in \<open>auto simp: plain_map_def plain_def\<close>)
  then show ?case
    using IH kv by (simp add: dump_headers_def dumped_def header_line_def)
qed

definition status_line :: "HttpResponse \<Rightarrow> string" where
  "status_line r = version_text (r_version r) @ '' '' @ nat_dec (nat (r_status r mod 2 ^ 32)) @ '' '' @
     (if r_reason r = [] then HttpStatusToString (r_status r) else r_reason r)"

definition request_line :: "HttpRequest \<Rightarrow> string" where
  "request_line r = HttpMethodToString (m_method r) @ '' '' @ m_path r @
     (if m_query r = [] then [] else ''?'') @ m_query r @
     (if m_fragment r = [] then [] else ''#'') @ m_fragment r @ '' '' @ version_text (m_version r)"

lemma status_text_plain: "CHR 0x0D \<notin> set (HttpStatusToString s)"
proof -
  have "list_all (\<lambda>(_, _, d). CHR 0x0D \<notin> set d) HTTP_STATUS_MAP"
    by (simp add: HTTP_STATUS_MAP_def)
  then show ?thesis
    by (auto simp: HttpStatusToString_def list_all_iff find_Some_iff split: option.split)
       (metis case_prodD nth_mem)
qed

lemma method_text_plain: "CHR 0x0D \<notin> set (HttpMethodToString m)"
  by (cases m) (simp_all add: HttpMethodToString_def method_num_def s_method_string_def
      HTTP_METHOD_MAP_def Let_def)

lemma version_text_plain: "CHR 0x0D \<notin> set (version_text v)"
  by (simp add: version_text_def)

subsection \<open>Properties\<close>

text \<open>
  Method names.  Every method but \<open>INVALID_METHOD\<close> is found again from its
  name by the exact search, and by the search on a character pointer whatever
  follows the name; so the latter also accepts text that merely begins with a name.
\<close>

theorem method_names:
  assumes "m \<noteq> INVALID_METHOD"
  shows "StringToHttpMethod (HttpMethodToString m) = m \<and>
         CharsToHttpMethod (HttpMethodToString m @ rest) = m"
proof -
  obtain n where "(n, m, HttpMethodToString m) \<in> set HTTP_METHOD_MAP"
    using method_entry [OF assms] by blast
  then show ?thesis using StringToHttpMethod_name CharsToHttpMethod_prefix by blast
qed

lemma method_names_witness:
  "StringToHttpMethod ''M-SEARCH'' = MSEARCH \<and> CharsToHttpMethod (''GET'' @ ''X /'') = GET"
proof -
  have "HttpMethodToString MSEARCH = ''M-SEARCH''" "HttpMethodToString GET = ''GET''"
    by (simp_all add: HttpMethodToString_def method_num_def s_method_string_def HTTP_METHOD_MAP_def)
  then show ?thesis
    using method_names [of MSEARCH "[]"] method_names [of GET "''X /''"] by simp
qed

text \<open>
  C25: headers are found whatever the case of their name.  After \<open>setHeader\<close>
  every spelling of the name gives the new value, after \<open>delHeader\<close> none does,
  and all other headers keep theirs; the map stays sorted without duplicates.
\<close>

theorem headers_case_insensitive:
  assumes "request_ok r"
  shows "request_ok (setHeader k v r) \<and> request_ok (delHeader k r) \<and>
         getHeader j def (setHeader k v r) = (if fold_case j = fold_case k then v else getHeader j def r) \<and>
         getHeader j def (delHeader k r) = (if fold_case j = fold_case k then def else getHeader j def r)"
  using assms ci_order.find_assign [of "m_headers r" j k v] ci_order.find_erase [of "m_headers r" j k]
  by (simp add: request_ok_def setHeader_def delHeader_def getHeader_def get_or_def ci_equivalent
      ci_order.map_ok_assign ci_order.map_ok_erase)

lemma headers_case_insensitive_witness:
  "getHeader ''HOST'' [] (setHeader ''Host'' ''a'' (new_HttpRequest 0x11 True)) = ''a''"
proof -
  have "fold_case ''HOST'' = fold_case ''Host''"
    by (simp add: fold_case_def c_str_def to_lower_def char_nat_def)
  then show ?thesis
    using headers_case_insensitive [OF new_HttpRequest_ok, of "''Host''" "''a''" "0x11" True "''HOST''" "[]"] by simp
qed

text \<open>
  Framing.  A reader that takes lines up to CRLF, the head up to the first
  empty line and the rest as the body gets from the text of a response, and of a
  request, whose strings hold no carriage return: the first line, the headers
  (without any \<open>connection\<close> header of the map), one \<open>connection\<close> line, the length
  of the body when there is one, and exactly the body.
\<close>

theorem dump_framing:
  assumes "plain (r_reason r)" and "plain_map (r_headers r)"
    and "plain (m_path q)" and "plain (m_query q)" and "plain (m_fragment q)" and "plain_map (m_headers q)"
  shows "read_head (HttpResponse_dump r) =
           Some (status_line r # map (header_line '': '') (dumped (r_headers r)) @
                 connection_line (if r_close r then ''close'' else ''keep-alive'') #
                 (if r_body r = [] then [] else [length_line (r_body r)]), r_body r) \<and>
         read_head (HttpRequest_dump q) =
           Some (request_line q # connection_line (if m_close q then ''close'' else ''keep=alive'') #
                 map (header_line '':'') (dumped (m_headers q)) @
                 (if m_body q = [] then [] else [length_line (m_body q)]), m_body q)"
proof
  let ?conn = "connection_line (if r_close r then ''close'' else ''keep-alive'')"
  have "read_head (?conn @ CRLF @ dump_body (r_body r)) =
      Some (?conn # (if r_body r = [] then [] else [length_line (r_body r)]), r_body r)"
    by (rule read_head_line [OF _ _ read_head_body]) (simp_all add: connection_line_def)
  from read_head_headers [OF assms(2) _ _ this, of "'': ''"]
  have "read_head (dump_headers '': '' (r_headers r) @ ?conn @ CRLF @ dump_body (r_body r)) =
      Some (map (header_line '': '') (dumped (r_headers r)) @
            ?conn # (if r_body r = [] then [] else [length_line (r_body r)]), r_body r)" by simp
  from read_head_line [OF _ _ this, of "status_line r"] assms(1)
  show "read_head (HttpResponse_dump r) = Some (status_line r # map (header_line '': '') (dumped (r_headers r)) @
      ?conn # (if r_body r = [] then [] else [length_line (r_body r)]), r_body r)"
    by (simp add: HttpResponse_dump_def status_line_def plain_def version_text_plain status_text_plain
        connection_line_def split: if_splits)
next
  let ?conn = "connection_line (if m_close q then ''close'' else ''keep=alive'')"
  have "read_head (dump_headers '':'' (m_headers q) @ dump_body (m_body q)) =
      Some (map (header_line '':'') (dumped (m_headers q)) @
            (if m_body q = [] then [] else [length_line (m_body q)]), m_body q)"
    by (rule read_head_headers [OF assms(6) _ _ read_head_body]) simp_all
  from read_head_line [OF _ _ this, of ?conn]
  have "read_head (?conn @ CRLF @ dump_headers '':'' (m_headers q) @ dump_body (m_body q)) =
      Some (?conn # map (header_line '':'') (dumped (m_headers q)) @
            (if m_body q = [] then [] else [length_line (m_body q)]), m_body q)"
    by (simp add: connection_line_def)
  from read_head_line [OF _ _ this, of "request_line q"] assms(3-5)
  show "read_head (HttpRequest_dump q) =
      Some (request_line q # ?conn # map (header_line '':'') (dumped (m_headers q)) @
            (if m_body q = [] then [] else [length_line (m_body q)]), m_body q)"
    by (simp add: HttpRequest_dump_def request_line_def plain_def version_text_plain method_text_plain
        connection_line_def)
qed

lemma dump_framing_witness:
  "read_head (HttpResponse_dump ((new_HttpResponse 0x11 False)\<lparr>r_body := ''hello''\<rparr>)) =
     Some ([''HTTP/1.1 200 OK'', ''connection: keep-alive'', ''content-length: 5''], ''hello'')"
proof -
  have "status_line ((new_HttpResponse 0x11 False)\<lparr>r_body := ''hello''\<rparr>) = ''HTTP/1.1 200 OK''"
    by (simp add: status_line_def new_HttpResponse_def version_text_def HttpStatusToString_def
        HTTP_STATUS_MAP_def nat_dec.simps sktsimps)
  moreover have "length ''hello'' = 5" by simp
  then have "length_line ''hello'' = ''content-length: 5''"
    unfolding length_line_def by (simp only:) (simp add: nat_dec.simps sktsimps)
  ultimately show ?thesis
    using dump_framing [of "(new_HttpResponse 0x11 False)\<lparr>r_body := ''hello''\<rparr>" "new_HttpRequest 0x11 True"]
    by (simp add: new_HttpResponse_def new_HttpRequest_def plain_def plain_map_def dumped_def
        connection_line_def)
qed

end
