(* ===== verification/Http_Request_Parser.thy ===== *)
theory Http_Request_Parser
  imports Http11_Parser Http
begin

text \<open>
  \<open>HttpRequestParser\<close> (src/skt/http/http_parser.h, http_parser.cpp): the callbacks that
  fill a request while the machine reads its text, and the class around them.
\<close>

text \<open>The object behind the \<open>data\<close> pointer, as far as the callbacks see it.\<close>

record request_data =
  rq_data :: HttpRequest
  rq_error :: int

record HttpRequestParser =
  rp_parser :: "request_data http_parser"
  rp_self :: request_data

text \<open>
  \<open>std::string(at, len)\<close>: a length that has wrapped around is more than \<open>max_size\<close>, and
  the constructor throws; any other length beyond the text copies what lies behind it.
\<close>

definition std_string :: "string \<Rightarrow> nat \<Rightarrow> parse_error + string" where
  "std_string at len =
     (if len \<le> length at then Inr (take len at) else if len < 2 ^ 63 then Inl Wild_copy else Inl Length_error)"

definition setError :: "int \<Rightarrow> request_data \<Rightarrow> request_data" where
  "setError v d = d\<lparr>rq_error := v\<rparr>"

subsection \<open>Callbacks\<close>

definition on_request_method :: "request_data element_cb" where
  "on_request_method at len d =
     (let m = CharsToHttpMethod at
      in if m = INVALID_METHOD then Inr (setError 1000 d)
         else Inr (d\<lparr>rq_data := (rq_data d)\<lparr>m_method := m\<rparr>\<rparr>))"

definition on_request_uri :: "request_data element_cb" where
  "on_request_uri at len d = Inr d"

definition on_request_fragment :: "request_data element_cb" where
  "on_request_fragment at len d =
     and_then (std_string at len) (\<lambda>s. Inr (d\<lparr>rq_data := (rq_data d)\<lparr>m_fragment := s\<rparr>\<rparr>))"

definition on_request_path :: "request_data element_cb" where
  "on_request_path at len d =
     and_then (std_string at len) (\<lambda>s. Inr (d\<lparr>rq_data := (rq_data d)\<lparr>m_path := s\<rparr>\<rparr>))"

definition on_request_query :: "request_data element_cb" where
  "on_request_query at len d =
     and_then (std_string at len) (\<lambda>s. Inr (d\<lparr>rq_data := (rq_data d)\<lparr>m_query := s\<rparr>\<rparr>))"

text \<open>The comparison in the version callbacks of both parsers; None is the error 1001.\<close>

definition version_of :: "string \<Rightarrow> nat \<Rightarrow> byte option" where
  "version_of at len =
     (if strncmp at ''HTTP/1.1'' len = 0 then Some 0x11
      else if strncmp at ''HTTP/1.0'' len = 0 then Some 0x10 else None)"

definition on_request_version :: "request_data element_cb" where
  "on_request_version at len d =
     (case version_of at len of
        None \<Rightarrow> Inr (setError 1001 d)
      | Some v \<Rightarrow> Inr (d\<lparr>rq_data := (rq_data d)\<lparr>m_version := v\<rparr>\<rparr>))"

definition on_request_header_done :: "request_data element_cb" where
  "on_request_header_done at len d = Inr d"

definition on_request_http_filed :: "request_data field_cb" where
  "on_request_http_filed field flen val vlen d =
     (if flen = 0 then Inr d
      else and_then (std_string field flen) (\<lambda>k.
           and_then (std_string val vlen) (\<lambda>v. Inr (d\<lparr>rq_data := setHeader k v (rq_data d)\<rparr>))))"

subsection \<open>The class\<close>

text \<open>The constructor; \<open>raw\<close> is the memory of the struct before it.\<close>

definition new_HttpRequestParser :: "request_data http_parser \<Rightarrow> HttpRequestParser" where
  "new_HttpRequestParser raw =
     \<lparr>rp_parser = (http_parser_init raw)\<lparr>
        hp_request_method := Some on_request_method,
        hp_request_uri := Some on_request_uri,
        hp_fragment := Some on_request_fragment,
        hp_request_path := Some on_request_path,
        hp_query_string := Some on_request_query,
        hp_http_version := Some on_request_version,
        hp_header_done := Some on_request_header_done,
        hp_http_field := Some on_request_http_filed\<rparr>,
      rp_self = \<lparr>rq_data = new_HttpRequest 0x11 True, rq_error = 0\<rparr>\<rparr>"

text \<open>\<open>excute\<close>: the bytes consumed, and the others, which it moves to the front of the buffer.\<close>

definition excute ::
  "string \<Rightarrow> HttpRequestParser \<Rightarrow> parse_error + nat \<times> string \<times> HttpRequestParser" where
  "excute data p =
     and_then (http_parser_execute (rp_parser p) data 0 (rp_self p)) (\<lambda>(offset, parser, self).
       Inr (offset, drop offset data, \<lparr>rp_parser = parser, rp_self = self\<rparr>))"

definition isFinished :: "HttpRequestParser \<Rightarrow> int" where
  "isFinished p = http_parser_finish (rp_parser p)"

definition hasError :: "HttpRequestParser \<Rightarrow> bool" where
  "hasError p \<longleftrightarrow> rq_error (rp_self p) \<noteq> 0 \<and> http_parser_has_error (rp_parser p)"

definition getData :: "HttpRequestParser \<Rightarrow> HttpRequest" where
  "getData p = rq_data (rp_self p)"

definition getContentLength :: "(string \<Rightarrow> u64 option) \<Rightarrow> HttpRequestParser \<Rightarrow> u64" where
  "getContentLength lexical_cast p = getAs lexical_cast (m_headers (getData p)) ''content-length'' 0"

subsection \<open>Reading a request\<close>

abbreviation scan :: "string \<Rightarrow> bool \<Rightarrow> string \<Rightarrow> nat \<Rightarrow> nat \<Rightarrow> request_data http_parser \<times> request_data
    \<Rightarrow> parse_error + nat \<times> nat \<times> request_data http_parser \<times> request_data" where
  "scan B cond \<equiv> machine http11_table cond (http11_act B) http11_break"

definition wired :: "request_data http_parser \<Rightarrow> bool" where
  "wired hp \<longleftrightarrow>
     hp_request_method hp = Some on_request_method \<and> hp_request_uri hp = Some on_request_uri \<and>
     hp_fragment hp = Some on_request_fragment \<and> hp_request_path hp = Some on_request_path \<and>
     hp_query_string hp = Some on_request_query \<and> hp_http_version hp = Some on_request_version \<and>
     hp_header_done hp = Some on_request_header_done \<and> hp_http_field hp = Some on_request_http_filed"

lemma wired_upd [simp]:
  "wired (hp\<lparr>hp_mark := a\<rparr>) = wired hp" "wired (hp\<lparr>hp_field_start := a\<rparr>) = wired hp"
  "wired (hp\<lparr>hp_field_len := a\<rparr>) = wired hp" "wired (hp\<lparr>hp_query_start := a\<rparr>) = wired hp"
  by (simp_all add: wired_def)

lemmas scan_simps = call_def http11_break_def wired_def write_value_def done_action_def Let_def
  on_request_method_def on_request_uri_def on_request_fragment_def on_request_path_def
  on_request_query_def on_request_version_def on_request_header_done_def on_request_http_filed_def
  std_string_def

lemma scan_method_chars:
  assumes "list_all (in_class method_chars) m" and "1 \<le> k" and "k + length m \<le> 20"
  shows "scan B cond (m @ rest) p (method_state k) st = scan B cond rest (p + length m) (method_state (k + length m)) st"
  using assms by (induction m arbitrary: p k) (simp_all add: edge_method(1))

lemma scan_method:
  assumes "wired hp" and at: "drop p B = m @ '' '' @ rest" and m: "m \<noteq> []" "length m \<le> 20"
    "list_all (in_class method_chars) m"
    and x: "CharsToHttpMethod (m @ '' '' @ rest) = x" "x \<noteq> INVALID_METHOD"
  shows "scan B cond (m @ '' '' @ rest) p 1 (hp, d) =
    scan B cond rest (p + length m + 1) 3 (hp\<lparr>hp_mark := p\<rparr>, d\<lparr>rq_data := (rq_data d)\<lparr>m_method := x\<rparr>\<rparr>)"
proof -
  obtain c m' where cm: "m = c # m'" using m(1) by (cases m) auto
  have "scan B cond (m @ r) p 1 (hp, d) =
      scan B cond r (p + length m) (method_state (length m)) (hp\<lparr>hp_mark := p\<rparr>, d)" for r
    using scan_method_chars [where m = m' and k = 1 and p = "p + 1"] m cm
    by (simp add: edge_class(1) [unfolded One_nat_def] http11_break_def method_state_def split del: if_split)
  also have "scan B cond ('' '' @ rest) (p + length m) (method_state (length m)) (hp\<lparr>hp_mark := p\<rparr>, d) =
      scan B cond rest (p + length m + 1) 3 (hp\<lparr>hp_mark := p\<rparr>, d\<lparr>rq_data := (rq_data d)\<lparr>m_method := x\<rparr>\<rparr>)"
    using assms(1) at m x edge_method(2) [of "length m" cond] by (simp add: scan_simps cm)
  finally show ?thesis .
qed

text \<open>Paths begin with exactly one slash.\<close>

definition path_ok :: "string \<Rightarrow> bool" where
  "path_ok s \<longleftrightarrow> s \<noteq> [] \<and> hd s = CHR ''/'' \<and> encoded path_chars (tl s) \<and>
     (tl s \<noteq> [] \<and> hd (tl s) \<noteq> CHR ''%'' \<longrightarrow> in_class path_first (hd (tl s)))"

definition after_path :: "char \<Rightarrow> nat option" where
  "after_path x = (if x = CHR '' '' then Some 4 else if x = CHR ''#'' then Some 20
     else if x = CHR ''?'' then Some 29 else None)"

lemma scan_path_chars:
  assumes "path_ok (CHR ''/'' # s)"
  shows "scan B cond (s @ r) p 33 st = scan B cond r (p + length s) (if s = [] then 33 else 26) st"
proof (cases "s = []")
  case False
  then show ?thesis
    using machine_encoded_first [OF edge_class(2) edge_char(6) edge_class(4,5), where s = s and m = 33 and
        as = "[]" and rs = path_chars] assms edge_class(3) edge_char(2) by (simp add: path_ok_def)
qed simp

lemma scan_path:
  assumes "wired hp" and at: "drop p B = path @ x # rest" and ok: "path_ok path" and x: "after_path x = Some n"
  shows "scan B cond (path @ x # rest) p 3 (hp, d) =
    scan B cond rest (p + length path + 1) n (hp\<lparr>hp_mark := p\<rparr>, d\<lparr>rq_data := (rq_data d)\<lparr>m_path := path\<rparr>\<rparr>)"
proof -
  obtain s where s: "path = CHR ''/'' # s" using ok by (cases path) (auto simp: path_ok_def)
  let ?q = "if s = [] then 33 else 26 :: nat"
  have "scan B cond (path @ r) p 3 (hp, d) =
      scan B cond r (p + length path) ?q (hp\<lparr>hp_mark := p\<rparr>, d)" for r
    using scan_path_chars [OF ok [unfolded s], where p = "p + 1"] s
    by (simp add: edge_char http11_break_def split del: if_split)
  also have "scan B cond (x # rest) (p + length path) ?q (hp\<lparr>hp_mark := p\<rparr>, d) =
      scan B cond rest (p + length path + 1) n (hp\<lparr>hp_mark := p\<rparr>, d\<lparr>rq_data := (rq_data d)\<lparr>m_path := path\<rparr>\<rparr>)"
    using x at assms(1) by (auto simp: edge_char scan_simps after_path_def split: if_splits)
  finally show ?thesis .
qed

lemma scan_query_chars:
  assumes "encoded query_chars q" "q \<noteq> []"
  shows "scan B cond (q @ r) p 29 (hp, d) = scan B cond r (p + length q) 30 (hp\<lparr>hp_query_start := p\<rparr>, d)"
proof -
  have "hd q \<noteq> CHR ''%'' \<Longrightarrow> in_class query_chars (hd q)" using assms by (cases q) auto
  then show ?thesis
    using machine_encoded_first [OF edge_class(7) edge_char(11) edge_class(8,9), where s = q and m = 29 and
        as = "[H_start_query]" and rs = query_chars and
        act = "http11_act B" and brk = http11_break and st = "(hp, d)"] assms edge_class(6) edge_char(10)
    by (simp add: http11_break_def)
qed

lemma scan_query:
  assumes "wired hp" and at: "drop p B = q @ x # rest" and ok: "encoded query_chars q" "q \<noteq> []"
    and x: "after_path x = Some n" "x \<noteq> CHR ''?''"
  shows "scan B cond (q @ x # rest) p 29 (hp, d) =
    scan B cond rest (p + length q + 1) n (hp\<lparr>hp_query_start := p\<rparr>, d\<lparr>rq_data := (rq_data d)\<lparr>m_query := q\<rparr>\<rparr>)"
  unfolding scan_query_chars [OF ok]
  using x at assms(1) by (auto simp: edge_char scan_simps after_path_def split: if_splits)

lemma scan_fragment:
  assumes "wired hp" and at: "drop p B = f @ '' '' @ rest" and ok: "encoded query_chars f" "f \<noteq> []"
  shows "scan B cond (f @ '' '' @ rest) p 20 (hp, d) =
    scan B cond rest (p + length f + 1) 4 (hp\<lparr>hp_mark := p\<rparr>, d\<lparr>rq_data := (rq_data d)\<lparr>m_fragment := f\<rparr>\<rparr>)"
proof -
  have "hd f \<noteq> CHR ''%'' \<Longrightarrow> in_class query_chars (hd f)" using ok by (cases f) auto
  then have "scan B cond (f @ r) p 20 (hp, d) = scan B cond r (p + length f) 21 (hp\<lparr>hp_mark := p\<rparr>, d)" for r
    using machine_encoded_first [OF edge_class(11) edge_char(15) edge_class(12,13), where s = f and m = 20 and
        as = "[H_mark]" and rs = query_chars and
        act = "http11_act B" and brk = http11_break and st = "(hp, d)"] ok edge_class(10) edge_char(14) by (simp add: http11_break_def)
  also have "scan B cond ('' '' @ rest) (p + length f) 21 (hp\<lparr>hp_mark := p\<rparr>, d) =
      scan B cond rest (p + length f + 1) 4 (hp\<lparr>hp_mark := p\<rparr>, d\<lparr>rq_data := (rq_data d)\<lparr>m_fragment := f\<rparr>\<rparr>)"
    using at assms(1) by (auto simp: edge_char scan_simps)
  finally show ?thesis .
qed

text \<open>The version and the end of the line.\<close>

lemma version_texts: "version_text 0x10 = ''HTTP/1.0''" "version_text 0x11 = ''HTTP/1.1''"
  by (simp_all add: version_text_def nat_dec.simps sktsimps)

lemma version_of_text:
  assumes "v = 0x10 \<or> v = 0x11"
  shows "version_of (version_text v @ rest) (length (version_text v)) = Some v"
  using assms by (auto simp: version_texts version_of_def strncmp_def c_str_def)

lemma scan_version:
  assumes "wired hp" and at: "drop p B = version_text v @ CRLF @ rest" and v: "v = 0x10 \<or> v = 0x11"
  shows "scan B cond (version_text v @ CRLF @ rest) p 4 (hp, d) =
    scan B cond rest (p + length (version_text v) + 2) 13
      (hp\<lparr>hp_mark := p\<rparr>, d\<lparr>rq_data := (rq_data d)\<lparr>m_version := v\<rparr>\<rparr>)"
proof -
  have "scan B cond (version_text v @ r) p 4 (hp, d) =
      scan B cond r (p + length (version_text v)) 12 (hp\<lparr>hp_mark := p\<rparr>, d)" for r
    using v by (elim disjE; simp add: version_texts edge_char http11_break_def; simp add: numeral_eq_Suc)
  also have "scan B cond (CRLF @ rest) (p + length (version_text v)) 12 (hp\<lparr>hp_mark := p\<rparr>, d) =
      scan B cond rest (p + length (version_text v) + 2) 13
        (hp\<lparr>hp_mark := p\<rparr>, d\<lparr>rq_data := (rq_data d)\<lparr>m_version := v\<rparr>\<rparr>)"
    using assms(1) at version_of_text [OF v, of "CRLF @ rest"] by (simp add: CRLF_def edge_char scan_simps)
  finally show ?thesis .
qed

text \<open>A header line, with blanks before the value.\<close>

definition value_ok :: "string \<Rightarrow> bool" where
  "value_ok v \<longleftrightarrow> list_all (in_class value_chars) v \<and> (v \<noteq> [] \<longrightarrow> in_class value_first (hd v))"

definition name_ok :: "string \<Rightarrow> bool" where
  "name_ok k \<longleftrightarrow> k \<noteq> [] \<and> list_all (in_class token_chars) k"

lemma scan_name:
  assumes k: "name_ok k"
  shows "scan B cond (k @ '':'' @ r) p 13 (hp, d) =
    scan B cond r (p + length k + 1) 15 (hp\<lparr>hp_field_start := p, hp_field_len := length k\<rparr>, d)"
proof -
  obtain c k' where ck: "k = c # k'" using k by (cases k) (auto simp: name_ok_def)
  have "scan B cond (k' @ r) q 14 st = scan B cond r (q + length k') 14 st" for r q st
    using k ck edge_class(15) by (intro machine_skip) (auto simp: name_ok_def list_all_iff)
  then show ?thesis using k ck edge_class(14) by (simp add: name_ok_def http11_break_def edge_char)
qed

lemma scan_value:
  assumes "wired hp" and v: "value_ok v" and atv: "drop p B = v @ CRLF @ rest"
    and atk: "take (hp_field_len hp) (drop (hp_field_start hp) B) = k" "hp_field_len hp = length k" "k \<noteq> []"
  shows "scan B cond (v @ CRLF @ rest) p 15 (hp, d) =
    scan B cond rest (p + length v + 2) 13 (hp\<lparr>hp_mark := p\<rparr>, d\<lparr>rq_data := setHeader k v (rq_data d)\<rparr>)"
proof -
  have len: "length k \<le> length B - hp_field_start hp"
    using atk(1,2) by (metis length_drop length_take min.cobounded1)
  let ?q = "if v = [] then 15 else 16 :: nat"
  have "scan B cond (v @ r) p 15 (hp, d) =
     scan B cond r (p + length v) ?q (if v = [] then hp else hp\<lparr>hp_mark := p\<rparr>, d)" for r
  proof (cases v)
    case (Cons c v')
    have "scan B cond (v' @ r) q 16 st = scan B cond r (q + length v') 16 st" for q st
      using v Cons edge_class(17) by (intro machine_skip) (auto simp: value_ok_def list_all_iff)
    then show ?thesis using v Cons edge_class(16) by (simp add: value_ok_def http11_break_def)
  qed simp
  also have "scan B cond (CRLF @ rest) (p + length v) ?q (if v = [] then hp else hp\<lparr>hp_mark := p\<rparr>, d) =
      scan B cond rest (p + length v + 2) 13 (hp\<lparr>hp_mark := p\<rparr>, d\<lparr>rq_data := setHeader k v (rq_data d)\<rparr>)"
    using assms(1) atv atk len by (simp add: CRLF_def edge_char scan_simps)
  finally show ?thesis .
qed

lemma scan_header:
  assumes w: "wired hp" and kv: "name_ok k" "value_ok v" and sp: "sp = [] \<or> sp = '' ''"
    and at: "drop p B = k @ '':'' @ sp @ v @ CRLF @ rest"
  shows "scan B cond (k @ '':'' @ sp @ v @ CRLF @ rest) p 13 (hp, d) =
    scan B cond rest (p + length k + length sp + length v + 3) 13
      (hp\<lparr>hp_field_start := p, hp_field_len := length k, hp_mark := p + length k + 1 + length sp\<rparr>,
       d\<lparr>rq_data := setHeader k v (rq_data d)\<rparr>)"
proof -
  let ?hp = "hp\<lparr>hp_field_start := p, hp_field_len := length k\<rparr>"
  have k: "k \<noteq> []" using kv(1) by (simp add: name_ok_def)
  have atv: "drop (p + length k + 1 + length sp) B = v @ CRLF @ rest"
  proof -
    have "drop (p + length k + 1 + length sp) B = drop (length (k @ '':'' @ sp)) (drop p B)"
      by (simp add: add.commute add.left_commute)
    then show ?thesis by (simp add: at)
  qed
  have "scan B cond (sp @ r) q 15 (h, e) =
      scan B cond r (q + length sp) 15 (if sp = [] then h else h\<lparr>hp_mark := q\<rparr>, e)" for r q h e
    using sp by (auto simp: edge_char http11_break_def)
  then have "scan B cond (k @ '':'' @ sp @ v @ CRLF @ rest) p 13 (hp, d) =
      scan B cond (v @ CRLF @ rest) (p + length k + 1 + length sp) 15
        (if sp = [] then ?hp else ?hp\<lparr>hp_mark := p + length k + 1\<rparr>, d)"
    using scan_name [OF kv(1)] by simp
  also have "\<dots> = scan B cond rest (p + length k + 1 + length sp + length v + 2) 13
      (?hp\<lparr>hp_mark := p + length k + 1 + length sp\<rparr>, d\<lparr>rq_data := setHeader k v (rq_data d)\<rparr>)"
    using scan_value [OF _ kv(2) atv, of _ k] w k at by simp
  finally show ?thesis by (simp add: numeral_eq_Suc)
qed

text \<open>All headers; the places the parser remembers change.\<close>

definition no_places :: "request_data http_parser \<Rightarrow> request_data http_parser" where
  "no_places hp = hp\<lparr>hp_mark := 0, hp_field_start := 0, hp_field_len := 0, hp_query_start := 0\<rparr>"

lemma no_places_upd [simp]:
  "no_places (hp\<lparr>hp_mark := a\<rparr>) = no_places hp" "no_places (hp\<lparr>hp_query_start := a\<rparr>) = no_places hp"
  "no_places (hp\<lparr>hp_field_start := a\<rparr>) = no_places hp" "no_places (hp\<lparr>hp_field_len := a\<rparr>) = no_places hp"
  by (simp_all add: no_places_def)

lemma no_placesD:
  assumes "no_places hp' = no_places hp"
  shows "wired hp' = wired hp" "hp_xml_sent hp' = hp_xml_sent hp" "hp_json_sent hp' = hp_json_sent hp"
    "hp_cs hp' = hp_cs hp" "hp_nread hp' = hp_nread hp"
proof -
  have "wired (no_places hp') = wired (no_places hp)" "hp_xml_sent (no_places hp') = hp_xml_sent (no_places hp)"
    "hp_json_sent (no_places hp') = hp_json_sent (no_places hp)" "hp_cs (no_places hp') = hp_cs (no_places hp)"
    "hp_nread (no_places hp') = hp_nread (no_places hp)"
    by (simp_all add: assms)
  then show "wired hp' = wired hp" "hp_xml_sent hp' = hp_xml_sent hp" "hp_json_sent hp' = hp_json_sent hp"
    "hp_cs hp' = hp_cs hp" "hp_nread hp' = hp_nread hp"
    by (simp_all add: no_places_def)
qed

lemma scan_header_ex:
  assumes "wired hp" and "name_ok k" "value_ok v" and "sp = [] \<or> sp = '' ''"
    and "drop p B = k @ '':'' @ sp @ v @ CRLF @ rest"
  shows "\<exists>hp'. no_places hp' = no_places hp \<and>
    scan B cond (k @ '':'' @ sp @ v @ CRLF @ rest) p 13 (hp, d) =
    scan B cond rest (p + length (k @ '':'' @ sp @ v @ CRLF)) 13
      (hp', d\<lparr>rq_data := setHeader k v (rq_data d)\<rparr>)"
  using scan_header [OF assms, of cond d]
  by (intro exI [of _ "hp\<lparr>hp_field_start := p, hp_field_len := length k,
        hp_mark := p + length k + 1 + length sp\<rparr>"]) (simp add: CRLF_def ac_simps numeral_eq_Suc)

definition headers_ok :: "MapType \<Rightarrow> bool" where
  "headers_ok m \<longleftrightarrow> list_all (\<lambda>(k, v). name_ok k \<and> value_ok v) m"

definition set_headers :: "MapType \<Rightarrow> HttpRequest \<Rightarrow> HttpRequest" where
  "set_headers m r = fold (\<lambda>(k, v). setHeader k v) m r"

lemma set_headers_fields [simp]:
  "m_method (set_headers m r) = m_method r" "m_path (set_headers m r) = m_path r"
  "m_query (set_headers m r) = m_query r" "m_close (set_headers m r) = m_close r"
  by (induction m arbitrary: r) (auto simp: set_headers_def setHeader_def)

lemma scan_headers:
  assumes "headers_ok (dumped m)" and "wired hp" and "drop p B = dump_headers '':'' m @ rest"
  shows "\<exists>hp'. no_places hp' = no_places hp \<and>
    scan B cond (dump_headers '':'' m @ rest) p 13 (hp, d) =
    scan B cond rest (p + length (dump_headers '':'' m)) 13
      (hp', d\<lparr>rq_data := set_headers (dumped m) (rq_data d)\<rparr>)"
  using assms
proof (induction m arbitrary: p hp d)
  case Nil
  then show ?case by (auto simp: dump_headers_def dumped_def set_headers_def)
next
  case (Cons kv m)
  obtain k v where kv: "kv = (k, v)" by force
  show ?case
  proof (cases "strcasecmp k ''connection'' = 0")
    case True
    then show ?thesis using Cons kv by (simp add: dump_headers_def dumped_def set_headers_def)
  next
    case False
    let ?line = "k @ '':'' @ v @ CRLF" and ?more = "dump_headers '':'' m @ rest"
    have txt_eq: "dump_headers '':'' (kv # m) = ?line @ dump_headers '':'' m"
      using False kv by (simp add: dump_headers_def)
    have ok: "name_ok k" "value_ok v" "headers_ok (dumped m)"
      using Cons.prems(1) False kv by (simp_all add: headers_ok_def dumped_def)
    have at: "drop p B = k @ '':'' @ [] @ v @ CRLF @ ?more" using Cons.prems(3) txt_eq by simp
    have "drop (p + length ?line) B = drop (length ?line) (drop p B)" by (simp add: add.commute)
    then have at': "drop (p + length ?line) B = ?more" by (simp add: at)
    let ?d = "d\<lparr>rq_data := setHeader k v (rq_data d)\<rparr>"
    obtain hp1 where hp1: "no_places hp1 = no_places hp"
      "scan B cond (?line @ ?more) p 13 (hp, d) = scan B cond ?more (p + length ?line) 13 (hp1, ?d)"
      using scan_header_ex [OF Cons.prems(2) ok(1,2) _ at, of cond d] by auto
    have "wired hp1" using no_placesD(1) [OF hp1(1)] Cons.prems(2) by simp
    from Cons.IH [OF ok(3) this at', of ?d] hp1
    show ?thesis using txt_eq False kv by (auto simp: dumped_def set_headers_def ac_simps)
  qed
qed

lemma scan_end:
  assumes "wired hp" and "\<not> hp_xml_sent hp" and "\<not> hp_json_sent hp"
  shows "scan B cond (CRLF @ rest) p 13 (hp, d) =
    Inr (p + 2, 348, hp\<lparr>hp_field_start := p, hp_body_start := p + 2\<rparr>, d)"
  using assms by (simp add: CRLF_def edge_char scan_simps)

subsection \<open>No failing assertion, no exception\<close>

lemma act_total:
  assumes w: "wired hp" and b: "in_buffer (length B) q hp" and q: "q < length B"
    and "a = H_query_string \<longrightarrow> hp_query_start hp \<le> q"
    and "a = H_write_value \<longrightarrow> hp_field_start hp + hp_field_len hp \<le> q"
  shows "\<exists>hp' d'. http11_act B a q (hp, d) = Inr (hp', d') \<and> wired hp' \<and> in_buffer (length B) q hp' \<and>
    hp_query_start hp' = (if a = H_start_query then q else hp_query_start hp) \<and>
    hp_field_start hp' = (if a = H_start_field then q else hp_field_start hp) \<and>
    hp_field_len hp' = (if a = H_write_field then q - hp_field_start hp else hp_field_len hp) \<and>
    hp_cs hp' = hp_cs hp"
  using assms
  by (cases a) (auto simp: scan_simps in_buffer_def split: option.splits)

definition query_ready :: "http11_action list \<Rightarrow> nat \<Rightarrow> request_data http_parser \<Rightarrow> bool" where
  "query_ready as q hp \<longleftrightarrow> hp_query_start hp \<le> q \<or> take 1 as = [H_start_query]"

definition value_ready :: "http11_action list \<Rightarrow> nat \<Rightarrow> request_data http_parser \<Rightarrow> bool" where
  "value_ready as q hp \<longleftrightarrow> hp_field_start hp + hp_field_len hp \<le> q \<and> H_start_field \<notin> set as \<or> as = [H_write_field]"

lemma run_actions_total:
  assumes "wired hp" and "in_buffer (length B) q hp" and "q < length B"
    and "H_query_string \<in> set as \<longrightarrow> query_ready as q hp"
    and "H_write_value \<in> set as \<longrightarrow> value_ready as q hp"
  shows "\<exists>hp' d'. run_actions (http11_act B) as q (hp, d) = Inr (hp', d') \<and> wired hp' \<and>
    in_buffer (length B) q hp' \<and> hp_cs hp' = hp_cs hp \<and>
    (query_ready as q hp \<longrightarrow> hp_query_start hp' \<le> q) \<and>
    (value_ready as q hp \<longrightarrow> hp_field_start hp' + hp_field_len hp' \<le> q)"
  using assms
proof (induction as arbitrary: hp d)
  case Nil
  then show ?case by (auto simp: query_ready_def value_ready_def)
next
  case (Cons a as)
  have q: "a = H_query_string \<longrightarrow> hp_query_start hp \<le> q"
    and v: "a = H_write_value \<longrightarrow> hp_field_start hp + hp_field_len hp \<le> q"
    using Cons.prems(4,5) by (auto simp: query_ready_def value_ready_def)
  obtain hp1 d1 where 1: "http11_act B a q (hp, d) = Inr (hp1, d1)" "wired hp1"
    "in_buffer (length B) q hp1"
    "hp_query_start hp1 = (if a = H_start_query then q else hp_query_start hp)"
    "hp_field_start hp1 = (if a = H_start_field then q else hp_field_start hp)"
    "hp_field_len hp1 = (if a = H_write_field then q - hp_field_start hp else hp_field_len hp)"
    "hp_cs hp1 = hp_cs hp"
    using act_total [OF Cons.prems(1-3) q v, of d] by (elim exE conjE) (rule that)
  have fs: "hp_field_start hp \<le> q" using Cons.prems(2) by (simp add: in_buffer_def)
  have qr: "hp_query_start hp1 \<le> q" if "query_ready (a # as) q hp"
    using that 1(4) by (auto simp: query_ready_def split: if_splits)
  have vr: "hp_field_start hp1 + hp_field_len hp1 \<le> q \<and> H_start_field \<notin> set as" if "value_ready (a # as) q hp"
    using that 1(5,6) fs by (auto simp: value_ready_def split: if_splits)
  have "\<exists>hp' d'. run_actions (http11_act B) as q (hp1, d1) = Inr (hp', d') \<and> wired hp' \<and>
    in_buffer (length B) q hp' \<and> hp_cs hp' = hp_cs hp1 \<and>
    (query_ready as q hp1 \<longrightarrow> hp_query_start hp' \<le> q) \<and>
    (value_ready as q hp1 \<longrightarrow> hp_field_start hp' + hp_field_len hp' \<le> q)"
    by (rule Cons.IH [OF 1(2,3) Cons.prems(3)])
      (use qr vr Cons.prems(4,5) in \<open>auto simp: query_ready_def value_ready_def\<close>)
  then show ?case using 1(1,7) qr vr by (auto simp: query_ready_def value_ready_def)
qed

lemma scan_total:
  assumes "wired hp" and "places_ok (length B) cs p hp" and "p + length bs \<le> length B"
  shows "\<exists>p' cs' hp' d'. scan B cond bs p cs (hp, d) = Inr (p', cs', hp', d') \<and> wired hp' \<and>
    places_ok (length B) cs' p' hp' \<and> hp_cs hp' = hp_cs hp"
proof -
  let ?Q = "\<lambda>cs q (s :: request_data http_parser \<times> request_data).
    wired (fst s) \<and> places_ok (length B) cs q (fst s) \<and> hp_cs (fst s) = hp_cs hp"
  have "\<exists>p' cs' s'. scan B cond bs p cs (hp, d) = Inr (p', cs', s') \<and> ?Q cs' p' s'"
  proof (rule machine_total)
    fix n c as t q and s :: "request_data http_parser \<times> request_data"
    assume e: "edge http11_table cond n c = Some (as, t)" and Q: "?Q n q s" and q: "q < p + length bs"
    obtain h d where s: "s = (h, d)" by (cases s)
    have w: "wired h" "places_ok (length B) n q h" "hp_cs h = hp_cs hp" using Q s by simp_all
    have qr: "H_query_string \<in> set as \<longrightarrow> query_ready as q h" "t \<in> query_states \<longrightarrow> query_ready as q h"
      and vr: "H_write_value \<in> set as \<longrightarrow> value_ready as q h" "t \<in> value_states \<longrightarrow> value_ready as q h"
      using places_edges [OF e] w(2) unfolding places_edge_def places_ok_def query_ready_def value_ready_def
      by blast+
    have b: "in_buffer (length B) q h" using w(2) by (simp add: places_ok_def)
    have "q < length B" using q assms(3) by simp
    from run_actions_total [OF w(1) b this qr(1) vr(1), of d]
    obtain hp' d' where r: "run_actions (http11_act B) as q (h, d) = Inr (hp', d')" "wired hp'"
        "in_buffer (length B) q hp'" "hp_cs hp' = hp_cs h" "query_ready as q h \<longrightarrow> hp_query_start hp' \<le> q"
        "value_ready as q h \<longrightarrow> hp_field_start hp' + hp_field_len hp' \<le> q"
      by blast
    have "in_buffer (length B) (Suc q) hp'" using r(3) by (simp add: in_buffer_def)
    then have "places_ok (length B) t (Suc q) hp'"
      using r(5,6) qr(2) vr(2) unfolding places_ok_def by (meson le_SucI)
    then show "\<exists>s'. run_actions (http11_act B) as q s = Inr s' \<and> ?Q t (Suc q) s'"
      using r(1,2,4) s w(3) by (intro exI [of _ "(hp', d')"]) simp
  qed (use assms in \<open>auto simp: places_ok_def query_states_def value_states_def\<close>)
  then show ?thesis by auto
qed

text \<open>The parser as \<open>http_parser_execute\<close> starts the machine on it.\<close>

abbreviation restart :: "request_data http_parser \<Rightarrow> request_data http_parser" where
  "restart hp \<equiv> hp\<lparr>hp_nread := 0, hp_mark := 0, hp_field_len := 0, hp_field_start := 0\<rparr>"

definition parser_ok :: "nat \<Rightarrow> request_data http_parser \<Rightarrow> bool" where
  "parser_ok len hp \<longleftrightarrow> wired hp \<and> hp_body_start hp \<le> len \<and> (hp_cs hp \<in> query_states \<longrightarrow> hp_query_start hp = 0)"

lemma excute_walk:
  assumes ok: "parser_ok (length data) (rp_parser p)" and "data \<noteq> []"
    and "map_of http11_table (hp_cs (rp_parser p)) \<noteq> None" and "hp_cs (rp_parser p) \<noteq> 0"
    and scan: "scan data (hp_uri_relaxed (rp_parser p)) data 0 (hp_cs (rp_parser p))
        (restart (rp_parser p), rp_self p) = Inr (q, cs, hp, d)"
  shows "excute data p = Inr (q, drop q data, \<lparr>rp_parser = hp\<lparr>hp_cs := cs, hp_nread := q\<rparr>, rp_self = d\<rparr>)"
    and "wired hp" and "places_ok (length data) cs q hp" and "q \<le> length data"
proof -
  have start: "wired (restart (rp_parser p))"
      "places_ok (length data) (hp_cs (rp_parser p)) 0 (restart (rp_parser p))"
    using assms(1,2) by (auto simp: parser_ok_def places_ok_def in_buffer_def wired_def)
  obtain q' cs' hp' d' where w: "scan data (hp_uri_relaxed (rp_parser p)) data 0 (hp_cs (rp_parser p))
        (restart (rp_parser p), rp_self p) = Inr (q', cs', hp', d')" "wired hp'"
      "places_ok (length data) cs' q' hp'" "hp_cs hp' = hp_cs (restart (rp_parser p))"
    using scan_total [OF start, of data "hp_uri_relaxed (rp_parser p)" "rp_self p"] by auto
  show wired: "wired hp" and places: "places_ok (length data) cs q hp" using w scan by auto
  show q: "q \<le> length data" using machine_position [OF scan] by simp
  have "hp_cs hp \<noteq> 0" "hp_nread hp = 0" using w scan assms(4) by (auto simp: places_ok_def in_buffer_def)
  moreover obtain conds es where "map_of http11_table (hp_cs (rp_parser p)) = Some (conds, es)"
    using assms(3) by auto
  ultimately show "excute data p = Inr (q, drop q data, \<lparr>rp_parser = hp\<lparr>hp_cs := cs, hp_nread := q\<rparr>, rp_self = d\<rparr>)"
    using scan assms(2) places q
    by (simp add: excute_def http_parser_execute_def Let_def run_machine_def http_parser_has_error_def
        places_ok_def in_buffer_def)
qed

lemma new_parser_ok:
  "parser_ok len (rp_parser (new_HttpRequestParser raw))"
  "hp_cs (rp_parser (new_HttpRequestParser raw)) = 1"
  "hp_xml_sent (rp_parser (new_HttpRequestParser raw)) = False"
  "hp_json_sent (rp_parser (new_HttpRequestParser raw)) = False"
  "rp_self (new_HttpRequestParser raw) = \<lparr>rq_data = new_HttpRequest 0x11 True, rq_error = 0\<rparr>"
  by (simp_all add: new_HttpRequestParser_def http_parser_init_def parser_ok_def wired_def query_states_def)

subsection \<open>Properties\<close>

text \<open>The requests whose text the grammar describes, and what reading the text gives.\<close>

definition request_text_ok :: "HttpRequest \<Rightarrow> bool" where
  "request_text_ok r \<longleftrightarrow>
     m_method r \<noteq> INVALID_METHOD \<and> m_method r \<noteq> MSEARCH \<and> path_ok (m_path r) \<and>
     encoded query_chars (m_query r) \<and> encoded query_chars (m_fragment r) \<and>
     (m_version r = 0x10 \<or> m_version r = 0x11) \<and> headers_ok (dumped (m_headers r))"

definition sent_headers :: "HttpRequest \<Rightarrow> MapType" where
  "sent_headers r =
     (''connection'', if m_close r then ''close'' else ''keep=alive'') # dumped (m_headers r) @
     (if m_body r = [] then [] else [(''content-length'', nat_dec (length (m_body r)))])"

definition as_read :: "HttpRequest \<Rightarrow> HttpRequest" where
  "as_read r = set_headers (sent_headers r)
     ((new_HttpRequest 0x11 True)\<lparr>m_method := m_method r, m_path := m_path r, m_query := m_query r,
        m_fragment := m_fragment r, m_version := m_version r\<rparr>)"

lemma method_names_ok:
  "list_all (\<lambda>(n, m, s). m \<noteq> MSEARCH \<longrightarrow> s \<noteq> [] \<and> length s \<le> 20 \<and> list_all (in_class method_chars) s)
     HTTP_METHOD_MAP"
  by (simp add: HTTP_METHOD_MAP_def in_class_def schar_def char_nat_def)

lemma method_text_ok:
  assumes "m \<noteq> INVALID_METHOD" and "m \<noteq> MSEARCH"
  shows "HttpMethodToString m \<noteq> []" "length (HttpMethodToString m) \<le> 20"
    "list_all (in_class method_chars) (HttpMethodToString m)" "CharsToHttpMethod (HttpMethodToString m @ rest) = m"
  using method_entry [OF assms(1)] method_names_ok assms(2) CharsToHttpMethod_prefix
  by (auto simp: list_all_iff)

text \<open>The request target is the path, the query and the fragment up to the blank behind it.\<close>

definition tail_text :: "HttpRequest \<Rightarrow> string" where
  "tail_text r = (if m_fragment r = [] then '' '' else ''#'' @ m_fragment r @ '' '')"

definition target_text :: "HttpRequest \<Rightarrow> string" where
  "target_text r = m_path r @ (if m_query r = [] then [] else ''?'' @ m_query r) @ tail_text r"

lemma tail_text_Cons:
  "tail_text r = hd (tail_text r) # tl (tail_text r)" "hd (tail_text r) \<noteq> CHR ''?''"
  "after_path (hd (tail_text r)) = Some (if m_fragment r = [] then 4 else 20)"
  by (simp_all add: tail_text_def after_path_def)

lemma request_upd_same:
  "m_query r = q \<Longrightarrow> r\<lparr>m_query := q\<rparr> = r" "m_fragment r = f \<Longrightarrow> r\<lparr>m_fragment := f\<rparr> = r"
  "rq_data d = r \<Longrightarrow> d\<lparr>rq_data := r\<rparr> = d"
  by auto

lemma scan_tail:
  assumes "wired hp" and "drop p B = tl (tail_text r) @ rest" and "encoded query_chars (m_fragment r)"
    and "m_fragment (rq_data d) = []"
  shows "\<exists>hp'. no_places hp' = no_places hp \<and>
    scan B cond (tl (tail_text r) @ rest) p (if m_fragment r = [] then 4 else 20) (hp, d) =
    scan B cond rest (p + length (tl (tail_text r))) 4
      (hp', d\<lparr>rq_data := (rq_data d)\<lparr>m_fragment := m_fragment r\<rparr>\<rparr>)"
proof (cases "m_fragment r = []")
  case True
  then show ?thesis using assms(4) by (auto simp: tail_text_def request_upd_same)
next
  case False
  then show ?thesis
    using scan_fragment [OF assms(1) _ assms(3) False, of p B rest cond d] assms(2)
    by (intro exI [of _ "hp\<lparr>hp_mark := p\<rparr>"]) (simp add: tail_text_def)
qed

lemma scan_target:
  assumes w: "wired hp" and at: "drop p B = target_text r @ rest"
    and ok: "path_ok (m_path r)" "encoded query_chars (m_query r)" "encoded query_chars (m_fragment r)"
    and d: "m_query (rq_data d) = []" "m_fragment (rq_data d) = []"
  shows "\<exists>hp'. no_places hp' = no_places hp \<and>
    scan B cond (target_text r @ rest) p 3 (hp, d) =
    scan B cond rest (p + length (target_text r)) 4
      (hp', d\<lparr>rq_data := (rq_data d)\<lparr>m_path := m_path r, m_query := m_query r, m_fragment := m_fragment r\<rparr>\<rparr>)"
proof -
  obtain x G where F: "tail_text r = x # G" "x \<noteq> CHR ''?''"
      "after_path x = Some (if m_fragment r = [] then 4 else 20)"
    using tail_text_Cons [of r] by metis
  let ?n = "if m_fragment r = [] then 4 else 20 :: nat" and ?d = "d\<lparr>rq_data := (rq_data d)\<lparr>m_path := m_path r\<rparr>\<rparr>"
  show ?thesis
  proof (cases "m_query r = []")
    case True
    then have t: "target_text r @ rest = m_path r @ x # G @ rest" by (simp add: target_text_def F)
    have "drop (p + length (m_path r @ [x])) B = tl (tail_text r) @ rest"
      by (rule drop_text) (simp add: at t F)
    from scan_tail [OF _ this ok(3), of "hp\<lparr>hp_mark := p\<rparr>" ?d cond] w d
      scan_path [OF w _ ok(1) F(3), of p B "G @ rest" cond d] at t
    show ?thesis using True by (auto simp: F target_text_def ac_simps request_upd_same)
  next
    case False
    then have t: "target_text r @ rest = m_path r @ CHR ''?'' # m_query r @ x # G @ rest"
      by (simp add: target_text_def F)
    let ?p = "p + length (m_path r) + 1"
    have at1: "drop ?p B = m_query r @ x # G @ rest"
      using drop_text [of p B "m_path r @ ''?''"] at t by simp
    have at2: "drop (?p + length (m_query r) + 1) B = tl (tail_text r) @ rest"
      using drop_text [of ?p B "m_query r @ [x]"] at1 F by simp
    have "scan B cond (target_text r @ rest) p 3 (hp, d) =
        scan B cond (m_query r @ x # G @ rest) ?p 29 (hp\<lparr>hp_mark := p\<rparr>, ?d)"
      using scan_path [OF w _ ok(1), of p B "CHR ''?''" _ 29 cond d] at t by (simp add: after_path_def)
    also have "\<dots> = scan B cond (G @ rest) (?p + length (m_query r) + 1) ?n
        (hp\<lparr>hp_mark := p, hp_query_start := ?p\<rparr>, ?d\<lparr>rq_data := (rq_data ?d)\<lparr>m_query := m_query r\<rparr>\<rparr>)"
      by (rule scan_query [OF _ at1 ok(2) False F(3,2)]) (simp add: w)
    finally show ?thesis
      using scan_tail [OF _ at2 ok(3), of "hp\<lparr>hp_mark := p, hp_query_start := ?p\<rparr>"
          "?d\<lparr>rq_data := (rq_data ?d)\<lparr>m_query := m_query r\<rparr>\<rparr>" cond] w d False t
      by (auto simp: F target_text_def ac_simps)
  qed
qed

text \<open>The text up to the body, and its lines behind the request line.\<close>

definition body_head :: "string \<Rightarrow> string" where
  "body_head b = (if b = [] then CRLF else ''content-length: '' @ nat_dec (length b) @ CRLF @ CRLF)"

definition request_head :: "HttpRequest \<Rightarrow> string" where
  "request_head r = HttpMethodToString (m_method r) @ '' '' @ target_text r @ version_text (m_version r) @ CRLF @
     ''connection: '' @ (if m_close r then ''close'' else ''keep=alive'') @ CRLF @
     dump_headers '':'' (m_headers r) @ body_head (m_body r)"

lemma dump_head: "HttpRequest_dump r = request_head r @ m_body r"
  by (simp add: HttpRequest_dump_def request_head_def target_text_def tail_text_def dump_body_def body_head_def)

lemma header_text:
  "''connection: '' @ c @ CRLF @ dump_headers '':'' m @ body_head b @ t =
   ''connection'' @ '':'' @ '' '' @ c @ CRLF @ dump_headers '':'' m @
   (if b = [] then [] else ''content-length'' @ '':'' @ '' '' @ nat_dec (length b) @ CRLF) @ CRLF @ t"
  by (simp add: body_head_def)

lemma literal_names_ok: "name_ok ''connection''" "name_ok ''content-length''"
  "value_ok ''close''" "value_ok ''keep=alive''"
  by (simp_all add: name_ok_def value_ok_def in_class_def schar_def char_nat_def)

lemma nat_dec_value_ok: "value_ok (nat_dec n)"
proof -
  have "in_class value_chars c \<and> in_class value_first c" if "is_digit c" for c
    using that by (auto simp: is_digit_def in_class_def schar_def)
  moreover have "list_all is_digit (nat_dec n)" by (rule nat_dec_digits)
  ultimately show ?thesis
    using nat_dec_not_Nil [of n] by (auto simp: value_ok_def list_all_iff)
qed

lemma scan_lines:
  assumes w: "wired hp" "\<not> hp_xml_sent hp" "\<not> hp_json_sent hp" and c: "value_ok c"
    and m: "headers_ok (dumped m)"
    and at: "drop p B = ''connection: '' @ c @ CRLF @ dump_headers '':'' m @ body_head b @ t"
  shows "\<exists>hp'. hp_cs hp' = hp_cs hp \<and> scan B cond (''connection: '' @ c @ CRLF @ dump_headers '':'' m @ body_head b @ t) p 13 (hp, d) =
    Inr (length B - length t, 348, hp',
      d\<lparr>rq_data := set_headers ((''connection'', c) # dumped m @
         (if b = [] then [] else [(''content-length'', nat_dec (length b))])) (rq_data d)\<rparr>)"
proof -
  let ?L = "if b = [] then [] else ''content-length'' @ '':'' @ '' '' @ nat_dec (length b) @ CRLF"
  let ?H = "dump_headers '':'' m"
  define p1 where "p1 = p + length (''connection'' @ '':'' @ '' '' @ c @ CRLF)"
  define p2 where "p2 = p1 + length ?H"
  define p3 where "p3 = p2 + length ?L"
  let ?d1 = "d\<lparr>rq_data := setHeader ''connection'' c (rq_data d)\<rparr>"
  let ?d2 = "?d1\<lparr>rq_data := set_headers (dumped m) (rq_data ?d1)\<rparr>"
  let ?d3 = "if b = [] then ?d2 else ?d2\<lparr>rq_data := setHeader ''content-length'' (nat_dec (length b)) (rq_data ?d2)\<rparr>"
  have at0: "drop p B = ''connection'' @ '':'' @ '' '' @ c @ CRLF @ ?H @ ?L @ CRLF @ t"
    using at by (simp only: header_text)
  then have at1: "drop p1 B = ?H @ ?L @ CRLF @ t" unfolding p1_def by (intro drop_text) simp
  then have at2: "drop p2 B = ?L @ CRLF @ t" unfolding p2_def by (rule drop_text)
  then have at3: "drop p3 B = CRLF @ t" unfolding p3_def by (rule drop_text)
  obtain hp1 where 1: "no_places hp1 = no_places hp"
    "scan B cond (''connection'' @ '':'' @ '' '' @ c @ CRLF @ ?H @ ?L @ CRLF @ t) p 13 (hp, d) =
     scan B cond (?H @ ?L @ CRLF @ t) p1 13 (hp1, ?d1)"
    using scan_header_ex [OF w(1) literal_names_ok(1) c _ at0, of cond d] unfolding p1_def by auto
  obtain hp2 where 2: "no_places hp2 = no_places hp"
    "scan B cond (?H @ ?L @ CRLF @ t) p1 13 (hp1, ?d1) = scan B cond (?L @ CRLF @ t) p2 13 (hp2, ?d2)"
    using scan_headers [OF m _ at1, of hp1 cond ?d1] w 1(1) no_placesD [OF 1(1)] unfolding p2_def by auto
  have "\<exists>hp3. no_places hp3 = no_places hp \<and>
      scan B cond (?L @ CRLF @ t) p2 13 (hp2, ?d2) = scan B cond (CRLF @ t) p3 13 (hp3, ?d3)"
    using scan_header_ex [OF _ literal_names_ok(2) nat_dec_value_ok [of "length b"], of hp2 "'' ''" p2 B "CRLF @ t" cond ?d2]
      w 2(1) no_placesD [OF 2(1)] at2 unfolding p3_def by auto
  then obtain hp3 where 3: "no_places hp3 = no_places hp"
      "scan B cond (?L @ CRLF @ t) p2 13 (hp2, ?d2) = scan B cond (CRLF @ t) p3 13 (hp3, ?d3)" by blast
  note w3 = no_placesD [OF 3(1)]
  have "length B = p3 + 2 + length t" using arg_cong [OF at3, of length] by (simp add: CRLF_def)
  then have len: "p3 + 2 = length B - length t" by simp
  have d3: "?d3 = d\<lparr>rq_data := set_headers ((''connection'', c) # dumped m @
         (if b = [] then [] else [(''content-length'', nat_dec (length b))])) (rq_data d)\<rparr>"
    by (simp add: set_headers_def)
  have "scan B cond (''connection: '' @ c @ CRLF @ ?H @ body_head b @ t) p 13 (hp, d) =
      Inr (p3 + 2, 348, hp3\<lparr>hp_field_start := p3, hp_body_start := p3 + 2\<rparr>, ?d3)"
    unfolding header_text 1(2) 2(2) 3(2) by (rule scan_end) (use w w3 in simp_all)
  then show ?thesis unfolding d3 len using w3(4)
    by (intro exI [of _ "hp3\<lparr>hp_field_start := p3, hp_body_start := length B - length t\<rparr>"]) simp
qed

lemma scan_request:
  assumes "request_text_ok r" and w: "wired hp" "\<not> hp_xml_sent hp" "\<not> hp_json_sent hp"
  shows "\<exists>hp'. scan (request_head r @ t) cond (request_head r @ t) 0 1
      (hp, \<lparr>rq_data = new_HttpRequest 0x11 True, rq_error = 0\<rparr>) =
    Inr (length (request_head r), 348, hp', \<lparr>rq_data = as_read r, rq_error = 0\<rparr>)"
proof -
  let ?B = "request_head r @ t" and ?m = "HttpMethodToString (m_method r)"
  let ?c = "if m_close r then ''close'' else ''keep=alive''" and ?V = "version_text (m_version r)"
  let ?lines = "''connection: '' @ ?c @ CRLF @ dump_headers '':'' (m_headers r) @ body_head (m_body r) @ t"
  note ok = assms(1) [unfolded request_text_ok_def]
  have B: "?B = ?m @ '' '' @ target_text r @ ?V @ CRLF @ ?lines"
    by (simp add: request_head_def)
  let ?d = "\<lparr>rq_data = new_HttpRequest 0x11 True, rq_error = 0\<rparr>"
  let ?d1 = "?d\<lparr>rq_data := (rq_data ?d)\<lparr>m_method := m_method r\<rparr>\<rparr>"
  let ?d2 = "?d1\<lparr>rq_data := (rq_data ?d1)\<lparr>m_path := m_path r, m_query := m_query r, m_fragment := m_fragment r\<rparr>\<rparr>"
  let ?d3 = "?d2\<lparr>rq_data := (rq_data ?d2)\<lparr>m_version := m_version r\<rparr>\<rparr>"
  define p1 where "p1 = length (?m @ '' '')"
  define p2 where "p2 = p1 + length (target_text r)"
  define p3 where "p3 = p2 + length (?V @ CRLF)"
  have at1: "drop p1 ?B = target_text r @ ?V @ CRLF @ ?lines"
    unfolding p1_def using drop_text [of 0 ?B "?m @ '' ''"] B by simp
  then have at2: "drop p2 ?B = ?V @ CRLF @ ?lines" unfolding p2_def by (rule drop_text)
  then have at3: "drop p3 ?B = ?lines" unfolding p3_def by (intro drop_text) simp
  have 1: "scan ?B cond ?B 0 1 (hp, ?d) =
      scan ?B cond (target_text r @ ?V @ CRLF @ ?lines) p1 3 (hp\<lparr>hp_mark := 0\<rparr>, ?d1)"
    using scan_method [OF w(1), of 0 ?B ?m _ "m_method r" cond ?d] method_text_ok [of "m_method r"] ok B
    unfolding p1_def by simp
  obtain hp2 where 2: "no_places hp2 = no_places hp"
      "scan ?B cond (target_text r @ ?V @ CRLF @ ?lines) p1 3 (hp\<lparr>hp_mark := 0\<rparr>, ?d1) =
       scan ?B cond (?V @ CRLF @ ?lines) p2 4 (hp2, ?d2)"
    using scan_target [OF _ at1, of "hp\<lparr>hp_mark := 0\<rparr>" ?d1 cond] w(1) ok
    unfolding p2_def by (auto simp: new_HttpRequest_def)
  note hp2 = no_placesD [OF 2(1)]
  have 3: "scan ?B cond (?V @ CRLF @ ?lines) p2 4 (hp2, ?d2) = scan ?B cond ?lines p3 13 (hp2\<lparr>hp_mark := p2\<rparr>, ?d3)"
    using scan_version [OF _ at2, of hp2 cond ?d2] hp2 w ok unfolding p3_def by (simp add: CRLF_def)
  have hp3: "wired (hp2\<lparr>hp_mark := p2\<rparr>)" "\<not> hp_xml_sent (hp2\<lparr>hp_mark := p2\<rparr>)" "\<not> hp_json_sent (hp2\<lparr>hp_mark := p2\<rparr>)"
    using hp2 w by simp_all
  have "value_ok ?c" and "headers_ok (dumped (m_headers r))" using literal_names_ok ok by simp_all
  from scan_lines [OF hp3 this at3, of cond ?d3]
  obtain hp4 where 4: "scan ?B cond ?lines p3 13 (hp2\<lparr>hp_mark := p2\<rparr>, ?d3) =
      Inr (length ?B - length t, 348, hp4, ?d3\<lparr>rq_data := set_headers (sent_headers r) (rq_data ?d3)\<rparr>)"
    unfolding sent_headers_def by blast
  then show ?thesis using 1 2(2) 3 unfolding as_read_def by auto
qed

lemma excute_request:
  assumes "request_text_ok r"
  shows "\<exists>p. excute (request_head r @ t) (new_HttpRequestParser raw) = Inr (length (request_head r), t, p) \<and>
       isFinished p = 1 \<and> \<not> hasError p \<and> rq_error (rp_self p) = 0 \<and> getData p = as_read r"
proof -
  let ?B = "request_head r @ t" and ?p = "new_HttpRequestParser raw"
  note new = new_parser_ok(1) [of "length ?B" raw] new_parser_ok(2-5) [of raw]
  have "?B \<noteq> []" "map_of http11_table (hp_cs (rp_parser ?p)) \<noteq> None" "hp_cs (rp_parser ?p) \<noteq> 0"
    by (simp_all add: new http11_rows http11_states_1_def request_head_def del: One_nat_def)
  moreover have "wired (restart (rp_parser ?p))" using new(1) by (simp add: parser_ok_def wired_def)
  from scan_request [OF assms this, of "hp_uri_relaxed (rp_parser ?p)" t]
  obtain hp where "scan ?B (hp_uri_relaxed (rp_parser ?p)) ?B 0 (hp_cs (rp_parser ?p)) (restart (rp_parser ?p), rp_self ?p) =
      Inr (length (request_head r), 348, hp, \<lparr>rq_data = as_read r, rq_error = 0\<rparr>)"
    by (auto simp: new)
  ultimately have "excute ?B ?p = Inr (length (request_head r), drop (length (request_head r)) ?B,
      \<lparr>rp_parser = hp\<lparr>hp_cs := 348, hp_nread := length (request_head r)\<rparr>,
       rp_self = \<lparr>rq_data = as_read r, rq_error = 0\<rparr>\<rparr>)"
    by (rule excute_walk(1) [OF new(1)])
  then show ?thesis
    by (auto simp: isFinished_def http_parser_finish_def http_parser_has_error_def
        http_parser_is_finished_def hasError_def getData_def)
qed

text \<open>
  C3: printing and parsing.  Let a request have method, target, version and headers of the
  form of the grammar (percent-encoding and bytes above 127 included).  Given the text
  \<open>dump\<close> prints, up to the body, followed by anything, a fresh parser consumes exactly
  that text and is finished, without error, and the data are the method, target and
  version of the request with the headers the text carries.
\<close>

theorem request_roundtrip:
  assumes "request_text_ok r"
  shows "HttpRequest_dump r = request_head r @ m_body r \<and>
    (\<exists>p. excute (request_head r @ t) (new_HttpRequestParser raw) = Inr (length (request_head r), t, p) \<and>
       isFinished p = 1 \<and> \<not> hasError p \<and> rq_error (rp_self p) = 0 \<and> getData p = as_read r)"
proof (intro conjI)
  show "\<exists>p. excute (request_head r @ t) (new_HttpRequestParser raw) = Inr (length (request_head r), t, p) \<and>
       isFinished p = 1 \<and> \<not> hasError p \<and> rq_error (rp_self p) = 0 \<and> getData p = as_read r"
    by (rule excute_request [OF assms])
qed (rule dump_head)

definition demo_raw :: "request_data http_parser" where
  "demo_raw = \<lparr>hp_cs = 0, hp_body_start = 0, hp_content_len = 0, hp_nread = 0, hp_mark = 0, hp_field_start = 0,
     hp_field_len = 0, hp_query_start = 0, hp_xml_sent = False, hp_json_sent = False, hp_uri_relaxed = False,
     hp_http_field = None, hp_request_method = None, hp_request_uri = None, hp_fragment = None,
     hp_request_path = None, hp_query_string = None, hp_http_version = None, hp_header_done = None\<rparr>"

definition demo_request :: HttpRequest where
  "demo_request = (new_HttpRequest 0x11 True)\<lparr>m_method := POST, m_path := ''/a%20b'', m_query := ''x=1'',
     m_headers := [(''host'', ''me'')], m_body := ''hi''\<rparr>"

lemma demo_request_ok: "request_text_ok demo_request"
  by (simp add: request_text_ok_def demo_request_def new_HttpRequest_def path_ok_def headers_ok_def dumped_def
      name_ok_def value_ok_def in_class_def schar_def char_nat_def strcasecmp_def c_str_def to_lower_def)

lemma request_roundtrip_witness:
  "\<exists>n p. excute (HttpRequest_dump demo_request) (new_HttpRequestParser demo_raw) = Inr (n, ''hi'', p) \<and>
     m_method (getData p) = POST \<and> m_path (getData p) = ''/a%20b'' \<and> m_query (getData p) = ''x=1'' \<and>
     getData p = set_headers [(''connection'', ''close''), (''host'', ''me''), (''content-length'', ''2'')]
       ((new_HttpRequest 0x11 True)\<lparr>m_method := POST, m_path := ''/a%20b'', m_query := ''x=1''\<rparr>)"
proof -
  have "nat_dec 2 = ''2''" by (simp add: nat_dec.simps sktsimps)
  then have "nat_dec (Suc (Suc 0)) = ''2''" by (simp only: numeral_2_eq_2)
  then have r: "as_read demo_request = set_headers [(''connection'', ''close''), (''host'', ''me''), (''content-length'', ''2'')]
       ((new_HttpRequest 0x11 True)\<lparr>m_method := POST, m_path := ''/a%20b'', m_query := ''x=1''\<rparr>)"
    by (simp add: as_read_def sent_headers_def demo_request_def new_HttpRequest_def dumped_def strcasecmp_def
        c_str_def to_lower_def char_nat_def)
  have "m_body demo_request = ''hi''" by (simp add: demo_request_def)
  then show ?thesis using request_roundtrip [OF demo_request_ok, of "''hi''" demo_raw] by (auto simp: r new_HttpRequest_def)
qed



text \<open>The state in which a buffer leaves the parser that ends inside the query.\<close>

lemma excute_query_part:
  assumes "m \<noteq> INVALID_METHOD" and "m \<noteq> MSEARCH" and "path_ok path"
    and "encoded query_chars q" and "q \<noteq> []"
  defines "head \<equiv> HttpMethodToString m @ '' '' @ path @ ''?''"
  shows "\<exists>p. excute (head @ q) (new_HttpRequestParser raw) = Inr (length (head @ q), [], p) \<and>
    wired (rp_parser p) \<and> hp_cs (rp_parser p) = 30 \<and> hp_query_start (rp_parser p) = length head \<and>
    hp_body_start (rp_parser p) = 0"
proof -
  let ?B = "head @ q" and ?m = "HttpMethodToString m" and ?p = "new_HttpRequestParser raw"
  note new = new_parser_ok(1) [of "length ?B" raw] new_parser_ok(2-5) [of raw]
  let ?hp = "restart (rp_parser ?p)" and ?d = "rp_self ?p"
  have w: "wired ?hp" using new(1) by (simp add: parser_ok_def wired_def)
  have at: "drop (length ?m + 1) ?B = path @ CHR ''?'' # q"
    using drop_text [of 0 ?B "?m @ '' ''"] by (simp add: head_def)
  let ?d1 = "?d\<lparr>rq_data := (rq_data ?d)\<lparr>m_method := m\<rparr>\<rparr>"
  have "scan ?B (hp_uri_relaxed (rp_parser ?p)) ?B 0 1 (?hp, ?d) =
      scan ?B (hp_uri_relaxed (rp_parser ?p)) (path @ CHR ''?'' # q) (length ?m + 1) 3 (?hp\<lparr>hp_mark := 0\<rparr>, ?d1)"
    using scan_method [OF w, of 0 ?B ?m "path @ ''?'' @ q" m] method_text_ok [OF assms(1,2)] assms(1)
    by (simp add: head_def)
  also have "\<dots> = scan ?B (hp_uri_relaxed (rp_parser ?p)) q (length head) 29
      (?hp\<lparr>hp_mark := length ?m + 1\<rparr>, ?d1\<lparr>rq_data := (rq_data ?d1)\<lparr>m_path := path\<rparr>\<rparr>)"
    using scan_path [OF _ at assms(3), of "?hp\<lparr>hp_mark := 0\<rparr>" 29] w by (simp add: after_path_def head_def)
  also have "\<dots> = Inr (length ?B, 30, ?hp\<lparr>hp_mark := length ?m + 1, hp_query_start := length head\<rparr>,
      ?d1\<lparr>rq_data := (rq_data ?d1)\<lparr>m_path := path\<rparr>\<rparr>)"
    using scan_query_chars [OF assms(4,5), where r = "[]"] by simp
  finally have scan: "scan ?B (hp_uri_relaxed (rp_parser ?p)) ?B 0 (hp_cs (rp_parser ?p)) (?hp, ?d) =
      Inr (length ?B, 30, ?hp\<lparr>hp_mark := length ?m + 1, hp_query_start := length head\<rparr>,
      ?d1\<lparr>rq_data := (rq_data ?d1)\<lparr>m_path := path\<rparr>\<rparr>)" by (simp only: new(2))
  have "?B \<noteq> []" "map_of http11_table (hp_cs (rp_parser ?p)) \<noteq> None" "hp_cs (rp_parser ?p) \<noteq> 0"
    by (simp_all add: new http11_rows http11_states_1_def head_def del: One_nat_def)
  from excute_walk(1,2) [OF new(1) this scan]
  show ?thesis
    by (auto simp: new_HttpRequestParser_def http_parser_init_def wired_def)
qed

lemma sub64_wraps: "k < h \<Longrightarrow> h < 2 ^ 32 \<Longrightarrow> l < 2 ^ 32 \<Longrightarrow> l - h < sub64 k h \<and> 2 ^ 63 \<le> sub64 k h"
  by (simp add: sub64_def; simp add: le_diff_conv2 less_diff_conv)

lemma scan_query_throws:
  assumes "wired hp" and "std_string (drop (hp_query_start hp) B) (sub64 p (hp_query_start hp)) = Inl Length_error"
  shows "scan B cond ('' '' @ rest) p 30 (hp, d) = Inl Length_error"
  using assms by (simp add: edge_char call_def wired_def on_request_query_def http11_break_def)

text \<open>
  C37: a request cut inside its query.  When the first read ends inside the query and the
  rest of the query is shorter than what came before the query, the parser takes the
  offset of the query in the first buffer for an offset in the second one: the length of
  the query wraps around and \<open>std::string\<close> throws.
\<close>

theorem split_query:
  assumes "m \<noteq> INVALID_METHOD" and "m \<noteq> MSEARCH" and "path_ok path"
    and "encoded query_chars q1" and "q1 \<noteq> []" and "encoded query_chars q2"
    and "length q2 < length (HttpMethodToString m @ '' '' @ path @ ''?'')"
    and "length (HttpMethodToString m @ '' '' @ path @ ''?'') < 2 ^ 32" and "length (q2 @ '' '' @ rest) < 2 ^ 32"
  shows "\<exists>n p. excute (HttpMethodToString m @ '' '' @ path @ ''?'' @ q1) (new_HttpRequestParser raw) = Inr (n, [], p) \<and>
    isFinished p = 0 \<and> \<not> hasError p \<and> excute (q2 @ '' '' @ rest) p = Inl Length_error"
proof -
  let ?head = "HttpMethodToString m @ '' '' @ path @ ''?''" and ?B = "q2 @ '' '' @ rest"
  obtain p where p: "excute (?head @ q1) (new_HttpRequestParser raw) = Inr (length (?head @ q1), [], p)"
    "wired (rp_parser p)" "hp_cs (rp_parser p) = 30" "hp_query_start (rp_parser p) = length ?head"
    using excute_query_part [OF assms(1-5), of raw] by blast
  let ?hp = "restart (rp_parser p)" and ?c = "hp_uri_relaxed (rp_parser p)"
  have "\<not> sub64 (length q2) (length ?head) \<le> length (drop (length ?head) ?B)"
    "\<not> sub64 (length q2) (length ?head) < 2 ^ 63"
    unfolding length_drop not_le not_less
    by (rule conjunct1 [OF sub64_wraps [OF assms(7,8,9)]], rule conjunct2 [OF sub64_wraps [OF assms(7,8,9)]])
  then have throw: "std_string (drop (length ?head) ?B) (sub64 (length q2) (length ?head)) = Inl Length_error"
    unfolding std_string_def by (simp only: if_False)
  have "scan ?B ?c (q2 @ '' '' @ rest) 0 30 (?hp, rp_self p) = scan ?B ?c ('' '' @ rest) (0 + length q2) 30 (?hp, rp_self p)"
    by (rule machine_encoded [OF edge_class(7) edge_char(11) edge_class(8,9) assms(6)])
  also have "\<dots> = Inl Length_error"
    unfolding add_0 by (rule scan_query_throws) (use p(2,4) throw in \<open>simp_all add: wired_def\<close>)
  finally have "excute ?B p = Inl Length_error"
    by (simp add: excute_def http_parser_execute_def run_machine_def p(3) http11_rows http11_states_9_def Let_def)
  then show ?thesis
    using p(1,3) by (auto simp: isFinished_def http_parser_finish_def http_parser_has_error_def
        http_parser_is_finished_def hasError_def)
qed

lemma split_query_witness:
  "\<exists>n p. excute ''GET /?a'' (new_HttpRequestParser demo_raw) = Inr (n, [], p) \<and>
     excute (''b'' @ '' '' @ ''HTTP/1.1'') p = Inl Length_error"
proof -
  have "HttpMethodToString GET = ''GET''"
    by (simp add: HttpMethodToString_def method_num_def s_method_string_def HTTP_METHOD_MAP_def)
  then show ?thesis
    using split_query [of GET "''/''" "''a''" "''b''" "''HTTP/1.1''" demo_raw]
    by (auto simp: path_ok_def in_class_def schar_def char_nat_def)
qed

end
