(* ===== verification/Servlet.thy ===== *)
theory Servlet
  imports Http
begin

text \<open>
  Servlets and their dispatcher (src/skt/http/servlet).  A servlet is a function
  object or the 404 page; a null \<open>Servlet::ptr\<close> is \<open>None\<close>.  \<open>m_datas\<close>, a hash map
  that is only searched by key, is a partial map; \<open>m_globs\<close> keeps the order of
  its vector.  The C library's \<open>fnmatch\<close> is the argument \<open>match\<close>, true where
  \<open>fnmatch\<close> returns 0.  \<open>'s\<close> is the state of a session that callbacks may change.
\<close>

type_synonym 's handler = "HttpRequest \<Rightarrow> HttpResponse \<Rightarrow> 's \<Rightarrow> int \<times> HttpResponse \<times> 's"

datatype 's servlet =
    FunctionServlet "'s handler"
  | NotFoundServlet string string

definition new_NotFoundServlet :: "string \<Rightarrow> 's servlet" where
  "new_NotFoundServlet name =
     NotFoundServlet name
       (''<html><head><title>404 Not Found'' @
        ''</title></head><body><center><h1>404 Not Found</h1></center>'' @
        ''<hr><center>'' @ name @ ''</center></body></html>'')"

fun servlet_handle :: "'s servlet \<Rightarrow> 's handler" where
  "servlet_handle (FunctionServlet cb) request response session = cb request response session"
| "servlet_handle (NotFoundServlet name content) request response session =
     (let response = response\<lparr>r_status := 404\<rparr>;
          response = HttpResponse_setHeader ''Server'' ''skt/1.0.0'' response;
          response = HttpResponse_setHeader ''Content-Type'' ''text/html'' response
      in (0, response\<lparr>r_body := content\<rparr>, session))"

record 's dispatch =
  m_datas :: "string \<rightharpoonup> 's servlet option"
  m_globs :: "(string \<times> 's servlet option) list"
  m_default :: "'s servlet option"

definition ServletDispatch :: "'s dispatch" where
  "ServletDispatch =
     \<lparr>m_datas = Map.empty, m_globs = [], m_default = Some (new_NotFoundServlet ''skt/1.0.0'')\<rparr>"

definition addServlet :: "string \<Rightarrow> 's servlet option \<Rightarrow> 's dispatch \<Rightarrow> 's dispatch" where
  "addServlet uri slt d = d\<lparr>m_datas := (m_datas d)(uri \<mapsto> slt)\<rparr>"

definition addServlet_cb :: "string \<Rightarrow> 's handler \<Rightarrow> 's dispatch \<Rightarrow> 's dispatch" where
  "addServlet_cb uri cb d = d\<lparr>m_datas := (m_datas d)(uri \<mapsto> Some (FunctionServlet cb))\<rparr>"

text \<open>The loop that erases the first entry of a key.\<close>

fun erase_first :: "string \<Rightarrow> (string \<times> 'a) list \<Rightarrow> (string \<times> 'a) list" where
  "erase_first uri [] = []"
| "erase_first uri ((k, v) # m) = (if k = uri then m else (k, v) # erase_first uri m)"

definition addGlobServlet :: "string \<Rightarrow> 's servlet option \<Rightarrow> 's dispatch \<Rightarrow> 's dispatch" where
  "addGlobServlet uri slt d = d\<lparr>m_globs := erase_first uri (m_globs d) @ [(uri, slt)]\<rparr>"

definition addGlobServlet_cb :: "string \<Rightarrow> 's handler \<Rightarrow> 's dispatch \<Rightarrow> 's dispatch" where
  "addGlobServlet_cb uri cb d = addGlobServlet uri (Some (FunctionServlet cb)) d"

definition delServlet :: "string \<Rightarrow> 's dispatch \<Rightarrow> 's dispatch" where
  "delServlet uri d = d\<lparr>m_datas := (m_datas d)(uri := None)\<rparr>"

definition delGlobServlet :: "string \<Rightarrow> 's dispatch \<Rightarrow> 's dispatch" where
  "delGlobServlet uri d = d\<lparr>m_globs := erase_first uri (m_globs d)\<rparr>"

definition getServlet :: "string \<Rightarrow> 's dispatch \<Rightarrow> 's servlet option" where
  "getServlet uri d = (case m_datas d uri of None \<Rightarrow> None | Some slt \<Rightarrow> slt)"

definition getGlobServlet :: "string \<Rightarrow> 's dispatch \<Rightarrow> 's servlet option" where
  "getGlobServlet uri d =
     (case find (\<lambda>(k, _). k = uri) (m_globs d) of None \<Rightarrow> None | Some (_, slt) \<Rightarrow> slt)"

definition setDefault :: "'s servlet option \<Rightarrow> 's dispatch \<Rightarrow> 's dispatch" where
  "setDefault v d = d\<lparr>m_default := v\<rparr>"

definition getMatchedServlet :: "(string \<Rightarrow> string \<Rightarrow> bool) \<Rightarrow> string \<Rightarrow> 's dispatch \<Rightarrow> 's servlet option" where
  "getMatchedServlet match uri d =
     (case m_datas d uri of
        Some slt \<Rightarrow> slt
      | None \<Rightarrow>
          (case find (\<lambda>(pat, _). match (c_str pat) (c_str uri)) (m_globs d) of
             Some (_, slt) \<Rightarrow> slt
           | None \<Rightarrow> m_default d))"

definition dispatch_handle ::
  "(string \<Rightarrow> string \<Rightarrow> bool) \<Rightarrow> 's dispatch \<Rightarrow> 's handler" where
  "dispatch_handle match d request response session =
     (case getMatchedServlet match (m_path request) d of
        Some slt \<Rightarrow> (case servlet_handle slt request response session of (_, rest) \<Rightarrow> (0, rest))
      | None \<Rightarrow> (0, response, session))"

subsection \<open>Invariant\<close>

text \<open>No glob pattern is registered twice.\<close>

definition dispatch_inv :: "'s dispatch \<Rightarrow> bool" where
  "dispatch_inv d \<longleftrightarrow> distinct (map fst (m_globs d))"

lemma keys_erase_first: "set (map fst (erase_first k m)) \<subseteq> set (map fst m)"
  by (induction k m rule: erase_first.induct) auto

lemma erase_first_distinct:
  "distinct (map fst m) \<Longrightarrow> erase_first k m = filter (\<lambda>(j, _). j \<noteq> k) m"
proof (induction k m rule: erase_first.induct)
  case (2 uri k v m)
  have "filter (\<lambda>(j, _). j \<noteq> k) m = m" if "k \<notin> set (map fst m)"
    using that by (intro filter_True) (force simp: image_iff)
  then show ?case using 2 by auto
qed simp

lemma distinct_filter_keys: "distinct (map fst m) \<Longrightarrow> distinct (map fst (filter P m))"
  by (induction m) (auto simp: image_iff)

inductive dispatch_step :: "'s dispatch \<Rightarrow> 's dispatch \<Rightarrow> bool" where
  "dispatch_step d (addServlet uri slt d)"
| "dispatch_step d (addServlet_cb uri cb d)"
| "dispatch_step d (addGlobServlet uri slt d)"
| "dispatch_step d (addGlobServlet_cb uri cb d)"
| "dispatch_step d (delServlet uri d)"
| "dispatch_step d (delGlobServlet uri d)"
| "dispatch_step d (setDefault v d)"

lemma addGlob_inv: "dispatch_inv d \<Longrightarrow> dispatch_inv (addGlobServlet uri slt d)"
  by (auto simp: dispatch_inv_def addGlobServlet_def erase_first_distinct distinct_filter_keys)

lemma delGlob_inv: "dispatch_inv d \<Longrightarrow> dispatch_inv (delGlobServlet uri d)"
  by (auto simp: dispatch_inv_def delGlobServlet_def erase_first_distinct distinct_filter_keys)

lemma dispatch_step_inv: "dispatch_step d d' \<Longrightarrow> dispatch_inv d \<Longrightarrow> dispatch_inv d'"
  by (induction rule: dispatch_step.induct)
     (auto simp: addGlob_inv delGlob_inv addGlobServlet_cb_def,
      auto simp: dispatch_inv_def addServlet_def addServlet_cb_def delServlet_def setDefault_def)

lemma find_filter: "find P (filter Q xs) = find (\<lambda>x. Q x \<and> P x) xs"
  by (induction xs) auto

lemma find_append: "find P (xs @ ys) = (case find P xs of Some x \<Rightarrow> Some x | None \<Rightarrow> find P ys)"
  by (induction xs) auto

lemma ServletDispatch_inv: "dispatch_inv ServletDispatch"
  by (simp add: dispatch_inv_def ServletDispatch_def)

subsection \<open>Properties\<close>

text \<open>
  C27: routing.  In every dispatcher reachable by registrations and removals, no
  pattern is registered twice; an exact registration decides its own path and no
  other; and registering a pattern, new or again, puts it behind all others: it
  decides a path only when the path has no exact entry and no other pattern
  matches it.
\<close>

theorem routing:
  assumes "dispatch_step\<^sup>*\<^sup>* ServletDispatch d"
  shows "distinct (map fst (m_globs d)) \<and>
         getMatchedServlet match u (addServlet uri slt d) =
           (if u = uri then slt else getMatchedServlet match u d) \<and>
         (u \<noteq> uri \<longrightarrow> getMatchedServlet match u (delServlet uri d) = getMatchedServlet match u d) \<and>
         getMatchedServlet match u (addGlobServlet pat slt d) =
           (case m_datas d u of Some s \<Rightarrow> s
            | None \<Rightarrow>
                (case find (\<lambda>(p, _). p \<noteq> pat \<and> match (c_str p) (c_str u)) (m_globs d) of
                   Some (_, s) \<Rightarrow> s
                 | None \<Rightarrow> if match (c_str pat) (c_str u) then slt else m_default d))"
proof -
  have "dispatch_inv d"
    using assms by (induction rule: rtranclp_induct) (auto simp: ServletDispatch_inv dispatch_step_inv)
  then have d: "distinct (map fst (m_globs d))" by (simp add: dispatch_inv_def)
  have pred: "(\<lambda>x. (case x of (j, _) \<Rightarrow> j \<noteq> pat) \<and> (case x of (p, _) \<Rightarrow> match (c_str p) (c_str u))) =
      (\<lambda>(p, _). p \<noteq> pat \<and> match (c_str p) (c_str u))" by auto
  have "find (\<lambda>(p, _). match (c_str p) (c_str u)) (erase_first pat (m_globs d) @ [(pat, slt)]) =
      (case find (\<lambda>(p, _). p \<noteq> pat \<and> match (c_str p) (c_str u)) (m_globs d) of Some x \<Rightarrow> Some x
       | None \<Rightarrow> if match (c_str pat) (c_str u) then Some (pat, slt) else None)"
    unfolding erase_first_distinct [OF d] find_append find_filter pred by (simp split: option.split)
  then show ?thesis
    using d
    by (auto simp: getMatchedServlet_def addServlet_def delServlet_def addGlobServlet_def split: option.split)
qed

lemma routing_witness:
  "getMatchedServlet (\<lambda>p u. p = ''/*'') ''/a''
     (addGlobServlet ''/*'' None (addServlet ''/b'' None (ServletDispatch :: nat dispatch))) = None"
proof -
  have "dispatch_step\<^sup>*\<^sup>* ServletDispatch (addServlet ''/b'' None ServletDispatch :: nat dispatch)"
    by (rule r_into_rtranclp) (rule dispatch_step.intros(1))
  from routing [OF this, of "\<lambda>p u. p = ''/*''" "''/a''" "[]" None "''/*''"] show ?thesis
    by (simp add: ServletDispatch_def addServlet_def c_str_def)
qed

text \<open>
  A request nothing was registered for gets the 404 page: status 404, the
  server and content-type headers and a body naming the server; other headers of
  the response stay.
\<close>

theorem not_found:
  assumes "map_ok CaseInsensitiveLess (r_headers resp)"
  shows "\<exists>resp'. dispatch_handle match ServletDispatch req resp ses = (0, resp', ses) \<and>
           r_status resp' = 404 \<and> r_body resp' \<noteq> [] \<and>
           HttpResponse_getHeader ''server'' [] resp' = ''skt/1.0.0'' \<and>
           HttpResponse_getHeader ''content-type'' [] resp' = ''text/html'' \<and>
           HttpResponse_getHeader ''Connection'' def resp' = HttpResponse_getHeader ''Connection'' def resp"
proof -
  have f: "fold_case ''server'' = fold_case ''Server''" "fold_case ''content-type'' = fold_case ''Content-Type''"
    "fold_case ''Connection'' \<noteq> fold_case ''Server''" "fold_case ''Connection'' \<noteq> fold_case ''Content-Type''"
    "fold_case ''Server'' \<noteq> fold_case ''Content-Type''"
    by (simp_all add: fold_case_def c_str_def to_lower_def char_nat_def)
  show ?thesis
    using assms f
    by (simp add: dispatch_handle_def getMatchedServlet_def ServletDispatch_def new_NotFoundServlet_def
        HttpResponse_setHeader_def HttpResponse_getHeader_def get_or_def Let_def
        ci_order.find_assign ci_order.map_ok_assign ci_equivalent)
qed

lemma not_found_witness:
  "\<exists>resp'. dispatch_handle (\<lambda>_ _. False) ServletDispatch (new_HttpRequest 0x11 True)
     (new_HttpResponse 0x11 True) () = (0, resp', ()) \<and> r_status resp' = 404"
  using not_found [of "new_HttpResponse 0x11 True" "\<lambda>_ _. False" "new_HttpRequest 0x11 True" "()" "[]"]
  by (auto simp: new_HttpResponse_def map_ok_def)

end
