(* ===== verification/Byte_Buffers.thy ===== *)
theory Byte_Buffers
  imports Byte_Array
begin

text \<open>
  The scatter/gather and file operations of src/skt/bytearray: \<open>getReadBuffers\<close>
  and \<open>getWriteBuffers\<close>, which describe a range of the array by pieces of its
  blocks for \<open>readv\<close>/\<open>writev\<close>, and \<open>writeToFile\<close>, \<open>readFromFile\<close>,
  \<open>toHexString\<close>.
\<close>

subsection \<open>Pieces of blocks\<close>

text \<open>
  The loop of both \<open>getReadBuffers\<close>: it compares the room in the block with
  \<open>sz\<close>, the length asked for, not with \<open>len\<close>, what is left of it; \<open>len -= ncap\<close>
  is unsigned.
\<close>

function read_pieces ::
  "byte list list \<Rightarrow> nat \<Rightarrow> nat option \<Rightarrow> nat \<Rightarrow> nat \<Rightarrow> nat \<Rightarrow> ba_error + iovec list" where
  "read_pieces nodes sz cur npos ncap len =
     (if len = 0 then Inr []
      else case cur of None \<Rightarrow> Inl NullDeref
      | Some i \<Rightarrow>
          if ncap \<ge> sz then Inr [(i, npos, len)]
          else (case next_node nodes i of None \<Rightarrow> Inl NullDeref
                | Some j \<Rightarrow>
                    (case read_pieces nodes sz (Some j) 0 (length (nodes ! j)) (sub64 len ncap) of
                       Inl e \<Rightarrow> Inl e
                     | Inr iovs \<Rightarrow> Inr ((i, npos, ncap) # iovs))))"
  by pat_completeness auto
termination
  by (relation "measure (\<lambda>(nodes, _, cur, _). case cur of None \<Rightarrow> 0 | Some i \<Rightarrow> length nodes - i)")
     (auto simp: next_node_def split: if_splits)

definition getReadBuffers :: "nat \<Rightarrow> bytearray \<Rightarrow> ba_error + (iovec list \<times> nat)" where
  "getReadBuffers len ba =
     (let len = (if len > getReadSize ba then getReadSize ba else len)
      in if len = 0 then Inr ([], 0)
         else if m_baseSize ba = 0 then Inl BadArith
         else let npos = m_position ba mod m_baseSize ba
              in case m_cur ba of None \<Rightarrow> Inl NullDeref
                 | Some i \<Rightarrow>
                     (case read_pieces (m_nodes ba) len (m_cur ba) npos
                             (sub64 (length (m_nodes ba ! i)) npos) len of
                        Inl e \<Rightarrow> Inl e | Inr iovs \<Rightarrow> Inr (iovs, len)))"

text \<open>\<open>cur = cur->next\<close>, \<open>count\<close> times, from the root.\<close>

definition walk :: "byte list list \<Rightarrow> nat \<Rightarrow> ba_error + nat option" where
  "walk nodes count =
     (if count < length nodes then Inr (Some count)
      else if count = length nodes then Inr None
      else Inl NullDeref)"

definition getReadBuffers_at :: "nat \<Rightarrow> nat \<Rightarrow> bytearray \<Rightarrow> ba_error + (iovec list \<times> nat)" where
  "getReadBuffers_at len position ba =
     (let len = (if len > getReadSize ba then getReadSize ba else len)
      in if len = 0 then Inr ([], 0)
         else if m_baseSize ba = 0 then Inl BadArith
         else let npos = position mod m_baseSize ba
              in case walk (m_nodes ba) (position div m_baseSize ba) of Inl e \<Rightarrow> Inl e
                 | Inr cur \<Rightarrow>
                     (case m_cur ba of None \<Rightarrow> Inl NullDeref
                      | Some i \<Rightarrow>
                          (case read_pieces (m_nodes ba) len cur npos
                                  (sub64 (length (m_nodes ba ! i)) npos) len of
                             Inl e \<Rightarrow> Inl e | Inr iovs \<Rightarrow> Inr (iovs, len))))"

function write_pieces ::
  "byte list list \<Rightarrow> nat option \<Rightarrow> nat \<Rightarrow> nat \<Rightarrow> nat \<Rightarrow> ba_error + iovec list" where
  "write_pieces nodes cur npos ncap len =
     (if len = 0 then Inr []
      else case cur of None \<Rightarrow> Inl NullDeref
      | Some i \<Rightarrow>
          if ncap \<ge> len then Inr [(i, npos, len)]
          else (case next_node nodes i of None \<Rightarrow> Inl NullDeref
                | Some j \<Rightarrow>
                    (case write_pieces nodes (Some j) 0 (length (nodes ! j)) (len - ncap) of
                       Inl e \<Rightarrow> Inl e
                     | Inr iovs \<Rightarrow> Inr ((i, npos, ncap) # iovs))))"
  by pat_completeness auto
termination
  by (relation "measure (\<lambda>(nodes, cur, _). case cur of None \<Rightarrow> 0 | Some i \<Rightarrow> length nodes - i)")
     (auto simp: next_node_def split: if_splits)

definition getWriteBuffers ::
  "junk \<Rightarrow> nat \<Rightarrow> bytearray \<Rightarrow> ba_error + (iovec list \<times> nat \<times> bytearray)" where
  "getWriteBuffers junk len ba =
     (if len = 0 then Inr ([], 0, ba)
      else if m_baseSize ba = 0 then Inl BadArith
      else let ba = addCapacity junk len ba;
               npos = m_position ba mod m_baseSize ba
           in case m_cur ba of None \<Rightarrow> Inl NullDeref
              | Some i \<Rightarrow>
                  (case write_pieces (m_nodes ba) (m_cur ba) npos
                          (sub64 (length (m_nodes ba ! i)) npos) len of
                     Inl e \<Rightarrow> Inl e | Inr iovs \<Rightarrow> Inr (iovs, len, ba)))"

subsection \<open>Files and text\<close>

text \<open>
  The loop of \<open>writeToFile\<close> on signed numbers, as the bytes given to
  \<open>ofs.write\<close>; a negative length breaks its precondition and is the error
  \<open>BadArith\<close>.
\<close>

function file_loop ::
  "nat \<Rightarrow> byte list list \<Rightarrow> nat option \<Rightarrow> int \<Rightarrow> int \<Rightarrow> ba_error + byte list" where
  "file_loop base nodes cur pos read_size =
     (if read_size \<le> 0 then Inr []
      else if base = 0 then Inl BadArith
      else case cur of None \<Rightarrow> Inl NullDeref
      | Some i \<Rightarrow>
          let diff = pos mod int base;
              len = (if read_size > int base then int base else read_size) - diff
          in if len < 0 then Inl BadArith
             else (case file_loop base nodes (next_node nodes i) (pos + len) (read_size - len) of
                     Inl e \<Rightarrow> Inl e
                   | Inr bs \<Rightarrow> Inr (take (nat len) (drop (nat diff) (nodes ! i)) @ bs)))"
  by pat_completeness auto
termination
  by (relation "measure (\<lambda>(_, nodes, cur, _). case cur of None \<Rightarrow> 0 | Some i \<Rightarrow> Suc (length nodes - i))")
     (auto simp: next_node_def split: if_splits option.splits)

text \<open>\<open>opened\<close> tells whether the stream could be opened; the result is what the file holds.\<close>

definition writeToFile :: "bool \<Rightarrow> bytearray \<Rightarrow> ba_error + byte list option" where
  "writeToFile opened ba =
     (if \<not> opened then Inr None
      else case file_loop (m_baseSize ba) (m_nodes ba) (m_cur ba) (int (m_position ba))
                  (int (getReadSize ba)) of
             Inl e \<Rightarrow> Inl e | Inr bs \<Rightarrow> Inr (Some bs))"

text \<open>
  The loop of \<open>readFromFile\<close> with \<open>rest\<close> not yet read; \<open>eof\<close> is set by a read
  that gets less than it asks for.  With a block size of 0 it never is.
\<close>

partial_function (option) file_read_loop ::
  "junk \<Rightarrow> nat \<Rightarrow> byte list \<Rightarrow> bytearray \<Rightarrow> (ba_error + bytearray) option" where
  "file_read_loop junk base rest ba =
     (case write_ba junk (take base rest) ba of Inl e \<Rightarrow> Some (Inl e)
      | Inr ba' \<Rightarrow>
          if length rest < base then Some (Inr ba')
          else file_read_loop junk base (drop base rest) ba')"

definition readFromFile ::
  "junk \<Rightarrow> byte list option \<Rightarrow> bytearray \<Rightarrow> (ba_error + bool \<times> bytearray) option" where
  "readFromFile junk contents ba =
     (case contents of None \<Rightarrow> Some (Inr (False, ba))
      | Some bs \<Rightarrow>
          map_option (map_sum id (Pair True)) (file_read_loop junk (m_baseSize ba) bs ba))"

definition hex_digit :: "nat \<Rightarrow> char" where
  "hex_digit n = ''0123456789abcdef'' ! n"

fun hex_bytes :: "nat \<Rightarrow> byte list \<Rightarrow> string" where
  "hex_bytes i [] = []"
| "hex_bytes i (b # bs) =
     (if i > 0 \<and> i mod 32 = 0 then [CHR 0x0A] else []) @
     [hex_digit (unat b div 16), hex_digit (unat b mod 16), CHR '' ''] @ hex_bytes (Suc i) bs"

definition toHexString :: "bytearray \<Rightarrow> ba_error + string" where
  "toHexString ba = map_sum id (hex_bytes 0) (toString ba)"

subsection \<open>What the pieces describe\<close>

definition iov_bytes :: "byte list list \<Rightarrow> iovec \<Rightarrow> byte list" where
  "iov_bytes nodes iov = (case iov of (i, off, len) \<Rightarrow> take len (drop off (nodes ! i)))"

definition iov_ok :: "nat \<Rightarrow> byte list list \<Rightarrow> iovec \<Rightarrow> bool" where
  "iov_ok base nodes iov = (case iov of (i, off, len) \<Rightarrow> i < length nodes \<and> off + len \<le> base)"

declare read_pieces.simps [simp del] write_pieces.simps [simp del] file_loop.simps [simp del]

lemma write_pieces_spec:
  assumes "blocks base nodes" and "0 < base" and "i < length nodes" and "npos < base"
    and "0 < len" and "i * base + npos + len \<le> base * length nodes"
  shows "\<exists>iovs. write_pieces nodes (Some i) npos (base - npos) len = Inr iovs \<and>
           concat (map (iov_bytes nodes) iovs) = take len (drop (i * base + npos) (concat nodes)) \<and>
           list_all (iov_ok base nodes) iovs"
  using assms
proof (induction "length nodes - i" arbitrary: i npos len rule: less_induct)
  case less
  note b = less.prems(1) and base = less.prems(2) and i = less.prems(3) and np = less.prems(4)
    and len = less.prems(5) and room = less.prems(6)
  show ?case
  proof (cases "len \<le> base - npos")
    case True
    then have "npos + len \<le> base" using np by simp
    then show ?thesis
      using True len i take_drop_block [OF b i, of npos len]
      by (subst write_pieces.simps) (simp add: iov_bytes_def iov_ok_def)
  next
    case False
    define ncap where "ncap = base - npos"
    have lt: "ncap < len" and nc: "npos + ncap = base" using False np by (simp_all add: ncap_def)
    have nx: "next_node nodes i = Some (Suc i)" and i1: "Suc i < length nodes"
      using next_node_room [OF i, of base] room lt np by (simp_all add: ncap_def)
    have start: "Suc i * base + 0 = i * base + npos + ncap" using nc by simp
    have room1: "Suc i * base + 0 + (len - ncap) \<le> base * length nodes"
      using room start lt by simp
    have "length nodes - Suc i < length nodes - i" using i1 by simp
    from less.hyps [OF this b base i1 base _ room1] lt
    obtain iovs where rec: "write_pieces nodes (Some (Suc i)) 0 base (len - ncap) = Inr iovs"
      and fl: "concat (map (iov_bytes nodes) iovs) =
         take (len - ncap) (drop (i * base + npos + ncap) (concat nodes))"
      and ok: "list_all (iov_ok base nodes) iovs"
      unfolding start by auto
    have "write_pieces nodes (Some i) npos (base - npos) len = Inr ((i, npos, ncap) # iovs)"
      using lt len nx b i1 rec by (subst write_pieces.simps) (simp add: ncap_def)
    moreover have "take len (drop (i * base + npos) (concat nodes)) =
        iov_bytes nodes (i, npos, ncap) @ concat (map (iov_bytes nodes) iovs)"
      using take_drop_block [OF b i, of npos ncap] nc lt fl
        take_add [of ncap "len - ncap" "drop (i * base + npos) (concat nodes)"]
      by (simp add: iov_bytes_def ac_simps)
    ultimately show ?thesis using ok i nc by (simp add: iov_ok_def)
  qed
qed

text \<open>Where the length fits one block, the comparison with \<open>sz\<close> does no harm.\<close>

lemma read_pieces_small:
  assumes "blocks base nodes" and "0 < base" and "i < length nodes" and "npos < base"
    and "0 < len" and "len \<le> base" and "i * base + npos + len \<le> base * length nodes"
  shows "read_pieces nodes len (Some i) npos (base - npos) len =
         write_pieces nodes (Some i) npos (base - npos) len"
proof (cases "len \<le> base - npos")
  case True
  then show ?thesis
    using assms(5) by (subst read_pieces.simps, subst write_pieces.simps) simp
next
  case False
  have i1: "Suc i < length nodes" and nx: "next_node nodes i = Some (Suc i)"
    using next_node_room [OF assms(3), of base] assms(4,7) False by simp_all
  have "read_pieces nodes len (Some (Suc i)) 0 base (len - (base - npos)) =
        write_pieces nodes (Some (Suc i)) 0 base (len - (base - npos))"
    using assms(5) le_trans [OF diff_le_self assms(6), of "base - npos"] assms(6) False
    by (subst read_pieces.simps, subst write_pieces.simps) simp
  then show ?thesis
    using False nx i1 assms(1,5) by (subst read_pieces.simps, subst write_pieces.simps) simp
qed

lemma getWriteBuffers_spec:
  assumes inv: "ba_inv ba" and len: "0 < len"
  shows "\<exists>iovs ba'. getWriteBuffers junk len ba = Inr (iovs, len, ba') \<and> ba_inv ba' \<and>
           ba' = addCapacity junk len ba \<and>
           list_all (iov_ok (m_baseSize ba') (m_nodes ba')) iovs \<and>
           concat (map (iov_bytes (m_nodes ba')) iovs) = take len (drop (m_position ba') (flat ba'))"
proof -
  define ca where "ca = addCapacity junk len ba"
  have ca: "ba_inv ca" and room: "m_position ca + len \<le> m_capacity ca"
    unfolding ca_def using addCapacity_inv addCapacity_room [of ba len junk] inv by simp_all
  have base: "0 < m_baseSize ca" and b: "blocks (m_baseSize ca) (m_nodes ca)"
    and cap: "m_capacity ca = m_baseSize ca * length (m_nodes ca)"
    using ca by (simp_all add: ba_inv_def)
  let ?i = "m_position ca div m_baseSize ca" and ?n = "m_position ca mod m_baseSize ca"
  have cur: "m_cur ca = Some ?i" and i: "?i < length (m_nodes ca)"
    using cur_for_mod_div [OF ca] room len by simp_all
  have "?i * m_baseSize ca + ?n = m_position ca" by simp
  then obtain iovs where
    "write_pieces (m_nodes ca) (Some ?i) ?n (m_baseSize ca - ?n) len = Inr iovs"
    and "concat (map (iov_bytes (m_nodes ca)) iovs) = take len (drop (m_position ca) (concat (m_nodes ca)))"
    and "list_all (iov_ok (m_baseSize ca) (m_nodes ca)) iovs"
    using write_pieces_spec [OF b base i _ len, of ?n] base room cap by auto
  moreover have "0 < m_baseSize ba" using inv by (simp add: ba_inv_def)
  ultimately show ?thesis
    using len cur ca b i base
    by (simp add: getWriteBuffers_def Let_def flat_def less_imp_le flip: ca_def)
qed

lemma getReadBuffers_spec:
  assumes inv: "ba_inv ba" and len: "0 < len" "len \<le> length (readable ba)" "len \<le> m_baseSize ba"
  shows "\<exists>iovs. getReadBuffers len ba = Inr (iovs, len) \<and>
           list_all (iov_ok (m_baseSize ba) (m_nodes ba)) iovs \<and>
           concat (map (iov_bytes (m_nodes ba)) iovs) = take len (readable ba)"
proof -
  let ?base = "m_baseSize ba"
  have base: "0 < ?base" and b: "blocks ?base (m_nodes ba)"
    and cap: "m_capacity ba = ?base * length (m_nodes ba)" and sz: "m_size ba \<le> m_capacity ba"
    using inv by (simp_all add: ba_inv_def)
  have ls: "len \<le> m_size ba - m_position ba" using len(2) length_readable [OF inv] by simp
  let ?i = "m_position ba div ?base" and ?n = "m_position ba mod ?base"
  have cur: "m_cur ba = Some ?i" and i: "?i < length (m_nodes ba)"
    using cur_for_mod_div [OF inv] sz ls len(1) by simp_all
  have room: "?i * ?base + ?n + len \<le> ?base * length (m_nodes ba)"
    unfolding cap [symmetric] using ls len(1) sz by (simp only: div_mult_mod_eq)
  have n: "?n < ?base" using base by simp
  obtain iovs where
    "read_pieces (m_nodes ba) len (Some ?i) ?n (?base - ?n) len = Inr iovs"
    and "concat (map (iov_bytes (m_nodes ba)) iovs) = take len (drop (m_position ba) (concat (m_nodes ba)))"
    and "list_all (iov_ok ?base (m_nodes ba)) iovs"
    using write_pieces_spec [OF b base i n len(1) room]
      read_pieces_small [OF b base i n len(1) len(3) room] by auto
  then show ?thesis
    using len cur b i base ls getReadSize_inv [OF inv]
    by (simp add: getReadBuffers_def Let_def flat_def readable_def less_imp_le min_absorb1)
qed

text \<open>Where it does not fit one block, the walk runs off the end of the list.\<close>

lemma sub64_int:
  assumes "b \<le> 2 ^ 64"
  shows "int (sub64 a b) mod 2 ^ 64 = (int a - int b) mod 2 ^ 64"
proof (cases "b \<le> a")
  case False
  have "b \<le> a + 2 ^ 64" using assms by simp
  then have "int (a + 2 ^ 64 - b) = (int a - int b) + 2 ^ 64" by (simp add: of_nat_diff)
  then have "int (a + 2 ^ 64 - b) mod 2 ^ 64 = (int a - int b) mod 2 ^ 64"
    by (metis mod_add_self2)
  then show ?thesis using False by (simp add: sub64_def zmod_int)
qed (simp add: of_nat_diff)

lemma read_pieces_runs_off:
  assumes "blocks base nodes" and "i < length nodes" and "ncap < sz" and "base < sz" and "ncap \<le> base" and "base \<le> 2 ^ 64"
    and "int len mod 2 ^ 64 \<noteq> 0"
    and "\<And>k. i + k < length nodes \<Longrightarrow> (int len - int ncap - int (k * base)) mod 2 ^ 64 \<noteq> 0"
  shows "read_pieces nodes sz (Some i) npos ncap len = Inl NullDeref"
  using assms
proof (induction "length nodes - i" arbitrary: i npos ncap len rule: less_induct)
  case less
  have pos: "len \<noteq> 0" using less.prems(7) by (intro notI) simp
  have sub: "int (sub64 len ncap) mod 2 ^ 64 = (int len - int ncap) mod 2 ^ 64"
    using less.prems(5,6) by (intro sub64_int) simp
  show ?case
  proof (cases "next_node nodes i")
    case None
    then show ?thesis using pos less.prems(3) by (subst read_pieces.simps) simp
  next
    case (Some j)
    then have j: "j = Suc i" and i1: "Suc i < length nodes"
      by (auto simp: next_node_def split: if_splits)
    have shift: "(int (sub64 len ncap) - int base - int (k * base)) mod 2 ^ 64 =
        (int len - int ncap - int (Suc k * base)) mod 2 ^ 64" for k
      using mod_diff_cong [OF sub refl, of "int base + int (k * base)"]
      by (simp add: algebra_simps)
    have "read_pieces nodes sz (Some (Suc i)) 0 base (sub64 len ncap) = Inl NullDeref"
    proof (rule less.hyps)
      show "length nodes - Suc i < length nodes - i" using less.prems(2) by simp
      show "int (sub64 len ncap) mod 2 ^ 64 \<noteq> 0"
        using less.prems(8) [of 0] less.prems(2) unfolding sub by simp
      show "(int (sub64 len ncap) - int base - int (k * base)) mod 2 ^ 64 \<noteq> 0"
        if "Suc i + k < length nodes" for k
        unfolding shift using less.prems(8) [of "Suc k"] that by simp
    qed (use less.prems i1 in simp_all)
    then show ?thesis
      using pos Some j i1 less.prems(1,3) by (subst read_pieces.simps) simp
  qed
qed

lemma getReadBuffers_runs_off:
  assumes inv: "ba_inv ba" and len: "m_baseSize ba < len" "len \<le> length (readable ba)"
    and cap: "m_capacity ba < 2 ^ 64"
    and edge: "(m_position ba + len) mod m_baseSize ba \<noteq> 0"
  shows "getReadBuffers len ba = Inl NullDeref"
proof -
  let ?base = "m_baseSize ba" and ?N = "length (m_nodes ba)" and ?p = "m_position ba"
  let ?i = "?p div ?base" and ?n = "?p mod ?base"
  have base: "0 < ?base" and b: "blocks ?base (m_nodes ba)" and capN: "m_capacity ba = ?base * ?N"
    and sz: "m_size ba \<le> m_capacity ba" and ne: "0 < ?N"
    using inv by (simp_all add: ba_inv_def)
  have ls: "len \<le> m_size ba - ?p" using len(2) length_readable [OF inv] by simp
  have cur: "m_cur ba = Some ?i" and i: "?i < ?N"
    using cur_for_mod_div [OF inv] sz ls len(1) by simp_all
  have bcap: "?base \<le> m_capacity ba" using capN ne by (cases ?N) simp_all
  have lcap: "len < 2 ^ 64" using ls sz cap by simp
  have "read_pieces (m_nodes ba) len (Some ?i) ?n (?base - ?n) len = Inl NullDeref"
  proof (rule read_pieces_runs_off [OF b i])
    show "int len mod 2 ^ 64 \<noteq> 0"
      using lcap len(1) by (simp add: mod_pos_pos_trivial)
    fix k assume k: "?i + k < ?N"
    define x where "x = int len - int (?base - ?n) - int (k * ?base)"
    have x: "x = int (?n + len) - int (Suc k * ?base)"
      unfolding x_def using base by (simp add: of_nat_diff less_imp_le)
    have "(?n + len) mod ?base \<noteq> 0" using edge by (simp add: mod_add_left_eq)
    then have "?n + len \<noteq> Suc k * ?base" by (metis mod_mult_self2_is_0)
    then have "x \<noteq> 0" unfolding x by (metis eq_iff_diff_eq_0 of_nat_eq_iff)
    have "Suc k * ?base \<le> ?base * ?N" using k by (metis Suc_leI add_lessD1 add.commute mult.commute mult_le_mono1)
    then have "Suc k * ?base < 2 ^ 64" using cap unfolding capN by (rule le_less_trans)
    then have "int (Suc k * ?base) < 2 ^ 64"
      by (metis of_nat_less_iff of_nat_numeral of_nat_power)
    moreover have "int len < 2 ^ 64"
      using lcap by (metis of_nat_less_iff of_nat_numeral of_nat_power)
    moreover have "x \<le> int len" unfolding x_def by linarith
    moreover have "- int (Suc k * ?base) \<le> x" unfolding x by linarith
    ultimately have "\<bar>x\<bar> < 2 ^ 64" by (intro abs_leI abs_less_iff [THEN iffD2] conjI) linarith+
    then show "x mod 2 ^ 64 \<noteq> 0"
      using \<open>x \<noteq> 0\<close> zdvd_not_zless [of "\<bar>x\<bar>" "2 ^ 64"] by (auto simp: dvd_eq_mod_eq_0 [symmetric])
  qed (use len base bcap cap in auto)
  then show ?thesis
    using cur i b base len(1) ls getReadSize_inv [OF inv]
    by (simp add: getReadBuffers_def Let_def less_imp_le)
qed

subsection \<open>What the file holds\<close>

lemma file_loop_aligned:
  assumes "blocks base nodes" and "0 < base" and "i \<le> length nodes"
    and "r + i * base \<le> base * length nodes"
  shows "file_loop base nodes (cur_for base nodes (i * base)) (int (i * base)) (int r) =
         Inr (take r (drop (i * base) (concat nodes)))"
  using assms
proof (induction "length nodes - i" arbitrary: i r rule: less_induct)
  case less
  note b = less.prems(1) and base = less.prems(2) and room = less.prems(4)
  show ?case
  proof (cases "r = 0")
    case True
    then show ?thesis by (simp add: file_loop.simps)
  next
    case False
    then have "i * base < length nodes * base" using room unfolding mult.commute [of base] by linarith
    then have i: "i < length nodes" by (rule mult_less_cancel2 [THEN iffD1, THEN conjunct2])
    define len where "len = min r base"
    have cur: "cur_for base nodes (i * base) = Some i" using cur_for_inside [OF base i, of 0] base by simp
    have l: "(if int r > int base then int base else int r) - int (i * base) mod int base = int len"
      by (simp add: len_def)
    have "file_loop base nodes (next_node nodes i) (int (i * base) + int len) (int r - int len) =
          Inr (take (r - len) (drop (i * base + len) (concat nodes)))"
    proof (cases "r \<le> base")
      case True
      then show ?thesis by (simp add: len_def file_loop.simps)
    next
      case False
      have "Suc i \<le> length nodes" "length nodes - Suc i < length nodes - i"
        "(r - base) + Suc i * base \<le> base * length nodes" using i False room by simp_all
      from less.hyps [OF this(2) b base this(1,3)]
      show ?thesis
        using False cur_for_boundary [OF base i] by (simp add: len_def of_nat_diff algebra_simps)
    qed
    moreover have "take len (nodes ! i) = take len (drop (i * base) (concat nodes))"
      using take_drop_block [OF b i, of 0 len] by (simp add: len_def)
    moreover have "take r (drop (i * base) (concat nodes)) =
        take len (drop (i * base) (concat nodes)) @ take (r - len) (drop (i * base + len) (concat nodes))"
      using take_add [of len "r - len" "drop (i * base) (concat nodes)"]
      by (simp add: len_def add.commute)
    ultimately show ?thesis
      unfolding cur using False base l by (subst file_loop.simps) (simp add: Let_def)
  qed
qed

lemma writeToFile_aligned:
  assumes inv: "ba_inv ba" and al: "m_position ba mod m_baseSize ba = 0"
  shows "writeToFile True ba = Inr (Some (readable ba))"
proof -
  let ?base = "m_baseSize ba" and ?i = "m_position ba div m_baseSize ba"
  have pos: "m_position ba = ?i * ?base" using al by (metis add.right_neutral div_mult_mod_eq)
  have base: "0 < ?base" and b: "blocks ?base (m_nodes ba)"
    and cur: "m_cur ba = cur_for ?base (m_nodes ba) (m_position ba)"
    and cap: "m_position ba \<le> m_size ba" "m_size ba \<le> ?base * length (m_nodes ba)"
    using inv by (simp_all add: ba_inv_def)
  have "?i * ?base \<le> length (m_nodes ba) * ?base" using cap pos by (simp add: mult.commute)
  then have i: "?i \<le> length (m_nodes ba)" using base by simp
  have "file_loop ?base (m_nodes ba) (m_cur ba) (int (m_position ba)) (int (getReadSize ba)) =
        Inr (readable ba)"
    using file_loop_aligned [OF b base i, of "m_size ba - m_position ba"] cap
    unfolding cur getReadSize_inv [OF inv] readable_def flat_def pos [symmetric] by simp
  then show ?thesis by (simp add: writeToFile_def)
qed

lemma file_read_loop_spec:
  assumes "ba_inv ba" and "0 < base"
  shows "\<exists>ba'. file_read_loop junk base rest ba = Some (Inr ba') \<and> ba_inv ba' \<and>
           written ba' = written ba @ rest \<and> m_position ba' = m_position ba + length rest \<and>
           m_size ba' = max (m_size ba) (m_position ba + length rest)"
  using assms
proof (induction "length rest" arbitrary: rest ba rule: less_induct)
  case less
  obtain ba1 where w: "write_ba junk (take base rest) ba = Inr ba1" and inv1: "ba_inv ba1"
    and "written ba1 = written ba @ take base rest"
    and "m_position ba1 = m_position ba + length (take base rest)"
    and "m_size ba1 = max (m_size ba) (m_position ba + length (take base rest))"
    using write_ba_append [OF less.prems(1)] by metis
  moreover have "max (max (m_size ba) (m_position ba + base)) (m_position ba + length rest) =
      max (m_size ba) (m_position ba + length rest)" if "base \<le> length rest" using that by simp
  ultimately show ?case
    using less.hyps [of "drop base rest" ba1] less.prems(2)
    by (subst file_read_loop.simps) (cases "length rest < base", auto)
qed

subsection \<open>Properties\<close>

text \<open>One call of a public operation that changes the array.\<close>

inductive ba_step :: "junk \<Rightarrow> bytearray \<Rightarrow> bytearray \<Rightarrow> bool" for junk where
  "write_ba junk bs ba = Inr ba' \<Longrightarrow> ba_step junk ba ba'"
| "read_ba n ba = Inr (bs, ba') \<Longrightarrow> ba_step junk ba ba'"
| "setPosition v ba = Inr ba' \<Longrightarrow> ba_step junk ba ba'"
| "getWriteBuffers junk n ba = Inr (iovs, m, ba') \<Longrightarrow> ba_step junk ba ba'"
| "readFromFile junk contents ba = Some (Inr (ok, ba')) \<Longrightarrow> ba_step junk ba ba'"
| "ba_step junk ba (setIsLittleEndian b ba)"
| "ba_step junk ba (clear ba)"

lemma getWriteBuffers_inv:
  assumes "ba_inv ba" and "getWriteBuffers junk n ba = Inr (iovs, m, ba')"
  shows "ba_inv ba'"
proof (cases "n = 0")
  case False
  then obtain iovs1 ba1 where "getWriteBuffers junk n ba = Inr (iovs1, n, ba1)" and "ba_inv ba1"
    using getWriteBuffers_spec [OF assms(1), of n junk] by blast
  then show ?thesis using assms(2) by simp
qed (use assms in \<open>simp add: getWriteBuffers_def\<close>)

lemma readFromFile_inv:
  assumes "ba_inv ba" and "readFromFile junk contents ba = Some (Inr (ok, ba'))"
  shows "ba_inv ba'"
proof (cases contents)
  case (Some bs)
  have "0 < m_baseSize ba" using assms(1) by (simp add: ba_inv_def)
  then obtain ba1 where "file_read_loop junk (m_baseSize ba) bs ba = Some (Inr ba1)" and "ba_inv ba1"
    using file_read_loop_spec [OF assms(1), of "m_baseSize ba" junk bs] by blast
  then show ?thesis using assms(2) Some by (simp add: readFromFile_def)
qed (use assms in \<open>simp add: readFromFile_def\<close>)

lemma ba_step_inv: "ba_step junk ba ba' \<Longrightarrow> ba_inv ba \<Longrightarrow> ba_inv ba'"
proof (induction rule: ba_step.induct)
  case (1 bs ba ba')
  then show ?case using write_ba_append [of ba junk bs] by auto
qed (blast intro: read_ba_inv setPosition_inv(1) getWriteBuffers_inv readFromFile_inv clear_inv
    setIsLittleEndian_inv)+

text \<open>
  C18: every array a program can build from a fresh one by the public operations,
  in any order, is well formed: whole blocks, capacity and size in step with
  them, and the current block the one of the position.
\<close>

theorem reachable_inv:
  assumes "(ba_step junk)\<^sup>*\<^sup>* (ByteArray junk base) ba" and "0 < base"
  shows "ba_inv ba"
  using assms by (induction rule: rtranclp_induct) (auto simp: ByteArray_inv ba_step_inv)

lemma reachable_inv_witness: "ba_inv (clear (ByteArray (\<lambda>_ _. 0) 8))"
  by (rule reachable_inv [OF r_into_rtranclp [where r = "ba_step (\<lambda>_ _. 0)", OF ba_step.intros(7)]]) simp

text \<open>
  The pieces \<open>getWriteBuffers\<close> hands out lie inside the blocks and describe,
  in order, exactly the asked number of bytes of the memory at the position.
\<close>

theorem write_buffers_cover:
  assumes "ba_inv ba" and "0 < len"
  shows "\<exists>iovs ba'. getWriteBuffers junk len ba = Inr (iovs, len, ba') \<and> ba_inv ba' \<and>
           m_position ba' = m_position ba \<and> m_position ba + len \<le> m_capacity ba' \<and>
           list_all (iov_ok (m_baseSize ba') (m_nodes ba')) iovs \<and>
           concat (map (iov_bytes (m_nodes ba')) iovs) = take len (drop (m_position ba) (flat ba'))"
  using getWriteBuffers_spec [OF assms, of junk] addCapacity_room [OF assms(1), of len junk] by auto

lemma write_buffers_cover_witness:
  "\<exists>iovs ba'. getWriteBuffers (\<lambda>_ _. 0) 5 (ByteArray (\<lambda>_ _. 0) 2) = Inr (iovs, 5, ba') \<and>
     ba_inv ba' \<and> 5 \<le> m_capacity ba'"
proof -
  have "ba_inv (ByteArray (\<lambda>_ _. 0) 2)" and "m_position (ByteArray (\<lambda>_ _. 0) 2) = 0"
    by (simp_all add: ByteArray_inv) (simp add: ByteArray_def)
  then show ?thesis
    using write_buffers_cover [of "ByteArray (\<lambda>_ _. 0) 2" 5 "\<lambda>_ _. 0"] by fastforce
qed

text \<open>
  \<open>getReadBuffers\<close> compares the room of each block with the whole length
  instead of what is left.  A readable length of more than one block that does
  not end at a block boundary makes it walk off the block list.
\<close>

theorem read_buffers_run_off:
  assumes "ba_inv ba" and "m_baseSize ba < len" and "len \<le> m_size ba - m_position ba"
    and "m_capacity ba < 2 ^ 64" and "(m_position ba + len) mod m_baseSize ba \<noteq> 0"
  shows "getReadBuffers len ba = Inl NullDeref"
  using getReadBuffers_runs_off [OF assms(1,2) _ assms(4,5)] assms(3) length_readable [OF assms(1)]
  by simp

definition three_blocks :: bytearray where
  "three_blocks = \<lparr>m_baseSize = 2, m_capacity = 6, m_position = 0, m_size = 5,
     m_endian = SKT_BIG_ENDIAN, m_nodes = [[1, 2], [3, 4], [5, 0]], m_cur = Some 0\<rparr>"

lemma three_blocks_inv: "ba_inv three_blocks"
  by (simp add: ba_inv_def three_blocks_def blocks_def cur_for_def)

lemma read_buffers_run_off_witness: "getReadBuffers 5 three_blocks = Inl NullDeref"
  by (rule read_buffers_run_off [OF three_blocks_inv]) (simp_all add: three_blocks_def)

text \<open>
  Up to one block, \<open>getReadBuffers\<close> is right: its pieces lie inside the blocks
  and hold exactly the next bytes to read.
\<close>

theorem read_buffers_cover:
  assumes "ba_inv ba" and "0 < len" and "len \<le> m_size ba - m_position ba" and "len \<le> m_baseSize ba"
  shows "\<exists>iovs. getReadBuffers len ba = Inr (iovs, len) \<and>
           list_all (iov_ok (m_baseSize ba) (m_nodes ba)) iovs \<and>
           concat (map (iov_bytes (m_nodes ba)) iovs) = take len (drop (m_position ba) (flat ba))"
  using getReadBuffers_spec [OF assms(1,2) _ assms(4)] assms(3) length_readable [OF assms(1)]
    take_readable [OF assms(3)] by simp

lemma read_buffers_cover_witness:
  "\<exists>iovs. getReadBuffers 2 three_blocks = Inr (iovs, 2) \<and>
     concat (map (iov_bytes (m_nodes three_blocks)) iovs) = [1, 2]"
  using read_buffers_cover [OF three_blocks_inv, of 2] by (auto simp: three_blocks_def flat_def)

text \<open>
  C29: saving an array whose position is at a block boundary and loading the file
  into a fresh array gives the saved bytes back, whatever the two block sizes are.
\<close>

theorem file_roundtrip:
  assumes "ba_inv ba" and "m_position ba mod m_baseSize ba = 0" and "0 < base"
  shows "\<exists>contents ba1 ba2. writeToFile True ba = Inr (Some contents) \<and>
           readFromFile junk (Some contents) (ByteArray junk base) = Some (Inr (True, ba1)) \<and>
           setPosition 0 ba1 = Inr ba2 \<and> readable ba2 = readable ba"
proof -
  let ?new = "ByteArray junk base"
  have base: "m_baseSize ?new = base" and new: "written ?new = []" "m_position ?new = 0" "m_size ?new = 0"
    by (simp_all add: ByteArray_def written_def)
  obtain ba1 where l: "file_read_loop junk base (readable ba) ?new = Some (Inr ba1)" and "ba_inv ba1"
    and "written ba1 = readable ba" and "m_size ba1 = m_position ba1"
    using file_read_loop_spec [OF ByteArray_inv [OF assms(3)] assms(3), of junk "readable ba" junk] new
    by auto
  moreover then obtain ba2 where "setPosition 0 ba1 = Inr ba2" and "readable ba2 = readable ba"
    using readable_setPosition_0 by metis
  ultimately show ?thesis
    using writeToFile_aligned [OF assms(1,2)] base by (auto simp: readFromFile_def)
qed

lemma file_roundtrip_witness:
  "\<exists>contents ba1. writeToFile True three_blocks = Inr (Some contents) \<and>
     readFromFile (\<lambda>_ _. 0) (Some contents) (ByteArray (\<lambda>_ _. 0) 3) = Some (Inr (True, ba1))"
  using file_roundtrip [OF three_blocks_inv, of 3 "\<lambda>_ _. 0"] by (auto simp: three_blocks_def)

end
