(* ===== verification/Byte_Stream.thy ===== *)
theory Byte_Stream
  imports Byte_Buffers
begin

text \<open>
  Byte streams (src/skt/stream) and streams over a socket (src/skt/streams).  The
  virtual \<open>read\<close> and \<open>write\<close> of the stream are arguments, functions on a state of any
  type: \<open>rd n w\<close> answers with a number (0 at the end, -1 for an error), the bytes it
  put into the buffer and the new state.  The loops over a raw buffer count in
  \<open>size_t\<close>, so an answer of -1 is the largest number there; a transfer outside the
  buffer is an error value (a writer is given None for such a range), and a loop that
  never ends is None.
\<close>

datatype stream_error = Overrun | ArrayError ba_error

type_synonym 'w reads = "nat \<Rightarrow> 'w \<Rightarrow> int \<times> byte list \<times> 'w"
type_synonym 'w writes = "byte list option \<Rightarrow> 'w \<Rightarrow> stream_error + int \<times> 'w"

definition to_size :: "int \<Rightarrow> nat" where
  "to_size n = nat (n mod 2 ^ 64)"

definition wrap :: "nat \<Rightarrow> nat" where
  "wrap n = n mod 2 ^ 64"

text \<open>\<open>int\<close> results of \<open>size_t\<close> values.\<close>

definition as_int :: "nat \<Rightarrow> int" where
  "as_int n = sint (word_of_nat n :: u32)"

text \<open>The bytes of a read go to the buffer at an offset.\<close>

definition put_bytes :: "nat \<Rightarrow> byte list \<Rightarrow> byte list \<Rightarrow> stream_error + byte list" where
  "put_bytes offset bs buf =
     (if bs = [] then Inr buf
      else if offset + length bs > length buf then Inl Overrun
      else Inr (take offset buf @ bs @ drop (offset + length bs) buf))"

partial_function (option) read_fix_loop ::
  "'w reads \<Rightarrow> nat \<Rightarrow> nat \<Rightarrow> nat \<Rightarrow> byte list \<Rightarrow> 'w \<Rightarrow> (stream_error + int \<times> byte list \<times> 'w) option" where
  "read_fix_loop rd len0 offset left buf w =
     (if left = 0 then Some (Inr (as_int len0, buf, w))
      else case rd left w of (n, bs, w) \<Rightarrow>
        case put_bytes offset bs buf of
          Inl e \<Rightarrow> Some (Inl e)
        | Inr buf \<Rightarrow>
            let len = to_size n
            in if len = 0 then Some (Inr (0, buf, w))
               else read_fix_loop rd len0 (wrap (offset + len)) (sub64 left len) buf w)"

definition readFixSize ::
  "'w reads \<Rightarrow> byte list \<Rightarrow> nat \<Rightarrow> 'w \<Rightarrow> (stream_error + int \<times> byte list \<times> 'w) option" where
  "readFixSize rd buf len w = read_fix_loop rd len 0 len buf w"

definition slice :: "nat \<Rightarrow> nat \<Rightarrow> byte list \<Rightarrow> byte list option" where
  "slice offset left buf =
     (if offset + left > length buf then None else Some (take left (drop offset buf)))"

partial_function (option) write_fix_loop ::
  "'w writes \<Rightarrow> nat \<Rightarrow> nat \<Rightarrow> nat \<Rightarrow> byte list \<Rightarrow> 'w \<Rightarrow> (stream_error + int \<times> 'w) option" where
  "write_fix_loop wr len0 offset left buf w =
     (if left = 0 then Some (Inr (as_int len0, w))
      else case wr (slice offset left buf) w of
        Inl e \<Rightarrow> Some (Inl e)
      | Inr (n, w) \<Rightarrow>
          let len = to_size n
          in if len = 0 then Some (Inr (0, w))
             else write_fix_loop wr len0 (wrap (offset + len)) (sub64 left len) buf w)"

definition writeFixSize ::
  "'w writes \<Rightarrow> byte list \<Rightarrow> nat \<Rightarrow> 'w \<Rightarrow> (stream_error + int \<times> 'w) option" where
  "writeFixSize wr buf len w = write_fix_loop wr len 0 len buf w"

text \<open>
  The loops over a \<open>ByteArray\<close> count in \<open>int64_t\<close>; their \<open>read\<close> and \<open>write\<close> take and
  give back the array, as part of the state.
\<close>

partial_function (option) fix_loop_ba :: "(int \<Rightarrow> 'w \<Rightarrow> int \<times> 'w) \<Rightarrow> nat \<Rightarrow> int \<Rightarrow> 'w \<Rightarrow> (int \<times> 'w) option" where
  "fix_loop_ba op len0 left w =
     (if left \<le> 0 then Some (as_int len0, w)
      else case op left w of (n, w) \<Rightarrow>
        if n \<le> 0 then Some (n, w) else fix_loop_ba op len0 (left - n) w)"

definition readFixSize_ba :: "(int \<Rightarrow> 'w \<Rightarrow> int \<times> 'w) \<Rightarrow> nat \<Rightarrow> 'w \<Rightarrow> (int \<times> 'w) option" where
  "readFixSize_ba rd len w = fix_loop_ba rd len (int len) w"

definition writeFixSize_ba :: "(int \<Rightarrow> 'w \<Rightarrow> int \<times> 'w) \<Rightarrow> nat \<Rightarrow> 'w \<Rightarrow> (int \<times> 'w) option" where
  "writeFixSize_ba wr len w = fix_loop_ba wr len (int len) w"

subsection \<open>Streams over a socket\<close>

text \<open>
  \<open>send\<close> and \<open>recv\<close> of the socket are arguments; \<open>send_iov\<close> gets the pieces of the
  array it is given.
\<close>

definition SocketStream_read :: "bool \<Rightarrow> 'w reads \<Rightarrow> 'w reads" where
  "SocketStream_read isConnected recv len w = (if \<not> isConnected then (- 1, [], w) else recv len w)"

definition SocketStream_write :: "bool \<Rightarrow> (byte list \<Rightarrow> 'w \<Rightarrow> int \<times> 'w) \<Rightarrow> 'w writes" where
  "SocketStream_write isConnected send buf w =
     (if \<not> isConnected then Inr (- 1, w)
      else case buf of None \<Rightarrow> Inl Overrun | Some bs \<Rightarrow> Inr (send bs w))"

definition SocketStream_read_ba ::
  "bool \<Rightarrow> (iovec list \<Rightarrow> bytearray \<Rightarrow> 'w \<Rightarrow> int \<times> 'w) \<Rightarrow> junk \<Rightarrow> nat \<Rightarrow> bytearray \<Rightarrow> 'w
   \<Rightarrow> ba_error + int \<times> bytearray \<times> 'w" where
  "SocketStream_read_ba isConnected send_iov junk len ba w =
     (if \<not> isConnected then Inr (- 1, ba, w)
      else and_then (getWriteBuffers junk len ba) (\<lambda>(iovs, n, ba).
        case send_iov iovs ba w of (rt, w) \<Rightarrow>
          if rt > 0 then and_then (setPosition (m_position ba + nat rt) ba) (\<lambda>ba. Inr (rt, ba, w))
          else Inr (rt, ba, w)))"

definition SocketStream_write_ba ::
  "bool \<Rightarrow> (iovec list \<Rightarrow> bytearray \<Rightarrow> 'w \<Rightarrow> int \<times> 'w) \<Rightarrow> nat \<Rightarrow> bytearray \<Rightarrow> 'w
   \<Rightarrow> ba_error + int \<times> bytearray \<times> 'w" where
  "SocketStream_write_ba isConnected send_iov len ba w =
     (if \<not> isConnected then Inr (- 1, ba, w)
      else and_then (getReadBuffers 0 ba) (\<lambda>(iovs, n).
        case send_iov iovs ba w of (rt, w) \<Rightarrow>
          if rt > 0 then and_then (setPosition (m_position ba + nat rt) ba) (\<lambda>ba. Inr (rt, ba, w))
          else Inr (rt, ba, w)))"

subsection \<open>Full reads and writes\<close>

text \<open>A source that has input left answers every request with some of the next bytes of it.\<close>

definition source_ok :: "'w reads \<Rightarrow> ('w \<Rightarrow> byte list) \<Rightarrow> bool" where
  "source_ok rd input \<longleftrightarrow>
     (\<forall>k w. 0 < k \<and> input w \<noteq> [] \<longrightarrow>
        (case rd k w of (n, bs, w') \<Rightarrow> bs \<noteq> [] \<and> length bs \<le> k \<and> n = int (length bs) \<and> input w = bs @ input w'))"

text \<open>A sink takes some of the bytes it is given, in order.\<close>

definition sink_ok :: "(byte list \<Rightarrow> 'w \<Rightarrow> int \<times> 'w) \<Rightarrow> ('w \<Rightarrow> byte list) \<Rightarrow> bool" where
  "sink_ok send output \<longleftrightarrow>
     (\<forall>bs w. bs \<noteq> [] \<longrightarrow>
        (case send bs w of (n, w') \<Rightarrow> 0 < n \<and> n \<le> int (length bs) \<and> output w' = output w @ take (nat n) bs))"

lemma to_size_int [simp]: "n < 2 ^ 64 \<Longrightarrow> to_size (int n) = n"
  by (simp add: to_size_def)

lemma as_int_small: "n < 2 ^ 31 \<Longrightarrow> as_int n = int n"
proof -
  assume n: "n < 2 ^ 31"
  then have "int n < 2 ^ 31" by simp
  moreover have "- (2 ^ 31) \<le> int n" by (rule order_trans [of _ 0]) simp_all
  ultimately show ?thesis
    using signed_take_bit_int_eq_self [of 31 "int n"] sint_sbintrunc' [where 'a = 32, of "int n"] by (simp add: as_int_def)
qed

lemma put_bytes_at:
  assumes "bs \<noteq> []" and "offset + length bs \<le> length buf"
  shows "put_bytes offset bs buf = Inr (take offset buf @ bs @ drop (offset + length bs) buf)"
  using assms by (simp add: put_bytes_def)

lemma read_fix_loop_ok:
  assumes "source_ok rd input"
  shows "\<lbrakk>left \<le> length (input w); offset + left = len0; len0 \<le> length buf; len0 < 2 ^ 31\<rbrakk> \<Longrightarrow>
    \<exists>w'. read_fix_loop rd len0 offset left buf w =
           Some (Inr (as_int len0, take offset buf @ take left (input w) @ drop len0 buf, w')) \<and>
         input w = take left (input w) @ input w'"
proof (induction left arbitrary: offset buf w rule: less_induct)
  case (less left)
  show ?case
  proof (cases "left = 0")
    case True
    then show ?thesis
      using less.prems by (intro exI [of _ w]) (simp add: read_fix_loop.simps append_take_drop_id [symmetric])
  next
    case False
    obtain n bs w1 where r: "rd left w = (n, bs, w1)" by (metis prod_cases3)
    have "input w \<noteq> []" using False less.prems(1) by auto
    then have bs: "bs \<noteq> []" "length bs \<le> left" "n = int (length bs)" "input w = bs @ input w1"
      using assms False r unfolding source_ok_def by fastforce+
    have small: "length bs < 2 ^ 64" "offset + length bs < 2 ^ 64" using bs(2) less.prems by auto
    let ?buf = "take offset buf @ bs @ drop (offset + length bs) buf"
    have put: "put_bytes offset bs buf = Inr ?buf"
      using bs(1,2) less.prems by (intro put_bytes_at) auto
    have "left - length bs < left" using bs(1) False by simp
    moreover have "left - length bs \<le> length (input w1)" using bs(4) less.prems(1) by simp
    ultimately obtain w' where w': "read_fix_loop rd len0 (offset + length bs) (left - length bs) ?buf w1 =
        Some (Inr (as_int len0, take (offset + length bs) ?buf @ take (left - length bs) (input w1) @ drop len0 ?buf, w'))"
      "input w1 = take (left - length bs) (input w1) @ input w'"
      using less.IH [of "left - length bs" w1 "offset + length bs" ?buf] bs(2) less.prems by auto
    have "take (offset + length bs) ?buf = take offset buf @ bs" "drop len0 ?buf = drop len0 buf"
    proof -
      have o: "min (length buf) offset = offset" "offset + length bs \<le> len0" using bs(2) less.prems by auto
      then show "take (offset + length bs) ?buf = take offset buf @ bs" by simp
      show "drop len0 ?buf = drop len0 buf" using o by simp
    qed
    moreover have "take left (input w) = bs @ take (left - length bs) (input w1)"
      using bs(2,4) by simp
    moreover have "read_fix_loop rd len0 offset left buf w =
        read_fix_loop rd len0 (offset + length bs) (left - length bs) ?buf w1"
      using False r put bs(1-3) small by (simp add: read_fix_loop.simps [of rd len0 offset left] wrap_def Let_def)
    ultimately show ?thesis using w' bs(4) by (intro exI [of _ w']) simp
  qed
qed

lemma write_fix_loop_ok:
  assumes "sink_ok send output"
  shows "\<lbrakk>offset + left = len0; len0 \<le> length buf; len0 < 2 ^ 31\<rbrakk> \<Longrightarrow>
    \<exists>w'. write_fix_loop (SocketStream_write True send) len0 offset left buf w = Some (Inr (as_int len0, w')) \<and>
         output w' = output w @ take left (drop offset buf)"
proof (induction left arbitrary: offset w rule: less_induct)
  case (less left)
  show ?case
  proof (cases "left = 0")
    case True
    then show ?thesis by (simp add: write_fix_loop.simps)
  next
    case False
    let ?bs = "take left (drop offset buf)"
    obtain n w1 where r: "send ?bs w = (n, w1)" by (cases "send ?bs w")
    have len: "length ?bs = left" using less.prems by simp
    then have "?bs \<noteq> []" using False by (metis list.size(3))
    then have n: "0 < n" "n \<le> int left" "output w1 = output w @ take (nat n) ?bs"
      using assms r len unfolding sink_ok_def by (metis (mono_tags, lifting) case_prod_conv)+
    have small: "nat n < 2 ^ 64" "offset + nat n < 2 ^ 64" using n less.prems by auto
    obtain w' where w': "write_fix_loop (SocketStream_write True send) len0 (offset + nat n) (left - nat n) buf w1 =
        Some (Inr (as_int len0, w'))" "output w' = output w1 @ take (left - nat n) (drop (offset + nat n) buf)"
      using less.IH [of "left - nat n" "offset + nat n" w1] n less.prems by auto
    have "take (nat n) ?bs @ take (left - nat n) (drop (offset + nat n) buf) = ?bs"
    proof -
      have "take left (drop offset buf) =
          take (nat n) (drop offset buf) @ take (left - nat n) (drop (nat n) (drop offset buf))"
        using n(2) take_add [of "nat n" "left - nat n" "drop offset buf"] by simp
      moreover have "take (nat n) ?bs = take (nat n) (drop offset buf)" using n(2) by simp
      moreover have "drop (nat n) (drop offset buf) = drop (offset + nat n) buf" by (simp add: add.commute)
      ultimately show ?thesis by (simp only:)
    qed
    moreover have "write_fix_loop (SocketStream_write True send) len0 offset left buf w =
        write_fix_loop (SocketStream_write True send) len0 (offset + nat n) (left - nat n) buf w1"
      using False r n small less.prems to_size_int [of "nat n"]
      by (simp add: write_fix_loop.simps [of _ len0 offset left] SocketStream_write_def slice_def wrap_def Let_def)
    ultimately show ?thesis using w' n(3) by (intro exI [of _ w']) simp
  qed
qed

text \<open>
  C21: on a stream that makes progress, \<open>readFixSize\<close> ends and fills exactly the length
  asked for with the next bytes of the input, however they arrive, and \<open>writeFixSize\<close>
  ends and sends exactly the bytes of the buffer in order, however few are taken at
  a time.
\<close>

theorem fix_size_exact:
  assumes "source_ok rd input" and "sink_ok send output"
    and "len \<le> length (input w)" and "len \<le> length buf" and "len < 2 ^ 31"
  shows "(\<exists>w'. readFixSize rd buf len w = Some (Inr (int len, take len (input w) @ drop len buf, w')) \<and>
            input w = take len (input w) @ input w') \<and>
         (\<exists>v'. writeFixSize (SocketStream_write True send) buf len v = Some (Inr (int len, v')) \<and>
            output v' = output v @ take len buf)"
  using read_fix_loop_ok [OF assms(1,3), of 0 len buf] write_fix_loop_ok [OF assms(2), of 0 len len buf v]
    assms(4,5)
  by (simp add: readFixSize_def writeFixSize_def as_int_small)

text \<open>A source that hands out one byte at a time, and a sink that takes one.\<close>

definition one_read :: "byte list reads" where
  "one_read k w = (case w of [] \<Rightarrow> (0, [], []) | b # bs \<Rightarrow> if k = 0 then (0, [], w) else (1, [b], bs))"

definition one_write :: "byte list \<Rightarrow> byte list \<Rightarrow> int \<times> byte list" where
  "one_write bs w = (case bs of [] \<Rightarrow> (0, w) | b # _ \<Rightarrow> (1, w @ [b]))"

lemma fix_size_exact_witness:
  "(\<exists>w'. readFixSize one_read [0, 0, 0] 2 [1, 2, 3] = Some (Inr (2, [1, 2, 0], w'))) \<and>
   (\<exists>v'. writeFixSize (SocketStream_write True one_write) [7, 8, 9] 2 [] = Some (Inr (2, v')) \<and> v' = [7, 8])"
proof -
  have "source_ok one_read id" by (auto simp: source_ok_def one_read_def split: list.splits)
  moreover have "sink_ok one_write id" by (auto simp: sink_ok_def one_write_def split: list.splits)
  ultimately show ?thesis
    using fix_size_exact [of one_read id one_write id 2 "[1, 2, 3]" "[0, 0, 0]" "[]"]
      fix_size_exact [of one_read id one_write id 2 "[1, 2, 3]" "[7, 8, 9]" "[]"]
    by auto
qed

lemma read_fix_loop_fails:
  assumes "\<And>k w. rd k w = (- 1, [], w)"
  shows "left < 2 ^ 64 \<Longrightarrow> read_fix_loop rd len0 offset left buf w = Some (Inr (as_int len0, buf, w))"
proof (induction "2 ^ 64 - left" arbitrary: left offset rule: less_induct)
  case less
  show ?case
  proof (cases "left = 0")
    case True
    then show ?thesis by (simp add: read_fix_loop.simps)
  next
    case False
    have size: "to_size (- 1) = 2 ^ 64 - 1" by (simp add: to_size_def)
    have "read_fix_loop rd len0 offset left buf w =
        read_fix_loop rd len0 (wrap (offset + (2 ^ 64 - 1))) ((left + 1) mod 2 ^ 64) buf w"
    proof -
      have "sub64 left (2 ^ 64 - 1) = (left + 1) mod 2 ^ 64"
        using less.prems by (cases "left = 2 ^ 64 - 1") (simp_all add: sub64_def)
      then show ?thesis
        using False assms size
        by (simp add: read_fix_loop.simps [of rd len0 offset left] put_bytes_def Let_def)
    qed
    moreover have "read_fix_loop rd len0 (wrap (offset + (2 ^ 64 - 1))) ((left + 1) mod 2 ^ 64) buf w =
        Some (Inr (as_int len0, buf, w))"
    proof (cases "left + 1 = 2 ^ 64")
      case True
      then show ?thesis by (simp add: read_fix_loop.simps)
    next
      case False
      then have "left + 1 < 2 ^ 64" using less.prems by simp
      then show ?thesis using less.hyps [of "left + 1"] by simp
    qed
    ultimately show ?thesis by simp
  qed
qed

lemma write_fix_loop_fails:
  assumes "\<And>bs w. wr bs w = Inr (- 1, w)"
  shows "left < 2 ^ 64 \<Longrightarrow> write_fix_loop wr len0 offset left buf w = Some (Inr (as_int len0, w))"
proof (induction "2 ^ 64 - left" arbitrary: left offset rule: less_induct)
  case less
  show ?case
  proof (cases "left = 0")
    case True
    then show ?thesis by (simp add: write_fix_loop.simps)
  next
    case False
    have size: "to_size (- 1) = 2 ^ 64 - 1" by (simp add: to_size_def)
    have "sub64 left (2 ^ 64 - 1) = (left + 1) mod 2 ^ 64"
      using less.prems by (cases "left = 2 ^ 64 - 1") (simp_all add: sub64_def)
    then have "write_fix_loop wr len0 offset left buf w =
        write_fix_loop wr len0 (wrap (offset + (2 ^ 64 - 1))) ((left + 1) mod 2 ^ 64) buf w"
      using False assms size by (simp add: write_fix_loop.simps [of wr len0 offset left] Let_def)
    moreover have "write_fix_loop wr len0 (wrap (offset + (2 ^ 64 - 1))) ((left + 1) mod 2 ^ 64) buf w =
        Some (Inr (as_int len0, w))"
    proof (cases "left + 1 = 2 ^ 64")
      case True
      then show ?thesis by (simp add: write_fix_loop.simps)
    next
      case False
      then have "left + 1 < 2 ^ 64" using less.prems by simp
      then show ?thesis using less.hyps [of "left + 1"] by simp
    qed
    ultimately show ?thesis by simp
  qed
qed

text \<open>
  C39: \<open>readFixSize\<close> and \<open>writeFixSize\<close> over a raw buffer never report an error: on a
  stream that is not connected, whose \<open>read\<close> and \<open>write\<close> answer -1, they repeat until
  the unsigned count of what is left has wrapped around to 0, and then report success
  although nothing was read or written.  The loops over a \<open>ByteArray\<close> return the -1.
\<close>

theorem fix_size_hides_errors:
  assumes "0 < len" and "len < 2 ^ 31"
  shows "readFixSize (SocketStream_read False recv) buf len w = Some (Inr (int len, buf, w)) \<and>
         writeFixSize (SocketStream_write False send) buf len w = Some (Inr (int len, w)) \<and>
         readFixSize_ba (\<lambda>n w. (- 1, w)) len w = Some (- 1, w) \<and>
         writeFixSize_ba (\<lambda>n w. (- 1, w)) len w = Some (- 1, w)"
proof -
  have "read_fix_loop (SocketStream_read False recv) len 0 len buf w = Some (Inr (as_int len, buf, w))"
    using assms(2) by (intro read_fix_loop_fails) (simp_all add: SocketStream_read_def)
  moreover have "write_fix_loop (SocketStream_write False send) len 0 len buf w = Some (Inr (as_int len, w))"
    using assms(2) by (intro write_fix_loop_fails) (simp_all add: SocketStream_write_def)
  moreover have "fix_loop_ba (\<lambda>n w. (- 1, w)) len (int len) w = Some (- 1, w)"
    using assms(1) by (simp add: fix_loop_ba.simps)
  ultimately show ?thesis
    using assms(2)
    by (simp add: readFixSize_def writeFixSize_def readFixSize_ba_def writeFixSize_ba_def as_int_small)
qed

lemma fix_size_hides_errors_witness:
  "readFixSize (SocketStream_read False one_read) [0, 0] 2 [5, 6] = Some (Inr (2, [0, 0], [5, 6]))"
  using fix_size_hides_errors [of 2 one_read "[0, 0]" "[5, 6]" one_write] by simp

end
