(* ===== verification/Http_Session.thy ===== *)
theory Http_Session
  imports Http_Request_Parser Servlet Byte_Stream
begin

text \<open>
  Receiving requests and serving them (src/skt/http/http_session.cpp, http_server.cpp).
  \<open>read\<close>, \<open>write\<close> and \<open>close\<close> of the session are arguments: functions on a state of any
  type, which the servlets change too.  A loop that never ends is None.  The buffer is
  the list of the bytes in it that are not yet parsed; that memory for the body can be
  had is taken for granted.
\<close>

datatype session_error = Parse_error parse_error | Stream_error stream_error

record 'w session =
  s_read :: "'w reads"
  s_write :: "'w writes"
  s_close :: "'w \<Rightarrow> 'w"

definition chars :: "byte list \<Rightarrow> string" where
  "chars bs = map (\<lambda>b. char_of (unat b)) bs"

definition bytes :: "string \<Rightarrow> byte list" where
  "bytes s = map (\<lambda>c. word_of_nat (of_char c)) s"

text \<open>
  The loop of \<open>recvRequest\<close>.  The result is the parser and the bytes behind what it
  consumed, or None when the session was closed.
\<close>

partial_function (option) recv_loop ::
  "'w session \<Rightarrow> nat \<Rightarrow> byte list \<Rightarrow> HttpRequestParser \<Rightarrow> 'w
   \<Rightarrow> (session_error + (HttpRequestParser \<times> byte list) option \<times> 'w) option" where
  "recv_loop ses buff_size data p w =
     (case s_read ses (buff_size - length data) w of (n, bs, w) \<Rightarrow>
        if n \<le> 0 then Some (Inr (None, s_close ses w))
        else (case excute (chars (data @ bs)) p of
          Inl e \<Rightarrow> Some (Inl (Parse_error e))
        | Inr (nparse, rest, p) \<Rightarrow>
            if hasError p then Some (Inr (None, s_close ses w))
            else if length (drop nparse (data @ bs)) = buff_size then Some (Inr (None, s_close ses w))
            else if isFinished p \<noteq> 0 then Some (Inr (Some (p, drop nparse (data @ bs)), w))
            else recv_loop ses buff_size (drop nparse (data @ bs)) p w))"

text \<open>The rest of \<open>recvRequest\<close>: a body of \<open>len\<close> bytes, of which \<open>data\<close> have come already.\<close>

definition recv_body ::
  "'w session \<Rightarrow> nat \<Rightarrow> byte list \<Rightarrow> 'w \<Rightarrow> (session_error + byte list option \<times> 'w) option" where
  "recv_body ses len data w =
     (let body = replicate len 0;
          offset = length data
      in if len \<ge> offset then
           if len - offset > 0 then
             (case readFixSize (s_read ses) (drop offset body) (len - offset) w of
                None \<Rightarrow> None
              | Some (Inl e) \<Rightarrow> Some (Inl (Stream_error e))
              | Some (Inr (n, rest, w)) \<Rightarrow>
                  if n \<le> 0 then Some (Inr (None, s_close ses w)) else Some (Inr (Some (data @ rest), w)))
           else Some (Inr (Some (data @ drop offset body), w))
         else Some (Inr (Some (take len data), w)))"

definition recvRequest ::
  "'w session \<Rightarrow> (string \<Rightarrow> u64 option) \<Rightarrow> nat \<Rightarrow> request_data http_parser \<Rightarrow> 'w
   \<Rightarrow> (session_error + HttpRequest option \<times> 'w) option" where
  "recvRequest ses lexical_cast buff_size raw w =
     (case recv_loop ses buff_size [] (new_HttpRequestParser raw) w of
        None \<Rightarrow> None
      | Some (Inl e) \<Rightarrow> Some (Inl e)
      | Some (Inr (None, w)) \<Rightarrow> Some (Inr (None, w))
      | Some (Inr (Some (p, data), w)) \<Rightarrow>
          let len = sint (getContentLength lexical_cast p)
          in if len > 0 then
               (case recv_body ses (nat len) data w of
                  None \<Rightarrow> None
                | Some (Inl e) \<Rightarrow> Some (Inl e)
                | Some (Inr (None, w)) \<Rightarrow> Some (Inr (None, w))
                | Some (Inr (Some body, w)) \<Rightarrow> Some (Inr (Some ((getData p)\<lparr>m_body := chars body\<rparr>), w)))
             else Some (Inr (Some (getData p), w)))"


subsection \<open>The server\<close>





subsection \<open>One request for each connection\<close>



definition close_kept :: "HttpRequestParser \<Rightarrow> session_error + (HttpRequestParser \<times> byte list) option \<times> 'w \<Rightarrow> bool" where
  "close_kept p y \<longleftrightarrow> (wired (rp_parser p) \<longrightarrow>
     (case y of Inr (Some (p', _), _) \<Rightarrow> m_close (getData p') = m_close (getData p) | _ \<Rightarrow> True))"

lemma close_kept_simps [simp]:
  "close_kept p (Inl e)" "close_kept p (Inr (None, w))" "close_kept p (Inr (Some (p, data), w))"
  by (simp_all add: close_kept_def)




subsection \<open>Properties\<close>


lemma excute_malformed:
  assumes "data \<noteq> []" and "\<not> in_class [(48, 57), (60, 60), (64, 90)] (hd data)"
  shows "\<exists>p. excute data (new_HttpRequestParser raw) = Inr (0, data, p) \<and>
    isFinished p = - 1 \<and> \<not> hasError p \<and> getData p = new_HttpRequest 0x11 True"
proof -
  let ?p = "new_HttpRequestParser raw"
  note new = new_parser_ok(1) [of "length data" raw] new_parser_ok(2-5) [of raw]
  obtain c s where data: "data = c # s" using assms(1) by (cases data) auto
  have "edge http11_table cond 1 c = None" for cond
    using assms(2) data
    by (auto simp: edge_def http11_rows(1) http11_states_1_def in_class_def simp del: One_nat_def)
  then have run: "scan data (hp_uri_relaxed (rp_parser ?p)) data 0 (hp_cs (rp_parser ?p)) (restart (rp_parser ?p), rp_self ?p) =
      Inr (0, 0, restart (rp_parser ?p), rp_self ?p)"
    unfolding new(2) data by simp
  have row: "map_of http11_table (hp_cs (rp_parser ?p)) \<noteq> None" "hp_cs (rp_parser ?p) \<noteq> 0"
    by (simp_all add: new http11_rows http11_states_1_def del: One_nat_def)
  from excute_walk(1) [OF new(1) assms(1) row run] show ?thesis
    by (auto simp: isFinished_def http_parser_finish_def http_parser_has_error_def hasError_def getData_def new)
qed

text \<open>
  C35: malformed requests are served.  Bytes that cannot begin a request make the parser
  fail, but \<open>recvRequest\<close> returns a request all the same, namely the default \<open>GET /\<close>:
  \<open>hasError\<close> asks for an error of the callbacks as well, and \<open>isFinished\<close> is -1.
\<close>

theorem malformed_accepted:
  assumes "s_read ses buff_size w = (int (length bs), bs, w')" and "bs \<noteq> []" and "length bs < buff_size"
    and "\<not> in_class [(48, 57), (60, 60), (64, 90)] (hd (chars bs))"
  shows "recvRequest ses lexical_cast buff_size raw w = Some (Inr (Some (new_HttpRequest 0x11 True), w'))"
proof -
  have "chars bs \<noteq> []" using assms(2) by (simp add: chars_def)
  from excute_malformed [OF this assms(4), of raw]
  obtain p where p: "excute (chars bs) (new_HttpRequestParser raw) = Inr (0, chars bs, p)" "isFinished p = - 1"
    "\<not> hasError p" "getData p = new_HttpRequest 0x11 True" by blast
  have "recv_loop ses buff_size [] (new_HttpRequestParser raw) w = Some (Inr (Some (p, bs), w'))"
    by (subst recv_loop.simps) (use assms(1-3) p in simp)
  moreover have "getContentLength lexical_cast p = 0"
    by (simp add: getContentLength_def p(4) new_HttpRequest_def getAs_def)
  ultimately show ?thesis by (simp add: recvRequest_def p(4))
qed

text \<open>A session on a fixed input: every read gives all of it, and what is written is appended.\<close>

definition demo_session :: "(byte list \<times> byte list) session" where
  "demo_session = \<lparr>
     s_read = (\<lambda>n (inp, out). (int (length (take n inp)), take n inp, (drop n inp, out))),
     s_write = (\<lambda>b (inp, out). case b of None \<Rightarrow> Inl Overrun | Some bs \<Rightarrow> Inr (int (length bs), (inp, out @ bs))),
     s_close = (\<lambda>w. w)\<rparr>"

lemma malformed_accepted_witness:
  "recvRequest demo_session (\<lambda>_. None) 100 demo_raw (bytes ''hello'', []) =
     Some (Inr (Some (new_HttpRequest 0x11 True), ([], [])))"
  by (rule malformed_accepted [of demo_session 100 "(bytes ''hello'', [])" "bytes ''hello''" "([], [])"])
    (simp_all add: demo_session_def bytes_def chars_def in_class_def schar_def char_nat_def)

lemma chars_bytes [simp]: "chars (bytes s) = s"
  by (simp add: chars_def bytes_def comp_def unat_of_nat char_nat_less [unfolded char_nat_def])

lemma chars_append: "chars (a @ b) = chars a @ chars b"
  by (simp add: chars_def)

lemma length_bytes [simp]: "length (bytes s) = length s"
  by (simp add: bytes_def)

lemma bytes_append: "bytes (s @ t) = bytes s @ bytes t"
  by (simp add: bytes_def)

lemma find_set_headers:
  assumes "map_ok CaseInsensitiveLess (m_headers r)"
  shows "map_ok CaseInsensitiveLess (m_headers (set_headers m r))"
    and "list_all (\<lambda>(k, _). fold_case k \<noteq> fold_case j) m \<Longrightarrow>
      map_find CaseInsensitiveLess j (m_headers (set_headers m r)) = map_find CaseInsensitiveLess j (m_headers r)"
  using assms
  by (induction m arbitrary: r)
    (auto simp: set_headers_def setHeader_def ci_order.map_ok_assign ci_order.find_assign ci_equivalent)

lemma set_headers_snoc: "set_headers (m @ [(k, v)]) r = setHeader k v (set_headers m r)"
  by (simp add: set_headers_def)

lemma as_read_body: "m_body (as_read r) = []"
proof -
  have "m_body (set_headers m q) = m_body q" for m q
    by (induction m arbitrary: q) (auto simp: set_headers_def setHeader_def)
  then show ?thesis by (simp add: as_read_def new_HttpRequest_def)
qed

text \<open>The content length the parser finds in the text of a request.\<close>

lemma content_length_read:
  assumes "getData p = as_read r"
    and "list_all (\<lambda>(k, _). fold_case k \<noteq> fold_case ''content-length'') (m_headers r)"
    and "\<forall>n < 2 ^ 64. lexical_cast (nat_dec n) = Some (word_of_nat n)" and "length (m_body r) < 2 ^ 31"
  shows "sint (getContentLength lexical_cast p) = int (length (m_body r))"
proof -
  let ?r = "(new_HttpRequest 0x11 True)\<lparr>m_method := m_method r, m_path := m_path r, m_query := m_query r,
        m_fragment := m_fragment r, m_version := m_version r\<rparr>"
  let ?m = "(''connection'', if m_close r then ''close'' else ''keep=alive'') # dumped (m_headers r)"
  have ok: "map_ok CaseInsensitiveLess (m_headers ?r)" by (simp add: new_HttpRequest_def map_ok_def)
  have other: "list_all (\<lambda>(k, _). fold_case k \<noteq> fold_case ''content-length'') ?m"
    using assms(2) by (auto simp: list_all_iff dumped_def fold_case_def c_str_def to_lower_def char_nat_def)
  show ?thesis
  proof (cases "m_body r = []")
    case True
    then have "map_find CaseInsensitiveLess ''content-length'' (m_headers (as_read r)) = None"
      using find_set_headers(2) [OF ok other] by (simp add: as_read_def sent_headers_def new_HttpRequest_def)
    then show ?thesis using True by (simp add: getContentLength_def getAs_def assms(1))
  next
    case False
    have "map_find CaseInsensitiveLess ''content-length'' (m_headers (as_read r)) = Some (nat_dec (length (m_body r)))"
      using False ci_order.find_assign [OF find_set_headers(1) [OF ok], where j = "''content-length''" and k = "''content-length''"]
      by (simp add: as_read_def sent_headers_def set_headers_snoc [of "_ # _", simplified] setHeader_def ci_equivalent)
    moreover have "lexical_cast (nat_dec (length (m_body r))) = Some (word_of_nat (length (m_body r)))"
      using assms(3,4) by simp
    moreover have "sint (word_of_nat (length (m_body r)) :: u64) = int (length (m_body r))"
    proof -
      have "take_bit 64 (length (m_body r)) = length (m_body r)"
        by (rule take_bit_nat_eq_self) (use assms(4) in simp)
      then show ?thesis using assms(4) by (simp add: sint_uint unsigned_of_nat signed_take_bit_int_eq_self)
    qed
    ultimately show ?thesis by (simp add: getContentLength_def getAs_def assms(1))
  qed
qed

lemma recv_body_ok:
  assumes "source_ok (s_read ses) input" and "len = length data + length (input w)" and "0 < len" and "len < 2 ^ 31"
  shows "\<exists>w'. recv_body ses len data w = Some (Inr (Some (data @ input w), w')) \<and> input w' = []"
proof (cases "input w = []")
  case True
  then show ?thesis using assms(2) by (simp add: recv_body_def Let_def)
next
  case False
  let ?n = "length (input w)"
  have n: "len - length data = ?n" "0 < ?n" "length data \<le> len" "?n < 2 ^ 31" using assms(2,4) False by auto
  obtain w' where "readFixSize (s_read ses) (drop (length data) (replicate len 0)) ?n w =
      Some (Inr (int ?n, input w, w'))" "input w = input w @ input w'"
    using read_fix_loop_ok [OF assms(1), of ?n w 0 ?n "drop (length data) (replicate len 0)"] n
    by (auto simp: readFixSize_def as_int_small)
  then show ?thesis using n by (simp add: recv_body_def Let_def)
qed

text \<open>
  C10: a request sent over a connection.  When the bytes of the text of a request arrive,
  the text up to the body (and possibly part of the body) with the first read and the rest
  in any pieces, \<open>recvRequest\<close> returns the request with its method, target, version,
  headers and body, and leaves nothing unread.  \<open>boost::lexical_cast\<close> is assumed to read
  decimal numbers.
\<close>

theorem session_roundtrip:
  assumes "request_text_ok r"
    and "list_all (\<lambda>(k, _). fold_case k \<noteq> fold_case ''content-length'') (m_headers r)"
    and "\<forall>n < 2 ^ 64. lexical_cast (nat_dec n) = Some (word_of_nat n)" and "length (m_body r) < 2 ^ 31"
    and "source_ok (s_read ses) input"
    and "s_read ses buff_size w = (int (length bs), bs, w')" and "bs @ input w' = bytes (HttpRequest_dump r)"
    and "length (request_head r) \<le> length bs" and "length bs \<le> buff_size"
  shows "\<exists>w''. recvRequest ses lexical_cast buff_size raw w =
      Some (Inr (Some ((as_read r)\<lparr>m_body := m_body r\<rparr>), w'')) \<and> input w'' = []"
proof -
  have head: "0 < length (request_head r)" by (simp add: request_head_def)
  define bs2 where "bs2 = drop (length (request_head r)) bs"
  have "bytes (request_head r) @ bytes (m_body r) = bs @ input w'"
    using assms(7) by (simp add: dump_head bytes_append)
  then have bs: "bs = bytes (request_head r) @ bs2" and body: "bs2 @ input w' = bytes (m_body r)"
    using assms(8) by (auto simp: bs2_def append_eq_append_conv_if)
  from excute_request [OF assms(1), of "chars bs2" raw] obtain p where
    p: "excute (request_head r @ chars bs2) (new_HttpRequestParser raw) = Inr (length (request_head r), chars bs2, p)"
      "isFinished p = 1" "\<not> hasError p" "getData p = as_read r" by blast
  have "chars bs = request_head r @ chars bs2" using bs by (simp add: chars_append)
  moreover have "drop (length (request_head r)) bs = bs2" by (simp add: bs)
  moreover have "length bs2 \<noteq> buff_size"
    using assms(9) head unfolding bs by (simp only: length_append length_bytes)
  ultimately have loop: "recv_loop ses buff_size [] (new_HttpRequestParser raw) w = Some (Inr (Some (p, bs2), w'))"
    using assms(6,8) head p by (subst recv_loop.simps) (auto simp: chars_def)
  have len: "sint (getContentLength lexical_cast p) = int (length (m_body r))"
    by (rule content_length_read [OF p(4) assms(2-4)])
  show ?thesis
  proof (cases "m_body r = []")
    case True
    then have "input w' = []" using body by (simp add: bytes_def)
    moreover have "(as_read r)\<lparr>m_body := m_body r\<rparr> = as_read r"
      using True as_read_body [of r] by simp
    ultimately show ?thesis using True loop len p(4) by (simp add: recvRequest_def)
  next
    case False
    have "length (m_body r) = length bs2 + length (input w')" using arg_cong [OF body, of length] by simp
    from recv_body_ok [OF assms(5) this] assms(4) False
    obtain w'' where "recv_body ses (length (m_body r)) bs2 w' = Some (Inr (Some (bytes (m_body r)), w''))" "input w'' = []"
      using body by auto
    then show ?thesis using False loop len p(4) by (simp add: recvRequest_def)
  qed
qed

lemma session_roundtrip_witness:
  "\<exists>req w''. recvRequest demo_session (\<lambda>s. Some (word_of_nat (dec_nat s)))
      (length (HttpRequest_dump demo_request) + 1) demo_raw (bytes (HttpRequest_dump demo_request), []) =
      Some (Inr (Some req, w'')) \<and> m_path req = ''/a%20b'' \<and> m_body req = ''hi''"
proof -
  let ?r = demo_request
  have ok: "request_text_ok ?r" by (rule demo_request_ok)
  have hdr: "list_all (\<lambda>(k, _). fold_case k \<noteq> fold_case ''content-length'') (m_headers ?r)"
    by (simp add: demo_request_def fold_case_def c_str_def to_lower_def char_nat_def)
  have body: "m_body ?r = ''hi''" "m_path ?r = ''/a%20b''" by (simp_all add: demo_request_def)
  have src: "source_ok (s_read demo_session) fst"
    by (auto simp: source_ok_def demo_session_def)
  have "\<exists>w''. recvRequest demo_session (\<lambda>s. Some (word_of_nat (dec_nat s)))
      (length (HttpRequest_dump ?r) + 1) demo_raw (bytes (HttpRequest_dump ?r), []) =
      Some (Inr (Some ((as_read ?r)\<lparr>m_body := m_body ?r\<rparr>), w'')) \<and> fst w'' = []"
    by (rule session_roundtrip [OF ok hdr _ _ src, where bs = "bytes (HttpRequest_dump ?r)" and w' = "([], [])"])
      (simp_all add: body demo_session_def dump_head)
  then show ?thesis using body by (auto simp: as_read_def)
qed

end
