(* ===== verification/Httpclient_Table.thy ===== *)
theory Httpclient_Table
  imports Ragel
begin

text \<open>
  The state machine of the response grammar, as it stands in
  src/skt/http/httpclient_parser.rl.cpp; see the table of the request grammar for how the
  generated code is read.
\<close>

datatype httpclient_action =
    C_mark | C_start_field | C_write_field | C_start_value | C_write_content_len
  | C_write_connection_close | C_write_value | C_reason_phrase | C_status_code
  | C_http_version | C_chunk_size | C_trans_chunked | C_done

definition httpclient_states_1 :: "httpclient_action state list" where
  "httpclient_states_1 = [
     (1, [], [([(48, 57), (65, 70), (97, 102)], [C_mark], 2),
         ([(72, 72)], [C_mark], 8)]),
     (2, [], [([(10, 10)], [C_chunk_size, C_done], 120),
         ([(13, 13)], [C_chunk_size], 3),
         ([(48, 57), (65, 70), (97, 102)], [], 2),
         ([(59, 59)], [C_chunk_size], 4)]),
     (120, [], [])]"

definition httpclient_states_2 :: "httpclient_action state list" where
  "httpclient_states_2 = [
     (3, [], [([(10, 10)], [C_done], 120)]),
     (4, [], [([(33, 33), (35, 39), (42, 43), (45, 46), (48, 57), (65, 90), (94, 122), (124, 124),
           (126, 126)], [C_start_field], 5)]),
     (5, [], [([(10, 10)], [C_write_field, C_start_value, C_write_value, C_done], 120),
         ([(13, 13)], [C_write_field, C_start_value, C_write_value], 3),
         ([(33, 33), (35, 39), (42, 43), (45, 46), (48, 57), (65, 90), (94, 122), (124, 124), (126,
           126)], [], 5),
         ([(59, 59)], [C_write_field, C_start_value, C_write_value], 4),
         ([(61, 61)], [C_write_field, C_start_value], 6)])]"

definition httpclient_states_3 :: "httpclient_action state list" where
  "httpclient_states_3 = [
     (6, [], [([(33, 33), (35, 39), (42, 43), (45, 46), (48, 57), (65, 90), (94, 122), (124, 124),
           (126, 126)], [C_start_value], 7)]),
     (7, [], [([(10, 10)], [C_write_value, C_done], 120),
         ([(13, 13)], [C_write_value], 3),
         ([(33, 33), (35, 39), (42, 43), (45, 46), (48, 57), (65, 90), (94, 122), (124, 124), (126,
           126)], [], 7),
         ([(59, 59)], [C_write_value], 4)]),
     (8, [], [([(84, 84)], [], 9)]),
     (9, [], [([(84, 84)], [], 10)]),
     (10, [], [([(80, 80)], [], 11)]),
     (11, [], [([(47, 47)], [], 12)]),
     (12, [], [([(48, 57)], [], 13)]),
     (13, [], [([(46, 46)], [], 14),
         ([(48, 57)], [], 13)]),
     (14, [], [([(48, 57)], [], 15)]),
     (15, [], [([(32, 32)], [C_http_version], 16),
         ([(48, 57)], [], 15)])]"

definition httpclient_states_4 :: "httpclient_action state list" where
  "httpclient_states_4 = [
     (16, [], [([(48, 57)], [C_mark], 17)]),
     (17, [], [([(32, 32)], [C_status_code], 18),
         ([(48, 57)], [], 17)]),
     (18, [], [([(- 128, 9), (11, 127)], [C_mark], 19)]),
     (19, [], [([(- 128, 9), (11, 12), (14, 127)], [], 19),
         ([(10, 10)], [C_reason_phrase], 20),
         ([(13, 13)], [C_reason_phrase], 24)]),
     (20, [], [([(10, 10)], [C_done], 120),
         ([(13, 13)], [], 3),
         ([(33, 33), (35, 39), (42, 43), (45, 46), (48, 57), (65, 66), (68, 83), (85, 90), (94, 98),
           (100, 115), (117, 122), (124, 124), (126, 126)], [C_start_field], 21),
         ([(67, 67), (99, 99)], [C_start_field], 25),
         ([(84, 84), (116, 116)], [C_start_field], 44)])]"

definition httpclient_states_5 :: "httpclient_action state list" where
  "httpclient_states_5 = [
     (21, [], [([(33, 33), (35, 39), (42, 43), (45, 46), (48, 57), (65, 90), (94, 122), (124, 124),
           (126, 126)], [], 21),
         ([(58, 58)], [C_write_field], 22)]),
     (22, [], [([(- 128, 8), (14, 31), (33, 127)], [C_start_value], 23),
         ([(9, 9), (11, 12), (32, 32)], [C_start_value], 22),
         ([(10, 10)], [C_start_value, C_write_value], 20),
         ([(13, 13)], [C_start_value, C_write_value], 24)]),
     (23, [], [([(- 128, 9), (11, 12), (14, 127)], [], 23),
         ([(10, 10)], [C_write_value], 20),
         ([(13, 13)], [C_write_value], 24)]),
     (24, [], [([(10, 10)], [], 20)])]"

definition httpclient_states_6 :: "httpclient_action state list" where
  "httpclient_states_6 = [
     (25, [], [([(33, 33), (35, 39), (42, 43), (45, 46), (48, 57), (65, 78), (80, 90), (94, 110),
           (112, 122), (124, 124), (126, 126)], [], 21),
         ([(58, 58)], [C_write_field], 22),
         ([(79, 79), (111, 111)], [], 26)]),
     (26, [], [([(33, 33), (35, 39), (42, 43), (45, 46), (48, 57), (65, 77), (79, 90), (94, 109),
           (111, 122), (124, 124), (126, 126)], [], 21),
         ([(58, 58)], [C_write_field], 22),
         ([(78, 78), (110, 110)], [], 27)]),
     (27, [], [([(33, 33), (35, 39), (42, 43), (45, 46), (48, 57), (65, 77), (79, 83), (85, 90),
           (94, 109), (111, 115), (117, 122), (124, 124), (126, 126)], [], 21),
         ([(58, 58)], [C_write_field], 22),
         ([(78, 78), (110, 110)], [], 28),
         ([(84, 84), (116, 116)], [], 101)]),
     (28, [], [([(33, 33), (35, 39), (42, 43), (45, 46), (48, 57), (65, 68), (70, 90), (94, 100),
           (102, 122), (124, 124), (126, 126)], [], 21),
         ([(58, 58)], [C_write_field], 22),
         ([(69, 69), (101, 101)], [], 29)])]"

definition httpclient_states_7 :: "httpclient_action state list" where
  "httpclient_states_7 = [
     (29, [], [([(33, 33), (35, 39), (42, 43), (45, 46), (48, 57), (65, 66), (68, 90), (94, 98),
           (100, 122), (124, 124), (126, 126)], [], 21),
         ([(58, 58)], [C_write_field], 22),
         ([(67, 67), (99, 99)], [], 30)]),
     (30, [], [([(33, 33), (35, 39), (42, 43), (45, 46), (48, 57), (65, 83), (85, 90), (94, 115),
           (117, 122), (124, 124), (126, 126)], [], 21),
         ([(58, 58)], [C_write_field], 22),
         ([(84, 84), (116, 116)], [], 31)]),
     (31, [], [([(33, 33), (35, 39), (42, 43), (45, 46), (48, 57), (65, 72), (74, 90), (94, 104),
           (106, 122), (124, 124), (126, 126)], [], 21),
         ([(58, 58)], [C_write_field], 22),
         ([(73, 73), (105, 105)], [], 32)]),
     (32, [], [([(33, 33), (35, 39), (42, 43), (45, 46), (48, 57), (65, 78), (80, 90), (94, 110),
           (112, 122), (124, 124), (126, 126)], [], 21),
         ([(58, 58)], [C_write_field], 22),
         ([(79, 79), (111, 111)], [], 33)]),
     (33, [], [([(33, 33), (35, 39), (42, 43), (45, 46), (48, 57), (65, 77), (79, 90), (94, 109),
           (111, 122), (124, 124), (126, 126)], [], 21),
         ([(58, 58)], [C_write_field], 22),
         ([(78, 78), (110, 110)], [], 34)])]"

definition httpclient_states_8 :: "httpclient_action state list" where
  "httpclient_states_8 = [
     (34, [], [([(33, 33), (35, 39), (42, 43), (45, 46), (48, 57), (65, 90), (94, 122), (124, 124),
           (126, 126)], [], 21),
         ([(58, 58)], [C_write_field], 35)]),
     (35, [], [([(- 128, 8), (14, 31), (33, 66), (68, 98), (100, 127)], [C_start_value], 23),
         ([(9, 9), (11, 12), (32, 32)], [C_start_value], 35),
         ([(10, 10)], [C_start_value, C_write_value], 36),
         ([(13, 13)], [C_start_value, C_write_value], 95),
         ([(67, 67), (99, 99)], [C_start_value], 96)]),
     (36, [], [([(9, 9), (11, 12), (32, 32)], [], 37),
         ([(10, 10)], [C_done], 122),
         ([(13, 13)], [], 89),
         ([(33, 33), (35, 39), (42, 43), (45, 46), (48, 57), (65, 66), (68, 83), (85, 90), (94, 98),
           (100, 115), (117, 122), (124, 124), (126, 126)], [C_start_field], 21),
         ([(67, 67), (99, 99)], [C_start_field], 90),
         ([(84, 84), (116, 116)], [C_start_field], 44)]),
     (37, [], [([(9, 13), (32, 32)], [], 37),
         ([(67, 67), (99, 99)], [], 38)]),
     (38, [], [([(76, 76), (108, 108)], [], 39)]),
     (39, [], [([(79, 79), (111, 111)], [], 40)]),
     (40, [], [([(83, 83), (115, 115)], [], 41)]),
     (41, [], [([(69, 69), (101, 101)], [], 42)])]"

definition httpclient_states_9 :: "httpclient_action state list" where
  "httpclient_states_9 = [
     (42, [], [([(10, 10)], [], 43),
         ([(13, 13)], [], 88)]),
     (43, [], [([(10, 10)], [C_write_connection_close, C_done], 120),
         ([(13, 13)], [C_write_connection_close], 3),
         ([(33, 33), (35, 39), (42, 43), (45, 46), (48, 57), (65, 66), (68, 83), (85, 90), (94, 98),
           (100, 115), (117, 122), (124, 124), (126, 126)], [C_write_connection_close,
           C_start_field], 21),
         ([(67, 67), (99, 99)], [C_write_connection_close, C_start_field], 25),
         ([(84, 84), (116, 116)], [C_write_connection_close, C_start_field], 44)]),
     (44, [], [([(33, 33), (35, 39), (42, 43), (45, 46), (48, 57), (65, 81), (83, 90), (94, 113),
           (115, 122), (124, 124), (126, 126)], [], 21),
         ([(58, 58)], [C_write_field], 22),
         ([(82, 82), (114, 114)], [], 45)]),
     (45, [], [([(33, 33), (35, 39), (42, 43), (45, 46), (48, 57), (66, 90), (94, 96), (98, 122),
           (124, 124), (126, 126)], [], 21),
         ([(58, 58)], [C_write_field], 22),
         ([(65, 65), (97, 97)], [], 46)])]"

definition httpclient_states_10 :: "httpclient_action state list" where
  "httpclient_states_10 = [
     (46, [], [([(33, 33), (35, 39), (42, 43), (45, 46), (48, 57), (65, 77), (79, 90), (94, 109),
           (111, 122), (124, 124), (126, 126)], [], 21),
         ([(58, 58)], [C_write_field], 22),
         ([(78, 78), (110, 110)], [], 47)]),
     (47, [], [([(33, 33), (35, 39), (42, 43), (45, 46), (48, 57), (65, 82), (84, 90), (94, 114),
           (116, 122), (124, 124), (126, 126)], [], 21),
         ([(58, 58)], [C_write_field], 22),
         ([(83, 83), (115, 115)], [], 48)]),
     (48, [], [([(33, 33), (35, 39), (42, 43), (45, 46), (48, 57), (65, 69), (71, 90), (94, 101),
           (103, 122), (124, 124), (126, 126)], [], 21),
         ([(58, 58)], [C_write_field], 22),
         ([(70, 70), (102, 102)], [], 49)]),
     (49, [], [([(33, 33), (35, 39), (42, 43), (45, 46), (48, 57), (65, 68), (70, 90), (94, 100),
           (102, 122), (124, 124), (126, 126)], [], 21),
         ([(58, 58)], [C_write_field], 22),
         ([(69, 69), (101, 101)], [], 50)]),
     (50, [], [([(33, 33), (35, 39), (42, 43), (45, 46), (48, 57), (65, 81), (83, 90), (94, 113),
           (115, 122), (124, 124), (126, 126)], [], 21),
         ([(58, 58)], [C_write_field], 22),
         ([(82, 82), (114, 114)], [], 51)])]"

definition httpclient_states_11 :: "httpclient_action state list" where
  "httpclient_states_11 = [
     (51, [], [([(33, 33), (35, 39), (42, 43), (46, 46), (48, 57), (65, 90), (94, 122), (124, 124),
           (126, 126)], [], 21),
         ([(45, 45)], [], 52),
         ([(58, 58)], [C_write_field], 22)]),
     (52, [], [([(33, 33), (35, 39), (42, 43), (45, 46), (48, 57), (65, 68), (70, 90), (94, 100),
           (102, 122), (124, 124), (126, 126)], [], 21),
         ([(58, 58)], [C_write_field], 22),
         ([(69, 69), (101, 101)], [], 53)]),
     (53, [], [([(33, 33), (35, 39), (42, 43), (45, 46), (48, 57), (65, 77), (79, 90), (94, 109),
           (111, 122), (124, 124), (126, 126)], [], 21),
         ([(58, 58)], [C_write_field], 22),
         ([(78, 78), (110, 110)], [], 54)]),
     (54, [], [([(33, 33), (35, 39), (42, 43), (45, 46), (48, 57), (65, 66), (68, 90), (94, 98),
           (100, 122), (124, 124), (126, 126)], [], 21),
         ([(58, 58)], [C_write_field], 22),
         ([(67, 67), (99, 99)], [], 55)]),
     (55, [], [([(33, 33), (35, 39), (42, 43), (45, 46), (48, 57), (65, 78), (80, 90), (94, 110),
           (112, 122), (124, 124), (126, 126)], [], 21),
         ([(58, 58)], [C_write_field], 22),
         ([(79, 79), (111, 111)], [], 56)])]"

definition httpclient_states_12 :: "httpclient_action state list" where
  "httpclient_states_12 = [
     (56, [], [([(33, 33), (35, 39), (42, 43), (45, 46), (48, 57), (65, 67), (69, 90), (94, 99),
           (101, 122), (124, 124), (126, 126)], [], 21),
         ([(58, 58)], [C_write_field], 22),
         ([(68, 68), (100, 100)], [], 57)]),
     (57, [], [([(33, 33), (35, 39), (42, 43), (45, 46), (48, 57), (65, 72), (74, 90), (94, 104),
           (106, 122), (124, 124), (126, 126)], [], 21),
         ([(58, 58)], [C_write_field], 22),
         ([(73, 73), (105, 105)], [], 58)]),
     (58, [], [([(33, 33), (35, 39), (42, 43), (45, 46), (48, 57), (65, 77), (79, 90), (94, 109),
           (111, 122), (124, 124), (126, 126)], [], 21),
         ([(58, 58)], [C_write_field], 22),
         ([(78, 78), (110, 110)], [], 59)]),
     (59, [], [([(33, 33), (35, 39), (42, 43), (45, 46), (48, 57), (65, 70), (72, 90), (94, 102),
           (104, 122), (124, 124), (126, 126)], [], 21),
         ([(58, 58)], [C_write_field], 22),
         ([(71, 71), (103, 103)], [], 60)]),
     (60, [], [([(33, 33), (35, 39), (42, 43), (45, 46), (48, 57), (65, 90), (94, 122), (124, 124),
           (126, 126)], [], 21),
         ([(58, 58)], [C_write_field], 61)])]"

definition httpclient_states_13 :: "httpclient_action state list" where
  "httpclient_states_13 = [
     (61, [], [([(- 128, 8), (14, 31), (33, 66), (68, 98), (100, 127)], [C_start_value], 23),
         ([(9, 9), (11, 12), (32, 32)], [C_start_value], 61),
         ([(10, 10)], [C_start_value, C_write_value], 62),
         ([(13, 13)], [C_start_value, C_write_value], 80),
         ([(67, 67), (99, 99)], [C_start_value], 81)]),
     (62, [], [([(9, 9), (11, 12), (32, 32)], [], 63),
         ([(10, 10)], [C_done], 121),
         ([(13, 13)], [], 72),
         ([(33, 33), (35, 39), (42, 43), (45, 46), (48, 57), (65, 66), (68, 83), (85, 90), (94, 98),
           (100, 115), (117, 122), (124, 124), (126, 126)], [C_start_field], 21),
         ([(67, 67), (99, 99)], [C_start_value, C_start_field], 73),
         ([(84, 84), (116, 116)], [C_start_field], 44)]),
     (63, [], [([(9, 13), (32, 32)], [], 63),
         ([(67, 67), (99, 99)], [C_start_value], 64)]),
     (64, [], [([(72, 72), (104, 104)], [], 65)]),
     (65, [], [([(85, 85), (117, 117)], [], 66)]),
     (66, [], [([(78, 78), (110, 110)], [], 67)]),
     (67, [], [([(75, 75), (107, 107)], [], 68)]),
     (68, [], [([(69, 69), (101, 101)], [], 69)]),
     (69, [], [([(68, 68), (100, 100)], [], 70)])]"

definition httpclient_states_14 :: "httpclient_action state list" where
  "httpclient_states_14 = [
     (70, [], [([(10, 10)], [C_write_value, C_trans_chunked], 20),
         ([(13, 13)], [C_write_value], 71)]),
     (71, [], [([(10, 10)], [C_trans_chunked], 20)]),
     (121, [], [([(9, 13), (32, 32)], [], 63),
         ([(67, 67), (99, 99)], [C_start_value], 64)]),
     (72, [], [([(9, 9), (11, 13), (32, 32)], [], 63),
         ([(10, 10)], [C_done], 121),
         ([(67, 67), (99, 99)], [C_start_value], 64)]),
     (73, [], [([(33, 33), (35, 39), (42, 43), (45, 46), (48, 57), (65, 71), (73, 78), (80, 90),
           (94, 103), (105, 110), (112, 122), (124, 124), (126, 126)], [], 21),
         ([(58, 58)], [C_write_field], 22),
         ([(72, 72), (104, 104)], [], 74),
         ([(79, 79), (111, 111)], [], 26)]),
     (74, [], [([(33, 33), (35, 39), (42, 43), (45, 46), (48, 57), (65, 84), (86, 90), (94, 116),
           (118, 122), (124, 124), (126, 126)], [], 21),
         ([(58, 58)], [C_write_field], 22),
         ([(85, 85), (117, 117)], [], 75)])]"

definition httpclient_states_15 :: "httpclient_action state list" where
  "httpclient_states_15 = [
     (75, [], [([(33, 33), (35, 39), (42, 43), (45, 46), (48, 57), (65, 77), (79, 90), (94, 109),
           (111, 122), (124, 124), (126, 126)], [], 21),
         ([(58, 58)], [C_write_field], 22),
         ([(78, 78), (110, 110)], [], 76)]),
     (76, [], [([(33, 33), (35, 39), (42, 43), (45, 46), (48, 57), (65, 74), (76, 90), (94, 106),
           (108, 122), (124, 124), (126, 126)], [], 21),
         ([(58, 58)], [C_write_field], 22),
         ([(75, 75), (107, 107)], [], 77)]),
     (77, [], [([(33, 33), (35, 39), (42, 43), (45, 46), (48, 57), (65, 68), (70, 90), (94, 100),
           (102, 122), (124, 124), (126, 126)], [], 21),
         ([(58, 58)], [C_write_field], 22),
         ([(69, 69), (101, 101)], [], 78)]),
     (78, [], [([(33, 33), (35, 39), (42, 43), (45, 46), (48, 57), (65, 67), (69, 90), (94, 99),
           (101, 122), (124, 124), (126, 126)], [], 21),
         ([(58, 58)], [C_write_field], 22),
         ([(68, 68), (100, 100)], [], 79)]),
     (79, [], [([(10, 10)], [C_write_value, C_trans_chunked], 20),
         ([(13, 13)], [C_write_value], 71),
         ([(33, 33), (35, 39), (42, 43), (45, 46), (48, 57), (65, 90), (94, 122), (124, 124), (126,
           126)], [], 21),
         ([(58, 58)], [C_write_field], 22)])]"

definition httpclient_states_16 :: "httpclient_action state list" where
  "httpclient_states_16 = [
     (80, [], [([(9, 9), (11, 13), (32, 32)], [], 63),
         ([(10, 10)], [], 62),
         ([(67, 67), (99, 99)], [C_start_value], 64)]),
     (81, [], [([(- 128, 9), (11, 12), (14, 71), (73, 103), (105, 127)], [], 23),
         ([(10, 10)], [C_write_value], 20),
         ([(13, 13)], [C_write_value], 24),
         ([(72, 72), (104, 104)], [], 82)]),
     (82, [], [([(- 128, 9), (11, 12), (14, 84), (86, 116), (118, 127)], [], 23),
         ([(10, 10)], [C_write_value], 20),
         ([(13, 13)], [C_write_value], 24),
         ([(85, 85), (117, 117)], [], 83)]),
     (83, [], [([(- 128, 9), (11, 12), (14, 77), (79, 109), (111, 127)], [], 23),
         ([(10, 10)], [C_write_value], 20),
         ([(13, 13)], [C_write_value], 24),
         ([(78, 78), (110, 110)], [], 84)]),
     (84, [], [([(- 128, 9), (11, 12), (14, 74), (76, 106), (108, 127)], [], 23),
         ([(10, 10)], [C_write_value], 20),
         ([(13, 13)], [C_write_value], 24),
         ([(75, 75), (107, 107)], [], 85)]),
     (85, [], [([(- 128, 9), (11, 12), (14, 68), (70, 100), (102, 127)], [], 23),
         ([(10, 10)], [C_write_value], 20),
         ([(13, 13)], [C_write_value], 24),
         ([(69, 69), (101, 101)], [], 86)]),
     (86, [], [([(- 128, 9), (11, 12), (14, 67), (69, 99), (101, 127)], [], 23),
         ([(10, 10)], [C_write_value], 20),
         ([(13, 13)], [C_write_value], 24),
         ([(68, 68), (100, 100)], [], 87)]),
     (87, [], [([(- 128, 9), (11, 12), (14, 127)], [], 23),
         ([(10, 10)], [C_write_value, C_trans_chunked], 20),
         ([(13, 13)], [C_write_value], 71)]),
     (88, [], [([(10, 10)], [], 43)]),
     (122, [], [([(9, 13), (32, 32)], [], 37),
         ([(67, 67), (99, 99)], [], 38)])]"

definition httpclient_states_17 :: "httpclient_action state list" where
  "httpclient_states_17 = [
     (89, [], [([(9, 9), (11, 13), (32, 32)], [], 37),
         ([(10, 10)], [C_done], 122),
         ([(67, 67), (99, 99)], [], 38)]),
     (90, [], [([(33, 33), (35, 39), (42, 43), (45, 46), (48, 57), (65, 75), (77, 78), (80, 90),
           (94, 107), (109, 110), (112, 122), (124, 124), (126, 126)], [], 21),
         ([(58, 58)], [C_write_field], 22),
         ([(76, 76), (108, 108)], [], 91),
         ([(79, 79), (111, 111)], [], 26)]),
     (91, [], [([(33, 33), (35, 39), (42, 43), (45, 46), (48, 57), (65, 78), (80, 90), (94, 110),
           (112, 122), (124, 124), (126, 126)], [], 21),
         ([(58, 58)], [C_write_field], 22),
         ([(79, 79), (111, 111)], [], 92)]),
     (92, [], [([(33, 33), (35, 39), (42, 43), (45, 46), (48, 57), (65, 82), (84, 90), (94, 114),
           (116, 122), (124, 124), (126, 126)], [], 21),
         ([(58, 58)], [C_write_field], 22),
         ([(83, 83), (115, 115)], [], 93)]),
     (93, [], [([(33, 33), (35, 39), (42, 43), (45, 46), (48, 57), (65, 68), (70, 90), (94, 100),
           (102, 122), (124, 124), (126, 126)], [], 21),
         ([(58, 58)], [C_write_field], 22),
         ([(69, 69), (101, 101)], [], 94)])]"

definition httpclient_states_18 :: "httpclient_action state list" where
  "httpclient_states_18 = [
     (94, [], [([(10, 10)], [], 43),
         ([(13, 13)], [], 88),
         ([(33, 33), (35, 39), (42, 43), (45, 46), (48, 57), (65, 90), (94, 122), (124, 124), (126,
           126)], [], 21),
         ([(58, 58)], [C_write_field], 22)]),
     (95, [], [([(9, 9), (11, 13), (32, 32)], [], 37),
         ([(10, 10)], [], 36),
         ([(67, 67), (99, 99)], [], 38)]),
     (96, [], [([(- 128, 9), (11, 12), (14, 75), (77, 107), (109, 127)], [], 23),
         ([(10, 10)], [C_write_value], 20),
         ([(13, 13)], [C_write_value], 24),
         ([(76, 76), (108, 108)], [], 97)]),
     (97, [], [([(- 128, 9), (11, 12), (14, 78), (80, 110), (112, 127)], [], 23),
         ([(10, 10)], [C_write_value], 20),
         ([(13, 13)], [C_write_value], 24),
         ([(79, 79), (111, 111)], [], 98)]),
     (98, [], [([(- 128, 9), (11, 12), (14, 82), (84, 114), (116, 127)], [], 23),
         ([(10, 10)], [C_write_value], 20),
         ([(13, 13)], [C_write_value], 24),
         ([(83, 83), (115, 115)], [], 99)]),
     (99, [], [([(- 128, 9), (11, 12), (14, 68), (70, 100), (102, 127)], [], 23),
         ([(10, 10)], [C_write_value], 20),
         ([(13, 13)], [C_write_value], 24),
         ([(69, 69), (101, 101)], [], 100)]),
     (100, [], [([(- 128, 9), (11, 12), (14, 127)], [], 23),
         ([(10, 10)], [C_write_value], 43),
         ([(13, 13)], [C_write_value], 88)]),
     (101, [], [([(33, 33), (35, 39), (42, 43), (45, 46), (48, 57), (65, 68), (70, 90), (94, 100),
           (102, 122), (124, 124), (126, 126)], [], 21),
         ([(58, 58)], [C_write_field], 22),
         ([(69, 69), (101, 101)], [], 102)])]"

definition httpclient_states_19 :: "httpclient_action state list" where
  "httpclient_states_19 = [
     (102, [], [([(33, 33), (35, 39), (42, 43), (45, 46), (48, 57), (65, 77), (79, 90), (94, 109),
           (111, 122), (124, 124), (126, 126)], [], 21),
         ([(58, 58)], [C_write_field], 22),
         ([(78, 78), (110, 110)], [], 103)]),
     (103, [], [([(33, 33), (35, 39), (42, 43), (45, 46), (48, 57), (65, 83), (85, 90), (94, 115),
           (117, 122), (124, 124), (126, 126)], [], 21),
         ([(58, 58)], [C_write_field], 22),
         ([(84, 84), (116, 116)], [], 104)]),
     (104, [], [([(33, 33), (35, 39), (42, 43), (46, 46), (48, 57), (65, 90), (94, 122), (124, 124),
           (126, 126)], [], 21),
         ([(45, 45)], [], 105),
         ([(58, 58)], [C_write_field], 22)]),
     (105, [], [([(33, 33), (35, 39), (42, 43), (45, 46), (48, 57), (65, 75), (77, 90), (94, 107),
           (109, 122), (124, 124), (126, 126)], [], 21),
         ([(58, 58)], [C_write_field], 22),
         ([(76, 76), (108, 108)], [], 106)]),
     (106, [], [([(33, 33), (35, 39), (42, 43), (45, 46), (48, 57), (65, 68), (70, 90), (94, 100),
           (102, 122), (124, 124), (126, 126)], [], 21),
         ([(58, 58)], [C_write_field], 22),
         ([(69, 69), (101, 101)], [], 107)])]"

definition httpclient_states_20 :: "httpclient_action state list" where
  "httpclient_states_20 = [
     (107, [], [([(33, 33), (35, 39), (42, 43), (45, 46), (48, 57), (65, 77), (79, 90), (94, 109),
           (111, 122), (124, 124), (126, 126)], [], 21),
         ([(58, 58)], [C_write_field], 22),
         ([(78, 78), (110, 110)], [], 108)]),
     (108, [], [([(33, 33), (35, 39), (42, 43), (45, 46), (48, 57), (65, 70), (72, 90), (94, 102),
           (104, 122), (124, 124), (126, 126)], [], 21),
         ([(58, 58)], [C_write_field], 22),
         ([(71, 71), (103, 103)], [], 109)]),
     (109, [], [([(33, 33), (35, 39), (42, 43), (45, 46), (48, 57), (65, 83), (85, 90), (94, 115),
           (117, 122), (124, 124), (126, 126)], [], 21),
         ([(58, 58)], [C_write_field], 22),
         ([(84, 84), (116, 116)], [], 110)]),
     (110, [], [([(33, 33), (35, 39), (42, 43), (45, 46), (48, 57), (65, 71), (73, 90), (94, 103),
           (105, 122), (124, 124), (126, 126)], [], 21),
         ([(58, 58)], [C_write_field], 22),
         ([(72, 72), (104, 104)], [], 111)]),
     (111, [], [([(33, 33), (35, 39), (42, 43), (45, 46), (48, 57), (65, 90), (94, 122), (124, 124),
           (126, 126)], [], 21),
         ([(58, 58)], [C_write_field], 112)])]"

definition httpclient_states_21 :: "httpclient_action state list" where
  "httpclient_states_21 = [
     (112, [], [([(- 128, 8), (14, 31), (33, 47), (58, 127)], [C_start_value], 23),
         ([(9, 9), (11, 12), (32, 32)], [C_start_value], 112),
         ([(10, 10)], [C_start_value, C_write_value], 113),
         ([(13, 13)], [C_start_value, C_write_value], 118),
         ([(48, 57)], [C_start_value], 119)]),
     (113, [], [([(9, 9), (11, 12), (32, 32)], [], 114),
         ([(10, 10)], [C_done], 123),
         ([(13, 13)], [], 116),
         ([(33, 33), (35, 39), (42, 43), (45, 46), (65, 66), (68, 83), (85, 90), (94, 98), (100,
           115), (117, 122), (124, 124), (126, 126)], [C_start_field], 21),
         ([(48, 57)], [C_start_value, C_start_field], 117),
         ([(67, 67), (99, 99)], [C_start_field], 25),
         ([(84, 84), (116, 116)], [C_start_field], 44)]),
     (114, [], [([(9, 13), (32, 32)], [], 114),
         ([(48, 57)], [C_start_value], 115)]),
     (115, [], [([(10, 10)], [C_write_content_len, C_write_value], 20),
         ([(13, 13)], [C_write_content_len, C_write_value], 24),
         ([(48, 57)], [], 115)]),
     (123, [], [([(9, 13), (32, 32)], [], 114),
         ([(48, 57)], [C_start_value], 115)]),
     (116, [], [([(9, 9), (11, 13), (32, 32)], [], 114),
         ([(10, 10)], [C_done], 123),
         ([(48, 57)], [C_start_value], 115)])]"

definition httpclient_states_22 :: "httpclient_action state list" where
  "httpclient_states_22 = [
     (117, [], [([(10, 10)], [C_write_content_len, C_write_value], 20),
         ([(13, 13)], [C_write_content_len, C_write_value], 24),
         ([(33, 33), (35, 39), (42, 43), (45, 46), (65, 90), (94, 122), (124, 124), (126, 126)], [],
           21),
         ([(48, 57)], [], 117),
         ([(58, 58)], [C_write_field], 22)]),
     (118, [], [([(9, 9), (11, 13), (32, 32)], [], 114),
         ([(10, 10)], [], 113),
         ([(48, 57)], [C_start_value], 115)]),
     (119, [], [([(- 128, 9), (11, 12), (14, 47), (58, 127)], [], 23),
         ([(10, 10)], [C_write_content_len, C_write_value], 20),
         ([(13, 13)], [C_write_content_len, C_write_value], 24),
         ([(48, 57)], [], 119)])]"

definition httpclient_table :: "httpclient_action state list" where
  "httpclient_table = concat [
     httpclient_states_1, httpclient_states_2, httpclient_states_3, httpclient_states_4,
     httpclient_states_5, httpclient_states_6, httpclient_states_7, httpclient_states_8,
     httpclient_states_9, httpclient_states_10, httpclient_states_11, httpclient_states_12,
     httpclient_states_13, httpclient_states_14, httpclient_states_15, httpclient_states_16,
     httpclient_states_17, httpclient_states_18, httpclient_states_19, httpclient_states_20,
     httpclient_states_21, httpclient_states_22]"

lemmas httpclient_states =
  httpclient_states_1_def httpclient_states_2_def httpclient_states_3_def httpclient_states_4_def
  httpclient_states_5_def httpclient_states_6_def httpclient_states_7_def httpclient_states_8_def
  httpclient_states_9_def httpclient_states_10_def httpclient_states_11_def
  httpclient_states_12_def httpclient_states_13_def httpclient_states_14_def
  httpclient_states_15_def httpclient_states_16_def httpclient_states_17_def
  httpclient_states_18_def httpclient_states_19_def httpclient_states_20_def
  httpclient_states_21_def httpclient_states_22_def

text \<open>The numbers of the states of each stretch.\<close>

lemma httpclient_keys:
  "map fst httpclient_states_1 = [1, 2, 120]"
  "map fst httpclient_states_2 = [3, 4, 5]"
  "map fst httpclient_states_3 = [6, 7, 8, 9, 10, 11, 12, 13, 14, 15]"
  "map fst httpclient_states_4 = [16, 17, 18, 19, 20]"
  "map fst httpclient_states_5 = [21, 22, 23, 24]"
  "map fst httpclient_states_6 = [25, 26, 27, 28]"
  "map fst httpclient_states_7 = [29, 30, 31, 32, 33]"
  "map fst httpclient_states_8 = [34, 35, 36, 37, 38, 39, 40, 41]"
  "map fst httpclient_states_9 = [42, 43, 44, 45]"
  "map fst httpclient_states_10 = [46, 47, 48, 49, 50]"
  "map fst httpclient_states_11 = [51, 52, 53, 54, 55]"
  "map fst httpclient_states_12 = [56, 57, 58, 59, 60]"
  "map fst httpclient_states_13 = [61, 62, 63, 64, 65, 66, 67, 68, 69]"
  "map fst httpclient_states_14 = [70, 71, 121, 72, 73, 74]"
  "map fst httpclient_states_15 = [75, 76, 77, 78, 79]"
  "map fst httpclient_states_16 = [80, 81, 82, 83, 84, 85, 86, 87, 88, 122]"
  "map fst httpclient_states_17 = [89, 90, 91, 92, 93]"
  "map fst httpclient_states_18 = [94, 95, 96, 97, 98, 99, 100, 101]"
  "map fst httpclient_states_19 = [102, 103, 104, 105, 106]"
  "map fst httpclient_states_20 = [107, 108, 109, 110, 111]"
  "map fst httpclient_states_21 = [112, 113, 114, 115, 123, 116]"
  "map fst httpclient_states_22 = [117, 118, 119]"
  by (simp_all only: httpclient_states list.map fst_conv)

end
