(* ===== verification/Strtol.thy ===== *)
theory Strtol
  imports Prelude
begin

text \<open>
  \<open>strtol\<close> and \<open>atoi\<close> of the C library, as the response parser and the URI parser use them:
  white space, a sign, the digits of the base, and the clamping of values that do not fit.
  The text is a C string given by the characters from the pointer on; reading ends at the
  first character that is no digit, at the latest at the NUL byte behind the text.
\<close>

text \<open>The value of a digit in a base of at most 36, and \<open>strtol\<close> for the bases 10 and 16.\<close>

definition digit_value :: "nat \<Rightarrow> char \<Rightarrow> nat option" where
  "digit_value base c =
     (let n = char_nat c;
          v = (if 48 \<le> n \<and> n \<le> 57 then n - 48
               else if 65 \<le> n \<and> n \<le> 90 then n - 55
               else if 97 \<le> n \<and> n \<le> 122 then n - 87 else 36)
      in if v < base then Some v else None)"

definition is_space :: "char \<Rightarrow> bool" where
  "is_space c \<longleftrightarrow> char_nat c = 32 \<or> (9 \<le> char_nat c \<and> char_nat c \<le> 13)"

fun digits_value :: "nat \<Rightarrow> nat \<Rightarrow> string \<Rightarrow> nat" where
  "digits_value base acc [] = acc"
| "digits_value base acc (c # s) =
     (case digit_value base c of None \<Rightarrow> acc | Some v \<Rightarrow> digits_value base (base * acc + v) s)"

fun hex_prefix :: "string \<Rightarrow> string" where
  "hex_prefix (a # b # c # s) =
     (if a = CHR ''0'' \<and> (b = CHR ''x'' \<or> b = CHR ''X'') \<and> digit_value 16 c \<noteq> None then c # s else a # b # c # s)"
| "hex_prefix s = s"

fun strtol_sign :: "string \<Rightarrow> bool \<times> string" where
  "strtol_sign (c # s) = (if c = CHR ''-'' then (True, s) else if c = CHR ''+'' then (False, s) else (False, c # s))"
| "strtol_sign [] = (False, [])"

definition strtol :: "nat \<Rightarrow> string \<Rightarrow> int" where
  "strtol base s =
     (case strtol_sign (dropWhile is_space s) of (neg, s) \<Rightarrow>
        let v = int (digits_value base 0 (if base = 16 then hex_prefix s else s))
        in if neg then max (- (2 ^ 63)) (- v) else min (2 ^ 63 - 1) v)"

text \<open>Storing a \<open>long\<close> in an \<open>int\<close>.\<close>

definition int32 :: "int \<Rightarrow> int" where
  "int32 n = sint (word_of_int n :: u32)"

definition atoi :: "string \<Rightarrow> int" where
  "atoi s = int32 (strtol 10 s)"

subsection \<open>Reading printed numbers\<close>

lemma digits_value_text:
  assumes "list_all is_digit s" and "rest = [] \<or> digit_value 10 (hd rest) = None"
  shows "digits_value 10 acc (s @ rest) = foldl (\<lambda>n c. 10 * n + (char_nat c - 48)) acc s"
  using assms(1)
proof (induction s arbitrary: acc)
  case Nil
  then show ?case using assms(2) by (cases rest) auto
next
  case (Cons c s)
  then have "digit_value 10 c = Some (char_nat c - 48)" by (auto simp: digit_value_def is_digit_def Let_def)
  then show ?case using Cons by simp
qed

lemma strtol_dec:
  assumes "n < 2 ^ 63" and "rest = [] \<or> digit_value 10 (hd rest) = None"
  shows "strtol 10 (nat_dec n @ rest) = int n"
proof -
  obtain c s where cs: "nat_dec n = c # s" by (cases "nat_dec n") auto
  have dig: "list_all is_digit (nat_dec n)" by (rule nat_dec_digits)
  then have "is_digit c" by (simp add: cs)
  then have "\<not> is_space c" "c \<noteq> CHR ''-''" "c \<noteq> CHR ''+''" by (auto simp: is_digit_def is_space_def char_nat_def)
  then have "strtol_sign (dropWhile is_space (nat_dec n @ rest)) = (False, nat_dec n @ rest)" by (simp add: cs)
  moreover have "digits_value 10 0 (nat_dec n @ rest) = n"
    using digits_value_text [OF dig assms(2), of 0] dec_nat_nat_dec [of n] by (simp add: dec_nat_def)
  ultimately show ?thesis using assms(1) by (simp add: strtol_def)
qed

lemma int32_small: "0 \<le> i \<Longrightarrow> i < 2 ^ 31 \<Longrightarrow> int32 i = i"
  by (simp add: int32_def signed_of_int signed_take_bit_int_eq_self)

end
