(* ===== verification/Httpclient_Parser.thy ===== *)
theory Httpclient_Parser
  imports Http11_Parser Httpclient_Table Strtol
begin

text \<open>
  The response parser around its machine (src/skt/http/httpclient_parser.h,
  httpclient_parser.rl and its generated C++): the struct \<open>httpclient_parser\<close>, the actions,
  \<open>httpclient_parser_init\<close>, \<open>_execute\<close>, \<open>_finish\<close>, \<open>_has_error\<close> and \<open>_is_finished\<close>.
  The byte behind the buffer is NUL, as the assertion in \<open>_execute\<close> asks for.
\<close>

subsection \<open>The parser\<close>

record 'd httpclient_parser =
  cp_cs :: nat
  cp_body_start :: nat
  cp_content_len :: int
  cp_status :: int
  cp_chunked :: bool
  cp_chunks_done :: bool
  cp_close :: bool
  cp_nread :: nat
  cp_mark :: nat
  cp_field_start :: nat
  cp_field_len :: nat
  cp_http_field :: "'d field_cb option"
  cp_reason_phrase :: "'d element_cb option"
  cp_status_code :: "'d element_cb option"
  cp_chunk_size :: "'d element_cb option"
  cp_http_version :: "'d element_cb option"
  cp_header_done :: "'d element_cb option"
  cp_last_chunk :: "'d element_cb option"

definition httpclient_parser_init :: "'d httpclient_parser \<Rightarrow> 'd httpclient_parser" where
  "httpclient_parser_init parser =
     parser\<lparr>cp_cs := 1, cp_body_start := 0, cp_content_len := - 1, cp_chunked := False,
       cp_chunks_done := False, cp_mark := 0, cp_nread := 0, cp_field_len := 0, cp_field_start := 0,
       cp_close := False\<rparr>"

definition httpclient_parser_has_error :: "'d httpclient_parser \<Rightarrow> bool" where
  "httpclient_parser_has_error parser \<longleftrightarrow> cp_cs parser = 0"

definition httpclient_parser_is_finished :: "'d httpclient_parser \<Rightarrow> bool" where
  "httpclient_parser_is_finished parser \<longleftrightarrow> cp_cs parser = 120"

definition httpclient_parser_finish :: "'d httpclient_parser \<Rightarrow> int" where
  "httpclient_parser_finish parser =
     (if httpclient_parser_has_error parser then - 1
      else if httpclient_parser_is_finished parser then 1 else 0)"

definition client_write_value ::
  "string \<Rightarrow> nat \<Rightarrow> 'd httpclient_parser \<times> 'd \<Rightarrow> parse_error + 'd httpclient_parser \<times> 'd" where
  "client_write_value buffer p s =
     (let cp = fst s
      in case cp_http_field cp of
           None \<Rightarrow> Inr s
         | Some f \<Rightarrow>
             and_then (f (PTR_TO buffer (cp_field_start cp)) (cp_field_len cp)
                         (PTR_TO buffer (cp_mark cp)) (LEN (cp_mark cp) p) (snd s))
               (\<lambda>d. Inr (cp, d)))"

definition chunk_size_action ::
  "string \<Rightarrow> nat \<Rightarrow> 'd httpclient_parser \<times> 'd \<Rightarrow> parse_error + 'd httpclient_parser \<times> 'd" where
  "chunk_size_action buffer p s =
     (let len = int32 (strtol 16 (PTR_TO buffer (cp_mark (fst s))));
          cp = (fst s)\<lparr>cp_chunked := True, cp_content_len := len, cp_chunks_done := len \<le> 0\<rparr>
      in call (if cp_chunks_done cp \<and> cp_last_chunk cp \<noteq> None then cp_last_chunk cp else cp_chunk_size cp)
           (PTR_TO buffer (cp_mark cp)) (LEN (cp_mark cp) p) (cp, snd s))"

fun httpclient_act :: "string \<Rightarrow> httpclient_action \<Rightarrow> nat \<Rightarrow> 'd httpclient_parser \<times> 'd
    \<Rightarrow> parse_error + 'd httpclient_parser \<times> 'd" where
  "httpclient_act buffer C_mark p (cp, d) = Inr (cp\<lparr>cp_mark := p\<rparr>, d)"
| "httpclient_act buffer C_start_field p (cp, d) = Inr (cp\<lparr>cp_field_start := p\<rparr>, d)"
| "httpclient_act buffer C_write_field p (cp, d) = Inr (cp\<lparr>cp_field_len := LEN (cp_field_start cp) p\<rparr>, d)"
| "httpclient_act buffer C_start_value p (cp, d) = Inr (cp\<lparr>cp_mark := p\<rparr>, d)"
| "httpclient_act buffer C_write_content_len p (cp, d) =
     Inr (cp\<lparr>cp_content_len := int32 (strtol 10 (PTR_TO buffer (cp_mark cp)))\<rparr>, d)"
| "httpclient_act buffer C_write_connection_close p (cp, d) = Inr (cp\<lparr>cp_close := True\<rparr>, d)"
| "httpclient_act buffer C_write_value p s = client_write_value buffer p s"
| "httpclient_act buffer C_reason_phrase p (cp, d) =
     call (cp_reason_phrase cp) (PTR_TO buffer (cp_mark cp)) (LEN (cp_mark cp) p) (cp, d)"
| "httpclient_act buffer C_status_code p (cp, d) =
     (let cp = cp\<lparr>cp_status := int32 (strtol 10 (PTR_TO buffer (cp_mark cp)))\<rparr>
      in call (cp_status_code cp) (PTR_TO buffer (cp_mark cp)) (LEN (cp_mark cp) p) (cp, d))"
| "httpclient_act buffer C_http_version p (cp, d) =
     call (cp_http_version cp) (PTR_TO buffer (cp_mark cp)) (LEN (cp_mark cp) p) (cp, d)"
| "httpclient_act buffer C_chunk_size p s = chunk_size_action buffer p s"
| "httpclient_act buffer C_trans_chunked p (cp, d) = Inr (cp\<lparr>cp_chunked := True\<rparr>, d)"
| "httpclient_act buffer C_done p (cp, d) =
     (let cp = cp\<lparr>cp_body_start := p + 1\<rparr>
      in call (cp_header_done cp) (PTR_TO buffer (p + 1)) (length buffer - p - 1) (cp, d))"

definition httpclient_break :: "httpclient_action \<Rightarrow> bool" where
  "httpclient_break a \<longleftrightarrow> a = C_done"

text \<open>The failing \<open>check\<close>s go to the label \<open>error\<close> and give -1.\<close>

definition httpclient_parser_execute ::
  "'d httpclient_parser \<Rightarrow> string \<Rightarrow> nat \<Rightarrow> 'd \<Rightarrow> parse_error + int \<times> 'd httpclient_parser \<times> 'd" where
  "httpclient_parser_execute parser buffer off d =
     (let len = length buffer;
          parser = parser\<lparr>cp_nread := 0, cp_mark := 0, cp_field_len := 0, cp_field_start := 0\<rparr>;
          cs = cp_cs parser
      in if \<not> off \<le> len then Inl Assertion
         else and_then (run_machine 2 httpclient_table False (httpclient_act buffer) httpclient_break
                  (drop off buffer) off cs (parser, d))
           (\<lambda>(p, cs, parser, d).
              let parser = parser\<lparr>cp_cs := cs, cp_nread := cp_nread parser + (p - off)\<rparr>
              in if cp_nread parser \<le> len \<and> cp_body_start parser \<le> len then
                   if cp_mark parser < len \<and> cp_field_len parser \<le> len \<and> cp_field_start parser < len
                   then Inr (int (cp_nread parser), parser, d)
                   else Inr (- 1, parser, d)
                 else Inl Assertion))"

end
