(* ===== verification/Httpclient_States.thy ===== *)
theory Httpclient_States
  imports Httpclient_Parser
begin

text \<open>
  The states an ordinary response goes through in the machine of
  src/skt/http/httpclient_parser.rl.cpp: the status line, header names (of which it treats
  three in a special way), header values, and the head of a chunk.
\<close>

subsection \<open>Header names\<close>

text \<open>
  The machine looks for three names.  The states behind the beginnings of them have these
  labels; behind every other beginning of a name the machine is in state 21.
\<close>

definition name_labels :: "(string \<times> nat) list" where
  "name_labels =
     [(''c'', 25), (''co'', 26), (''con'', 27), (''conn'', 28), (''conne'', 29), (''connec'', 30),
      (''connect'', 31), (''connecti'', 32), (''connectio'', 33), (''connection'', 34),
      (''cont'', 101), (''conte'', 102), (''conten'', 103), (''content'', 104), (''content-'', 105),
      (''content-l'', 106), (''content-le'', 107), (''content-len'', 108), (''content-leng'', 109),
      (''content-lengt'', 110), (''content-length'', 111),
      (''t'', 44), (''tr'', 45), (''tra'', 46), (''tran'', 47), (''trans'', 48), (''transf'', 49),
      (''transfe'', 50), (''transfer'', 51), (''transfer-'', 52), (''transfer-e'', 53),
      (''transfer-en'', 54), (''transfer-enc'', 55), (''transfer-enco'', 56), (''transfer-encod'', 57),
      (''transfer-encodi'', 58), (''transfer-encodin'', 59), (''transfer-encoding'', 60)]"

definition name_state :: "string \<Rightarrow> nat" where
  "name_state s = (case map_of name_labels (map to_lower s) of None \<Rightarrow> 21 | Some n \<Rightarrow> n)"

definition colon_state :: "nat \<Rightarrow> nat" where
  "colon_state n = (if n = 34 then 35 else if n = 60 then 61 else if n = 111 then 112 else 22)"

lemma client_rows:
  "map_of httpclient_table 1 = map_of httpclient_states_1 1"
  "map_of httpclient_table 2 = map_of httpclient_states_1 2"
  "map_of httpclient_table 3 = map_of httpclient_states_2 3"
  "map_of httpclient_table 8 = map_of httpclient_states_3 8"
  "map_of httpclient_table 9 = map_of httpclient_states_3 9"
  "map_of httpclient_table 10 = map_of httpclient_states_3 10"
  "map_of httpclient_table 11 = map_of httpclient_states_3 11"
  "map_of httpclient_table 12 = map_of httpclient_states_3 12"
  "map_of httpclient_table 13 = map_of httpclient_states_3 13"
  "map_of httpclient_table 14 = map_of httpclient_states_3 14"
  "map_of httpclient_table 15 = map_of httpclient_states_3 15"
  "map_of httpclient_table 16 = map_of httpclient_states_4 16"
  "map_of httpclient_table 17 = map_of httpclient_states_4 17"
  "map_of httpclient_table 18 = map_of httpclient_states_4 18"
  "map_of httpclient_table 19 = map_of httpclient_states_4 19"
  "map_of httpclient_table 20 = map_of httpclient_states_4 20"
  "map_of httpclient_table 21 = map_of httpclient_states_5 21"
  "map_of httpclient_table 22 = map_of httpclient_states_5 22"
  "map_of httpclient_table 23 = map_of httpclient_states_5 23"
  "map_of httpclient_table 24 = map_of httpclient_states_5 24"
  "map_of httpclient_table 25 = map_of httpclient_states_6 25"
  "map_of httpclient_table 26 = map_of httpclient_states_6 26"
  "map_of httpclient_table 27 = map_of httpclient_states_6 27"
  "map_of httpclient_table 28 = map_of httpclient_states_6 28"
  "map_of httpclient_table 29 = map_of httpclient_states_7 29"
  "map_of httpclient_table 30 = map_of httpclient_states_7 30"
  "map_of httpclient_table 31 = map_of httpclient_states_7 31"
  "map_of httpclient_table 32 = map_of httpclient_states_7 32"
  "map_of httpclient_table 33 = map_of httpclient_states_7 33"
  "map_of httpclient_table 34 = map_of httpclient_states_8 34"
  "map_of httpclient_table 35 = map_of httpclient_states_8 35"
  "map_of httpclient_table 88 = map_of httpclient_states_16 88"
  "map_of httpclient_table 96 = map_of httpclient_states_18 96"
  "map_of httpclient_table 97 = map_of httpclient_states_18 97"
  "map_of httpclient_table 98 = map_of httpclient_states_18 98"
  "map_of httpclient_table 99 = map_of httpclient_states_18 99"
  "map_of httpclient_table 100 = map_of httpclient_states_18 100"
  "map_of httpclient_table 43 = map_of httpclient_states_9 43"
  "map_of httpclient_table 44 = map_of httpclient_states_9 44"
  "map_of httpclient_table 45 = map_of httpclient_states_9 45"
  "map_of httpclient_table 46 = map_of httpclient_states_10 46"
  "map_of httpclient_table 47 = map_of httpclient_states_10 47"
  "map_of httpclient_table 48 = map_of httpclient_states_10 48"
  "map_of httpclient_table 49 = map_of httpclient_states_10 49"
  "map_of httpclient_table 50 = map_of httpclient_states_10 50"
  "map_of httpclient_table 51 = map_of httpclient_states_11 51"
  "map_of httpclient_table 52 = map_of httpclient_states_11 52"
  "map_of httpclient_table 53 = map_of httpclient_states_11 53"
  "map_of httpclient_table 54 = map_of httpclient_states_11 54"
  "map_of httpclient_table 55 = map_of httpclient_states_11 55"
  "map_of httpclient_table 56 = map_of httpclient_states_12 56"
  "map_of httpclient_table 57 = map_of httpclient_states_12 57"
  "map_of httpclient_table 58 = map_of httpclient_states_12 58"
  "map_of httpclient_table 59 = map_of httpclient_states_12 59"
  "map_of httpclient_table 60 = map_of httpclient_states_12 60"
  "map_of httpclient_table 101 = map_of httpclient_states_18 101"
  "map_of httpclient_table 102 = map_of httpclient_states_19 102"
  "map_of httpclient_table 103 = map_of httpclient_states_19 103"
  "map_of httpclient_table 104 = map_of httpclient_states_19 104"
  "map_of httpclient_table 105 = map_of httpclient_states_19 105"
  "map_of httpclient_table 106 = map_of httpclient_states_19 106"
  "map_of httpclient_table 107 = map_of httpclient_states_20 107"
  "map_of httpclient_table 108 = map_of httpclient_states_20 108"
  "map_of httpclient_table 109 = map_of httpclient_states_20 109"
  "map_of httpclient_table 110 = map_of httpclient_states_20 110"
  "map_of httpclient_table 111 = map_of httpclient_states_20 111"
  "map_of httpclient_table 112 = map_of httpclient_states_21 112"
  "map_of httpclient_table 119 = map_of httpclient_states_22 119"
  by (simp_all only: httpclient_table_def httpclient_keys lookup_simps)

definition to_upper :: "char \<Rightarrow> char" where
  "to_upper c = (let n = of_char c :: nat in if 97 \<le> n \<and> n \<le> 122 then char_of (n - 32) else c)"

definition succs :: "string \<Rightarrow> (char \<times> nat) list" where
  "succs l = map (\<lambda>(s, n). (last s, n)) (filter (\<lambda>(s, _). butlast s = l \<and> s \<noteq> []) name_labels)"

text \<open>
  What a state that reads header names does: characters that continue one of the three
  names lead to their label, the others to state 21, with the same actions.
\<close>

definition codes :: "(char \<times> nat) list \<Rightarrow> int list" where
  "codes xs = map (\<lambda>(x, _). schar (to_upper x)) xs @ map (\<lambda>(x, _). schar x) xs"

definition name_edges :: "(char \<times> nat) list \<Rightarrow> httpclient_action list \<Rightarrow> httpclient_action edges \<Rightarrow> bool" where
  "name_edges xs as es \<longleftrightarrow>
     (case dropWhile (\<lambda>(_, _, t). t \<noteq> 21) es of
        [] \<Rightarrow> False
      | (rs, as', t) # _ \<Rightarrow> as' = as \<and> list_all (\<lambda>(a, b). split_range a b (codes xs) rs) token_chars) \<and>
     list_all (\<lambda>(rs, _). list_all (\<lambda>r. list_all (\<lambda>q. snd r < fst q \<or> snd q < fst r) rs) token_chars)
       (takeWhile (\<lambda>(_, _, t). t \<noteq> 21) es) \<and>
     list_all (\<lambda>(x, t). to_lower x = x \<and> to_lower (to_upper x) = x \<and>
       select (schar x) es = Some (as, t) \<and> select (schar (to_upper x)) es = Some (as, t)) xs"

lemma succs_labels: "map_of name_labels (l @ [y]) = map_of (succs l) y"
proof -
  have snoc: "l @ [y] = s \<longleftrightarrow> butlast s = l \<and> s \<noteq> [] \<and> last s = y" for s
    by (cases s rule: rev_cases) auto
  have "map_of ls (l @ [y]) =
      map_of (map (\<lambda>(s, n). (last s, n)) (filter (\<lambda>(s, _). butlast s = l \<and> s \<noteq> []) ls)) y"
    for ls :: "(string \<times> nat) list"
    by (induction ls) (auto simp: snoc)
  then show ?thesis by (simp add: succs_def)
qed

lemma schar_inject: "schar a = schar b \<longleftrightarrow> a = b"
  using char_nat_less [of a] char_nat_less [of b] by (auto simp: schar_def split: if_splits)

lemma lower_cases: "to_lower c = x \<Longrightarrow> c = x \<or> c = to_upper x"
  by (auto simp: to_lower_def to_upper_def Let_def split: if_splits)

lemma name_edges_select:
  assumes "name_edges xs as es" and "in_class token_chars c"
  shows "select (schar c) es = Some (as, case map_of xs (to_lower c) of None \<Rightarrow> 21 | Some t \<Rightarrow> t)"
proof -
  let ?P = "\<lambda>(_ :: (int \<times> int) list, _ :: httpclient_action list, t :: nat). t \<noteq> 21"
  note ok = assms(1) [unfolded name_edges_def]
  have pre: "select (schar c) es = select (schar c) (dropWhile ?P es)"
    using select_others [OF assms(2), of "takeWhile ?P es" "dropWhile ?P es"] ok by (simp only: takeWhile_dropWhile_id)
  have lower: "\<And>x t. (x, t) \<in> set xs \<Longrightarrow> to_lower x = x \<and> to_lower (to_upper x) = x \<and>
      select (schar x) es = Some (as, t) \<and> select (schar (to_upper x)) es = Some (as, t)"
    using conjunct2 [OF conjunct2 [OF ok]] unfolding list_all_iff by blast
  show ?thesis
  proof (cases "map_of xs (to_lower c)")
    case None
    then have "to_lower c \<notin> fst ` set xs" by (simp add: map_of_eq_None_iff)
    then have c: "schar c \<notin> set (codes xs)"
      using lower unfolding codes_def by (force simp: schar_inject)
    obtain e es' where es: "dropWhile ?P es = e # es'"
      using conjunct1 [OF ok] by (cases "dropWhile ?P es") auto
    obtain rs as' t where e: "e = (rs, as', t)" by (cases e)
    have "t = 21" using hd_dropWhile [of ?P es] es e by simp
    moreover have "as' = as" "list_all (\<lambda>(a, b). split_range a b (codes xs) rs) token_chars"
      using conjunct1 [OF ok] unfolding es e by auto
    ultimately show ?thesis unfolding pre es e using select_split [OF assms(2) c] None
      by (simp only: option.case)
  next
    case (Some t)
    from lower [OF map_of_SomeD [OF this]] show ?thesis using Some lower_cases [of c "to_lower c"] by auto
  qed
qed

lemma succs_list: "map (\<lambda>(l, _). succs l) name_labels =
     [[(CHR ''o'', 26)], [(CHR ''n'', 27)], [(CHR ''n'', 28), (CHR ''t'', 101)],
      [(CHR ''e'', 29)], [(CHR ''c'', 30)], [(CHR ''t'', 31)], [(CHR ''i'', 32)],
      [(CHR ''o'', 33)], [(CHR ''n'', 34)], [], [(CHR ''e'', 102)], [(CHR ''n'', 103)],
      [(CHR ''t'', 104)], [(CHR ''-'', 105)], [(CHR ''l'', 106)], [(CHR ''e'', 107)],
      [(CHR ''n'', 108)], [(CHR ''g'', 109)], [(CHR ''t'', 110)], [(CHR ''h'', 111)], [],
      [(CHR ''r'', 45)], [(CHR ''a'', 46)], [(CHR ''n'', 47)], [(CHR ''s'', 48)],
      [(CHR ''f'', 49)], [(CHR ''e'', 50)], [(CHR ''r'', 51)], [(CHR ''-'', 52)],
      [(CHR ''e'', 53)], [(CHR ''n'', 54)], [(CHR ''c'', 55)], [(CHR ''o'', 56)],
      [(CHR ''d'', 57)], [(CHR ''i'', 58)], [(CHR ''n'', 59)], [(CHR ''g'', 60)], []]"
  by code_simp

lemmas succs_simps = succs_list [unfolded name_labels_def list.map prod.case list.inject]

lemma name_rows:
  "list_all (\<lambda>(l, n). \<exists>es. map_of httpclient_table n = Some ([], es) \<and> name_edges (succs l) [] es \<and>
     select 58 es = Some ([C_write_field], colon_state n)) name_labels"
  by (simp add: name_labels_def succs_simps client_rows httpclient_states name_edges_def codes_def schar_def
      char_nat_def to_upper_def to_lower_def colon_state_def del: One_nat_def) code_simp

lemma first_rows:
  "\<exists>es. map_of httpclient_table 20 = Some ([], es) \<and> name_edges (succs []) [C_start_field] es"
  "\<exists>es. map_of httpclient_table 43 = Some ([], es) \<and>
     name_edges (succs []) [C_write_connection_close, C_start_field] es"
proof -
  have "succs [] = [(CHR ''c'', 25), (CHR ''t'', 44)]" by code_simp
  then show "\<exists>es. map_of httpclient_table 20 = Some ([], es) \<and> name_edges (succs []) [C_start_field] es"
    "\<exists>es. map_of httpclient_table 43 = Some ([], es) \<and>
     name_edges (succs []) [C_write_connection_close, C_start_field] es"
    by (simp_all add: client_rows httpclient_states name_edges_def codes_def schar_def
        char_nat_def to_upper_def to_lower_def) code_simp+
qed

lemma edge_first:
  assumes "in_class token_chars c"
  shows "edge httpclient_table False 20 c = Some ([C_start_field], name_state [c])"
    and "edge httpclient_table False 43 c = Some ([C_write_connection_close, C_start_field], name_state [c])"
  using first_rows name_edges_select [OF _ assms] succs_labels [of "[]"]
  by (auto simp: edge_def name_state_def)

lemma prefix_labels:
  assumes "map_of name_labels (l @ [y]) = Some n" and "l \<noteq> []"
  shows "map_of name_labels l \<noteq> None"
proof -
  have "list_all (\<lambda>(l, _). length l = 1 \<or> map_of name_labels (butlast l) \<noteq> None) name_labels" by code_simp
  then show ?thesis using map_of_SomeD [OF assms(1)] assms(2) by (fastforce simp: list_all_iff)
qed

lemma edge_name:
  assumes "in_class token_chars c" and "s \<noteq> []"
  shows "edge httpclient_table False (name_state s) c = Some ([], name_state (s @ [c]))"
proof (cases "map_of name_labels (map to_lower s)")
  case None
  then have "map_of name_labels (map to_lower s @ [to_lower c]) = None"
    using prefix_labels [of "map to_lower s"] assms(2) by (cases "map_of name_labels (map to_lower s @ [to_lower c])") auto
  moreover have "edge httpclient_table False 21 c = Some ([], 21)"
    using select_class [OF assms(1), of token_chars "[]"]
    by (simp add: edge_def client_rows httpclient_states_5_def del: select.simps)
  ultimately show ?thesis using None by (simp add: name_state_def)
next
  case (Some n)
  obtain es where es: "map_of httpclient_table n = Some ([], es)" "name_edges (succs (map to_lower s)) [] es"
    using name_rows map_of_SomeD [OF Some] by (auto simp: list_all_iff)
  show ?thesis
    using name_edges_select [OF es(2) assms(1)] es(1) Some
    by (simp add: name_state_def edge_def succs_labels)
qed

lemma edge_colon:
  assumes "s \<noteq> []"
  shows "edge httpclient_table False (name_state s) (CHR '':'') = Some ([C_write_field], colon_state (name_state s))"
proof (cases "map_of name_labels (map to_lower s)")
  case None
  then show ?thesis
    by (simp add: name_state_def edge_def client_rows httpclient_states_5_def schar_def char_nat_def colon_state_def)
next
  case (Some n)
  have "schar (CHR '':'') = 58" by (simp add: schar_def char_nat_def)
  then show ?thesis using name_rows map_of_SomeD [OF Some] Some
    by (auto simp: list_all_iff name_state_def edge_def)
qed

subsection \<open>The states of a response\<close>

abbreviation line_chars :: "(int \<times> int) list" where
  "line_chars \<equiv> [(- 128, 9), (11, 12), (14, 127)]"

abbreviation rvalue_first :: "(int \<times> int) list" where
  "rvalue_first \<equiv> [(- 128, 8), (14, 31), (33, 127)]"

lemma client_class:
  "in_class digits c \<Longrightarrow> edge httpclient_table False 16 c = Some ([C_mark], 17)"
  "in_class rvalue_first c \<Longrightarrow> edge httpclient_table False 22 c = Some ([C_start_value], 23)"
  "in_class line_chars c \<Longrightarrow> edge httpclient_table False 19 c = Some ([], 19)"
  "in_class line_chars c \<Longrightarrow> edge httpclient_table False 23 c = Some ([], 23)"
  "in_class xdigits c \<Longrightarrow> edge httpclient_table False 1 c = Some ([C_mark], 2)"
  by (simp_all add: edge_def client_rows httpclient_states select_hit
      del: select.simps One_nat_def)

lemma client_digits:
  assumes "in_class digits c"
  shows "edge httpclient_table False 112 c = Some ([C_start_value], 119)"
    "edge httpclient_table False 17 c = Some ([], 17)" "edge httpclient_table False 119 c = Some ([], 119)"
  using assms
  by (simp_all add: edge_def client_rows httpclient_states select_other [OF assms] select_hit
      del: select.simps)

lemma client_xdigits:
  assumes "in_class xdigits c"
  shows "edge httpclient_table False 2 c = Some ([], 2)"
  using assms
  by (simp_all add: edge_def client_rows httpclient_states select_other [OF assms] select_hit
      del: select.simps)

lemma client_first_reason:
  assumes "in_class line_chars c"
  shows "edge httpclient_table False 18 c = Some ([C_mark], 19)"
proof -
  have "in_class [(- 128, 9), (11, 127)] c" using assms by (auto simp: in_class_def)
  then show ?thesis
    by (simp add: edge_def client_rows httpclient_states_4_def select_hit del: select.simps)
qed

lemma client_char:
  "edge httpclient_table False 1 (CHR ''H'') = Some ([C_mark], 8)"
  "edge httpclient_table False 8 (CHR ''T'') = Some ([], 9)"
  "edge httpclient_table False 9 (CHR ''T'') = Some ([], 10)"
  "edge httpclient_table False 10 (CHR ''P'') = Some ([], 11)"
  "edge httpclient_table False 11 (CHR ''/'') = Some ([], 12)"
  "edge httpclient_table False 12 (CHR ''1'') = Some ([], 13)"
  "edge httpclient_table False 13 (CHR ''.'') = Some ([], 14)"
  "edge httpclient_table False 14 (CHR ''0'') = Some ([], 15)"
  "edge httpclient_table False 14 (CHR ''1'') = Some ([], 15)"
  "edge httpclient_table False 15 (CHR '' '') = Some ([C_http_version], 16)"
  "edge httpclient_table False 17 (CHR '' '') = Some ([C_status_code], 18)"
  "edge httpclient_table False 19 (CHR 0x0D) = Some ([C_reason_phrase], 24)"
  "edge httpclient_table False 24 (CHR 0x0A) = Some ([], 20)"
  "edge httpclient_table False 22 (CHR '' '') = Some ([C_start_value], 22)"
  "edge httpclient_table False 22 (CHR 0x0D) = Some ([C_start_value, C_write_value], 24)"
  "edge httpclient_table False 23 (CHR 0x0D) = Some ([C_write_value], 24)"
  "edge httpclient_table False 35 (CHR '' '') = Some ([C_start_value], 35)"
  "edge httpclient_table False 35 (CHR ''k'') = Some ([C_start_value], 23)"
  "edge httpclient_table False 35 (CHR ''c'') = Some ([C_start_value], 96)"
  "edge httpclient_table False 96 (CHR ''l'') = Some ([], 97)"
  "edge httpclient_table False 97 (CHR ''o'') = Some ([], 98)"
  "edge httpclient_table False 98 (CHR ''s'') = Some ([], 99)"
  "edge httpclient_table False 99 (CHR ''e'') = Some ([], 100)"
  "edge httpclient_table False 100 (CHR 0x0D) = Some ([C_write_value], 88)"
  "edge httpclient_table False 88 (CHR 0x0A) = Some ([], 43)"
  "edge httpclient_table False 43 (CHR 0x0D) = Some ([C_write_connection_close], 3)"
  "edge httpclient_table False 20 (CHR 0x0D) = Some ([], 3)"
  "edge httpclient_table False 3 (CHR 0x0A) = Some ([C_done], 120)"
  "edge httpclient_table False 112 (CHR '' '') = Some ([C_start_value], 112)"
  "edge httpclient_table False 119 (CHR 0x0D) = Some ([C_write_content_len, C_write_value], 24)"
  "edge httpclient_table False 2 (CHR 0x0D) = Some ([C_chunk_size], 3)"
  by (simp_all add: edge_def client_rows httpclient_states schar_def char_nat_def del: One_nat_def)

end
