(* ===== verification/Http_Response_Parser.thy ===== *)
theory Http_Response_Parser
  imports Httpclient_States Http_Request_Parser
begin

text \<open>
  \<open>HttpResponseParser\<close> (src/skt/http/http_parser.h, http_parser.cpp): the callbacks that
  fill a response while the machine reads its text, and the class around them.
\<close>

record response_data =
  rs_data :: HttpResponse
  rs_error :: int

record HttpResponseParser =
  sp_parser :: "response_data httpclient_parser"
  sp_self :: response_data

definition response_setError :: "int \<Rightarrow> response_data \<Rightarrow> response_data" where
  "response_setError v d = d\<lparr>rs_error := v\<rparr>"

subsection \<open>Callbacks\<close>

definition on_response_reason :: "response_data element_cb" where
  "on_response_reason at len d =
     and_then (std_string at len) (\<lambda>s. Inr (d\<lparr>rs_data := (rs_data d)\<lparr>r_reason := s\<rparr>\<rparr>))"

definition on_response_status :: "response_data element_cb" where
  "on_response_status at len d =
     (let status = atoi at in Inr (d\<lparr>rs_data := (rs_data d)\<lparr>r_status := status\<rparr>\<rparr>))"

definition on_response_chunk :: "response_data element_cb" where
  "on_response_chunk at len d = Inr d"

definition on_response_version :: "response_data element_cb" where
  "on_response_version at len d =
     (case version_of at len of
        None \<Rightarrow> Inr (response_setError 1001 d)
      | Some v \<Rightarrow> Inr (d\<lparr>rs_data := (rs_data d)\<lparr>r_version := v\<rparr>\<rparr>))"

definition on_response_header_done :: "response_data element_cb" where
  "on_response_header_done at len d = Inr d"

definition on_response_last_chunk :: "response_data element_cb" where
  "on_response_last_chunk at len d = Inr d"

definition on_response_http_filed :: "response_data field_cb" where
  "on_response_http_filed field flen val vlen d =
     (if flen = 0 then Inr d
      else and_then (std_string field flen) (\<lambda>k.
           and_then (std_string val vlen) (\<lambda>v. Inr (d\<lparr>rs_data := HttpResponse_setHeader k v (rs_data d)\<rparr>))))"

subsection \<open>The class\<close>

text \<open>The constructor; \<open>raw\<close> is the memory of the struct before it.\<close>

definition new_HttpResponseParser :: "response_data httpclient_parser \<Rightarrow> HttpResponseParser" where
  "new_HttpResponseParser raw =
     \<lparr>sp_parser = (httpclient_parser_init raw)\<lparr>
        cp_reason_phrase := Some on_response_reason,
        cp_status_code := Some on_response_status,
        cp_chunk_size := Some on_response_chunk,
        cp_http_version := Some on_response_version,
        cp_header_done := Some on_response_header_done,
        cp_last_chunk := Some on_response_last_chunk,
        cp_http_field := Some on_response_http_filed\<rparr>,
      sp_self = \<lparr>rs_data = new_HttpResponse 0x11 True, rs_error = 0\<rparr>\<rparr>"

text \<open>
  \<open>excute\<close>: the bytes consumed, and the others, which it moves to the front of the buffer.
  An offset of -1 makes \<open>memmove\<close> copy from the byte before the buffer.
\<close>

definition response_excute ::
  "string \<Rightarrow> bool \<Rightarrow> HttpResponseParser \<Rightarrow> parse_error + nat \<times> string \<times> HttpResponseParser" where
  "response_excute data chunk p =
     (let parser = (if chunk then httpclient_parser_init (sp_parser p) else sp_parser p)
      in and_then (httpclient_parser_execute parser data 0 (sp_self p)) (\<lambda>(offset, parser, self).
           if offset < 0 then Inl Wild_copy
           else Inr (nat offset, drop (nat offset) data, \<lparr>sp_parser = parser, sp_self = self\<rparr>)))"

definition response_isFinished :: "HttpResponseParser \<Rightarrow> int" where
  "response_isFinished p = httpclient_parser_finish (sp_parser p)"

definition response_hasError :: "HttpResponseParser \<Rightarrow> bool" where
  "response_hasError p \<longleftrightarrow> httpclient_parser_has_error (sp_parser p) \<or> rs_error (sp_self p) \<noteq> 0"

definition response_getData :: "HttpResponseParser \<Rightarrow> HttpResponse" where
  "response_getData p = rs_data (sp_self p)"

definition response_getContentLength :: "(string \<Rightarrow> u64 option) \<Rightarrow> HttpResponseParser \<Rightarrow> u64" where
  "response_getContentLength lexical_cast p =
     getAs lexical_cast (r_headers (response_getData p)) ''content-length'' 0"

subsection \<open>Reading a response\<close>

abbreviation cscan :: "string \<Rightarrow> string \<Rightarrow> nat \<Rightarrow> nat \<Rightarrow> response_data httpclient_parser \<times> response_data
    \<Rightarrow> parse_error + nat \<times> nat \<times> response_data httpclient_parser \<times> response_data" where
  "cscan B \<equiv> machine httpclient_table False (httpclient_act B) httpclient_break"

definition cwired :: "response_data httpclient_parser \<Rightarrow> bool" where
  "cwired cp \<longleftrightarrow>
     cp_reason_phrase cp = Some on_response_reason \<and> cp_status_code cp = Some on_response_status \<and>
     cp_chunk_size cp = Some on_response_chunk \<and> cp_http_version cp = Some on_response_version \<and>
     cp_header_done cp = Some on_response_header_done \<and> cp_last_chunk cp = Some on_response_last_chunk \<and>
     cp_http_field cp = Some on_response_http_filed"

lemma cwired_upd [simp]:
  "cwired (cp\<lparr>cp_mark := a\<rparr>) = cwired cp" "cwired (cp\<lparr>cp_field_start := a\<rparr>) = cwired cp"
  "cwired (cp\<lparr>cp_field_len := a\<rparr>) = cwired cp" "cwired (cp\<lparr>cp_status := i\<rparr>) = cwired cp"
  "cwired (cp\<lparr>cp_close := b\<rparr>) = cwired cp" "cwired (cp\<lparr>cp_content_len := i\<rparr>) = cwired cp"
  "cwired (cp\<lparr>cp_body_start := a\<rparr>) = cwired cp" "cwired (cp\<lparr>cp_cs := a\<rparr>) = cwired cp"
  "cwired (cp\<lparr>cp_nread := a\<rparr>) = cwired cp"
  by (simp_all add: cwired_def)

lemmas cscan_simps = call_def httpclient_break_def cwired_def client_write_value_def chunk_size_action_def Let_def
  on_response_reason_def on_response_status_def on_response_chunk_def on_response_version_def
  on_response_header_done_def on_response_last_chunk_def on_response_http_filed_def std_string_def atoi_def

text \<open>What reading a header leaves alone.\<close>

definition quiet :: "response_data httpclient_parser \<Rightarrow> response_data httpclient_parser" where
  "quiet cp = cp\<lparr>cp_mark := 0, cp_field_start := 0, cp_field_len := 0, cp_status := 0, cp_content_len := 0,
     cp_close := False, cp_body_start := 0\<rparr>"

lemma quiet_upd [simp]:
  "quiet (cp\<lparr>cp_mark := a\<rparr>) = quiet cp" "quiet (cp\<lparr>cp_field_start := a\<rparr>) = quiet cp"
  "quiet (cp\<lparr>cp_field_len := a\<rparr>) = quiet cp" "quiet (cp\<lparr>cp_status := i\<rparr>) = quiet cp"
  "quiet (cp\<lparr>cp_close := b\<rparr>) = quiet cp" "quiet (cp\<lparr>cp_content_len := i\<rparr>) = quiet cp"
  "quiet (cp\<lparr>cp_body_start := a\<rparr>) = quiet cp"
  by (simp_all add: quiet_def)

lemma quietD:
  assumes "quiet cp' = quiet cp"
  shows "cwired cp' = cwired cp" "cp_chunked cp' = cp_chunked cp" "cp_nread cp' = cp_nread cp"
proof -
  have "cwired (quiet cp') = cwired (quiet cp)" "cp_chunked (quiet cp') = cp_chunked (quiet cp)"
    "cp_nread (quiet cp') = cp_nread (quiet cp)" by (simp_all add: assms)
  then show "cwired cp' = cwired cp" "cp_chunked cp' = cp_chunked cp" "cp_nread cp' = cp_nread cp"
    by (simp_all add: quiet_def)
qed

subsubsection \<open>The status line\<close>

lemma cscan_version:
  assumes "cwired cp" and at: "drop p B = version_text v @ '' '' @ rest" and v: "v = 0x10 \<or> v = 0x11"
  shows "cscan B (version_text v @ '' '' @ rest) p 1 (cp, d) =
    cscan B rest (p + length (version_text v) + 1) 16
      (cp\<lparr>cp_mark := p\<rparr>, d\<lparr>rs_data := (rs_data d)\<lparr>r_version := v\<rparr>\<rparr>)"
proof -
  have "cscan B (version_text v @ r) p 1 (cp, d) =
      cscan B r (p + length (version_text v)) 15 (cp\<lparr>cp_mark := p\<rparr>, d)" for r
    using v by (elim disjE; simp add: version_texts client_char [unfolded One_nat_def] httpclient_break_def;
        simp add: numeral_eq_Suc)
  also have "cscan B ('' '' @ rest) (p + length (version_text v)) 15 (cp\<lparr>cp_mark := p\<rparr>, d) =
      cscan B rest (p + length (version_text v) + 1) 16
        (cp\<lparr>cp_mark := p\<rparr>, d\<lparr>rs_data := (rs_data d)\<lparr>r_version := v\<rparr>\<rparr>)"
    using assms(1) at version_of_text [OF v, of "'' '' @ rest"] by (simp add: client_char cscan_simps)
  finally show ?thesis .
qed

lemma cscan_status:
  assumes "cwired cp" and at: "drop p B = nat_dec n @ '' '' @ rest" and n: "n < 2 ^ 31"
  shows "cscan B (nat_dec n @ '' '' @ rest) p 16 (cp, d) =
    cscan B rest (p + length (nat_dec n) + 1) 18
      (cp\<lparr>cp_mark := p, cp_status := int n\<rparr>, d\<lparr>rs_data := (rs_data d)\<lparr>r_status := int n\<rparr>\<rparr>)"
proof -
  obtain c s where cs: "nat_dec n = c # s" by (cases "nat_dec n") auto
  have dig: "list_all (in_class digits) (c # s)" using nat_dec_digits [of n] cs by (simp add: list_all_iff digit_class)
  then have "cscan B (s @ r) q 17 st = cscan B r (q + length s) 17 st" for r q st
    using client_digits(2) by (intro machine_skip) (auto simp: list_all_iff)
  then have "cscan B (nat_dec n @ r) p 16 (cp, d) = cscan B r (p + length (nat_dec n)) 17 (cp\<lparr>cp_mark := p\<rparr>, d)" for r
    using dig client_class(1) by (simp add: cs httpclient_break_def)
  moreover have "int32 (strtol 10 (nat_dec n @ '' '' @ rest)) = int n"
    using strtol_dec [of n "'' '' @ rest"] n by (simp add: digit_value_def char_nat_def int32_small)
  ultimately show ?thesis using assms(1) at by (simp add: client_char cscan_simps)
qed

definition reason_ok :: "string \<Rightarrow> bool" where
  "reason_ok s \<longleftrightarrow> s \<noteq> [] \<and> list_all (in_class line_chars) s"

lemma cscan_reason:
  assumes "cwired cp" and at: "drop p B = s @ CRLF @ rest" and s: "reason_ok s"
  shows "cscan B (s @ CRLF @ rest) p 18 (cp, d) =
    cscan B rest (p + length s + 2) 20 (cp\<lparr>cp_mark := p\<rparr>, d\<lparr>rs_data := (rs_data d)\<lparr>r_reason := s\<rparr>\<rparr>)"
proof -
  obtain c t where ct: "s = c # t" using s by (cases s) (auto simp: reason_ok_def)
  have "cscan B (t @ r) q 19 st = cscan B r (q + length t) 19 st" for r q st
    using client_class(3) s ct by (intro machine_skip) (auto simp: list_all_iff reason_ok_def)
  then have "cscan B (s @ r) p 18 (cp, d) = cscan B r (p + length s) 19 (cp\<lparr>cp_mark := p\<rparr>, d)" for r
    using client_first_reason s ct by (simp add: httpclient_break_def reason_ok_def)
  then show ?thesis using assms(1) at by (simp add: CRLF_def client_char cscan_simps)
qed

subsubsection \<open>Headers\<close>

lemma cscan_name_chars:
  assumes "list_all (in_class token_chars) k" and "s \<noteq> []"
  shows "cscan B (k @ r) p (name_state s) st = cscan B r (p + length k) (name_state (s @ k)) st"
  using assms by (induction k arbitrary: p s) (simp_all add: edge_name)

text \<open>A name and its colon, behind a line (state 20) or behind \<open>Connection: close\<close> (state 43).\<close>

definition line_start :: "nat \<Rightarrow> bool" where
  "line_start n \<longleftrightarrow> n = 20 \<or> n = 43"

lemma cscan_name:
  assumes "name_ok k" and "line_start n"
  shows "cscan B (k @ '':'' @ r) p n (cp, d) =
    cscan B r (p + length k + 1) (colon_state (name_state k))
      (cp\<lparr>cp_close := cp_close cp \<or> n = 43, cp_field_start := p, cp_field_len := length k\<rparr>, d)"
proof -
  obtain c k' where k: "k = c # k'" using assms(1) by (cases k) (auto simp: name_ok_def)
  have "in_class token_chars c" "list_all (in_class token_chars) k'" using assms(1) k by (simp_all add: name_ok_def)
  then show ?thesis
    using assms(2) edge_first [of c] cscan_name_chars [of k' "[c]" B "'':'' @ r" "p + 1"] edge_colon [of k]
    by (auto simp: k httpclient_break_def line_start_def)
qed

definition special_names :: "string list" where
  "special_names = [''connection'', ''content-length'', ''transfer-encoding'']"

lemma colon_state_plain:
  assumes "map to_lower k \<notin> set special_names"
  shows "colon_state (name_state k) = 22"
proof (cases "map_of name_labels (map to_lower k)")
  case (Some n)
  have "list_all (\<lambda>(l, n). l \<in> set special_names \<or> colon_state n = 22) name_labels" by code_simp
  then show ?thesis using map_of_SomeD [OF Some] assms Some by (fastforce simp: list_all_iff name_state_def)
qed (simp add: name_state_def colon_state_def)

definition rvalue_ok :: "string \<Rightarrow> bool" where
  "rvalue_ok v \<longleftrightarrow> list_all (in_class line_chars) v \<and> (v \<noteq> [] \<longrightarrow> in_class rvalue_first (hd v))"

lemma cscan_value:
  assumes "cwired cp" and v: "rvalue_ok v" and atv: "drop p B = v @ CRLF @ rest"
    and atk: "take (cp_field_len cp) (drop (cp_field_start cp) B) = k" "cp_field_len cp = length k" "k \<noteq> []"
  shows "cscan B (v @ CRLF @ rest) p 22 (cp, d) =
    cscan B rest (p + length v + 2) 20 (cp\<lparr>cp_mark := p\<rparr>, d\<lparr>rs_data := HttpResponse_setHeader k v (rs_data d)\<rparr>)"
proof -
  have len: "length k \<le> length B - cp_field_start cp"
    using atk(1,2) by (metis length_drop length_take min.cobounded1)
  let ?q = "if v = [] then 22 else 23 :: nat"
  have "cscan B (v @ r) p 22 (cp, d) =
     cscan B r (p + length v) ?q (if v = [] then cp else cp\<lparr>cp_mark := p\<rparr>, d)" for r
  proof (cases v)
    case (Cons c v')
    have "cscan B (v' @ r) q 23 st = cscan B r (q + length v') 23 st" for q st
      using v Cons client_class(4) by (intro machine_skip) (auto simp: rvalue_ok_def list_all_iff)
    then show ?thesis using v Cons client_class(2) by (simp add: rvalue_ok_def httpclient_break_def)
  qed simp
  also have "cscan B (CRLF @ rest) (p + length v) ?q (if v = [] then cp else cp\<lparr>cp_mark := p\<rparr>, d) =
      cscan B rest (p + length v + 2) 20 (cp\<lparr>cp_mark := p\<rparr>, d\<lparr>rs_data := HttpResponse_setHeader k v (rs_data d)\<rparr>)"
    using assms(1) atv atk len by (simp add: CRLF_def client_char cscan_simps)
  finally show ?thesis .
qed

text \<open>What a header line leaves of the parser, and the line itself, from its colon state on.\<close>

lemma cscan_line:
  assumes w: "cwired cp" and k: "name_ok k" and n: "line_start n"
    and at: "drop p B = k @ '': '' @ v @ CRLF @ rest"
    and colon: "\<And>cp d q. cwired cp \<Longrightarrow> drop q B = '' '' @ v @ CRLF @ rest \<Longrightarrow>
      take (cp_field_len cp) (drop (cp_field_start cp) B) = k \<Longrightarrow> cp_field_len cp = length k \<Longrightarrow>
      \<exists>cp'. quiet cp' = quiet cp \<and>
        cscan B ('' '' @ v @ CRLF @ rest) q (colon_state (name_state k)) (cp, d) =
        cscan B rest (q + length v + 3) m (cp', d\<lparr>rs_data := HttpResponse_setHeader k v (rs_data d)\<rparr>)"
  shows "\<exists>cp'. quiet cp' = quiet cp \<and>
    cscan B (k @ '': '' @ v @ CRLF @ rest) p n (cp, d) =
    cscan B rest (p + length (k @ '': '' @ v @ CRLF)) m
      (cp', d\<lparr>rs_data := HttpResponse_setHeader k v (rs_data d)\<rparr>)"
proof -
  let ?cp = "cp\<lparr>cp_close := cp_close cp \<or> n = 43, cp_field_start := p, cp_field_len := length k\<rparr>"
  have "drop (p + length (k @ '':'')) B = '' '' @ v @ CRLF @ rest" by (rule drop_text) (simp add: at)
  then have "drop (p + length k + 1) B = '' '' @ v @ CRLF @ rest" by simp
  from colon [OF _ this, of ?cp d] w at obtain cp' where "quiet cp' = quiet cp"
      "cscan B ('' '' @ v @ CRLF @ rest) (p + length k + 1) (colon_state (name_state k)) (?cp, d) =
        cscan B rest (p + length k + 1 + length v + 3) m (cp', d\<lparr>rs_data := HttpResponse_setHeader k v (rs_data d)\<rparr>)"
    by auto
  then show ?thesis
    using cscan_name [OF k n, of B "'' '' @ v @ CRLF @ rest" p cp d]
    by (intro exI [of _ cp']) (simp add: CRLF_def ac_simps numeral_eq_Suc)
qed

lemma cscan_header:
  assumes w: "cwired cp" and k: "name_ok k" "map to_lower k \<notin> set special_names" and v: "rvalue_ok v"
    and n: "line_start n" and at: "drop p B = k @ '': '' @ v @ CRLF @ rest"
  shows "\<exists>cp'. quiet cp' = quiet cp \<and>
    cscan B (k @ '': '' @ v @ CRLF @ rest) p n (cp, d) =
    cscan B rest (p + length (k @ '': '' @ v @ CRLF)) 20
      (cp', d\<lparr>rs_data := HttpResponse_setHeader k v (rs_data d)\<rparr>)"
proof (rule cscan_line [OF w k(1) n at])
  fix cp :: "response_data httpclient_parser" and d q
  assume w: "cwired cp" and atq: "drop q B = '' '' @ v @ CRLF @ rest"
    and atk: "take (cp_field_len cp) (drop (cp_field_start cp) B) = k" "cp_field_len cp = length k"
  have "drop (q + length '' '') B = v @ CRLF @ rest" by (rule drop_text) (simp add: atq)
  then have "drop (Suc q) B = v @ CRLF @ rest" by simp
  from cscan_value [OF _ v this, of "cp\<lparr>cp_mark := q\<rparr>" k d] w atk k
  show "\<exists>cp'. quiet cp' = quiet cp \<and>
      cscan B ('' '' @ v @ CRLF @ rest) q (colon_state (name_state k)) (cp, d) =
      cscan B rest (q + length v + 3) 20 (cp', d\<lparr>rs_data := HttpResponse_setHeader k v (rs_data d)\<rparr>)"
    by (intro exI [of _ "cp\<lparr>cp_mark := Suc q\<rparr>"])
      (simp add: colon_state_plain client_char httpclient_break_def name_ok_def numeral_2_eq_2 numeral_3_eq_3)
qed

text \<open>The headers of a response other than the special ones.\<close>

definition rheaders_ok :: "MapType \<Rightarrow> bool" where
  "rheaders_ok m \<longleftrightarrow> list_all (\<lambda>(k, v). name_ok k \<and> map to_lower k \<notin> set special_names \<and> rvalue_ok v) m"

definition set_rheaders :: "MapType \<Rightarrow> HttpResponse \<Rightarrow> HttpResponse" where
  "set_rheaders m r = fold (\<lambda>(k, v). HttpResponse_setHeader k v) m r"

lemma cscan_headers:
  assumes "rheaders_ok (dumped m)" and "cwired cp" and "drop p B = dump_headers '': '' m @ rest"
  shows "\<exists>cp'. quiet cp' = quiet cp \<and>
    cscan B (dump_headers '': '' m @ rest) p 20 (cp, d) =
    cscan B rest (p + length (dump_headers '': '' m)) 20
      (cp', d\<lparr>rs_data := set_rheaders (dumped m) (rs_data d)\<rparr>)"
  using assms
proof (induction m arbitrary: p cp d)
  case Nil
  then show ?case by (auto simp: dump_headers_def dumped_def set_rheaders_def)
next
  case (Cons kv m)
  obtain k v where kv: "kv = (k, v)" by force
  show ?case
  proof (cases "strcasecmp k ''connection'' = 0")
    case True
    then show ?thesis using Cons kv by (simp add: dump_headers_def dumped_def set_rheaders_def)
  next
    case False
    let ?line = "k @ '': '' @ v @ CRLF" and ?more = "dump_headers '': '' m @ rest"
    have txt_eq: "dump_headers '': '' (kv # m) = ?line @ dump_headers '': '' m"
      using False kv by (simp add: dump_headers_def)
    have ok: "name_ok k" "map to_lower k \<notin> set special_names" "rvalue_ok v" "rheaders_ok (dumped m)"
      using Cons.prems(1) False kv by (simp_all add: rheaders_ok_def dumped_def)
    have at: "drop p B = k @ '': '' @ v @ CRLF @ ?more" using Cons.prems(3) txt_eq by simp
    have "drop (p + length ?line) B = ?more" by (rule drop_text) (simp add: at)
    note IH = Cons.IH [OF ok(4) _ this]
    let ?d = "d\<lparr>rs_data := HttpResponse_setHeader k v (rs_data d)\<rparr>"
    obtain cp1 where cp1: "quiet cp1 = quiet cp"
      "cscan B (?line @ ?more) p 20 (cp, d) = cscan B ?more (p + length ?line) 20 (cp1, ?d)"
      using cscan_header [OF Cons.prems(2) ok(1-3) _ at, of 20 d] by (auto simp: line_start_def)
    have "cwired cp1" using quietD(1) [OF cp1(1)] Cons.prems(2) by simp
    from IH [OF this, of ?d] cp1
    show ?thesis using txt_eq False kv by (auto simp: dumped_def set_rheaders_def ac_simps)
  qed
qed

text \<open>The two headers that \<open>dump\<close> adds.\<close>

lemma special_states: "name_state ''connection'' = 34" "name_state ''content-length'' = 111"
  by code_simp+

lemma cscan_connection:
  assumes w: "cwired cp" and v: "v = (if cl then ''close'' else ''keep-alive'')"
    and n: "line_start n" and at: "drop p B = ''connection'' @ '': '' @ v @ CRLF @ rest"
  shows "\<exists>cp'. quiet cp' = quiet cp \<and>
    cscan B (''connection'' @ '': '' @ v @ CRLF @ rest) p n (cp, d) =
    cscan B rest (p + length (''connection'' @ '': '' @ v @ CRLF)) (if cl then 43 else 20)
      (cp', d\<lparr>rs_data := HttpResponse_setHeader ''connection'' v (rs_data d)\<rparr>)"
proof (rule cscan_line [OF w literal_names_ok(1) n at])
  fix cp :: "response_data httpclient_parser" and d q
  assume w: "cwired cp" and atq: "drop q B = '' '' @ v @ CRLF @ rest"
    and atk: "take (cp_field_len cp) (drop (cp_field_start cp) B) = ''connection''" "cp_field_len cp = length ''connection''"
  have len: "10 \<le> length B - cp_field_start cp" using arg_cong [OF atk(1), of length] by simp
  have atv: "drop (Suc q) B = v @ CRLF @ rest" using drop_text [of q B "'' ''"] atq by simp
  have "list_all (\<lambda>c. edge httpclient_table False 23 c = Some ([], 23)) ''eep-alive''"
    by (simp add: client_class(4) in_class_def schar_def char_nat_def)
  then show "\<exists>cp'. quiet cp' = quiet cp \<and>
      cscan B ('' '' @ v @ CRLF @ rest) q (colon_state (name_state ''connection'')) (cp, d) =
      cscan B rest (q + length v + 3) (if cl then 43 else 20) (cp', d\<lparr>rs_data := HttpResponse_setHeader ''connection'' v (rs_data d)\<rparr>)"
    using w atk atv len
    by (intro exI [of _ "cp\<lparr>cp_mark := Suc q\<rparr>"])
      (cases cl; simp add: v special_states colon_state_def client_char cscan_simps CRLF_def; simp add: numeral_eq_Suc)
qed

lemma cscan_length:
  assumes w: "cwired cp" and n: "line_start n" and at: "drop p B = ''content-length'' @ '': '' @ nat_dec len @ CRLF @ rest"
  shows "\<exists>cp'. quiet cp' = quiet cp \<and>
    cscan B (''content-length'' @ '': '' @ nat_dec len @ CRLF @ rest) p n (cp, d) =
    cscan B rest (p + length (''content-length'' @ '': '' @ nat_dec len @ CRLF)) 20
      (cp', d\<lparr>rs_data := HttpResponse_setHeader ''content-length'' (nat_dec len) (rs_data d)\<rparr>)"
proof (rule cscan_line [OF w literal_names_ok(2) n at])
  fix cp :: "response_data httpclient_parser" and d q
  let ?k = "''content-length''"
  assume w: "cwired cp" and atq: "drop q B = '' '' @ nat_dec len @ CRLF @ rest"
    and atk: "take (cp_field_len cp) (drop (cp_field_start cp) B) = ?k" "cp_field_len cp = length ?k"
  have k: "14 \<le> length B - cp_field_start cp" using arg_cong [OF atk(1), of length] by simp
  have atv: "drop (Suc q) B = nat_dec len @ CRLF @ rest" using drop_text [of q B "'' ''"] atq by simp
  obtain c s where cs: "nat_dec len = c # s" by (cases "nat_dec len") auto
  have dig: "list_all (in_class digits) (c # s)" using nat_dec_digits [of len] cs by (simp add: list_all_iff digit_class)
  then have "cscan B (s @ r) x 119 st = cscan B r (x + length s) 119 st" for r x st
    using client_digits(3) by (intro machine_skip) (auto simp: list_all_iff)
  then have "cscan B (nat_dec len @ r) x 112 (cp, d) = cscan B r (x + length (nat_dec len)) 119 (cp\<lparr>cp_mark := x\<rparr>, d)"
    for r x cp d
    using dig client_digits(1) by (simp add: cs httpclient_break_def)
  then show "\<exists>cp'. quiet cp' = quiet cp \<and>
      cscan B ('' '' @ nat_dec len @ CRLF @ rest) q (colon_state (name_state ?k)) (cp, d) =
      cscan B rest (q + length (nat_dec len) + 3) 20
        (cp', d\<lparr>rs_data := HttpResponse_setHeader ?k (nat_dec len) (rs_data d)\<rparr>)"
    using w atk atv k
    by (intro exI [of _ "cp\<lparr>cp_mark := Suc q, cp_content_len := int32 (strtol 10 (nat_dec len @ CRLF @ rest))\<rparr>"])
      (simp add: special_states colon_state_def client_char cscan_simps CRLF_def; simp add: numeral_eq_Suc)
qed

lemma cscan_end:
  assumes "cwired cp" and "line_start n"
  shows "cscan B (CRLF @ rest) p n (cp, d) =
    Inr (p + 2, 120, cp\<lparr>cp_close := cp_close cp \<or> n = 43, cp_body_start := p + 2\<rparr>, d)"
  using assms by (auto simp: CRLF_def client_char cscan_simps line_start_def)

subsubsection \<open>The whole head\<close>

definition reason_text :: "HttpResponse \<Rightarrow> string" where
  "reason_text r = (if r_reason r = [] then HttpStatusToString (r_status r) else r_reason r)"

definition connection_text :: "HttpResponse \<Rightarrow> string" where
  "connection_text r = (if r_close r then ''close'' else ''keep-alive'')"

definition response_head :: "HttpResponse \<Rightarrow> string" where
  "response_head r =
     version_text (r_version r) @ '' '' @ nat_dec (nat (r_status r)) @ '' '' @ reason_text r @ CRLF @
     dump_headers '': '' (r_headers r) @ ''connection'' @ '': '' @ connection_text r @ CRLF @
     (if r_body r = [] then [] else ''content-length'' @ '': '' @ nat_dec (length (r_body r)) @ CRLF) @ CRLF"

text \<open>The responses whose text the grammar describes, and what reading the text gives.\<close>

definition response_text_ok :: "HttpResponse \<Rightarrow> bool" where
  "response_text_ok r \<longleftrightarrow>
     (r_version r = 0x10 \<or> r_version r = 0x11) \<and> 0 \<le> r_status r \<and> r_status r < 2 ^ 31 \<and>
     reason_ok (reason_text r) \<and> rheaders_ok (dumped (r_headers r))"

definition sent_rheaders :: "HttpResponse \<Rightarrow> MapType" where
  "sent_rheaders r =
     dumped (r_headers r) @ (''connection'', connection_text r) #
     (if r_body r = [] then [] else [(''content-length'', nat_dec (length (r_body r)))])"

definition as_received :: "HttpResponse \<Rightarrow> HttpResponse" where
  "as_received r = set_rheaders (sent_rheaders r)
     ((new_HttpResponse 0x11 True)\<lparr>r_version := r_version r, r_status := r_status r, r_reason := reason_text r\<rparr>)"

lemma response_dump_head:
  assumes "response_text_ok r"
  shows "HttpResponse_dump r = response_head r @ r_body r"
proof -
  have "r_status r mod 2 ^ 32 = r_status r" using assms by (simp add: response_text_ok_def)
  then show ?thesis
    by (simp add: HttpResponse_dump_def response_head_def reason_text_def connection_text_def dump_body_def)
qed

lemma cscan_lines:
  fixes r :: HttpResponse and t :: string
  defines "c \<equiv> ''connection'' @ '': '' @ connection_text r @ CRLF"
    and "l \<equiv> (if r_body r = [] then [] else ''content-length'' @ '': '' @ nat_dec (length (r_body r)) @ CRLF)"
  assumes w: "cwired cp" and m: "rheaders_ok (dumped (r_headers r))"
    and at: "drop p B = dump_headers '': '' (r_headers r) @ c @ l @ CRLF @ t"
  shows "\<exists>cp'. quiet cp' = quiet cp \<and>
    cscan B (dump_headers '': '' (r_headers r) @ c @ l @ CRLF @ t) p 20 (cp, d) =
    Inr (length B - length t, 120, cp', d\<lparr>rs_data := set_rheaders (sent_rheaders r) (rs_data d)\<rparr>)"
proof -
  let ?H = "dump_headers '': '' (r_headers r)"
  define p1 where "p1 = p + length ?H"
  define p2 where "p2 = p1 + length c"
  define p3 where "p3 = p2 + length l"
  have at1: "drop p1 B = c @ l @ CRLF @ t" unfolding p1_def by (rule drop_text) (rule at)
  then have at2: "drop p2 B = l @ CRLF @ t" unfolding p2_def by (rule drop_text)
  then have at3: "drop p3 B = CRLF @ t" unfolding p3_def by (rule drop_text)
  let ?d1 = "d\<lparr>rs_data := set_rheaders (dumped (r_headers r)) (rs_data d)\<rparr>"
  let ?d2 = "?d1\<lparr>rs_data := HttpResponse_setHeader ''connection'' (connection_text r) (rs_data ?d1)\<rparr>"
  let ?n = "if r_close r then 43 else 20 :: nat" and ?m = "if r_body r = [] then if r_close r then 43 else 20 else 20 :: nat"
  let ?d3 = "if r_body r = [] then ?d2
    else ?d2\<lparr>rs_data := HttpResponse_setHeader ''content-length'' (nat_dec (length (r_body r))) (rs_data ?d2)\<rparr>"
  have n: "line_start ?n" "line_start ?m" "line_start 20" by (simp_all add: line_start_def)
  obtain cp1 where 1: "quiet cp1 = quiet cp"
    "cscan B (?H @ c @ l @ CRLF @ t) p 20 (cp, d) = cscan B (c @ l @ CRLF @ t) p1 20 (cp1, ?d1)"
    using cscan_headers [OF m w at, of d] unfolding p1_def by blast
  have w1: "cwired cp1" using quietD(1) [OF 1(1)] w by simp
  obtain cp2 where 2: "quiet cp2 = quiet cp"
    "cscan B (c @ l @ CRLF @ t) p1 20 (cp1, ?d1) = cscan B (l @ CRLF @ t) p2 ?n (cp2, ?d2)"
    using cscan_connection [OF w1 connection_text_def [of r] n(3), of p1 B "l @ CRLF @ t" ?d1] at1 1(1)
    unfolding p2_def c_def by auto
  have w2: "cwired cp2" using quietD(1) [OF 2(1)] w by simp
  have "\<exists>cp3. quiet cp3 = quiet cp \<and>
      cscan B (l @ CRLF @ t) p2 ?n (cp2, ?d2) = cscan B (CRLF @ t) p3 ?m (cp3, ?d3)"
    using cscan_length [OF w2 n(1), of p2 B "length (r_body r)" "CRLF @ t" ?d2] at2 2(1)
    unfolding p3_def l_def by (cases "r_body r = []") auto
  then obtain cp3 where 3: "quiet cp3 = quiet cp"
    "cscan B (l @ CRLF @ t) p2 ?n (cp2, ?d2) = cscan B (CRLF @ t) p3 ?m (cp3, ?d3)" by blast
  have w3: "cwired cp3" using quietD(1) [OF 3(1)] w by simp
  have "length B = p3 + 2 + length t" using arg_cong [OF at3, of length] by (simp add: CRLF_def)
  then have len: "p3 + 2 = length B - length t" by simp
  have d3: "?d3 = d\<lparr>rs_data := set_rheaders (sent_rheaders r) (rs_data d)\<rparr>"
    by (simp add: set_rheaders_def sent_rheaders_def)
  show ?thesis
    unfolding 1(2) 2(2) 3(2) cscan_end [OF w3 n(2)] len d3
    by (intro exI [of _ "cp3\<lparr>cp_close := cp_close cp3 \<or> ?m = 43, cp_body_start := length B - length t\<rparr>"]) (simp add: 3(1))
qed

abbreviation crestart :: "response_data httpclient_parser \<Rightarrow> response_data httpclient_parser" where
  "crestart cp \<equiv> cp\<lparr>cp_nread := 0, cp_mark := 0, cp_field_len := 0, cp_field_start := 0\<rparr>"

text \<open>What the assertions and checks at the end of \<open>httpclient_parser_execute\<close> ask for.\<close>

definition cin_buffer :: "nat \<Rightarrow> nat \<Rightarrow> response_data httpclient_parser \<Rightarrow> bool" where
  "cin_buffer len q cp \<longleftrightarrow> cwired cp \<and>
     cp_mark cp \<le> q \<and> cp_mark cp < len \<and> cp_field_start cp \<le> q \<and> cp_field_start cp < len \<and>
     cp_field_len cp \<le> len \<and> cp_body_start cp \<le> len \<and> cp_nread cp = 0"

lemma httpclient_act_bounded:
  assumes "httpclient_act B a q s = Inr s'" and "cin_buffer (length B) q (fst s)" and "q < length B"
  shows "cin_buffer (length B) q (fst s')"
  using assms
  by (cases s; cases a)
    (auto simp: cin_buffer_def cscan_simps and_then_eq_Inr split: if_splits option.splits)

lemma cscan_bounded:
  assumes "cscan B B 0 cs (cp, d) = Inr (q, cs', cp', d')" and "cin_buffer (length B) 0 cp"
  shows "cin_buffer (length B) q cp'" and "q \<le> length B"
proof -
  have "cin_buffer (length B) q (fst (cp', d'))"
    by (rule machine_bounded [where Q = "\<lambda>q s. cin_buffer (length B) q (fst s)", OF assms(1)])
      (use assms(2) httpclient_act_bounded in \<open>auto simp: cin_buffer_def\<close>)
  then show "cin_buffer (length B) q cp'" by simp
  show "q \<le> length B" using machine_position [OF assms(1)] by simp
qed

lemma response_excute_walk:
  assumes "data \<noteq> []" and "cwired (sp_parser p)" and "cp_body_start (sp_parser p) \<le> length data"
    and row: "map_of httpclient_table (cp_cs (sp_parser p)) \<noteq> None"
    and scan: "cscan data data 0 (cp_cs (sp_parser p)) (crestart (sp_parser p), sp_self p) = Inr (q, cs, cp, d)"
  shows "response_excute data False p = Inr (q, drop q data, \<lparr>sp_parser = cp\<lparr>cp_cs := cs, cp_nread := q\<rparr>, sp_self = d\<rparr>)"
    and "cwired cp" and "q \<le> length data"
proof -
  have "cin_buffer (length data) 0 (crestart (sp_parser p))"
    using assms(1-3) by (simp add: cin_buffer_def cwired_def)
  note b = cscan_bounded [OF scan this]
  then show "cwired cp" and "q \<le> length data" by (simp_all add: cin_buffer_def)
  show "response_excute data False p = Inr (q, drop q data, \<lparr>sp_parser = cp\<lparr>cp_cs := cs, cp_nread := q\<rparr>, sp_self = d\<rparr>)"
    using assms(1) row scan b
    by (auto simp: response_excute_def httpclient_parser_execute_def run_machine_def Let_def cin_buffer_def)
qed

lemma new_response_parser:
  "cwired (sp_parser (new_HttpResponseParser raw))" "cp_cs (sp_parser (new_HttpResponseParser raw)) = 1"
  "cp_body_start (sp_parser (new_HttpResponseParser raw)) = 0"
  "cp_chunked (sp_parser (new_HttpResponseParser raw)) = False"
  "sp_self (new_HttpResponseParser raw) = \<lparr>rs_data = new_HttpResponse 0x11 True, rs_error = 0\<rparr>"
  by (simp_all add: new_HttpResponseParser_def httpclient_parser_init_def cwired_def)

lemma cscan_response:
  assumes "response_text_ok r" and w: "cwired cp"
  shows "\<exists>cp'. quiet cp' = quiet cp \<and> cscan (response_head r @ t) (response_head r @ t) 0 1
      (cp, \<lparr>rs_data = new_HttpResponse 0x11 True, rs_error = 0\<rparr>) =
    Inr (length (response_head r), 120, cp', \<lparr>rs_data = as_received r, rs_error = 0\<rparr>)"
proof -
  note ok = assms(1) [unfolded response_text_ok_def]
  let ?B = "response_head r @ t" and ?V = "version_text (r_version r)" and ?S = "nat_dec (nat (r_status r))"
  let ?R = "reason_text r"
  define lines where "lines = dump_headers '': '' (r_headers r) @ (''connection'' @ '': '' @ connection_text r @ CRLF) @
     (if r_body r = [] then [] else ''content-length'' @ '': '' @ nat_dec (length (r_body r)) @ CRLF) @ CRLF @ t"
  have B: "?B = ?V @ '' '' @ ?S @ '' '' @ ?R @ CRLF @ lines"
    by (simp add: response_head_def lines_def)
  let ?d = "\<lparr>rs_data = new_HttpResponse 0x11 True, rs_error = 0\<rparr>"
  let ?d1 = "?d\<lparr>rs_data := (rs_data ?d)\<lparr>r_version := r_version r\<rparr>\<rparr>"
  let ?d2 = "?d1\<lparr>rs_data := (rs_data ?d1)\<lparr>r_status := int (nat (r_status r))\<rparr>\<rparr>"
  let ?d3 = "?d2\<lparr>rs_data := (rs_data ?d2)\<lparr>r_reason := ?R\<rparr>\<rparr>"
  let ?cp = "cp\<lparr>cp_mark := 0\<rparr>"
  define p1 where "p1 = length ?V + 1"
  define p2 where "p2 = p1 + length ?S + 1"
  define p3 where "p3 = p2 + length ?R + 2"
  have at1: "drop p1 ?B = ?S @ '' '' @ ?R @ CRLF @ lines"
    using drop_text [of 0 ?B "?V @ '' ''"] B unfolding p1_def by simp
  have at2: "drop p2 ?B = ?R @ CRLF @ lines"
    using drop_text [of p1 ?B "?S @ '' ''"] at1 unfolding p2_def by simp
  have at3: "drop p3 ?B = lines"
    using drop_text [of p2 ?B "?R @ CRLF"] at2 unfolding p3_def by (simp add: CRLF_def)
  have "cscan ?B ?B 0 1 (cp, ?d) = cscan ?B (?S @ '' '' @ ?R @ CRLF @ lines) p1 16 (?cp, ?d1)"
    using cscan_version [OF w, of 0 ?B "r_version r" _ ?d] ok B unfolding p1_def by simp
  also have "\<dots> = cscan ?B (?R @ CRLF @ lines) p2 18
      (?cp\<lparr>cp_mark := p1, cp_status := int (nat (r_status r))\<rparr>, ?d2)"
    unfolding p2_def by (rule cscan_status [OF _ at1]) (use w ok in auto)
  also have "\<dots> = cscan ?B lines p3 20 (?cp\<lparr>cp_mark := p1, cp_status := int (nat (r_status r)), cp_mark := p2\<rparr>, ?d3)"
    unfolding p3_def by (rule cscan_reason [OF _ at2]) (use w ok in auto)
  finally have run: "cscan ?B ?B 0 1 (cp, ?d) =
      cscan ?B lines p3 20 (?cp\<lparr>cp_mark := p1, cp_status := int (nat (r_status r)), cp_mark := p2\<rparr>, ?d3)" .
  obtain cp' where "quiet cp' = quiet cp" "cscan ?B ?B 0 1 (cp, ?d) =
      Inr (length ?B - length t, 120, cp', ?d3\<lparr>rs_data := set_rheaders (sent_rheaders r) (rs_data ?d3)\<rparr>)"
    using cscan_lines [of "?cp\<lparr>cp_mark := p1, cp_status := int (nat (r_status r)), cp_mark := p2\<rparr>" r p3 ?B t ?d3]
      w ok at3 run unfolding lines_def by auto
  moreover have "int (nat (r_status r)) = r_status r" using ok by simp
  ultimately show ?thesis unfolding as_received_def by (intro exI [of _ cp']) (simp add: new_HttpResponse_def)
qed

lemma excute_response:
  assumes "response_text_ok r"
  shows "\<exists>p. response_excute (response_head r @ t) False (new_HttpResponseParser raw) = Inr (length (response_head r), t, p) \<and>
    response_isFinished p = 1 \<and> \<not> response_hasError p \<and> \<not> cp_chunked (sp_parser p) \<and> response_getData p = as_received r"
proof -
  let ?B = "response_head r @ t" and ?p = "new_HttpResponseParser raw"
  note new = new_response_parser [of raw]
  have w: "cwired (crestart (sp_parser ?p))" using new(1) by (simp add: cwired_def)
  from cscan_response [OF assms w, of t] obtain cp where cp: "quiet cp = quiet (crestart (sp_parser ?p))"
    "cscan ?B ?B 0 (cp_cs (sp_parser ?p)) (crestart (sp_parser ?p), sp_self ?p) =
      Inr (length (response_head r), 120, cp, \<lparr>rs_data = as_received r, rs_error = 0\<rparr>)"
    by (auto simp: new)
  have row: "map_of httpclient_table (cp_cs (sp_parser ?p)) \<noteq> None" "?B \<noteq> []"
    by (simp_all add: new client_rows httpclient_states_1_def response_head_def del: One_nat_def)
  have "response_excute ?B False ?p = Inr (length (response_head r), drop (length (response_head r)) ?B,
      \<lparr>sp_parser = cp\<lparr>cp_cs := 120, cp_nread := length (response_head r)\<rparr>,
       sp_self = \<lparr>rs_data = as_received r, rs_error = 0\<rparr>\<rparr>)"
    by (rule response_excute_walk(1) [OF row(2) new(1) _ row(1) cp(2)]) (simp add: new)
  moreover have "\<not> cp_chunked cp" using quietD(2) [OF cp(1)] new(4) by simp
  ultimately show ?thesis
    by (auto simp: response_isFinished_def httpclient_parser_finish_def httpclient_parser_has_error_def
        httpclient_parser_is_finished_def response_hasError_def response_getData_def)
qed

subsection \<open>Properties\<close>

text \<open>
  C11: printing and parsing of responses.  Let a response have a version, status, reason and
  headers of the form of the grammar; the names may begin like the three the machine looks
  for, such as \<open>Content-Type\<close>.  Given the text \<open>dump\<close> prints, up to the body, followed by
  anything, a fresh parser consumes exactly that text and is finished, without error and
  not in chunked mode, and the data are the status line of the response with the headers the
  text carries.
\<close>

theorem response_roundtrip:
  assumes "response_text_ok r"
  shows "HttpResponse_dump r = response_head r @ r_body r \<and>
    (\<exists>p. response_excute (response_head r @ t) False (new_HttpResponseParser raw) = Inr (length (response_head r), t, p) \<and>
      response_isFinished p = 1 \<and> \<not> response_hasError p \<and> \<not> cp_chunked (sp_parser p) \<and>
      response_getData p = as_received r)"
  using response_dump_head [OF assms] excute_response [OF assms, of t raw] by blast

definition demo_client_raw :: "response_data httpclient_parser" where
  "demo_client_raw = \<lparr>cp_cs = 0, cp_body_start = 0, cp_content_len = 0, cp_status = 0, cp_chunked = False,
     cp_chunks_done = False, cp_close = False, cp_nread = 0, cp_mark = 0, cp_field_start = 0, cp_field_len = 0,
     cp_http_field = None, cp_reason_phrase = None, cp_status_code = None, cp_chunk_size = None,
     cp_http_version = None, cp_header_done = None, cp_last_chunk = None\<rparr>"

definition demo_response :: HttpResponse where
  "demo_response = (new_HttpResponse 0x11 False)\<lparr>r_status := 404, r_reason := ''Not Found'',
     r_headers := [(''Content-Type'', ''text/html'')], r_body := ''hi''\<rparr>"

lemma demo_response_ok: "response_text_ok demo_response"
  by (simp add: response_text_ok_def demo_response_def new_HttpResponse_def reason_text_def reason_ok_def
      rheaders_ok_def dumped_def name_ok_def rvalue_ok_def special_names_def in_class_def schar_def char_nat_def
      strcasecmp_def c_str_def to_lower_def)

lemma response_roundtrip_witness:
  "\<exists>n p. response_excute (HttpResponse_dump demo_response) False (new_HttpResponseParser demo_client_raw) = Inr (n, ''hi'', p) \<and>
     response_isFinished p = 1 \<and> r_status (response_getData p) = 404 \<and> r_reason (response_getData p) = ''Not Found''"
proof -
  have fields: "r_status (set_rheaders m r) = r_status r" "r_reason (set_rheaders m r) = r_reason r" for m r
    by (induction m arbitrary: r) (auto simp: set_rheaders_def HttpResponse_setHeader_def)
  have "r_body demo_response = ''hi''" by (simp add: demo_response_def)
  then show ?thesis using response_roundtrip [OF demo_response_ok, of "''hi''" demo_client_raw]
    by (auto simp: as_received_def fields demo_response_def reason_text_def)
qed

end
