(* ===== verification/Uri_Table.thy ===== *)
theory Uri_Table
  imports Ragel
begin

text \<open>
  The state machine of the URI grammar, as it stands in src/skt/uri/uri.rl.cpp; see the
  table of the request grammar for how the generated code is read.  Behind the machine,
  the generated code has a second switch: the actions of the state in which the input ended.
\<close>

datatype uri_action =
    U_marku | U_markh | U_save_scheme | U_save_port | U_save_userinfo | U_save_host
  | U_save_path | U_save_query | U_save_fragment

definition uri_states_1 :: "uri_action state list" where
  "uri_states_1 = [
     (451, [], [([(- 128, - 1), (33, 33), (36, 36), (38, 46), (48, 57), (59, 59), (61, 61), (64,
           64), (95, 95), (126, 126)], [], 452),
         ([(35, 35)], [], 453),
         ([(37, 37)], [], 3),
         ([(47, 47)], [], 458),
         ([(63, 63)], [], 456),
         ([(65, 90), (97, 122)], [U_marku], 508)]),
     (452, [], [([(- 128, - 1), (33, 33), (36, 36), (38, 46), (48, 57), (59, 59), (61, 61), (64,
           90), (95, 95), (97, 122), (126, 126)], [], 452),
         ([(35, 35)], [], 453),
         ([(37, 37)], [], 3),
         ([(47, 47)], [], 455),
         ([(63, 63)], [], 456)]),
     (453, [], [([(- 128, - 1), (33, 33), (36, 36), (38, 59), (61, 61), (63, 90), (95, 95), (97,
           122), (126, 126)], [U_marku], 454),
         ([(37, 37)], [U_marku], 1)]),
     (454, [], [([(- 128, - 1), (33, 33), (36, 36), (38, 59), (61, 61), (63, 90), (95, 95), (97,
           122), (126, 126)], [], 454),
         ([(37, 37)], [], 1)]),
     (1, [], [([(48, 57), (65, 70), (97, 102)], [], 2)]),
     (2, [], [([(48, 57), (65, 70), (97, 102)], [], 454)]),
     (3, [], [([(48, 57), (65, 70), (97, 102)], [], 4)]),
     (4, [], [([(48, 57), (65, 70), (97, 102)], [], 452)])]"

definition uri_states_2 :: "uri_action state list" where
  "uri_states_2 = [
     (455, [], [([(- 128, - 1), (33, 33), (36, 36), (38, 59), (61, 61), (64, 90), (95, 95), (97,
           122), (126, 126)], [], 455),
         ([(35, 35)], [], 453),
         ([(37, 37)], [], 5),
         ([(63, 63)], [], 456)]),
     (5, [], [([(48, 57), (65, 70), (97, 102)], [], 6)]),
     (6, [], [([(48, 57), (65, 70), (97, 102)], [], 455)]),
     (456, [], [([(- 128, - 1), (33, 33), (36, 36), (38, 59), (61, 61), (63, 90), (95, 95), (97,
           122), (126, 126)], [U_marku], 457),
         ([(35, 35)], [U_marku, U_save_query], 453),
         ([(37, 37)], [U_marku], 7)]),
     (457, [], [([(- 128, - 1), (33, 33), (36, 36), (38, 59), (61, 61), (63, 90), (95, 95), (97,
           122), (126, 126)], [], 457),
         ([(35, 35)], [U_save_query], 453),
         ([(37, 37)], [], 7)]),
     (7, [], [([(48, 57), (65, 70), (97, 102)], [], 8)]),
     (8, [], [([(48, 57), (65, 70), (97, 102)], [], 457)])]"

definition uri_states_3 :: "uri_action state list" where
  "uri_states_3 = [
     (458, [], [([(- 128, - 1), (33, 33), (36, 36), (38, 46), (48, 59), (61, 61), (64, 90), (95,
           95), (97, 122), (126, 126)], [], 455),
         ([(35, 35)], [], 453),
         ([(37, 37)], [], 5),
         ([(47, 47)], [], 459),
         ([(63, 63)], [], 456)]),
     (459, [], [([(2, 2)], [U_markh], 9),
         ([(33, 33), (36, 36), (38, 46), (59, 59), (61, 61), (65, 90), (95, 95), (97, 122), (126,
           126)], [U_markh], 467),
         ([(35, 35)], [U_markh, U_save_host], 453),
         ([(37, 37)], [U_markh], 31),
         ([(47, 47)], [U_markh, U_save_host], 455),
         ([(48, 48)], [U_markh], 490),
         ([(49, 49)], [U_markh], 504),
         ([(50, 50)], [U_markh], 506),
         ([(51, 57)], [U_markh], 505),
         ([(58, 58)], [U_markh, U_save_host], 468),
         ([(63, 63)], [U_markh, U_save_host], 456),
         ([(64, 64)], [U_markh, U_save_userinfo], 469),
         ([(91, 91)], [U_markh], 38)]),
     (9, [], [([(48, 52)], [], 10)]),
     (10, [], [([(48, 57)], [], 11)]),
     (11, [], [([(46, 46)], [], 12)]),
     (12, [], [([(2, 2)], [], 13),
         ([(48, 48)], [], 15),
         ([(49, 49)], [], 27),
         ([(50, 50)], [], 29),
         ([(51, 57)], [], 28)]),
     (13, [], [([(48, 52)], [], 14)]),
     (14, [], [([(48, 57)], [], 15)]),
     (15, [], [([(46, 46)], [], 16)]),
     (16, [], [([(2, 2)], [], 17),
         ([(48, 48)], [], 19),
         ([(49, 49)], [], 23),
         ([(50, 50)], [], 25),
         ([(51, 57)], [], 24)]),
     (17, [], [([(48, 52)], [], 18)]),
     (18, [], [([(48, 57)], [], 19)]),
     (19, [], [([(46, 46)], [], 20)]),
     (20, [], [([(2, 2)], [], 21),
         ([(48, 48)], [], 460),
         ([(49, 49)], [], 463),
         ([(50, 50)], [], 465),
         ([(51, 57)], [], 464)]),
     (21, [], [([(48, 52)], [], 22)]),
     (22, [], [([(48, 57)], [], 460)]),
     (460, [], [([(35, 35)], [U_save_host], 453),
         ([(47, 47)], [U_save_host], 455),
         ([(58, 58)], [U_save_host], 461),
         ([(63, 63)], [U_save_host], 456)]),
     (461, [], [([(35, 35)], [U_markh, U_save_port], 453),
         ([(47, 47)], [U_markh, U_save_port], 455),
         ([(48, 57)], [U_markh], 462),
         ([(63, 63)], [U_markh, U_save_port], 456)]),
     (462, [], [([(35, 35)], [U_save_port], 453),
         ([(47, 47)], [U_save_port], 455),
         ([(48, 57)], [], 462),
         ([(63, 63)], [U_save_port], 456)]),
     (463, [], [([(35, 35)], [U_save_host], 453),
         ([(47, 47)], [U_save_host], 455),
         ([(48, 57)], [], 464),
         ([(58, 58)], [U_save_host], 461),
         ([(63, 63)], [U_save_host], 456)]),
     (464, [], [([(35, 35)], [U_save_host], 453),
         ([(47, 47)], [U_save_host], 455),
         ([(48, 57)], [], 460),
         ([(58, 58)], [U_save_host], 461),
         ([(63, 63)], [U_save_host], 456)]),
     (465, [], [([(35, 35)], [U_save_host], 453),
         ([(47, 47)], [U_save_host], 455),
         ([(48, 52), (54, 57)], [], 460),
         ([(53, 53)], [], 466),
         ([(58, 58)], [U_save_host], 461),
         ([(63, 63)], [U_save_host], 456)]),
     (466, [], [([(35, 35)], [U_save_host], 453),
         ([(47, 47)], [U_save_host], 455),
         ([(48, 53)], [], 460),
         ([(58, 58)], [U_save_host], 461),
         ([(63, 63)], [U_save_host], 456)])]"

definition uri_states_4 :: "uri_action state list" where
  "uri_states_4 = [
     (23, [], [([(46, 46)], [], 20),
         ([(48, 57)], [], 24)]),
     (24, [], [([(46, 46)], [], 20),
         ([(48, 57)], [], 19)]),
     (25, [], [([(46, 46)], [], 20),
         ([(48, 52), (54, 57)], [], 19),
         ([(53, 53)], [], 26)]),
     (26, [], [([(46, 46)], [], 20),
         ([(48, 53)], [], 19)]),
     (27, [], [([(46, 46)], [], 16),
         ([(48, 57)], [], 28)]),
     (28, [], [([(46, 46)], [], 16),
         ([(48, 57)], [], 15)]),
     (29, [], [([(46, 46)], [], 16),
         ([(48, 52), (54, 57)], [], 15),
         ([(53, 53)], [], 30)]),
     (30, [], [([(46, 46)], [], 16),
         ([(48, 53)], [], 15)]),
     (467, [], [([(33, 33), (36, 36), (38, 46), (48, 57), (59, 59), (61, 61), (65, 90), (95, 95),
           (97, 122), (126, 126)], [], 467),
         ([(35, 35)], [U_save_host], 453),
         ([(37, 37)], [], 31),
         ([(47, 47)], [U_save_host], 455),
         ([(58, 58)], [U_save_host], 468),
         ([(63, 63)], [U_save_host], 456),
         ([(64, 64)], [U_save_userinfo], 469)]),
     (31, [], [([(48, 57), (65, 70), (97, 102)], [], 32)]),
     (32, [], [([(48, 57), (65, 70), (97, 102)], [], 467)]),
     (468, [], [([(33, 33), (36, 36), (38, 46), (58, 59), (61, 61), (65, 90), (95, 95), (97, 122),
           (126, 126)], [], 33),
         ([(35, 35)], [U_markh, U_save_port], 453),
         ([(37, 37)], [], 34),
         ([(47, 47)], [U_markh, U_save_port], 455),
         ([(48, 57)], [U_markh], 489),
         ([(63, 63)], [U_markh, U_save_port], 456),
         ([(64, 64)], [U_save_userinfo], 469)]),
     (33, [], [([(33, 33), (36, 36), (38, 46), (48, 59), (61, 61), (65, 90), (95, 95), (97, 122),
           (126, 126)], [], 33),
         ([(37, 37)], [], 34),
         ([(64, 64)], [U_save_userinfo], 469)]),
     (34, [], [([(48, 57), (65, 70), (97, 102)], [], 35)]),
     (35, [], [([(48, 57), (65, 70), (97, 102)], [], 33)]),
     (469, [], [([(2, 2)], [U_markh], 9),
         ([(33, 33), (36, 36), (38, 46), (59, 59), (61, 61), (65, 90), (95, 95), (97, 122), (126,
           126)], [U_markh], 470),
         ([(35, 35)], [U_markh, U_save_host], 453),
         ([(37, 37)], [U_markh], 36),
         ([(47, 47)], [U_markh, U_save_host], 455),
         ([(48, 48)], [U_markh], 471),
         ([(49, 49)], [U_markh], 485),
         ([(50, 50)], [U_markh], 487),
         ([(51, 57)], [U_markh], 486),
         ([(58, 58)], [U_markh, U_save_host], 461),
         ([(63, 63)], [U_markh, U_save_host], 456),
         ([(91, 91)], [U_markh], 38)])]"

definition uri_states_5 :: "uri_action state list" where
  "uri_states_5 = [
     (470, [], [([(33, 33), (36, 36), (38, 46), (48, 57), (59, 59), (61, 61), (65, 90), (95, 95),
           (97, 122), (126, 126)], [], 470),
         ([(35, 35)], [U_save_host], 453),
         ([(37, 37)], [], 36),
         ([(47, 47)], [U_save_host], 455),
         ([(58, 58)], [U_save_host], 461),
         ([(63, 63)], [U_save_host], 456)]),
     (36, [], [([(48, 57), (65, 70), (97, 102)], [], 37)]),
     (37, [], [([(48, 57), (65, 70), (97, 102)], [], 470)]),
     (471, [], [([(33, 33), (36, 36), (38, 45), (48, 57), (59, 59), (61, 61), (65, 90), (95, 95),
           (97, 122), (126, 126)], [], 470),
         ([(35, 35)], [U_save_host], 453),
         ([(37, 37)], [], 36),
         ([(46, 46)], [], 472),
         ([(47, 47)], [U_save_host], 455),
         ([(58, 58)], [U_save_host], 461),
         ([(63, 63)], [U_save_host], 456)]),
     (472, [], [([(2, 2)], [], 13),
         ([(33, 33), (36, 36), (38, 46), (59, 59), (61, 61), (65, 90), (95, 95), (97, 122), (126,
           126)], [], 470),
         ([(35, 35)], [U_save_host], 453),
         ([(37, 37)], [], 36),
         ([(47, 47)], [U_save_host], 455),
         ([(48, 48)], [], 473),
         ([(49, 49)], [], 481),
         ([(50, 50)], [], 483),
         ([(51, 57)], [], 482),
         ([(58, 58)], [U_save_host], 461),
         ([(63, 63)], [U_save_host], 456)]),
     (473, [], [([(33, 33), (36, 36), (38, 45), (48, 57), (59, 59), (61, 61), (65, 90), (95, 95),
           (97, 122), (126, 126)], [], 470),
         ([(35, 35)], [U_save_host], 453),
         ([(37, 37)], [], 36),
         ([(46, 46)], [], 474),
         ([(47, 47)], [U_save_host], 455),
         ([(58, 58)], [U_save_host], 461),
         ([(63, 63)], [U_save_host], 456)]),
     (474, [], [([(2, 2)], [], 17),
         ([(33, 33), (36, 36), (38, 46), (59, 59), (61, 61), (65, 90), (95, 95), (97, 122), (126,
           126)], [], 470),
         ([(35, 35)], [U_save_host], 453),
         ([(37, 37)], [], 36),
         ([(47, 47)], [U_save_host], 455),
         ([(48, 48)], [], 475),
         ([(49, 49)], [], 477),
         ([(50, 50)], [], 479),
         ([(51, 57)], [], 478),
         ([(58, 58)], [U_save_host], 461),
         ([(63, 63)], [U_save_host], 456)]),
     (475, [], [([(33, 33), (36, 36), (38, 45), (48, 57), (59, 59), (61, 61), (65, 90), (95, 95),
           (97, 122), (126, 126)], [], 470),
         ([(35, 35)], [U_save_host], 453),
         ([(37, 37)], [], 36),
         ([(46, 46)], [], 476),
         ([(47, 47)], [U_save_host], 455),
         ([(58, 58)], [U_save_host], 461),
         ([(63, 63)], [U_save_host], 456)]),
     (476, [], [([(2, 2)], [], 21),
         ([(33, 33), (36, 36), (38, 46), (48, 57), (59, 59), (61, 61), (65, 90), (95, 95), (97,
           122), (126, 126)], [], 470),
         ([(35, 35)], [U_save_host], 453),
         ([(37, 37)], [], 36),
         ([(47, 47)], [U_save_host], 455),
         ([(58, 58)], [U_save_host], 461),
         ([(63, 63)], [U_save_host], 456)]),
     (477, [], [([(33, 33), (36, 36), (38, 45), (59, 59), (61, 61), (65, 90), (95, 95), (97, 122),
           (126, 126)], [], 470),
         ([(35, 35)], [U_save_host], 453),
         ([(37, 37)], [], 36),
         ([(46, 46)], [], 476),
         ([(47, 47)], [U_save_host], 455),
         ([(48, 57)], [], 478),
         ([(58, 58)], [U_save_host], 461),
         ([(63, 63)], [U_save_host], 456)]),
     (478, [], [([(33, 33), (36, 36), (38, 45), (59, 59), (61, 61), (65, 90), (95, 95), (97, 122),
           (126, 126)], [], 470),
         ([(35, 35)], [U_save_host], 453),
         ([(37, 37)], [], 36),
         ([(46, 46)], [], 476),
         ([(47, 47)], [U_save_host], 455),
         ([(48, 57)], [], 475),
         ([(58, 58)], [U_save_host], 461),
         ([(63, 63)], [U_save_host], 456)])]"

definition uri_states_6 :: "uri_action state list" where
  "uri_states_6 = [
     (479, [], [([(33, 33), (36, 36), (38, 45), (59, 59), (61, 61), (65, 90), (95, 95), (97, 122),
           (126, 126)], [], 470),
         ([(35, 35)], [U_save_host], 453),
         ([(37, 37)], [], 36),
         ([(46, 46)], [], 476),
         ([(47, 47)], [U_save_host], 455),
         ([(48, 52), (54, 57)], [], 475),
         ([(53, 53)], [], 480),
         ([(58, 58)], [U_save_host], 461),
         ([(63, 63)], [U_save_host], 456)]),
     (480, [], [([(33, 33), (36, 36), (38, 45), (54, 57), (59, 59), (61, 61), (65, 90), (95, 95),
           (97, 122), (126, 126)], [], 470),
         ([(35, 35)], [U_save_host], 453),
         ([(37, 37)], [], 36),
         ([(46, 46)], [], 476),
         ([(47, 47)], [U_save_host], 455),
         ([(48, 53)], [], 475),
         ([(58, 58)], [U_save_host], 461),
         ([(63, 63)], [U_save_host], 456)]),
     (481, [], [([(33, 33), (36, 36), (38, 45), (59, 59), (61, 61), (65, 90), (95, 95), (97, 122),
           (126, 126)], [], 470),
         ([(35, 35)], [U_save_host], 453),
         ([(37, 37)], [], 36),
         ([(46, 46)], [], 474),
         ([(47, 47)], [U_save_host], 455),
         ([(48, 57)], [], 482),
         ([(58, 58)], [U_save_host], 461),
         ([(63, 63)], [U_save_host], 456)]),
     (482, [], [([(33, 33), (36, 36), (38, 45), (59, 59), (61, 61), (65, 90), (95, 95), (97, 122),
           (126, 126)], [], 470),
         ([(35, 35)], [U_save_host], 453),
         ([(37, 37)], [], 36),
         ([(46, 46)], [], 474),
         ([(47, 47)], [U_save_host], 455),
         ([(48, 57)], [], 473),
         ([(58, 58)], [U_save_host], 461),
         ([(63, 63)], [U_save_host], 456)]),
     (483, [], [([(33, 33), (36, 36), (38, 45), (59, 59), (61, 61), (65, 90), (95, 95), (97, 122),
           (126, 126)], [], 470),
         ([(35, 35)], [U_save_host], 453),
         ([(37, 37)], [], 36),
         ([(46, 46)], [], 474),
         ([(47, 47)], [U_save_host], 455),
         ([(48, 52), (54, 57)], [], 473),
         ([(53, 53)], [], 484),
         ([(58, 58)], [U_save_host], 461),
         ([(63, 63)], [U_save_host], 456)]),
     (484, [], [([(33, 33), (36, 36), (38, 45), (54, 57), (59, 59), (61, 61), (65, 90), (95, 95),
           (97, 122), (126, 126)], [], 470),
         ([(35, 35)], [U_save_host], 453),
         ([(37, 37)], [], 36),
         ([(46, 46)], [], 474),
         ([(47, 47)], [U_save_host], 455),
         ([(48, 53)], [], 473),
         ([(58, 58)], [U_save_host], 461),
         ([(63, 63)], [U_save_host], 456)]),
     (485, [], [([(33, 33), (36, 36), (38, 45), (59, 59), (61, 61), (65, 90), (95, 95), (97, 122),
           (126, 126)], [], 470),
         ([(35, 35)], [U_save_host], 453),
         ([(37, 37)], [], 36),
         ([(46, 46)], [], 472),
         ([(47, 47)], [U_save_host], 455),
         ([(48, 57)], [], 486),
         ([(58, 58)], [U_save_host], 461),
         ([(63, 63)], [U_save_host], 456)]),
     (486, [], [([(33, 33), (36, 36), (38, 45), (59, 59), (61, 61), (65, 90), (95, 95), (97, 122),
           (126, 126)], [], 470),
         ([(35, 35)], [U_save_host], 453),
         ([(37, 37)], [], 36),
         ([(46, 46)], [], 472),
         ([(47, 47)], [U_save_host], 455),
         ([(48, 57)], [], 471),
         ([(58, 58)], [U_save_host], 461),
         ([(63, 63)], [U_save_host], 456)]),
     (487, [], [([(33, 33), (36, 36), (38, 45), (59, 59), (61, 61), (65, 90), (95, 95), (97, 122),
           (126, 126)], [], 470),
         ([(35, 35)], [U_save_host], 453),
         ([(37, 37)], [], 36),
         ([(46, 46)], [], 472),
         ([(47, 47)], [U_save_host], 455),
         ([(48, 52), (54, 57)], [], 471),
         ([(53, 53)], [], 488),
         ([(58, 58)], [U_save_host], 461),
         ([(63, 63)], [U_save_host], 456)])]"

definition uri_states_7 :: "uri_action state list" where
  "uri_states_7 = [
     (488, [], [([(33, 33), (36, 36), (38, 45), (54, 57), (59, 59), (61, 61), (65, 90), (95, 95),
           (97, 122), (126, 126)], [], 470),
         ([(35, 35)], [U_save_host], 453),
         ([(37, 37)], [], 36),
         ([(46, 46)], [], 472),
         ([(47, 47)], [U_save_host], 455),
         ([(48, 53)], [], 471),
         ([(58, 58)], [U_save_host], 461),
         ([(63, 63)], [U_save_host], 456)]),
     (38, [], [([(48, 57), (65, 70), (97, 102)], [], 39),
         ([(58, 58)], [], 146),
         ([(118, 118)], [], 225)]),
     (39, [], [([(48, 57), (65, 70), (97, 102)], [], 40),
         ([(58, 58)], [], 43)]),
     (40, [], [([(48, 57), (65, 70), (97, 102)], [], 41),
         ([(58, 58)], [], 43)]),
     (41, [], [([(48, 57), (65, 70), (97, 102)], [], 42),
         ([(58, 58)], [], 43)]),
     (42, [], [([(58, 58)], [], 43)]),
     (43, [], [([(48, 57), (65, 70), (97, 102)], [], 44),
         ([(58, 58)], [], 141)]),
     (44, [], [([(48, 57), (65, 70), (97, 102)], [], 45),
         ([(58, 58)], [], 48)]),
     (45, [], [([(48, 57), (65, 70), (97, 102)], [], 46),
         ([(58, 58)], [], 48)]),
     (46, [], [([(48, 57), (65, 70), (97, 102)], [], 47),
         ([(58, 58)], [], 48)]),
     (47, [], [([(58, 58)], [], 48)]),
     (48, [], [([(48, 57), (65, 70), (97, 102)], [], 49),
         ([(58, 58)], [], 136)]),
     (49, [], [([(48, 57), (65, 70), (97, 102)], [], 50),
         ([(58, 58)], [], 53)]),
     (50, [], [([(48, 57), (65, 70), (97, 102)], [], 51),
         ([(58, 58)], [], 53)]),
     (51, [], [([(48, 57), (65, 70), (97, 102)], [], 52),
         ([(58, 58)], [], 53)]),
     (52, [], [([(58, 58)], [], 53)]),
     (53, [], [([(48, 57), (65, 70), (97, 102)], [], 54),
         ([(58, 58)], [], 131)]),
     (54, [], [([(48, 57), (65, 70), (97, 102)], [], 55),
         ([(58, 58)], [], 58)]),
     (55, [], [([(48, 57), (65, 70), (97, 102)], [], 56),
         ([(58, 58)], [], 58)]),
     (56, [], [([(48, 57), (65, 70), (97, 102)], [], 57),
         ([(58, 58)], [], 58)])]"

definition uri_states_8 :: "uri_action state list" where
  "uri_states_8 = [
     (57, [], [([(58, 58)], [], 58)]),
     (58, [], [([(48, 57), (65, 70), (97, 102)], [], 59),
         ([(58, 58)], [], 126)]),
     (59, [], [([(48, 57), (65, 70), (97, 102)], [], 60),
         ([(58, 58)], [], 63)]),
     (60, [], [([(48, 57), (65, 70), (97, 102)], [], 61),
         ([(58, 58)], [], 63)]),
     (61, [], [([(48, 57), (65, 70), (97, 102)], [], 62),
         ([(58, 58)], [], 63)]),
     (62, [], [([(58, 58)], [], 63)]),
     (63, [], [([(48, 57), (65, 70), (97, 102)], [], 64),
         ([(58, 58)], [], 113)]),
     (64, [], [([(48, 57), (65, 70), (97, 102)], [], 65),
         ([(58, 58)], [], 68)]),
     (65, [], [([(48, 57), (65, 70), (97, 102)], [], 66),
         ([(58, 58)], [], 68)]),
     (66, [], [([(48, 57), (65, 70), (97, 102)], [], 67),
         ([(58, 58)], [], 68)]),
     (67, [], [([(58, 58)], [], 68)]),
     (68, [], [([(2, 2)], [], 69),
         ([(48, 48)], [], 96),
         ([(49, 49)], [], 104),
         ([(50, 50)], [], 107),
         ([(51, 57)], [], 110),
         ([(58, 58)], [], 111),
         ([(65, 70), (97, 102)], [], 112)]),
     (69, [], [([(48, 52)], [], 70)]),
     (70, [], [([(48, 57)], [], 71)]),
     (71, [], [([(46, 46)], [], 72)]),
     (72, [], [([(2, 2)], [], 73),
         ([(48, 48)], [], 75),
         ([(49, 49)], [], 92),
         ([(50, 50)], [], 94),
         ([(51, 57)], [], 93)]),
     (73, [], [([(48, 52)], [], 74)]),
     (74, [], [([(48, 57)], [], 75)]),
     (75, [], [([(46, 46)], [], 76)]),
     (76, [], [([(2, 2)], [], 77),
         ([(48, 48)], [], 79),
         ([(49, 49)], [], 88),
         ([(50, 50)], [], 90),
         ([(51, 57)], [], 89)]),
     (77, [], [([(48, 52)], [], 78)]),
     (78, [], [([(48, 57)], [], 79)]),
     (79, [], [([(46, 46)], [], 80)]),
     (80, [], [([(2, 2)], [], 81),
         ([(48, 48)], [], 83),
         ([(49, 49)], [], 84),
         ([(50, 50)], [], 86),
         ([(51, 57)], [], 85)]),
     (81, [], [([(48, 52)], [], 82)]),
     (82, [], [([(48, 57)], [], 83)]),
     (83, [], [([(93, 93)], [], 460)]),
     (84, [], [([(48, 57)], [], 85),
         ([(93, 93)], [], 460)])]"

definition uri_states_9 :: "uri_action state list" where
  "uri_states_9 = [
     (85, [], [([(48, 57)], [], 83),
         ([(93, 93)], [], 460)]),
     (86, [], [([(48, 52), (54, 57)], [], 83),
         ([(53, 53)], [], 87),
         ([(93, 93)], [], 460)]),
     (87, [], [([(48, 53)], [], 83),
         ([(93, 93)], [], 460)]),
     (88, [], [([(46, 46)], [], 80),
         ([(48, 57)], [], 89)]),
     (89, [], [([(46, 46)], [], 80),
         ([(48, 57)], [], 79)]),
     (90, [], [([(46, 46)], [], 80),
         ([(48, 52), (54, 57)], [], 79),
         ([(53, 53)], [], 91)]),
     (91, [], [([(46, 46)], [], 80),
         ([(48, 53)], [], 79)]),
     (92, [], [([(46, 46)], [], 76),
         ([(48, 57)], [], 93)]),
     (93, [], [([(46, 46)], [], 76),
         ([(48, 57)], [], 75)]),
     (94, [], [([(46, 46)], [], 76),
         ([(48, 52), (54, 57)], [], 75),
         ([(53, 53)], [], 95)]),
     (95, [], [([(46, 46)], [], 76),
         ([(48, 53)], [], 75)]),
     (96, [], [([(46, 46)], [], 72),
         ([(48, 57), (65, 70), (97, 102)], [], 97),
         ([(58, 58)], [], 100)]),
     (97, [], [([(48, 57), (65, 70), (97, 102)], [], 98),
         ([(58, 58)], [], 100)]),
     (98, [], [([(48, 57), (65, 70), (97, 102)], [], 99),
         ([(58, 58)], [], 100)]),
     (99, [], [([(58, 58)], [], 100)]),
     (100, [], [([(48, 57), (65, 70), (97, 102)], [], 101),
         ([(58, 58)], [], 83)]),
     (101, [], [([(48, 57), (65, 70), (97, 102)], [], 102),
         ([(93, 93)], [], 460)]),
     (102, [], [([(48, 57), (65, 70), (97, 102)], [], 103),
         ([(93, 93)], [], 460)]),
     (103, [], [([(48, 57), (65, 70), (97, 102)], [], 83),
         ([(93, 93)], [], 460)]),
     (104, [], [([(46, 46)], [], 72),
         ([(48, 57)], [], 105),
         ([(58, 58)], [], 100),
         ([(65, 70), (97, 102)], [], 97)]),
     (105, [], [([(46, 46)], [], 72),
         ([(48, 57)], [], 106),
         ([(58, 58)], [], 100),
         ([(65, 70), (97, 102)], [], 98)]),
     (106, [], [([(46, 46)], [], 72),
         ([(48, 57), (65, 70), (97, 102)], [], 99),
         ([(58, 58)], [], 100)]),
     (107, [], [([(46, 46)], [], 72),
         ([(48, 52), (54, 57)], [], 108),
         ([(53, 53)], [], 109),
         ([(58, 58)], [], 100),
         ([(65, 70), (97, 102)], [], 97)])]"

definition uri_states_10 :: "uri_action state list" where
  "uri_states_10 = [
     (108, [], [([(46, 46)], [], 72),
         ([(48, 57), (65, 70), (97, 102)], [], 98),
         ([(58, 58)], [], 100)]),
     (109, [], [([(46, 46)], [], 72),
         ([(48, 53)], [], 106),
         ([(54, 57), (65, 70), (97, 102)], [], 98),
         ([(58, 58)], [], 100)]),
     (110, [], [([(46, 46)], [], 72),
         ([(48, 57)], [], 108),
         ([(58, 58)], [], 100),
         ([(65, 70), (97, 102)], [], 97)]),
     (111, [], [([(48, 57), (65, 70), (97, 102)], [], 101)]),
     (112, [], [([(48, 57), (65, 70), (97, 102)], [], 97),
         ([(58, 58)], [], 100)]),
     (113, [], [([(2, 2)], [], 69),
         ([(48, 48)], [], 114),
         ([(49, 49)], [], 118),
         ([(50, 50)], [], 121),
         ([(51, 57)], [], 124),
         ([(65, 70), (97, 102)], [], 125)]),
     (114, [], [([(46, 46)], [], 72),
         ([(48, 57), (65, 70), (97, 102)], [], 115),
         ([(58, 58)], [], 111)]),
     (115, [], [([(48, 57), (65, 70), (97, 102)], [], 116),
         ([(58, 58)], [], 111)]),
     (116, [], [([(48, 57), (65, 70), (97, 102)], [], 117),
         ([(58, 58)], [], 111)]),
     (117, [], [([(58, 58)], [], 111)]),
     (118, [], [([(46, 46)], [], 72),
         ([(48, 57)], [], 119),
         ([(58, 58)], [], 111),
         ([(65, 70), (97, 102)], [], 115)]),
     (119, [], [([(46, 46)], [], 72),
         ([(48, 57)], [], 120),
         ([(58, 58)], [], 111),
         ([(65, 70), (97, 102)], [], 116)]),
     (120, [], [([(46, 46)], [], 72),
         ([(48, 57), (65, 70), (97, 102)], [], 117),
         ([(58, 58)], [], 111)]),
     (121, [], [([(46, 46)], [], 72),
         ([(48, 52), (54, 57)], [], 122),
         ([(53, 53)], [], 123),
         ([(58, 58)], [], 111),
         ([(65, 70), (97, 102)], [], 115)]),
     (122, [], [([(46, 46)], [], 72),
         ([(48, 57), (65, 70), (97, 102)], [], 116),
         ([(58, 58)], [], 111)]),
     (123, [], [([(46, 46)], [], 72),
         ([(48, 53)], [], 120),
         ([(54, 57), (65, 70), (97, 102)], [], 116),
         ([(58, 58)], [], 111)]),
     (124, [], [([(46, 46)], [], 72),
         ([(48, 57)], [], 122),
         ([(58, 58)], [], 111),
         ([(65, 70), (97, 102)], [], 115)]),
     (125, [], [([(48, 57), (65, 70), (97, 102)], [], 115),
         ([(58, 58)], [], 111)])]"

definition uri_states_11 :: "uri_action state list" where
  "uri_states_11 = [
     (126, [], [([(48, 57), (65, 70), (97, 102)], [], 127)]),
     (127, [], [([(48, 57), (65, 70), (97, 102)], [], 128),
         ([(58, 58)], [], 113)]),
     (128, [], [([(48, 57), (65, 70), (97, 102)], [], 129),
         ([(58, 58)], [], 113)]),
     (129, [], [([(48, 57), (65, 70), (97, 102)], [], 130),
         ([(58, 58)], [], 113)]),
     (130, [], [([(58, 58)], [], 113)]),
     (131, [], [([(48, 57), (65, 70), (97, 102)], [], 132)]),
     (132, [], [([(48, 57), (65, 70), (97, 102)], [], 133),
         ([(58, 58)], [], 126)]),
     (133, [], [([(48, 57), (65, 70), (97, 102)], [], 134),
         ([(58, 58)], [], 126)]),
     (134, [], [([(48, 57), (65, 70), (97, 102)], [], 135),
         ([(58, 58)], [], 126)]),
     (135, [], [([(58, 58)], [], 126)]),
     (136, [], [([(48, 57), (65, 70), (97, 102)], [], 137)]),
     (137, [], [([(48, 57), (65, 70), (97, 102)], [], 138),
         ([(58, 58)], [], 131)]),
     (138, [], [([(48, 57), (65, 70), (97, 102)], [], 139),
         ([(58, 58)], [], 131)]),
     (139, [], [([(48, 57), (65, 70), (97, 102)], [], 140),
         ([(58, 58)], [], 131)]),
     (140, [], [([(58, 58)], [], 131)]),
     (141, [], [([(48, 57), (65, 70), (97, 102)], [], 142)]),
     (142, [], [([(48, 57), (65, 70), (97, 102)], [], 143),
         ([(58, 58)], [], 136)]),
     (143, [], [([(48, 57), (65, 70), (97, 102)], [], 144),
         ([(58, 58)], [], 136)]),
     (144, [], [([(48, 57), (65, 70), (97, 102)], [], 145),
         ([(58, 58)], [], 136)]),
     (145, [], [([(58, 58)], [], 136)]),
     (146, [], [([(58, 58)], [], 147)]),
     (147, [], [([(2, 2)], [], 69),
         ([(48, 48)], [], 148),
         ([(49, 49)], [], 217),
         ([(50, 50)], [], 220),
         ([(51, 57)], [], 223),
         ([(65, 70), (97, 102)], [], 224),
         ([(93, 93)], [], 460)])]"

definition uri_states_12 :: "uri_action state list" where
  "uri_states_12 = [
     (148, [], [([(46, 46)], [], 72),
         ([(48, 57), (65, 70), (97, 102)], [], 149),
         ([(58, 58)], [], 152),
         ([(93, 93)], [], 460)]),
     (149, [], [([(48, 57), (65, 70), (97, 102)], [], 150),
         ([(58, 58)], [], 152),
         ([(93, 93)], [], 460)]),
     (150, [], [([(48, 57), (65, 70), (97, 102)], [], 151),
         ([(58, 58)], [], 152),
         ([(93, 93)], [], 460)]),
     (151, [], [([(58, 58)], [], 152),
         ([(93, 93)], [], 460)]),
     (152, [], [([(2, 2)], [], 69),
         ([(48, 48)], [], 153),
         ([(49, 49)], [], 209),
         ([(50, 50)], [], 212),
         ([(51, 57)], [], 215),
         ([(65, 70), (97, 102)], [], 216)]),
     (153, [], [([(46, 46)], [], 72),
         ([(48, 57), (65, 70), (97, 102)], [], 154),
         ([(58, 58)], [], 157),
         ([(93, 93)], [], 460)]),
     (154, [], [([(48, 57), (65, 70), (97, 102)], [], 155),
         ([(58, 58)], [], 157),
         ([(93, 93)], [], 460)]),
     (155, [], [([(48, 57), (65, 70), (97, 102)], [], 156),
         ([(58, 58)], [], 157),
         ([(93, 93)], [], 460)]),
     (156, [], [([(58, 58)], [], 157),
         ([(93, 93)], [], 460)]),
     (157, [], [([(2, 2)], [], 69),
         ([(48, 48)], [], 158),
         ([(49, 49)], [], 201),
         ([(50, 50)], [], 204),
         ([(51, 57)], [], 207),
         ([(65, 70), (97, 102)], [], 208)]),
     (158, [], [([(46, 46)], [], 72),
         ([(48, 57), (65, 70), (97, 102)], [], 159),
         ([(58, 58)], [], 162),
         ([(93, 93)], [], 460)]),
     (159, [], [([(48, 57), (65, 70), (97, 102)], [], 160),
         ([(58, 58)], [], 162),
         ([(93, 93)], [], 460)]),
     (160, [], [([(48, 57), (65, 70), (97, 102)], [], 161),
         ([(58, 58)], [], 162),
         ([(93, 93)], [], 460)]),
     (161, [], [([(58, 58)], [], 162),
         ([(93, 93)], [], 460)]),
     (162, [], [([(2, 2)], [], 69),
         ([(48, 48)], [], 163),
         ([(49, 49)], [], 193),
         ([(50, 50)], [], 196),
         ([(51, 57)], [], 199),
         ([(65, 70), (97, 102)], [], 200)]),
     (163, [], [([(46, 46)], [], 72),
         ([(48, 57), (65, 70), (97, 102)], [], 164),
         ([(58, 58)], [], 167),
         ([(93, 93)], [], 460)]),
     (164, [], [([(48, 57), (65, 70), (97, 102)], [], 165),
         ([(58, 58)], [], 167),
         ([(93, 93)], [], 460)]),
     (165, [], [([(48, 57), (65, 70), (97, 102)], [], 166),
         ([(58, 58)], [], 167),
         ([(93, 93)], [], 460)])]"

definition uri_states_13 :: "uri_action state list" where
  "uri_states_13 = [
     (166, [], [([(58, 58)], [], 167),
         ([(93, 93)], [], 460)]),
     (167, [], [([(2, 2)], [], 69),
         ([(48, 48)], [], 168),
         ([(49, 49)], [], 185),
         ([(50, 50)], [], 188),
         ([(51, 57)], [], 191),
         ([(65, 70), (97, 102)], [], 192)]),
     (168, [], [([(46, 46)], [], 72),
         ([(48, 57), (65, 70), (97, 102)], [], 169),
         ([(58, 58)], [], 172),
         ([(93, 93)], [], 460)]),
     (169, [], [([(48, 57), (65, 70), (97, 102)], [], 170),
         ([(58, 58)], [], 172),
         ([(93, 93)], [], 460)]),
     (170, [], [([(48, 57), (65, 70), (97, 102)], [], 171),
         ([(58, 58)], [], 172),
         ([(93, 93)], [], 460)]),
     (171, [], [([(58, 58)], [], 172),
         ([(93, 93)], [], 460)]),
     (172, [], [([(2, 2)], [], 69),
         ([(48, 48)], [], 173),
         ([(49, 49)], [], 177),
         ([(50, 50)], [], 180),
         ([(51, 57)], [], 183),
         ([(65, 70), (97, 102)], [], 184)]),
     (173, [], [([(46, 46)], [], 72),
         ([(48, 57), (65, 70), (97, 102)], [], 174),
         ([(58, 58)], [], 111),
         ([(93, 93)], [], 460)]),
     (174, [], [([(48, 57), (65, 70), (97, 102)], [], 175),
         ([(58, 58)], [], 111),
         ([(93, 93)], [], 460)]),
     (175, [], [([(48, 57), (65, 70), (97, 102)], [], 176),
         ([(58, 58)], [], 111),
         ([(93, 93)], [], 460)]),
     (176, [], [([(58, 58)], [], 111),
         ([(93, 93)], [], 460)]),
     (177, [], [([(46, 46)], [], 72),
         ([(48, 57)], [], 178),
         ([(58, 58)], [], 111),
         ([(65, 70), (97, 102)], [], 174),
         ([(93, 93)], [], 460)]),
     (178, [], [([(46, 46)], [], 72),
         ([(48, 57)], [], 179),
         ([(58, 58)], [], 111),
         ([(65, 70), (97, 102)], [], 175),
         ([(93, 93)], [], 460)]),
     (179, [], [([(46, 46)], [], 72),
         ([(48, 57), (65, 70), (97, 102)], [], 176),
         ([(58, 58)], [], 111),
         ([(93, 93)], [], 460)]),
     (180, [], [([(46, 46)], [], 72),
         ([(48, 52), (54, 57)], [], 181),
         ([(53, 53)], [], 182),
         ([(58, 58)], [], 111),
         ([(65, 70), (97, 102)], [], 174),
         ([(93, 93)], [], 460)]),
     (181, [], [([(46, 46)], [], 72),
         ([(48, 57), (65, 70), (97, 102)], [], 175),
         ([(58, 58)], [], 111),
         ([(93, 93)], [], 460)]),
     (182, [], [([(46, 46)], [], 72),
         ([(48, 53)], [], 179),
         ([(54, 57), (65, 70), (97, 102)], [], 175),
         ([(58, 58)], [], 111),
         ([(93, 93)], [], 460)]),
     (183, [], [([(46, 46)], [], 72),
         ([(48, 57)], [], 181),
         ([(58, 58)], [], 111),
         ([(65, 70), (97, 102)], [], 174),
         ([(93, 93)], [], 460)])]"

definition uri_states_14 :: "uri_action state list" where
  "uri_states_14 = [
     (184, [], [([(48, 57), (65, 70), (97, 102)], [], 174),
         ([(58, 58)], [], 111),
         ([(93, 93)], [], 460)]),
     (185, [], [([(46, 46)], [], 72),
         ([(48, 57)], [], 186),
         ([(58, 58)], [], 172),
         ([(65, 70), (97, 102)], [], 169),
         ([(93, 93)], [], 460)]),
     (186, [], [([(46, 46)], [], 72),
         ([(48, 57)], [], 187),
         ([(58, 58)], [], 172),
         ([(65, 70), (97, 102)], [], 170),
         ([(93, 93)], [], 460)]),
     (187, [], [([(46, 46)], [], 72),
         ([(48, 57), (65, 70), (97, 102)], [], 171),
         ([(58, 58)], [], 172),
         ([(93, 93)], [], 460)]),
     (188, [], [([(46, 46)], [], 72),
         ([(48, 52), (54, 57)], [], 189),
         ([(53, 53)], [], 190),
         ([(58, 58)], [], 172),
         ([(65, 70), (97, 102)], [], 169),
         ([(93, 93)], [], 460)]),
     (189, [], [([(46, 46)], [], 72),
         ([(48, 57), (65, 70), (97, 102)], [], 170),
         ([(58, 58)], [], 172),
         ([(93, 93)], [], 460)]),
     (190, [], [([(46, 46)], [], 72),
         ([(48, 53)], [], 187),
         ([(54, 57), (65, 70), (97, 102)], [], 170),
         ([(58, 58)], [], 172),
         ([(93, 93)], [], 460)]),
     (191, [], [([(46, 46)], [], 72),
         ([(48, 57)], [], 189),
         ([(58, 58)], [], 172),
         ([(65, 70), (97, 102)], [], 169),
         ([(93, 93)], [], 460)]),
     (192, [], [([(48, 57), (65, 70), (97, 102)], [], 169),
         ([(58, 58)], [], 172),
         ([(93, 93)], [], 460)]),
     (193, [], [([(46, 46)], [], 72),
         ([(48, 57)], [], 194),
         ([(58, 58)], [], 167),
         ([(65, 70), (97, 102)], [], 164),
         ([(93, 93)], [], 460)]),
     (194, [], [([(46, 46)], [], 72),
         ([(48, 57)], [], 195),
         ([(58, 58)], [], 167),
         ([(65, 70), (97, 102)], [], 165),
         ([(93, 93)], [], 460)]),
     (195, [], [([(46, 46)], [], 72),
         ([(48, 57), (65, 70), (97, 102)], [], 166),
         ([(58, 58)], [], 167),
         ([(93, 93)], [], 460)]),
     (196, [], [([(46, 46)], [], 72),
         ([(48, 52), (54, 57)], [], 197),
         ([(53, 53)], [], 198),
         ([(58, 58)], [], 167),
         ([(65, 70), (97, 102)], [], 164),
         ([(93, 93)], [], 460)]),
     (197, [], [([(46, 46)], [], 72),
         ([(48, 57), (65, 70), (97, 102)], [], 165),
         ([(58, 58)], [], 167),
         ([(93, 93)], [], 460)]),
     (198, [], [([(46, 46)], [], 72),
         ([(48, 53)], [], 195),
         ([(54, 57), (65, 70), (97, 102)], [], 165),
         ([(58, 58)], [], 167),
         ([(93, 93)], [], 460)]),
     (199, [], [([(46, 46)], [], 72),
         ([(48, 57)], [], 197),
         ([(58, 58)], [], 167),
         ([(65, 70), (97, 102)], [], 164),
         ([(93, 93)], [], 460)])]"

definition uri_states_15 :: "uri_action state list" where
  "uri_states_15 = [
     (200, [], [([(48, 57), (65, 70), (97, 102)], [], 164),
         ([(58, 58)], [], 167),
         ([(93, 93)], [], 460)]),
     (201, [], [([(46, 46)], [], 72),
         ([(48, 57)], [], 202),
         ([(58, 58)], [], 162),
         ([(65, 70), (97, 102)], [], 159),
         ([(93, 93)], [], 460)]),
     (202, [], [([(46, 46)], [], 72),
         ([(48, 57)], [], 203),
         ([(58, 58)], [], 162),
         ([(65, 70), (97, 102)], [], 160),
         ([(93, 93)], [], 460)]),
     (203, [], [([(46, 46)], [], 72),
         ([(48, 57), (65, 70), (97, 102)], [], 161),
         ([(58, 58)], [], 162),
         ([(93, 93)], [], 460)]),
     (204, [], [([(46, 46)], [], 72),
         ([(48, 52), (54, 57)], [], 205),
         ([(53, 53)], [], 206),
         ([(58, 58)], [], 162),
         ([(65, 70), (97, 102)], [], 159),
         ([(93, 93)], [], 460)]),
     (205, [], [([(46, 46)], [], 72),
         ([(48, 57), (65, 70), (97, 102)], [], 160),
         ([(58, 58)], [], 162),
         ([(93, 93)], [], 460)]),
     (206, [], [([(46, 46)], [], 72),
         ([(48, 53)], [], 203),
         ([(54, 57), (65, 70), (97, 102)], [], 160),
         ([(58, 58)], [], 162),
         ([(93, 93)], [], 460)]),
     (207, [], [([(46, 46)], [], 72),
         ([(48, 57)], [], 205),
         ([(58, 58)], [], 162),
         ([(65, 70), (97, 102)], [], 159),
         ([(93, 93)], [], 460)]),
     (208, [], [([(48, 57), (65, 70), (97, 102)], [], 159),
         ([(58, 58)], [], 162),
         ([(93, 93)], [], 460)]),
     (209, [], [([(46, 46)], [], 72),
         ([(48, 57)], [], 210),
         ([(58, 58)], [], 157),
         ([(65, 70), (97, 102)], [], 154),
         ([(93, 93)], [], 460)]),
     (210, [], [([(46, 46)], [], 72),
         ([(48, 57)], [], 211),
         ([(58, 58)], [], 157),
         ([(65, 70), (97, 102)], [], 155),
         ([(93, 93)], [], 460)]),
     (211, [], [([(46, 46)], [], 72),
         ([(48, 57), (65, 70), (97, 102)], [], 156),
         ([(58, 58)], [], 157),
         ([(93, 93)], [], 460)]),
     (212, [], [([(46, 46)], [], 72),
         ([(48, 52), (54, 57)], [], 213),
         ([(53, 53)], [], 214),
         ([(58, 58)], [], 157),
         ([(65, 70), (97, 102)], [], 154),
         ([(93, 93)], [], 460)]),
     (213, [], [([(46, 46)], [], 72),
         ([(48, 57), (65, 70), (97, 102)], [], 155),
         ([(58, 58)], [], 157),
         ([(93, 93)], [], 460)]),
     (214, [], [([(46, 46)], [], 72),
         ([(48, 53)], [], 211),
         ([(54, 57), (65, 70), (97, 102)], [], 155),
         ([(58, 58)], [], 157),
         ([(93, 93)], [], 460)]),
     (215, [], [([(46, 46)], [], 72),
         ([(48, 57)], [], 213),
         ([(58, 58)], [], 157),
         ([(65, 70), (97, 102)], [], 154),
         ([(93, 93)], [], 460)])]"

definition uri_states_16 :: "uri_action state list" where
  "uri_states_16 = [
     (216, [], [([(48, 57), (65, 70), (97, 102)], [], 154),
         ([(58, 58)], [], 157),
         ([(93, 93)], [], 460)]),
     (217, [], [([(46, 46)], [], 72),
         ([(48, 57)], [], 218),
         ([(58, 58)], [], 152),
         ([(65, 70), (97, 102)], [], 149),
         ([(93, 93)], [], 460)]),
     (218, [], [([(46, 46)], [], 72),
         ([(48, 57)], [], 219),
         ([(58, 58)], [], 152),
         ([(65, 70), (97, 102)], [], 150),
         ([(93, 93)], [], 460)]),
     (219, [], [([(46, 46)], [], 72),
         ([(48, 57), (65, 70), (97, 102)], [], 151),
         ([(58, 58)], [], 152),
         ([(93, 93)], [], 460)]),
     (220, [], [([(46, 46)], [], 72),
         ([(48, 52), (54, 57)], [], 221),
         ([(53, 53)], [], 222),
         ([(58, 58)], [], 152),
         ([(65, 70), (97, 102)], [], 149),
         ([(93, 93)], [], 460)]),
     (221, [], [([(46, 46)], [], 72),
         ([(48, 57), (65, 70), (97, 102)], [], 150),
         ([(58, 58)], [], 152),
         ([(93, 93)], [], 460)]),
     (222, [], [([(46, 46)], [], 72),
         ([(48, 53)], [], 219),
         ([(54, 57), (65, 70), (97, 102)], [], 150),
         ([(58, 58)], [], 152),
         ([(93, 93)], [], 460)]),
     (223, [], [([(46, 46)], [], 72),
         ([(48, 57)], [], 221),
         ([(58, 58)], [], 152),
         ([(65, 70), (97, 102)], [], 149),
         ([(93, 93)], [], 460)]),
     (224, [], [([(48, 57), (65, 70), (97, 102)], [], 149),
         ([(58, 58)], [], 152),
         ([(93, 93)], [], 460)]),
     (225, [], [([(48, 57), (65, 70), (97, 102)], [], 226)]),
     (226, [], [([(46, 46)], [], 227),
         ([(48, 57), (65, 70), (97, 102)], [], 226)]),
     (227, [], [([(33, 33), (36, 36), (38, 46), (48, 59), (61, 61), (65, 90), (95, 95), (97, 122),
           (126, 126)], [], 228)]),
     (228, [], [([(33, 33), (36, 36), (38, 46), (48, 59), (61, 61), (65, 90), (95, 95), (97, 122),
           (126, 126)], [], 228),
         ([(93, 93)], [], 460)]),
     (489, [], [([(33, 33), (36, 36), (38, 46), (58, 59), (61, 61), (65, 90), (95, 95), (97, 122),
           (126, 126)], [], 33),
         ([(35, 35)], [U_save_port], 453),
         ([(37, 37)], [], 34),
         ([(47, 47)], [U_save_port], 455),
         ([(48, 57)], [], 489),
         ([(63, 63)], [U_save_port], 456),
         ([(64, 64)], [U_save_userinfo], 469)])]"

definition uri_states_17 :: "uri_action state list" where
  "uri_states_17 = [
     (490, [], [([(33, 33), (36, 36), (38, 45), (48, 57), (59, 59), (61, 61), (65, 90), (95, 95),
           (97, 122), (126, 126)], [], 467),
         ([(35, 35)], [U_save_host], 453),
         ([(37, 37)], [], 31),
         ([(46, 46)], [], 491),
         ([(47, 47)], [U_save_host], 455),
         ([(58, 58)], [U_save_host], 468),
         ([(63, 63)], [U_save_host], 456),
         ([(64, 64)], [U_save_userinfo], 469)]),
     (491, [], [([(2, 2)], [], 13),
         ([(33, 33), (36, 36), (38, 46), (59, 59), (61, 61), (65, 90), (95, 95), (97, 122), (126,
           126)], [], 467),
         ([(35, 35)], [U_save_host], 453),
         ([(37, 37)], [], 31),
         ([(47, 47)], [U_save_host], 455),
         ([(48, 48)], [], 492),
         ([(49, 49)], [], 500),
         ([(50, 50)], [], 502),
         ([(51, 57)], [], 501),
         ([(58, 58)], [U_save_host], 468),
         ([(63, 63)], [U_save_host], 456),
         ([(64, 64)], [U_save_userinfo], 469)]),
     (492, [], [([(33, 33), (36, 36), (38, 45), (48, 57), (59, 59), (61, 61), (65, 90), (95, 95),
           (97, 122), (126, 126)], [], 467),
         ([(35, 35)], [U_save_host], 453),
         ([(37, 37)], [], 31),
         ([(46, 46)], [], 493),
         ([(47, 47)], [U_save_host], 455),
         ([(58, 58)], [U_save_host], 468),
         ([(63, 63)], [U_save_host], 456),
         ([(64, 64)], [U_save_userinfo], 469)]),
     (493, [], [([(2, 2)], [], 17),
         ([(33, 33), (36, 36), (38, 46), (59, 59), (61, 61), (65, 90), (95, 95), (97, 122), (126,
           126)], [], 467),
         ([(35, 35)], [U_save_host], 453),
         ([(37, 37)], [], 31),
         ([(47, 47)], [U_save_host], 455),
         ([(48, 48)], [], 494),
         ([(49, 49)], [], 496),
         ([(50, 50)], [], 498),
         ([(51, 57)], [], 497),
         ([(58, 58)], [U_save_host], 468),
         ([(63, 63)], [U_save_host], 456),
         ([(64, 64)], [U_save_userinfo], 469)]),
     (494, [], [([(33, 33), (36, 36), (38, 45), (48, 57), (59, 59), (61, 61), (65, 90), (95, 95),
           (97, 122), (126, 126)], [], 467),
         ([(35, 35)], [U_save_host], 453),
         ([(37, 37)], [], 31),
         ([(46, 46)], [], 495),
         ([(47, 47)], [U_save_host], 455),
         ([(58, 58)], [U_save_host], 468),
         ([(63, 63)], [U_save_host], 456),
         ([(64, 64)], [U_save_userinfo], 469)]),
     (495, [], [([(2, 2)], [], 21),
         ([(33, 33), (36, 36), (38, 46), (48, 57), (59, 59), (61, 61), (65, 90), (95, 95), (97,
           122), (126, 126)], [], 467),
         ([(35, 35)], [U_save_host], 453),
         ([(37, 37)], [], 31),
         ([(47, 47)], [U_save_host], 455),
         ([(58, 58)], [U_save_host], 468),
         ([(63, 63)], [U_save_host], 456),
         ([(64, 64)], [U_save_userinfo], 469)]),
     (496, [], [([(33, 33), (36, 36), (38, 45), (59, 59), (61, 61), (65, 90), (95, 95), (97, 122),
           (126, 126)], [], 467),
         ([(35, 35)], [U_save_host], 453),
         ([(37, 37)], [], 31),
         ([(46, 46)], [], 495),
         ([(47, 47)], [U_save_host], 455),
         ([(48, 57)], [], 497),
         ([(58, 58)], [U_save_host], 468),
         ([(63, 63)], [U_save_host], 456),
         ([(64, 64)], [U_save_userinfo], 469)]),
     (497, [], [([(33, 33), (36, 36), (38, 45), (59, 59), (61, 61), (65, 90), (95, 95), (97, 122),
           (126, 126)], [], 467),
         ([(35, 35)], [U_save_host], 453),
         ([(37, 37)], [], 31),
         ([(46, 46)], [], 495),
         ([(47, 47)], [U_save_host], 455),
         ([(48, 57)], [], 494),
         ([(58, 58)], [U_save_host], 468),
         ([(63, 63)], [U_save_host], 456),
         ([(64, 64)], [U_save_userinfo], 469)]),
     (498, [], [([(33, 33), (36, 36), (38, 45), (59, 59), (61, 61), (65, 90), (95, 95), (97, 122),
           (126, 126)], [], 467),
         ([(35, 35)], [U_save_host], 453),
         ([(37, 37)], [], 31),
         ([(46, 46)], [], 495),
         ([(47, 47)], [U_save_host], 455),
         ([(48, 52), (54, 57)], [], 494),
         ([(53, 53)], [], 499),
         ([(58, 58)], [U_save_host], 468),
         ([(63, 63)], [U_save_host], 456),
         ([(64, 64)], [U_save_userinfo], 469)]),
     (499, [], [([(33, 33), (36, 36), (38, 45), (54, 57), (59, 59), (61, 61), (65, 90), (95, 95),
           (97, 122), (126, 126)], [], 467),
         ([(35, 35)], [U_save_host], 453),
         ([(37, 37)], [], 31),
         ([(46, 46)], [], 495),
         ([(47, 47)], [U_save_host], 455),
         ([(48, 53)], [], 494),
         ([(58, 58)], [U_save_host], 468),
         ([(63, 63)], [U_save_host], 456),
         ([(64, 64)], [U_save_userinfo], 469)])]"

definition uri_states_18 :: "uri_action state list" where
  "uri_states_18 = [
     (500, [], [([(33, 33), (36, 36), (38, 45), (59, 59), (61, 61), (65, 90), (95, 95), (97, 122),
           (126, 126)], [], 467),
         ([(35, 35)], [U_save_host], 453),
         ([(37, 37)], [], 31),
         ([(46, 46)], [], 493),
         ([(47, 47)], [U_save_host], 455),
         ([(48, 57)], [], 501),
         ([(58, 58)], [U_save_host], 468),
         ([(63, 63)], [U_save_host], 456),
         ([(64, 64)], [U_save_userinfo], 469)]),
     (501, [], [([(33, 33), (36, 36), (38, 45), (59, 59), (61, 61), (65, 90), (95, 95), (97, 122),
           (126, 126)], [], 467),
         ([(35, 35)], [U_save_host], 453),
         ([(37, 37)], [], 31),
         ([(46, 46)], [], 493),
         ([(47, 47)], [U_save_host], 455),
         ([(48, 57)], [], 492),
         ([(58, 58)], [U_save_host], 468),
         ([(63, 63)], [U_save_host], 456),
         ([(64, 64)], [U_save_userinfo], 469)]),
     (502, [], [([(33, 33), (36, 36), (38, 45), (59, 59), (61, 61), (65, 90), (95, 95), (97, 122),
           (126, 126)], [], 467),
         ([(35, 35)], [U_save_host], 453),
         ([(37, 37)], [], 31),
         ([(46, 46)], [], 493),
         ([(47, 47)], [U_save_host], 455),
         ([(48, 52), (54, 57)], [], 492),
         ([(53, 53)], [], 503),
         ([(58, 58)], [U_save_host], 468),
         ([(63, 63)], [U_save_host], 456),
         ([(64, 64)], [U_save_userinfo], 469)]),
     (503, [], [([(33, 33), (36, 36), (38, 45), (54, 57), (59, 59), (61, 61), (65, 90), (95, 95),
           (97, 122), (126, 126)], [], 467),
         ([(35, 35)], [U_save_host], 453),
         ([(37, 37)], [], 31),
         ([(46, 46)], [], 493),
         ([(47, 47)], [U_save_host], 455),
         ([(48, 53)], [], 492),
         ([(58, 58)], [U_save_host], 468),
         ([(63, 63)], [U_save_host], 456),
         ([(64, 64)], [U_save_userinfo], 469)]),
     (504, [], [([(33, 33), (36, 36), (38, 45), (59, 59), (61, 61), (65, 90), (95, 95), (97, 122),
           (126, 126)], [], 467),
         ([(35, 35)], [U_save_host], 453),
         ([(37, 37)], [], 31),
         ([(46, 46)], [], 491),
         ([(47, 47)], [U_save_host], 455),
         ([(48, 57)], [], 505),
         ([(58, 58)], [U_save_host], 468),
         ([(63, 63)], [U_save_host], 456),
         ([(64, 64)], [U_save_userinfo], 469)]),
     (505, [], [([(33, 33), (36, 36), (38, 45), (59, 59), (61, 61), (65, 90), (95, 95), (97, 122),
           (126, 126)], [], 467),
         ([(35, 35)], [U_save_host], 453),
         ([(37, 37)], [], 31),
         ([(46, 46)], [], 491),
         ([(47, 47)], [U_save_host], 455),
         ([(48, 57)], [], 490),
         ([(58, 58)], [U_save_host], 468),
         ([(63, 63)], [U_save_host], 456),
         ([(64, 64)], [U_save_userinfo], 469)]),
     (506, [], [([(33, 33), (36, 36), (38, 45), (59, 59), (61, 61), (65, 90), (95, 95), (97, 122),
           (126, 126)], [], 467),
         ([(35, 35)], [U_save_host], 453),
         ([(37, 37)], [], 31),
         ([(46, 46)], [], 491),
         ([(47, 47)], [U_save_host], 455),
         ([(48, 52), (54, 57)], [], 490),
         ([(53, 53)], [], 507),
         ([(58, 58)], [U_save_host], 468),
         ([(63, 63)], [U_save_host], 456),
         ([(64, 64)], [U_save_userinfo], 469)]),
     (507, [], [([(33, 33), (36, 36), (38, 45), (54, 57), (59, 59), (61, 61), (65, 90), (95, 95),
           (97, 122), (126, 126)], [], 467),
         ([(35, 35)], [U_save_host], 453),
         ([(37, 37)], [], 31),
         ([(46, 46)], [], 491),
         ([(47, 47)], [U_save_host], 455),
         ([(48, 53)], [], 490),
         ([(58, 58)], [U_save_host], 468),
         ([(63, 63)], [U_save_host], 456),
         ([(64, 64)], [U_save_userinfo], 469)])]"

definition uri_states_19 :: "uri_action state list" where
  "uri_states_19 = [
     (508, [], [([(- 128, - 1), (33, 33), (36, 36), (38, 42), (44, 44), (59, 59), (61, 61), (64,
           64), (95, 95), (126, 126)], [], 452),
         ([(35, 35)], [], 453),
         ([(37, 37)], [], 3),
         ([(43, 43), (45, 46), (48, 57), (65, 90), (97, 122)], [], 508),
         ([(47, 47)], [], 455),
         ([(58, 58)], [U_save_scheme], 509),
         ([(63, 63)], [], 456)]),
     (509, [], [([(- 128, - 1), (33, 33), (36, 36), (38, 46), (48, 59), (61, 61), (64, 90), (95,
           95), (97, 122), (126, 126)], [], 455),
         ([(35, 35)], [], 453),
         ([(37, 37)], [], 5),
         ([(47, 47)], [], 510),
         ([(63, 63)], [], 456)]),
     (510, [], [([(- 128, - 1), (33, 33), (36, 36), (38, 46), (48, 59), (61, 61), (64, 90), (95,
           95), (97, 122), (126, 126)], [], 455),
         ([(35, 35)], [], 453),
         ([(37, 37)], [], 5),
         ([(47, 47)], [], 511),
         ([(63, 63)], [], 456)]),
     (511, [], [([(2, 2)], [U_markh], 229),
         ([(33, 33), (36, 36), (38, 46), (59, 59), (61, 61), (65, 90), (95, 95), (97, 122), (126,
           126)], [U_markh], 520),
         ([(35, 35)], [U_markh, U_save_host, U_save_path], 453),
         ([(37, 37)], [U_markh], 253),
         ([(47, 47)], [U_markh, U_save_host], 513),
         ([(48, 48)], [U_markh], 543),
         ([(49, 49)], [U_markh], 557),
         ([(50, 50)], [U_markh], 559),
         ([(51, 57)], [U_markh], 558),
         ([(58, 58)], [U_markh, U_save_host], 521),
         ([(63, 63)], [U_markh, U_save_host, U_save_path], 456),
         ([(64, 64)], [U_markh, U_save_userinfo], 522),
         ([(91, 91)], [U_markh], 260)]),
     (229, [], [([(48, 52)], [], 230)]),
     (230, [], [([(48, 57)], [], 231)]),
     (231, [], [([(46, 46)], [], 232)]),
     (232, [], [([(2, 2)], [], 233),
         ([(48, 48)], [], 235),
         ([(49, 49)], [], 249),
         ([(50, 50)], [], 251),
         ([(51, 57)], [], 250)]),
     (233, [], [([(48, 52)], [], 234)]),
     (234, [], [([(48, 57)], [], 235)]),
     (235, [], [([(46, 46)], [], 236)]),
     (236, [], [([(2, 2)], [], 237),
         ([(48, 48)], [], 239),
         ([(49, 49)], [], 245),
         ([(50, 50)], [], 247),
         ([(51, 57)], [], 246)]),
     (237, [], [([(48, 52)], [], 238)]),
     (238, [], [([(48, 57)], [], 239)]),
     (239, [], [([(46, 46)], [], 240)]),
     (240, [], [([(2, 2)], [], 241),
         ([(48, 48)], [], 512),
         ([(49, 49)], [], 516),
         ([(50, 50)], [], 518),
         ([(51, 57)], [], 517)]),
     (241, [], [([(48, 52)], [], 242)]),
     (242, [], [([(48, 57)], [], 512)]),
     (512, [], [([(35, 35)], [U_save_host, U_markh, U_save_path], 453),
         ([(47, 47)], [U_save_host, U_markh], 513),
         ([(58, 58)], [U_save_host], 514),
         ([(63, 63)], [U_save_host, U_markh, U_save_path], 456)])]"

definition uri_states_20 :: "uri_action state list" where
  "uri_states_20 = [
     (513, [], [([(- 128, - 1), (33, 33), (36, 36), (38, 59), (61, 61), (64, 90), (95, 95), (97,
           122), (126, 126)], [], 513),
         ([(35, 35)], [U_save_path], 453),
         ([(37, 37)], [], 243),
         ([(63, 63)], [U_save_path], 456)]),
     (243, [], [([(48, 57), (65, 70), (97, 102)], [], 244)]),
     (244, [], [([(48, 57), (65, 70), (97, 102)], [], 513)]),
     (514, [], [([(35, 35)], [U_markh, U_save_port, U_save_path], 453),
         ([(47, 47)], [U_markh, U_save_port], 513),
         ([(48, 57)], [U_markh], 515),
         ([(63, 63)], [U_markh, U_save_port, U_save_path], 456)]),
     (515, [], [([(35, 35)], [U_save_port, U_markh, U_save_path], 453),
         ([(47, 47)], [U_save_port, U_markh], 513),
         ([(48, 57)], [], 515),
         ([(63, 63)], [U_save_port, U_markh, U_save_path], 456)]),
     (516, [], [([(35, 35)], [U_save_host, U_markh, U_save_path], 453),
         ([(47, 47)], [U_save_host, U_markh], 513),
         ([(48, 57)], [], 517),
         ([(58, 58)], [U_save_host], 514),
         ([(63, 63)], [U_save_host, U_markh, U_save_path], 456)]),
     (517, [], [([(35, 35)], [U_save_host, U_markh, U_save_path], 453),
         ([(47, 47)], [U_save_host, U_markh], 513),
         ([(48, 57)], [], 512),
         ([(58, 58)], [U_save_host], 514),
         ([(63, 63)], [U_save_host, U_markh, U_save_path], 456)]),
     (518, [], [([(35, 35)], [U_save_host, U_markh, U_save_path], 453),
         ([(47, 47)], [U_save_host, U_markh], 513),
         ([(48, 52), (54, 57)], [], 512),
         ([(53, 53)], [], 519),
         ([(58, 58)], [U_save_host], 514),
         ([(63, 63)], [U_save_host, U_markh, U_save_path], 456)]),
     (519, [], [([(35, 35)], [U_save_host, U_markh, U_save_path], 453),
         ([(47, 47)], [U_save_host, U_markh], 513),
         ([(48, 53)], [], 512),
         ([(58, 58)], [U_save_host], 514),
         ([(63, 63)], [U_save_host, U_markh, U_save_path], 456)]),
     (245, [], [([(46, 46)], [], 240),
         ([(48, 57)], [], 246)]),
     (246, [], [([(46, 46)], [], 240),
         ([(48, 57)], [], 239)]),
     (247, [], [([(46, 46)], [], 240),
         ([(48, 52), (54, 57)], [], 239),
         ([(53, 53)], [], 248)]),
     (248, [], [([(46, 46)], [], 240),
         ([(48, 53)], [], 239)]),
     (249, [], [([(46, 46)], [], 236),
         ([(48, 57)], [], 250)]),
     (250, [], [([(46, 46)], [], 236),
         ([(48, 57)], [], 235)]),
     (251, [], [([(46, 46)], [], 236),
         ([(48, 52), (54, 57)], [], 235),
         ([(53, 53)], [], 252)]),
     (252, [], [([(46, 46)], [], 236),
         ([(48, 53)], [], 235)])]"

definition uri_states_21 :: "uri_action state list" where
  "uri_states_21 = [
     (520, [], [([(33, 33), (36, 36), (38, 46), (48, 57), (59, 59), (61, 61), (65, 90), (95, 95),
           (97, 122), (126, 126)], [], 520),
         ([(35, 35)], [U_save_host, U_markh, U_save_path], 453),
         ([(37, 37)], [], 253),
         ([(47, 47)], [U_save_host, U_markh], 513),
         ([(58, 58)], [U_save_host], 521),
         ([(63, 63)], [U_save_host, U_markh, U_save_path], 456),
         ([(64, 64)], [U_save_userinfo], 522)]),
     (253, [], [([(48, 57), (65, 70), (97, 102)], [], 254)]),
     (254, [], [([(48, 57), (65, 70), (97, 102)], [], 520)]),
     (521, [], [([(33, 33), (36, 36), (38, 46), (58, 59), (61, 61), (65, 90), (95, 95), (97, 122),
           (126, 126)], [], 255),
         ([(35, 35)], [U_markh, U_save_port, U_save_path], 453),
         ([(37, 37)], [], 256),
         ([(47, 47)], [U_markh, U_save_port], 513),
         ([(48, 57)], [U_markh], 542),
         ([(63, 63)], [U_markh, U_save_port, U_save_path], 456),
         ([(64, 64)], [U_save_userinfo], 522)]),
     (255, [], [([(33, 33), (36, 36), (38, 46), (48, 59), (61, 61), (65, 90), (95, 95), (97, 122),
           (126, 126)], [], 255),
         ([(37, 37)], [], 256),
         ([(64, 64)], [U_save_userinfo], 522)]),
     (256, [], [([(48, 57), (65, 70), (97, 102)], [], 257)]),
     (257, [], [([(48, 57), (65, 70), (97, 102)], [], 255)]),
     (522, [], [([(2, 2)], [U_markh], 229),
         ([(33, 33), (36, 36), (38, 46), (59, 59), (61, 61), (65, 90), (95, 95), (97, 122), (126,
           126)], [U_markh], 523),
         ([(35, 35)], [U_markh, U_save_host, U_save_path], 453),
         ([(37, 37)], [U_markh], 258),
         ([(47, 47)], [U_markh, U_save_host], 513),
         ([(48, 48)], [U_markh], 524),
         ([(49, 49)], [U_markh], 538),
         ([(50, 50)], [U_markh], 540),
         ([(51, 57)], [U_markh], 539),
         ([(58, 58)], [U_markh, U_save_host], 514),
         ([(63, 63)], [U_markh, U_save_host, U_save_path], 456),
         ([(91, 91)], [U_markh], 260)]),
     (523, [], [([(33, 33), (36, 36), (38, 46), (48, 57), (59, 59), (61, 61), (65, 90), (95, 95),
           (97, 122), (126, 126)], [], 523),
         ([(35, 35)], [U_save_host, U_markh, U_save_path], 453),
         ([(37, 37)], [], 258),
         ([(47, 47)], [U_save_host, U_markh], 513),
         ([(58, 58)], [U_save_host], 514),
         ([(63, 63)], [U_save_host, U_markh, U_save_path], 456)]),
     (258, [], [([(48, 57), (65, 70), (97, 102)], [], 259)]),
     (259, [], [([(48, 57), (65, 70), (97, 102)], [], 523)])]"

definition uri_states_22 :: "uri_action state list" where
  "uri_states_22 = [
     (524, [], [([(33, 33), (36, 36), (38, 45), (48, 57), (59, 59), (61, 61), (65, 90), (95, 95),
           (97, 122), (126, 126)], [], 523),
         ([(35, 35)], [U_save_host, U_markh, U_save_path], 453),
         ([(37, 37)], [], 258),
         ([(46, 46)], [], 525),
         ([(47, 47)], [U_save_host, U_markh], 513),
         ([(58, 58)], [U_save_host], 514),
         ([(63, 63)], [U_save_host, U_markh, U_save_path], 456)]),
     (525, [], [([(2, 2)], [], 233),
         ([(33, 33), (36, 36), (38, 46), (59, 59), (61, 61), (65, 90), (95, 95), (97, 122), (126,
           126)], [], 523),
         ([(35, 35)], [U_save_host, U_markh, U_save_path], 453),
         ([(37, 37)], [], 258),
         ([(47, 47)], [U_save_host, U_markh], 513),
         ([(48, 48)], [], 526),
         ([(49, 49)], [], 534),
         ([(50, 50)], [], 536),
         ([(51, 57)], [], 535),
         ([(58, 58)], [U_save_host], 514),
         ([(63, 63)], [U_save_host, U_markh, U_save_path], 456)]),
     (526, [], [([(33, 33), (36, 36), (38, 45), (48, 57), (59, 59), (61, 61), (65, 90), (95, 95),
           (97, 122), (126, 126)], [], 523),
         ([(35, 35)], [U_save_host, U_markh, U_save_path], 453),
         ([(37, 37)], [], 258),
         ([(46, 46)], [], 527),
         ([(47, 47)], [U_save_host, U_markh], 513),
         ([(58, 58)], [U_save_host], 514),
         ([(63, 63)], [U_save_host, U_markh, U_save_path], 456)]),
     (527, [], [([(2, 2)], [], 237),
         ([(33, 33), (36, 36), (38, 46), (59, 59), (61, 61), (65, 90), (95, 95), (97, 122), (126,
           126)], [], 523),
         ([(35, 35)], [U_save_host, U_markh, U_save_path], 453),
         ([(37, 37)], [], 258),
         ([(47, 47)], [U_save_host, U_markh], 513),
         ([(48, 48)], [], 528),
         ([(49, 49)], [], 530),
         ([(50, 50)], [], 532),
         ([(51, 57)], [], 531),
         ([(58, 58)], [U_save_host], 514),
         ([(63, 63)], [U_save_host, U_markh, U_save_path], 456)]),
     (528, [], [([(33, 33), (36, 36), (38, 45), (48, 57), (59, 59), (61, 61), (65, 90), (95, 95),
           (97, 122), (126, 126)], [], 523),
         ([(35, 35)], [U_save_host, U_markh, U_save_path], 453),
         ([(37, 37)], [], 258),
         ([(46, 46)], [], 529),
         ([(47, 47)], [U_save_host, U_markh], 513),
         ([(58, 58)], [U_save_host], 514),
         ([(63, 63)], [U_save_host, U_markh, U_save_path], 456)]),
     (529, [], [([(2, 2)], [], 241),
         ([(33, 33), (36, 36), (38, 46), (48, 57), (59, 59), (61, 61), (65, 90), (95, 95), (97,
           122), (126, 126)], [], 523),
         ([(35, 35)], [U_save_host, U_markh, U_save_path], 453),
         ([(37, 37)], [], 258),
         ([(47, 47)], [U_save_host, U_markh], 513),
         ([(58, 58)], [U_save_host], 514),
         ([(63, 63)], [U_save_host, U_markh, U_save_path], 456)]),
     (530, [], [([(33, 33), (36, 36), (38, 45), (59, 59), (61, 61), (65, 90), (95, 95), (97, 122),
           (126, 126)], [], 523),
         ([(35, 35)], [U_save_host, U_markh, U_save_path], 453),
         ([(37, 37)], [], 258),
         ([(46, 46)], [], 529),
         ([(47, 47)], [U_save_host, U_markh], 513),
         ([(48, 57)], [], 531),
         ([(58, 58)], [U_save_host], 514),
         ([(63, 63)], [U_save_host, U_markh, U_save_path], 456)]),
     (531, [], [([(33, 33), (36, 36), (38, 45), (59, 59), (61, 61), (65, 90), (95, 95), (97, 122),
           (126, 126)], [], 523),
         ([(35, 35)], [U_save_host, U_markh, U_save_path], 453),
         ([(37, 37)], [], 258),
         ([(46, 46)], [], 529),
         ([(47, 47)], [U_save_host, U_markh], 513),
         ([(48, 57)], [], 528),
         ([(58, 58)], [U_save_host], 514),
         ([(63, 63)], [U_save_host, U_markh, U_save_path], 456)]),
     (532, [], [([(33, 33), (36, 36), (38, 45), (59, 59), (61, 61), (65, 90), (95, 95), (97, 122),
           (126, 126)], [], 523),
         ([(35, 35)], [U_save_host, U_markh, U_save_path], 453),
         ([(37, 37)], [], 258),
         ([(46, 46)], [], 529),
         ([(47, 47)], [U_save_host, U_markh], 513),
         ([(48, 52), (54, 57)], [], 528),
         ([(53, 53)], [], 533),
         ([(58, 58)], [U_save_host], 514),
         ([(63, 63)], [U_save_host, U_markh, U_save_path], 456)]),
     (533, [], [([(33, 33), (36, 36), (38, 45), (54, 57), (59, 59), (61, 61), (65, 90), (95, 95),
           (97, 122), (126, 126)], [], 523),
         ([(35, 35)], [U_save_host, U_markh, U_save_path], 453),
         ([(37, 37)], [], 258),
         ([(46, 46)], [], 529),
         ([(47, 47)], [U_save_host, U_markh], 513),
         ([(48, 53)], [], 528),
         ([(58, 58)], [U_save_host], 514),
         ([(63, 63)], [U_save_host, U_markh, U_save_path], 456)])]"

definition uri_states_23 :: "uri_action state list" where
  "uri_states_23 = [
     (534, [], [([(33, 33), (36, 36), (38, 45), (59, 59), (61, 61), (65, 90), (95, 95), (97, 122),
           (126, 126)], [], 523),
         ([(35, 35)], [U_save_host, U_markh, U_save_path], 453),
         ([(37, 37)], [], 258),
         ([(46, 46)], [], 527),
         ([(47, 47)], [U_save_host, U_markh], 513),
         ([(48, 57)], [], 535),
         ([(58, 58)], [U_save_host], 514),
         ([(63, 63)], [U_save_host, U_markh, U_save_path], 456)]),
     (535, [], [([(33, 33), (36, 36), (38, 45), (59, 59), (61, 61), (65, 90), (95, 95), (97, 122),
           (126, 126)], [], 523),
         ([(35, 35)], [U_save_host, U_markh, U_save_path], 453),
         ([(37, 37)], [], 258),
         ([(46, 46)], [], 527),
         ([(47, 47)], [U_save_host, U_markh], 513),
         ([(48, 57)], [], 526),
         ([(58, 58)], [U_save_host], 514),
         ([(63, 63)], [U_save_host, U_markh, U_save_path], 456)]),
     (536, [], [([(33, 33), (36, 36), (38, 45), (59, 59), (61, 61), (65, 90), (95, 95), (97, 122),
           (126, 126)], [], 523),
         ([(35, 35)], [U_save_host, U_markh, U_save_path], 453),
         ([(37, 37)], [], 258),
         ([(46, 46)], [], 527),
         ([(47, 47)], [U_save_host, U_markh], 513),
         ([(48, 52), (54, 57)], [], 526),
         ([(53, 53)], [], 537),
         ([(58, 58)], [U_save_host], 514),
         ([(63, 63)], [U_save_host, U_markh, U_save_path], 456)]),
     (537, [], [([(33, 33), (36, 36), (38, 45), (54, 57), (59, 59), (61, 61), (65, 90), (95, 95),
           (97, 122), (126, 126)], [], 523),
         ([(35, 35)], [U_save_host, U_markh, U_save_path], 453),
         ([(37, 37)], [], 258),
         ([(46, 46)], [], 527),
         ([(47, 47)], [U_save_host, U_markh], 513),
         ([(48, 53)], [], 526),
         ([(58, 58)], [U_save_host], 514),
         ([(63, 63)], [U_save_host, U_markh, U_save_path], 456)]),
     (538, [], [([(33, 33), (36, 36), (38, 45), (59, 59), (61, 61), (65, 90), (95, 95), (97, 122),
           (126, 126)], [], 523),
         ([(35, 35)], [U_save_host, U_markh, U_save_path], 453),
         ([(37, 37)], [], 258),
         ([(46, 46)], [], 525),
         ([(47, 47)], [U_save_host, U_markh], 513),
         ([(48, 57)], [], 539),
         ([(58, 58)], [U_save_host], 514),
         ([(63, 63)], [U_save_host, U_markh, U_save_path], 456)]),
     (539, [], [([(33, 33), (36, 36), (38, 45), (59, 59), (61, 61), (65, 90), (95, 95), (97, 122),
           (126, 126)], [], 523),
         ([(35, 35)], [U_save_host, U_markh, U_save_path], 453),
         ([(37, 37)], [], 258),
         ([(46, 46)], [], 525),
         ([(47, 47)], [U_save_host, U_markh], 513),
         ([(48, 57)], [], 524),
         ([(58, 58)], [U_save_host], 514),
         ([(63, 63)], [U_save_host, U_markh, U_save_path], 456)]),
     (540, [], [([(33, 33), (36, 36), (38, 45), (59, 59), (61, 61), (65, 90), (95, 95), (97, 122),
           (126, 126)], [], 523),
         ([(35, 35)], [U_save_host, U_markh, U_save_path], 453),
         ([(37, 37)], [], 258),
         ([(46, 46)], [], 525),
         ([(47, 47)], [U_save_host, U_markh], 513),
         ([(48, 52), (54, 57)], [], 524),
         ([(53, 53)], [], 541),
         ([(58, 58)], [U_save_host], 514),
         ([(63, 63)], [U_save_host, U_markh, U_save_path], 456)]),
     (541, [], [([(33, 33), (36, 36), (38, 45), (54, 57), (59, 59), (61, 61), (65, 90), (95, 95),
           (97, 122), (126, 126)], [], 523),
         ([(35, 35)], [U_save_host, U_markh, U_save_path], 453),
         ([(37, 37)], [], 258),
         ([(46, 46)], [], 525),
         ([(47, 47)], [U_save_host, U_markh], 513),
         ([(48, 53)], [], 524),
         ([(58, 58)], [U_save_host], 514),
         ([(63, 63)], [U_save_host, U_markh, U_save_path], 456)]),
     (260, [], [([(48, 57), (65, 70), (97, 102)], [], 261),
         ([(58, 58)], [], 368),
         ([(118, 118)], [], 447)]),
     (261, [], [([(48, 57), (65, 70), (97, 102)], [], 262),
         ([(58, 58)], [], 265)])]"

definition uri_states_24 :: "uri_action state list" where
  "uri_states_24 = [
     (262, [], [([(48, 57), (65, 70), (97, 102)], [], 263),
         ([(58, 58)], [], 265)]),
     (263, [], [([(48, 57), (65, 70), (97, 102)], [], 264),
         ([(58, 58)], [], 265)]),
     (264, [], [([(58, 58)], [], 265)]),
     (265, [], [([(48, 57), (65, 70), (97, 102)], [], 266),
         ([(58, 58)], [], 363)]),
     (266, [], [([(48, 57), (65, 70), (97, 102)], [], 267),
         ([(58, 58)], [], 270)]),
     (267, [], [([(48, 57), (65, 70), (97, 102)], [], 268),
         ([(58, 58)], [], 270)]),
     (268, [], [([(48, 57), (65, 70), (97, 102)], [], 269),
         ([(58, 58)], [], 270)]),
     (269, [], [([(58, 58)], [], 270)]),
     (270, [], [([(48, 57), (65, 70), (97, 102)], [], 271),
         ([(58, 58)], [], 358)]),
     (271, [], [([(48, 57), (65, 70), (97, 102)], [], 272),
         ([(58, 58)], [], 275)]),
     (272, [], [([(48, 57), (65, 70), (97, 102)], [], 273),
         ([(58, 58)], [], 275)]),
     (273, [], [([(48, 57), (65, 70), (97, 102)], [], 274),
         ([(58, 58)], [], 275)]),
     (274, [], [([(58, 58)], [], 275)]),
     (275, [], [([(48, 57), (65, 70), (97, 102)], [], 276),
         ([(58, 58)], [], 353)]),
     (276, [], [([(48, 57), (65, 70), (97, 102)], [], 277),
         ([(58, 58)], [], 280)]),
     (277, [], [([(48, 57), (65, 70), (97, 102)], [], 278),
         ([(58, 58)], [], 280)]),
     (278, [], [([(48, 57), (65, 70), (97, 102)], [], 279),
         ([(58, 58)], [], 280)]),
     (279, [], [([(58, 58)], [], 280)]),
     (280, [], [([(48, 57), (65, 70), (97, 102)], [], 281),
         ([(58, 58)], [], 348)]),
     (281, [], [([(48, 57), (65, 70), (97, 102)], [], 282),
         ([(58, 58)], [], 285)]),
     (282, [], [([(48, 57), (65, 70), (97, 102)], [], 283),
         ([(58, 58)], [], 285)]),
     (283, [], [([(48, 57), (65, 70), (97, 102)], [], 284),
         ([(58, 58)], [], 285)])]"

definition uri_states_25 :: "uri_action state list" where
  "uri_states_25 = [
     (284, [], [([(58, 58)], [], 285)]),
     (285, [], [([(48, 57), (65, 70), (97, 102)], [], 286),
         ([(58, 58)], [], 335)]),
     (286, [], [([(48, 57), (65, 70), (97, 102)], [], 287),
         ([(58, 58)], [], 290)]),
     (287, [], [([(48, 57), (65, 70), (97, 102)], [], 288),
         ([(58, 58)], [], 290)]),
     (288, [], [([(48, 57), (65, 70), (97, 102)], [], 289),
         ([(58, 58)], [], 290)]),
     (289, [], [([(58, 58)], [], 290)]),
     (290, [], [([(2, 2)], [], 291),
         ([(48, 48)], [], 318),
         ([(49, 49)], [], 326),
         ([(50, 50)], [], 329),
         ([(51, 57)], [], 332),
         ([(58, 58)], [], 333),
         ([(65, 70), (97, 102)], [], 334)]),
     (291, [], [([(48, 52)], [], 292)]),
     (292, [], [([(48, 57)], [], 293)]),
     (293, [], [([(46, 46)], [], 294)]),
     (294, [], [([(2, 2)], [], 295),
         ([(48, 48)], [], 297),
         ([(49, 49)], [], 314),
         ([(50, 50)], [], 316),
         ([(51, 57)], [], 315)]),
     (295, [], [([(48, 52)], [], 296)]),
     (296, [], [([(48, 57)], [], 297)]),
     (297, [], [([(46, 46)], [], 298)]),
     (298, [], [([(2, 2)], [], 299),
         ([(48, 48)], [], 301),
         ([(49, 49)], [], 310),
         ([(50, 50)], [], 312),
         ([(51, 57)], [], 311)]),
     (299, [], [([(48, 52)], [], 300)]),
     (300, [], [([(48, 57)], [], 301)]),
     (301, [], [([(46, 46)], [], 302)]),
     (302, [], [([(2, 2)], [], 303),
         ([(48, 48)], [], 305),
         ([(49, 49)], [], 306),
         ([(50, 50)], [], 308),
         ([(51, 57)], [], 307)]),
     (303, [], [([(48, 52)], [], 304)]),
     (304, [], [([(48, 57)], [], 305)]),
     (305, [], [([(93, 93)], [], 512)]),
     (306, [], [([(48, 57)], [], 307),
         ([(93, 93)], [], 512)]),
     (307, [], [([(48, 57)], [], 305),
         ([(93, 93)], [], 512)]),
     (308, [], [([(48, 52), (54, 57)], [], 305),
         ([(53, 53)], [], 309),
         ([(93, 93)], [], 512)]),
     (309, [], [([(48, 53)], [], 305),
         ([(93, 93)], [], 512)]),
     (310, [], [([(46, 46)], [], 302),
         ([(48, 57)], [], 311)]),
     (311, [], [([(46, 46)], [], 302),
         ([(48, 57)], [], 301)]),
     (312, [], [([(46, 46)], [], 302),
         ([(48, 52), (54, 57)], [], 301),
         ([(53, 53)], [], 313)]),
     (313, [], [([(46, 46)], [], 302),
         ([(48, 53)], [], 301)])]"

definition uri_states_26 :: "uri_action state list" where
  "uri_states_26 = [
     (314, [], [([(46, 46)], [], 298),
         ([(48, 57)], [], 315)]),
     (315, [], [([(46, 46)], [], 298),
         ([(48, 57)], [], 297)]),
     (316, [], [([(46, 46)], [], 298),
         ([(48, 52), (54, 57)], [], 297),
         ([(53, 53)], [], 317)]),
     (317, [], [([(46, 46)], [], 298),
         ([(48, 53)], [], 297)]),
     (318, [], [([(46, 46)], [], 294),
         ([(48, 57), (65, 70), (97, 102)], [], 319),
         ([(58, 58)], [], 322)]),
     (319, [], [([(48, 57), (65, 70), (97, 102)], [], 320),
         ([(58, 58)], [], 322)]),
     (320, [], [([(48, 57), (65, 70), (97, 102)], [], 321),
         ([(58, 58)], [], 322)]),
     (321, [], [([(58, 58)], [], 322)]),
     (322, [], [([(48, 57), (65, 70), (97, 102)], [], 323),
         ([(58, 58)], [], 305)]),
     (323, [], [([(48, 57), (65, 70), (97, 102)], [], 324),
         ([(93, 93)], [], 512)]),
     (324, [], [([(48, 57), (65, 70), (97, 102)], [], 325),
         ([(93, 93)], [], 512)]),
     (325, [], [([(48, 57), (65, 70), (97, 102)], [], 305),
         ([(93, 93)], [], 512)]),
     (326, [], [([(46, 46)], [], 294),
         ([(48, 57)], [], 327),
         ([(58, 58)], [], 322),
         ([(65, 70), (97, 102)], [], 319)]),
     (327, [], [([(46, 46)], [], 294),
         ([(48, 57)], [], 328),
         ([(58, 58)], [], 322),
         ([(65, 70), (97, 102)], [], 320)]),
     (328, [], [([(46, 46)], [], 294),
         ([(48, 57), (65, 70), (97, 102)], [], 321),
         ([(58, 58)], [], 322)]),
     (329, [], [([(46, 46)], [], 294),
         ([(48, 52), (54, 57)], [], 330),
         ([(53, 53)], [], 331),
         ([(58, 58)], [], 322),
         ([(65, 70), (97, 102)], [], 319)]),
     (330, [], [([(46, 46)], [], 294),
         ([(48, 57), (65, 70), (97, 102)], [], 320),
         ([(58, 58)], [], 322)]),
     (331, [], [([(46, 46)], [], 294),
         ([(48, 53)], [], 328),
         ([(54, 57), (65, 70), (97, 102)], [], 320),
         ([(58, 58)], [], 322)]),
     (332, [], [([(46, 46)], [], 294),
         ([(48, 57)], [], 330),
         ([(58, 58)], [], 322),
         ([(65, 70), (97, 102)], [], 319)]),
     (333, [], [([(48, 57), (65, 70), (97, 102)], [], 323)])]"

definition uri_states_27 :: "uri_action state list" where
  "uri_states_27 = [
     (334, [], [([(48, 57), (65, 70), (97, 102)], [], 319),
         ([(58, 58)], [], 322)]),
     (335, [], [([(2, 2)], [], 291),
         ([(48, 48)], [], 336),
         ([(49, 49)], [], 340),
         ([(50, 50)], [], 343),
         ([(51, 57)], [], 346),
         ([(65, 70), (97, 102)], [], 347)]),
     (336, [], [([(46, 46)], [], 294),
         ([(48, 57), (65, 70), (97, 102)], [], 337),
         ([(58, 58)], [], 333)]),
     (337, [], [([(48, 57), (65, 70), (97, 102)], [], 338),
         ([(58, 58)], [], 333)]),
     (338, [], [([(48, 57), (65, 70), (97, 102)], [], 339),
         ([(58, 58)], [], 333)]),
     (339, [], [([(58, 58)], [], 333)]),
     (340, [], [([(46, 46)], [], 294),
         ([(48, 57)], [], 341),
         ([(58, 58)], [], 333),
         ([(65, 70), (97, 102)], [], 337)]),
     (341, [], [([(46, 46)], [], 294),
         ([(48, 57)], [], 342),
         ([(58, 58)], [], 333),
         ([(65, 70), (97, 102)], [], 338)]),
     (342, [], [([(46, 46)], [], 294),
         ([(48, 57), (65, 70), (97, 102)], [], 339),
         ([(58, 58)], [], 333)]),
     (343, [], [([(46, 46)], [], 294),
         ([(48, 52), (54, 57)], [], 344),
         ([(53, 53)], [], 345),
         ([(58, 58)], [], 333),
         ([(65, 70), (97, 102)], [], 337)]),
     (344, [], [([(46, 46)], [], 294),
         ([(48, 57), (65, 70), (97, 102)], [], 338),
         ([(58, 58)], [], 333)]),
     (345, [], [([(46, 46)], [], 294),
         ([(48, 53)], [], 342),
         ([(54, 57), (65, 70), (97, 102)], [], 338),
         ([(58, 58)], [], 333)]),
     (346, [], [([(46, 46)], [], 294),
         ([(48, 57)], [], 344),
         ([(58, 58)], [], 333),
         ([(65, 70), (97, 102)], [], 337)]),
     (347, [], [([(48, 57), (65, 70), (97, 102)], [], 337),
         ([(58, 58)], [], 333)]),
     (348, [], [([(48, 57), (65, 70), (97, 102)], [], 349)]),
     (349, [], [([(48, 57), (65, 70), (97, 102)], [], 350),
         ([(58, 58)], [], 335)]),
     (350, [], [([(48, 57), (65, 70), (97, 102)], [], 351),
         ([(58, 58)], [], 335)]),
     (351, [], [([(48, 57), (65, 70), (97, 102)], [], 352),
         ([(58, 58)], [], 335)]),
     (352, [], [([(58, 58)], [], 335)])]"

definition uri_states_28 :: "uri_action state list" where
  "uri_states_28 = [
     (353, [], [([(48, 57), (65, 70), (97, 102)], [], 354)]),
     (354, [], [([(48, 57), (65, 70), (97, 102)], [], 355),
         ([(58, 58)], [], 348)]),
     (355, [], [([(48, 57), (65, 70), (97, 102)], [], 356),
         ([(58, 58)], [], 348)]),
     (356, [], [([(48, 57), (65, 70), (97, 102)], [], 357),
         ([(58, 58)], [], 348)]),
     (357, [], [([(58, 58)], [], 348)]),
     (358, [], [([(48, 57), (65, 70), (97, 102)], [], 359)]),
     (359, [], [([(48, 57), (65, 70), (97, 102)], [], 360),
         ([(58, 58)], [], 353)]),
     (360, [], [([(48, 57), (65, 70), (97, 102)], [], 361),
         ([(58, 58)], [], 353)]),
     (361, [], [([(48, 57), (65, 70), (97, 102)], [], 362),
         ([(58, 58)], [], 353)]),
     (362, [], [([(58, 58)], [], 353)]),
     (363, [], [([(48, 57), (65, 70), (97, 102)], [], 364)]),
     (364, [], [([(48, 57), (65, 70), (97, 102)], [], 365),
         ([(58, 58)], [], 358)]),
     (365, [], [([(48, 57), (65, 70), (97, 102)], [], 366),
         ([(58, 58)], [], 358)]),
     (366, [], [([(48, 57), (65, 70), (97, 102)], [], 367),
         ([(58, 58)], [], 358)]),
     (367, [], [([(58, 58)], [], 358)]),
     (368, [], [([(58, 58)], [], 369)]),
     (369, [], [([(2, 2)], [], 291),
         ([(48, 48)], [], 370),
         ([(49, 49)], [], 439),
         ([(50, 50)], [], 442),
         ([(51, 57)], [], 445),
         ([(65, 70), (97, 102)], [], 446),
         ([(93, 93)], [], 512)]),
     (370, [], [([(46, 46)], [], 294),
         ([(48, 57), (65, 70), (97, 102)], [], 371),
         ([(58, 58)], [], 374),
         ([(93, 93)], [], 512)]),
     (371, [], [([(48, 57), (65, 70), (97, 102)], [], 372),
         ([(58, 58)], [], 374),
         ([(93, 93)], [], 512)]),
     (372, [], [([(48, 57), (65, 70), (97, 102)], [], 373),
         ([(58, 58)], [], 374),
         ([(93, 93)], [], 512)]),
     (373, [], [([(58, 58)], [], 374),
         ([(93, 93)], [], 512)])]"

definition uri_states_29 :: "uri_action state list" where
  "uri_states_29 = [
     (374, [], [([(2, 2)], [], 291),
         ([(48, 48)], [], 375),
         ([(49, 49)], [], 431),
         ([(50, 50)], [], 434),
         ([(51, 57)], [], 437),
         ([(65, 70), (97, 102)], [], 438)]),
     (375, [], [([(46, 46)], [], 294),
         ([(48, 57), (65, 70), (97, 102)], [], 376),
         ([(58, 58)], [], 379),
         ([(93, 93)], [], 512)]),
     (376, [], [([(48, 57), (65, 70), (97, 102)], [], 377),
         ([(58, 58)], [], 379),
         ([(93, 93)], [], 512)]),
     (377, [], [([(48, 57), (65, 70), (97, 102)], [], 378),
         ([(58, 58)], [], 379),
         ([(93, 93)], [], 512)]),
     (378, [], [([(58, 58)], [], 379),
         ([(93, 93)], [], 512)]),
     (379, [], [([(2, 2)], [], 291),
         ([(48, 48)], [], 380),
         ([(49, 49)], [], 423),
         ([(50, 50)], [], 426),
         ([(51, 57)], [], 429),
         ([(65, 70), (97, 102)], [], 430)]),
     (380, [], [([(46, 46)], [], 294),
         ([(48, 57), (65, 70), (97, 102)], [], 381),
         ([(58, 58)], [], 384),
         ([(93, 93)], [], 512)]),
     (381, [], [([(48, 57), (65, 70), (97, 102)], [], 382),
         ([(58, 58)], [], 384),
         ([(93, 93)], [], 512)]),
     (382, [], [([(48, 57), (65, 70), (97, 102)], [], 383),
         ([(58, 58)], [], 384),
         ([(93, 93)], [], 512)]),
     (383, [], [([(58, 58)], [], 384),
         ([(93, 93)], [], 512)]),
     (384, [], [([(2, 2)], [], 291),
         ([(48, 48)], [], 385),
         ([(49, 49)], [], 415),
         ([(50, 50)], [], 418),
         ([(51, 57)], [], 421),
         ([(65, 70), (97, 102)], [], 422)]),
     (385, [], [([(46, 46)], [], 294),
         ([(48, 57), (65, 70), (97, 102)], [], 386),
         ([(58, 58)], [], 389),
         ([(93, 93)], [], 512)]),
     (386, [], [([(48, 57), (65, 70), (97, 102)], [], 387),
         ([(58, 58)], [], 389),
         ([(93, 93)], [], 512)]),
     (387, [], [([(48, 57), (65, 70), (97, 102)], [], 388),
         ([(58, 58)], [], 389),
         ([(93, 93)], [], 512)]),
     (388, [], [([(58, 58)], [], 389),
         ([(93, 93)], [], 512)]),
     (389, [], [([(2, 2)], [], 291),
         ([(48, 48)], [], 390),
         ([(49, 49)], [], 407),
         ([(50, 50)], [], 410),
         ([(51, 57)], [], 413),
         ([(65, 70), (97, 102)], [], 414)]),
     (390, [], [([(46, 46)], [], 294),
         ([(48, 57), (65, 70), (97, 102)], [], 391),
         ([(58, 58)], [], 394),
         ([(93, 93)], [], 512)]),
     (391, [], [([(48, 57), (65, 70), (97, 102)], [], 392),
         ([(58, 58)], [], 394),
         ([(93, 93)], [], 512)])]"

definition uri_states_30 :: "uri_action state list" where
  "uri_states_30 = [
     (392, [], [([(48, 57), (65, 70), (97, 102)], [], 393),
         ([(58, 58)], [], 394),
         ([(93, 93)], [], 512)]),
     (393, [], [([(58, 58)], [], 394),
         ([(93, 93)], [], 512)]),
     (394, [], [([(2, 2)], [], 291),
         ([(48, 48)], [], 395),
         ([(49, 49)], [], 399),
         ([(50, 50)], [], 402),
         ([(51, 57)], [], 405),
         ([(65, 70), (97, 102)], [], 406)]),
     (395, [], [([(46, 46)], [], 294),
         ([(48, 57), (65, 70), (97, 102)], [], 396),
         ([(58, 58)], [], 333),
         ([(93, 93)], [], 512)]),
     (396, [], [([(48, 57), (65, 70), (97, 102)], [], 397),
         ([(58, 58)], [], 333),
         ([(93, 93)], [], 512)]),
     (397, [], [([(48, 57), (65, 70), (97, 102)], [], 398),
         ([(58, 58)], [], 333),
         ([(93, 93)], [], 512)]),
     (398, [], [([(58, 58)], [], 333),
         ([(93, 93)], [], 512)]),
     (399, [], [([(46, 46)], [], 294),
         ([(48, 57)], [], 400),
         ([(58, 58)], [], 333),
         ([(65, 70), (97, 102)], [], 396),
         ([(93, 93)], [], 512)]),
     (400, [], [([(46, 46)], [], 294),
         ([(48, 57)], [], 401),
         ([(58, 58)], [], 333),
         ([(65, 70), (97, 102)], [], 397),
         ([(93, 93)], [], 512)]),
     (401, [], [([(46, 46)], [], 294),
         ([(48, 57), (65, 70), (97, 102)], [], 398),
         ([(58, 58)], [], 333),
         ([(93, 93)], [], 512)]),
     (402, [], [([(46, 46)], [], 294),
         ([(48, 52), (54, 57)], [], 403),
         ([(53, 53)], [], 404),
         ([(58, 58)], [], 333),
         ([(65, 70), (97, 102)], [], 396),
         ([(93, 93)], [], 512)]),
     (403, [], [([(46, 46)], [], 294),
         ([(48, 57), (65, 70), (97, 102)], [], 397),
         ([(58, 58)], [], 333),
         ([(93, 93)], [], 512)]),
     (404, [], [([(46, 46)], [], 294),
         ([(48, 53)], [], 401),
         ([(54, 57), (65, 70), (97, 102)], [], 397),
         ([(58, 58)], [], 333),
         ([(93, 93)], [], 512)]),
     (405, [], [([(46, 46)], [], 294),
         ([(48, 57)], [], 403),
         ([(58, 58)], [], 333),
         ([(65, 70), (97, 102)], [], 396),
         ([(93, 93)], [], 512)]),
     (406, [], [([(48, 57), (65, 70), (97, 102)], [], 396),
         ([(58, 58)], [], 333),
         ([(93, 93)], [], 512)]),
     (407, [], [([(46, 46)], [], 294),
         ([(48, 57)], [], 408),
         ([(58, 58)], [], 394),
         ([(65, 70), (97, 102)], [], 391),
         ([(93, 93)], [], 512)]),
     (408, [], [([(46, 46)], [], 294),
         ([(48, 57)], [], 409),
         ([(58, 58)], [], 394),
         ([(65, 70), (97, 102)], [], 392),
         ([(93, 93)], [], 512)])]"

definition uri_states_31 :: "uri_action state list" where
  "uri_states_31 = [
     (409, [], [([(46, 46)], [], 294),
         ([(48, 57), (65, 70), (97, 102)], [], 393),
         ([(58, 58)], [], 394),
         ([(93, 93)], [], 512)]),
     (410, [], [([(46, 46)], [], 294),
         ([(48, 52), (54, 57)], [], 411),
         ([(53, 53)], [], 412),
         ([(58, 58)], [], 394),
         ([(65, 70), (97, 102)], [], 391),
         ([(93, 93)], [], 512)]),
     (411, [], [([(46, 46)], [], 294),
         ([(48, 57), (65, 70), (97, 102)], [], 392),
         ([(58, 58)], [], 394),
         ([(93, 93)], [], 512)]),
     (412, [], [([(46, 46)], [], 294),
         ([(48, 53)], [], 409),
         ([(54, 57), (65, 70), (97, 102)], [], 392),
         ([(58, 58)], [], 394),
         ([(93, 93)], [], 512)]),
     (413, [], [([(46, 46)], [], 294),
         ([(48, 57)], [], 411),
         ([(58, 58)], [], 394),
         ([(65, 70), (97, 102)], [], 391),
         ([(93, 93)], [], 512)]),
     (414, [], [([(48, 57), (65, 70), (97, 102)], [], 391),
         ([(58, 58)], [], 394),
         ([(93, 93)], [], 512)]),
     (415, [], [([(46, 46)], [], 294),
         ([(48, 57)], [], 416),
         ([(58, 58)], [], 389),
         ([(65, 70), (97, 102)], [], 386),
         ([(93, 93)], [], 512)]),
     (416, [], [([(46, 46)], [], 294),
         ([(48, 57)], [], 417),
         ([(58, 58)], [], 389),
         ([(65, 70), (97, 102)], [], 387),
         ([(93, 93)], [], 512)]),
     (417, [], [([(46, 46)], [], 294),
         ([(48, 57), (65, 70), (97, 102)], [], 388),
         ([(58, 58)], [], 389),
         ([(93, 93)], [], 512)]),
     (418, [], [([(46, 46)], [], 294),
         ([(48, 52), (54, 57)], [], 419),
         ([(53, 53)], [], 420),
         ([(58, 58)], [], 389),
         ([(65, 70), (97, 102)], [], 386),
         ([(93, 93)], [], 512)]),
     (419, [], [([(46, 46)], [], 294),
         ([(48, 57), (65, 70), (97, 102)], [], 387),
         ([(58, 58)], [], 389),
         ([(93, 93)], [], 512)]),
     (420, [], [([(46, 46)], [], 294),
         ([(48, 53)], [], 417),
         ([(54, 57), (65, 70), (97, 102)], [], 387),
         ([(58, 58)], [], 389),
         ([(93, 93)], [], 512)]),
     (421, [], [([(46, 46)], [], 294),
         ([(48, 57)], [], 419),
         ([(58, 58)], [], 389),
         ([(65, 70), (97, 102)], [], 386),
         ([(93, 93)], [], 512)]),
     (422, [], [([(48, 57), (65, 70), (97, 102)], [], 386),
         ([(58, 58)], [], 389),
         ([(93, 93)], [], 512)]),
     (423, [], [([(46, 46)], [], 294),
         ([(48, 57)], [], 424),
         ([(58, 58)], [], 384),
         ([(65, 70), (97, 102)], [], 381),
         ([(93, 93)], [], 512)]),
     (424, [], [([(46, 46)], [], 294),
         ([(48, 57)], [], 425),
         ([(58, 58)], [], 384),
         ([(65, 70), (97, 102)], [], 382),
         ([(93, 93)], [], 512)])]"

definition uri_states_32 :: "uri_action state list" where
  "uri_states_32 = [
     (425, [], [([(46, 46)], [], 294),
         ([(48, 57), (65, 70), (97, 102)], [], 383),
         ([(58, 58)], [], 384),
         ([(93, 93)], [], 512)]),
     (426, [], [([(46, 46)], [], 294),
         ([(48, 52), (54, 57)], [], 427),
         ([(53, 53)], [], 428),
         ([(58, 58)], [], 384),
         ([(65, 70), (97, 102)], [], 381),
         ([(93, 93)], [], 512)]),
     (427, [], [([(46, 46)], [], 294),
         ([(48, 57), (65, 70), (97, 102)], [], 382),
         ([(58, 58)], [], 384),
         ([(93, 93)], [], 512)]),
     (428, [], [([(46, 46)], [], 294),
         ([(48, 53)], [], 425),
         ([(54, 57), (65, 70), (97, 102)], [], 382),
         ([(58, 58)], [], 384),
         ([(93, 93)], [], 512)]),
     (429, [], [([(46, 46)], [], 294),
         ([(48, 57)], [], 427),
         ([(58, 58)], [], 384),
         ([(65, 70), (97, 102)], [], 381),
         ([(93, 93)], [], 512)]),
     (430, [], [([(48, 57), (65, 70), (97, 102)], [], 381),
         ([(58, 58)], [], 384),
         ([(93, 93)], [], 512)]),
     (431, [], [([(46, 46)], [], 294),
         ([(48, 57)], [], 432),
         ([(58, 58)], [], 379),
         ([(65, 70), (97, 102)], [], 376),
         ([(93, 93)], [], 512)]),
     (432, [], [([(46, 46)], [], 294),
         ([(48, 57)], [], 433),
         ([(58, 58)], [], 379),
         ([(65, 70), (97, 102)], [], 377),
         ([(93, 93)], [], 512)]),
     (433, [], [([(46, 46)], [], 294),
         ([(48, 57), (65, 70), (97, 102)], [], 378),
         ([(58, 58)], [], 379),
         ([(93, 93)], [], 512)]),
     (434, [], [([(46, 46)], [], 294),
         ([(48, 52), (54, 57)], [], 435),
         ([(53, 53)], [], 436),
         ([(58, 58)], [], 379),
         ([(65, 70), (97, 102)], [], 376),
         ([(93, 93)], [], 512)]),
     (435, [], [([(46, 46)], [], 294),
         ([(48, 57), (65, 70), (97, 102)], [], 377),
         ([(58, 58)], [], 379),
         ([(93, 93)], [], 512)]),
     (436, [], [([(46, 46)], [], 294),
         ([(48, 53)], [], 433),
         ([(54, 57), (65, 70), (97, 102)], [], 377),
         ([(58, 58)], [], 379),
         ([(93, 93)], [], 512)]),
     (437, [], [([(46, 46)], [], 294),
         ([(48, 57)], [], 435),
         ([(58, 58)], [], 379),
         ([(65, 70), (97, 102)], [], 376),
         ([(93, 93)], [], 512)]),
     (438, [], [([(48, 57), (65, 70), (97, 102)], [], 376),
         ([(58, 58)], [], 379),
         ([(93, 93)], [], 512)]),
     (439, [], [([(46, 46)], [], 294),
         ([(48, 57)], [], 440),
         ([(58, 58)], [], 374),
         ([(65, 70), (97, 102)], [], 371),
         ([(93, 93)], [], 512)]),
     (440, [], [([(46, 46)], [], 294),
         ([(48, 57)], [], 441),
         ([(58, 58)], [], 374),
         ([(65, 70), (97, 102)], [], 372),
         ([(93, 93)], [], 512)])]"

definition uri_states_33 :: "uri_action state list" where
  "uri_states_33 = [
     (441, [], [([(46, 46)], [], 294),
         ([(48, 57), (65, 70), (97, 102)], [], 373),
         ([(58, 58)], [], 374),
         ([(93, 93)], [], 512)]),
     (442, [], [([(46, 46)], [], 294),
         ([(48, 52), (54, 57)], [], 443),
         ([(53, 53)], [], 444),
         ([(58, 58)], [], 374),
         ([(65, 70), (97, 102)], [], 371),
         ([(93, 93)], [], 512)]),
     (443, [], [([(46, 46)], [], 294),
         ([(48, 57), (65, 70), (97, 102)], [], 372),
         ([(58, 58)], [], 374),
         ([(93, 93)], [], 512)]),
     (444, [], [([(46, 46)], [], 294),
         ([(48, 53)], [], 441),
         ([(54, 57), (65, 70), (97, 102)], [], 372),
         ([(58, 58)], [], 374),
         ([(93, 93)], [], 512)]),
     (445, [], [([(46, 46)], [], 294),
         ([(48, 57)], [], 443),
         ([(58, 58)], [], 374),
         ([(65, 70), (97, 102)], [], 371),
         ([(93, 93)], [], 512)]),
     (446, [], [([(48, 57), (65, 70), (97, 102)], [], 371),
         ([(58, 58)], [], 374),
         ([(93, 93)], [], 512)]),
     (447, [], [([(48, 57), (65, 70), (97, 102)], [], 448)]),
     (448, [], [([(46, 46)], [], 449),
         ([(48, 57), (65, 70), (97, 102)], [], 448)]),
     (449, [], [([(33, 33), (36, 36), (38, 46), (48, 59), (61, 61), (65, 90), (95, 95), (97, 122),
           (126, 126)], [], 450)]),
     (450, [], [([(33, 33), (36, 36), (38, 46), (48, 59), (61, 61), (65, 90), (95, 95), (97, 122),
           (126, 126)], [], 450),
         ([(93, 93)], [], 512)]),
     (542, [], [([(33, 33), (36, 36), (38, 46), (58, 59), (61, 61), (65, 90), (95, 95), (97, 122),
           (126, 126)], [], 255),
         ([(35, 35)], [U_save_port, U_markh, U_save_path], 453),
         ([(37, 37)], [], 256),
         ([(47, 47)], [U_save_port, U_markh], 513),
         ([(48, 57)], [], 542),
         ([(63, 63)], [U_save_port, U_markh, U_save_path], 456),
         ([(64, 64)], [U_save_userinfo], 522)]),
     (543, [], [([(33, 33), (36, 36), (38, 45), (48, 57), (59, 59), (61, 61), (65, 90), (95, 95),
           (97, 122), (126, 126)], [], 520),
         ([(35, 35)], [U_save_host, U_markh, U_save_path], 453),
         ([(37, 37)], [], 253),
         ([(46, 46)], [], 544),
         ([(47, 47)], [U_save_host, U_markh], 513),
         ([(58, 58)], [U_save_host], 521),
         ([(63, 63)], [U_save_host, U_markh, U_save_path], 456),
         ([(64, 64)], [U_save_userinfo], 522)]),
     (544, [], [([(2, 2)], [], 233),
         ([(33, 33), (36, 36), (38, 46), (59, 59), (61, 61), (65, 90), (95, 95), (97, 122), (126,
           126)], [], 520),
         ([(35, 35)], [U_save_host, U_markh, U_save_path], 453),
         ([(37, 37)], [], 253),
         ([(47, 47)], [U_save_host, U_markh], 513),
         ([(48, 48)], [], 545),
         ([(49, 49)], [], 553),
         ([(50, 50)], [], 555),
         ([(51, 57)], [], 554),
         ([(58, 58)], [U_save_host], 521),
         ([(63, 63)], [U_save_host, U_markh, U_save_path], 456),
         ([(64, 64)], [U_save_userinfo], 522)])]"

definition uri_states_34 :: "uri_action state list" where
  "uri_states_34 = [
     (545, [], [([(33, 33), (36, 36), (38, 45), (48, 57), (59, 59), (61, 61), (65, 90), (95, 95),
           (97, 122), (126, 126)], [], 520),
         ([(35, 35)], [U_save_host, U_markh, U_save_path], 453),
         ([(37, 37)], [], 253),
         ([(46, 46)], [], 546),
         ([(47, 47)], [U_save_host, U_markh], 513),
         ([(58, 58)], [U_save_host], 521),
         ([(63, 63)], [U_save_host, U_markh, U_save_path], 456),
         ([(64, 64)], [U_save_userinfo], 522)]),
     (546, [], [([(2, 2)], [], 237),
         ([(33, 33), (36, 36), (38, 46), (59, 59), (61, 61), (65, 90), (95, 95), (97, 122), (126,
           126)], [], 520),
         ([(35, 35)], [U_save_host, U_markh, U_save_path], 453),
         ([(37, 37)], [], 253),
         ([(47, 47)], [U_save_host, U_markh], 513),
         ([(48, 48)], [], 547),
         ([(49, 49)], [], 549),
         ([(50, 50)], [], 551),
         ([(51, 57)], [], 550),
         ([(58, 58)], [U_save_host], 521),
         ([(63, 63)], [U_save_host, U_markh, U_save_path], 456),
         ([(64, 64)], [U_save_userinfo], 522)]),
     (547, [], [([(33, 33), (36, 36), (38, 45), (48, 57), (59, 59), (61, 61), (65, 90), (95, 95),
           (97, 122), (126, 126)], [], 520),
         ([(35, 35)], [U_save_host, U_markh, U_save_path], 453),
         ([(37, 37)], [], 253),
         ([(46, 46)], [], 548),
         ([(47, 47)], [U_save_host, U_markh], 513),
         ([(58, 58)], [U_save_host], 521),
         ([(63, 63)], [U_save_host, U_markh, U_save_path], 456),
         ([(64, 64)], [U_save_userinfo], 522)]),
     (548, [], [([(2, 2)], [], 241),
         ([(33, 33), (36, 36), (38, 46), (48, 57), (59, 59), (61, 61), (65, 90), (95, 95), (97,
           122), (126, 126)], [], 520),
         ([(35, 35)], [U_save_host, U_markh, U_save_path], 453),
         ([(37, 37)], [], 253),
         ([(47, 47)], [U_save_host, U_markh], 513),
         ([(58, 58)], [U_save_host], 521),
         ([(63, 63)], [U_save_host, U_markh, U_save_path], 456),
         ([(64, 64)], [U_save_userinfo], 522)]),
     (549, [], [([(33, 33), (36, 36), (38, 45), (59, 59), (61, 61), (65, 90), (95, 95), (97, 122),
           (126, 126)], [], 520),
         ([(35, 35)], [U_save_host, U_markh, U_save_path], 453),
         ([(37, 37)], [], 253),
         ([(46, 46)], [], 548),
         ([(47, 47)], [U_save_host, U_markh], 513),
         ([(48, 57)], [], 550),
         ([(58, 58)], [U_save_host], 521),
         ([(63, 63)], [U_save_host, U_markh, U_save_path], 456),
         ([(64, 64)], [U_save_userinfo], 522)]),
     (550, [], [([(33, 33), (36, 36), (38, 45), (59, 59), (61, 61), (65, 90), (95, 95), (97, 122),
           (126, 126)], [], 520),
         ([(35, 35)], [U_save_host, U_markh, U_save_path], 453),
         ([(37, 37)], [], 253),
         ([(46, 46)], [], 548),
         ([(47, 47)], [U_save_host, U_markh], 513),
         ([(48, 57)], [], 547),
         ([(58, 58)], [U_save_host], 521),
         ([(63, 63)], [U_save_host, U_markh, U_save_path], 456),
         ([(64, 64)], [U_save_userinfo], 522)]),
     (551, [], [([(33, 33), (36, 36), (38, 45), (59, 59), (61, 61), (65, 90), (95, 95), (97, 122),
           (126, 126)], [], 520),
         ([(35, 35)], [U_save_host, U_markh, U_save_path], 453),
         ([(37, 37)], [], 253),
         ([(46, 46)], [], 548),
         ([(47, 47)], [U_save_host, U_markh], 513),
         ([(48, 52), (54, 57)], [], 547),
         ([(53, 53)], [], 552),
         ([(58, 58)], [U_save_host], 521),
         ([(63, 63)], [U_save_host, U_markh, U_save_path], 456),
         ([(64, 64)], [U_save_userinfo], 522)]),
     (552, [], [([(33, 33), (36, 36), (38, 45), (54, 57), (59, 59), (61, 61), (65, 90), (95, 95),
           (97, 122), (126, 126)], [], 520),
         ([(35, 35)], [U_save_host, U_markh, U_save_path], 453),
         ([(37, 37)], [], 253),
         ([(46, 46)], [], 548),
         ([(47, 47)], [U_save_host, U_markh], 513),
         ([(48, 53)], [], 547),
         ([(58, 58)], [U_save_host], 521),
         ([(63, 63)], [U_save_host, U_markh, U_save_path], 456),
         ([(64, 64)], [U_save_userinfo], 522)]),
     (553, [], [([(33, 33), (36, 36), (38, 45), (59, 59), (61, 61), (65, 90), (95, 95), (97, 122),
           (126, 126)], [], 520),
         ([(35, 35)], [U_save_host, U_markh, U_save_path], 453),
         ([(37, 37)], [], 253),
         ([(46, 46)], [], 546),
         ([(47, 47)], [U_save_host, U_markh], 513),
         ([(48, 57)], [], 554),
         ([(58, 58)], [U_save_host], 521),
         ([(63, 63)], [U_save_host, U_markh, U_save_path], 456),
         ([(64, 64)], [U_save_userinfo], 522)]),
     (554, [], [([(33, 33), (36, 36), (38, 45), (59, 59), (61, 61), (65, 90), (95, 95), (97, 122),
           (126, 126)], [], 520),
         ([(35, 35)], [U_save_host, U_markh, U_save_path], 453),
         ([(37, 37)], [], 253),
         ([(46, 46)], [], 546),
         ([(47, 47)], [U_save_host, U_markh], 513),
         ([(48, 57)], [], 545),
         ([(58, 58)], [U_save_host], 521),
         ([(63, 63)], [U_save_host, U_markh, U_save_path], 456),
         ([(64, 64)], [U_save_userinfo], 522)])]"

definition uri_states_35 :: "uri_action state list" where
  "uri_states_35 = [
     (555, [], [([(33, 33), (36, 36), (38, 45), (59, 59), (61, 61), (65, 90), (95, 95), (97, 122),
           (126, 126)], [], 520),
         ([(35, 35)], [U_save_host, U_markh, U_save_path], 453),
         ([(37, 37)], [], 253),
         ([(46, 46)], [], 546),
         ([(47, 47)], [U_save_host, U_markh], 513),
         ([(48, 52), (54, 57)], [], 545),
         ([(53, 53)], [], 556),
         ([(58, 58)], [U_save_host], 521),
         ([(63, 63)], [U_save_host, U_markh, U_save_path], 456),
         ([(64, 64)], [U_save_userinfo], 522)]),
     (556, [], [([(33, 33), (36, 36), (38, 45), (54, 57), (59, 59), (61, 61), (65, 90), (95, 95),
           (97, 122), (126, 126)], [], 520),
         ([(35, 35)], [U_save_host, U_markh, U_save_path], 453),
         ([(37, 37)], [], 253),
         ([(46, 46)], [], 546),
         ([(47, 47)], [U_save_host, U_markh], 513),
         ([(48, 53)], [], 545),
         ([(58, 58)], [U_save_host], 521),
         ([(63, 63)], [U_save_host, U_markh, U_save_path], 456),
         ([(64, 64)], [U_save_userinfo], 522)]),
     (557, [], [([(33, 33), (36, 36), (38, 45), (59, 59), (61, 61), (65, 90), (95, 95), (97, 122),
           (126, 126)], [], 520),
         ([(35, 35)], [U_save_host, U_markh, U_save_path], 453),
         ([(37, 37)], [], 253),
         ([(46, 46)], [], 544),
         ([(47, 47)], [U_save_host, U_markh], 513),
         ([(48, 57)], [], 558),
         ([(58, 58)], [U_save_host], 521),
         ([(63, 63)], [U_save_host, U_markh, U_save_path], 456),
         ([(64, 64)], [U_save_userinfo], 522)]),
     (558, [], [([(33, 33), (36, 36), (38, 45), (59, 59), (61, 61), (65, 90), (95, 95), (97, 122),
           (126, 126)], [], 520),
         ([(35, 35)], [U_save_host, U_markh, U_save_path], 453),
         ([(37, 37)], [], 253),
         ([(46, 46)], [], 544),
         ([(47, 47)], [U_save_host, U_markh], 513),
         ([(48, 57)], [], 543),
         ([(58, 58)], [U_save_host], 521),
         ([(63, 63)], [U_save_host, U_markh, U_save_path], 456),
         ([(64, 64)], [U_save_userinfo], 522)]),
     (559, [], [([(33, 33), (36, 36), (38, 45), (59, 59), (61, 61), (65, 90), (95, 95), (97, 122),
           (126, 126)], [], 520),
         ([(35, 35)], [U_save_host, U_markh, U_save_path], 453),
         ([(37, 37)], [], 253),
         ([(46, 46)], [], 544),
         ([(47, 47)], [U_save_host, U_markh], 513),
         ([(48, 52), (54, 57)], [], 543),
         ([(53, 53)], [], 560),
         ([(58, 58)], [U_save_host], 521),
         ([(63, 63)], [U_save_host, U_markh, U_save_path], 456),
         ([(64, 64)], [U_save_userinfo], 522)]),
     (560, [], [([(33, 33), (36, 36), (38, 45), (54, 57), (59, 59), (61, 61), (65, 90), (95, 95),
           (97, 122), (126, 126)], [], 520),
         ([(35, 35)], [U_save_host, U_markh, U_save_path], 453),
         ([(37, 37)], [], 253),
         ([(46, 46)], [], 544),
         ([(47, 47)], [U_save_host, U_markh], 513),
         ([(48, 53)], [], 543),
         ([(58, 58)], [U_save_host], 521),
         ([(63, 63)], [U_save_host, U_markh, U_save_path], 456),
         ([(64, 64)], [U_save_userinfo], 522)])]"

definition uri_eof :: "(nat list \<times> uri_action list) list" where
  "uri_eof = [
     ([462, 489], [U_save_port]),
     ([460, 463, 464, 465, 466, 467, 470, 471, 472, 473, 474, 475, 476, 477, 478, 479, 480, 481,
       482, 483, 484, 485, 486, 487, 488, 490, 491, 492, 493, 494, 495, 496, 497, 498, 499, 500, 501,
       502, 503, 504, 505, 506, 507], [U_save_host]),
     ([513], [U_save_path]),
     ([457], [U_save_query]),
     ([454], [U_save_fragment]),
     ([456], [U_marku, U_save_query]),
     ([453], [U_marku, U_save_fragment]),
     ([461, 468], [U_markh, U_save_port]),
     ([459, 469], [U_markh, U_save_host]),
     ([514, 521], [U_markh, U_save_port, U_save_path]),
     ([511, 522], [U_markh, U_save_host, U_save_path]),
     ([515, 542], [U_save_port, U_markh, U_save_path]),
     ([512, 516, 517, 518, 519, 520, 523, 524, 525, 526, 527, 528, 529, 530, 531, 532, 533, 534,
       535, 536, 537, 538, 539, 540, 541, 543, 544, 545, 546, 547, 548, 549, 550, 551, 552, 553, 554,
       555, 556, 557, 558, 559, 560], [U_save_host, U_markh, U_save_path])]"

definition uri_table :: "uri_action state list" where
  "uri_table = concat [
     uri_states_1, uri_states_2, uri_states_3, uri_states_4, uri_states_5, uri_states_6,
     uri_states_7, uri_states_8, uri_states_9, uri_states_10, uri_states_11, uri_states_12,
     uri_states_13, uri_states_14, uri_states_15, uri_states_16, uri_states_17, uri_states_18,
     uri_states_19, uri_states_20, uri_states_21, uri_states_22, uri_states_23, uri_states_24,
     uri_states_25, uri_states_26, uri_states_27, uri_states_28, uri_states_29, uri_states_30,
     uri_states_31, uri_states_32, uri_states_33, uri_states_34, uri_states_35]"

lemmas uri_states =
  uri_states_1_def uri_states_2_def uri_states_3_def uri_states_4_def uri_states_5_def
  uri_states_6_def uri_states_7_def uri_states_8_def uri_states_9_def uri_states_10_def
  uri_states_11_def uri_states_12_def uri_states_13_def uri_states_14_def uri_states_15_def
  uri_states_16_def uri_states_17_def uri_states_18_def uri_states_19_def uri_states_20_def
  uri_states_21_def uri_states_22_def uri_states_23_def uri_states_24_def uri_states_25_def
  uri_states_26_def uri_states_27_def uri_states_28_def uri_states_29_def uri_states_30_def
  uri_states_31_def uri_states_32_def uri_states_33_def uri_states_34_def uri_states_35_def

text \<open>The numbers of the states of each stretch.\<close>

lemma uri_keys:
  "map fst uri_states_1 = [451, 452, 453, 454, 1, 2, 3, 4]"
  "map fst uri_states_2 = [455, 5, 6, 456, 457, 7, 8]"
  "map fst uri_states_3 = [458, 459, 9, 10, 11, 12, 13, 14, 15, 16, 17, 18, 19, 20, 21, 22, 460,
    461, 462, 463, 464, 465, 466]"
  "map fst uri_states_4 = [23, 24, 25, 26, 27, 28, 29, 30, 467, 31, 32, 468, 33, 34, 35, 469]"
  "map fst uri_states_5 = [470, 36, 37, 471, 472, 473, 474, 475, 476, 477, 478]"
  "map fst uri_states_6 = [479, 480, 481, 482, 483, 484, 485, 486, 487]"
  "map fst uri_states_7 = [488, 38, 39, 40, 41, 42, 43, 44, 45, 46, 47, 48, 49, 50, 51, 52, 53,
    54, 55, 56]"
  "map fst uri_states_8 = [57, 58, 59, 60, 61, 62, 63, 64, 65, 66, 67, 68, 69, 70, 71, 72, 73,
    74, 75, 76, 77, 78, 79, 80, 81, 82, 83, 84]"
  "map fst uri_states_9 = [85, 86, 87, 88, 89, 90, 91, 92, 93, 94, 95, 96, 97, 98, 99, 100, 101,
    102, 103, 104, 105, 106, 107]"
  "map fst uri_states_10 = [108, 109, 110, 111, 112, 113, 114, 115, 116, 117, 118, 119, 120, 121,
    122, 123, 124, 125]"
  "map fst uri_states_11 = [126, 127, 128, 129, 130, 131, 132, 133, 134, 135, 136, 137, 138, 139,
    140, 141, 142, 143, 144, 145, 146, 147]"
  "map fst uri_states_12 = [148, 149, 150, 151, 152, 153, 154, 155, 156, 157, 158, 159, 160, 161,
    162, 163, 164, 165]"
  "map fst uri_states_13 = [166, 167, 168, 169, 170, 171, 172, 173, 174, 175, 176, 177, 178, 179,
    180, 181, 182, 183]"
  "map fst uri_states_14 = [184, 185, 186, 187, 188, 189, 190, 191, 192, 193, 194, 195, 196, 197,
    198, 199]"
  "map fst uri_states_15 = [200, 201, 202, 203, 204, 205, 206, 207, 208, 209, 210, 211, 212, 213,
    214, 215]"
  "map fst uri_states_16 = [216, 217, 218, 219, 220, 221, 222, 223, 224, 225, 226, 227, 228,
    489]"
  "map fst uri_states_17 = [490, 491, 492, 493, 494, 495, 496, 497, 498, 499]"
  "map fst uri_states_18 = [500, 501, 502, 503, 504, 505, 506, 507]"
  "map fst uri_states_19 = [508, 509, 510, 511, 229, 230, 231, 232, 233, 234, 235, 236, 237, 238,
    239, 240, 241, 242, 512]"
  "map fst uri_states_20 = [513, 243, 244, 514, 515, 516, 517, 518, 519, 245, 246, 247, 248, 249,
    250, 251, 252]"
  "map fst uri_states_21 = [520, 253, 254, 521, 255, 256, 257, 522, 523, 258, 259]"
  "map fst uri_states_22 = [524, 525, 526, 527, 528, 529, 530, 531, 532, 533]"
  "map fst uri_states_23 = [534, 535, 536, 537, 538, 539, 540, 541, 260, 261]"
  "map fst uri_states_24 = [262, 263, 264, 265, 266, 267, 268, 269, 270, 271, 272, 273, 274, 275,
    276, 277, 278, 279, 280, 281, 282, 283]"
  "map fst uri_states_25 = [284, 285, 286, 287, 288, 289, 290, 291, 292, 293, 294, 295, 296, 297,
    298, 299, 300, 301, 302, 303, 304, 305, 306, 307, 308, 309, 310, 311, 312, 313]"
  "map fst uri_states_26 = [314, 315, 316, 317, 318, 319, 320, 321, 322, 323, 324, 325, 326, 327,
    328, 329, 330, 331, 332, 333]"
  "map fst uri_states_27 = [334, 335, 336, 337, 338, 339, 340, 341, 342, 343, 344, 345, 346, 347,
    348, 349, 350, 351, 352]"
  "map fst uri_states_28 = [353, 354, 355, 356, 357, 358, 359, 360, 361, 362, 363, 364, 365, 366,
    367, 368, 369, 370, 371, 372, 373]"
  "map fst uri_states_29 = [374, 375, 376, 377, 378, 379, 380, 381, 382, 383, 384, 385, 386, 387,
    388, 389, 390, 391]"
  "map fst uri_states_30 = [392, 393, 394, 395, 396, 397, 398, 399, 400, 401, 402, 403, 404, 405,
    406, 407, 408]"
  "map fst uri_states_31 = [409, 410, 411, 412, 413, 414, 415, 416, 417, 418, 419, 420, 421, 422,
    423, 424]"
  "map fst uri_states_32 = [425, 426, 427, 428, 429, 430, 431, 432, 433, 434, 435, 436, 437, 438,
    439, 440]"
  "map fst uri_states_33 = [441, 442, 443, 444, 445, 446, 447, 448, 449, 450, 542, 543, 544]"
  "map fst uri_states_34 = [545, 546, 547, 548, 549, 550, 551, 552, 553, 554]"
  "map fst uri_states_35 = [555, 556, 557, 558, 559, 560]"
  by (simp_all only: uri_states list.map fst_conv)

end
