(* ===== verification/Uri.thy ===== *)
theory Uri
  imports Uri_Table Strtol Address
begin

text \<open>
  URIs (src/skt/uri).  \<open>Create\<close> runs the machine over the whole text; \<open>mark\<close> is the
  offset of the pointer it keeps, or None when it is null.  Using a null \<open>mark\<close> is an
  error; a text that is no URI gives None.
\<close>

datatype uri_error = Null_mark

record Uri =
  m_scheme :: string
  m_userinfo :: string
  u_host :: string
  u_path :: string
  u_query :: string
  u_fragment :: string
  u_port :: int

definition new_Uri :: Uri where
  "new_Uri = \<lparr>m_scheme = [], m_userinfo = [], u_host = [], u_path = [], u_query = [], u_fragment = [], u_port = 0\<rparr>"

text \<open>\<open>std::string(mark, p - mark)\<close>.\<close>

definition marked :: "string \<Rightarrow> nat option \<Rightarrow> nat \<Rightarrow> uri_error + string" where
  "marked s mark p = (case mark of None \<Rightarrow> Inl Null_mark | Some m \<Rightarrow> Inr (take (p - m) (drop m s)))"

definition save_port :: "string \<Rightarrow> nat \<Rightarrow> nat option \<times> Uri \<Rightarrow> uri_error + nat option \<times> Uri" where
  "save_port s p st =
     (case st of (mark, u) \<Rightarrow>
        if mark = Some p then Inr (None, u)
        else (case mark of None \<Rightarrow> Inl Null_mark | Some m \<Rightarrow> Inr (None, u\<lparr>u_port := atoi (drop m s)\<rparr>)))"

fun uri_act :: "string \<Rightarrow> uri_action \<Rightarrow> nat \<Rightarrow> nat option \<times> Uri \<Rightarrow> uri_error + nat option \<times> Uri" where
  "uri_act s U_marku p (mark, u) = Inr (Some p, u)"
| "uri_act s U_markh p (mark, u) = Inr (Some p, u)"
| "uri_act s U_save_scheme p (mark, u) = and_then (marked s mark p) (\<lambda>v. Inr (None, u\<lparr>m_scheme := v\<rparr>))"
| "uri_act s U_save_port p st = save_port s p st"
| "uri_act s U_save_userinfo p (mark, u) =
     (if mark \<noteq> None then and_then (marked s mark p) (\<lambda>v. Inr (None, u\<lparr>m_userinfo := v\<rparr>)) else Inr (None, u))"
| "uri_act s U_save_host p (mark, u) =
     (if mark \<noteq> None then and_then (marked s mark p) (\<lambda>v. Inr (mark, u\<lparr>u_host := v\<rparr>)) else Inr (mark, u))"
| "uri_act s U_save_path p (mark, u) = and_then (marked s mark p) (\<lambda>v. Inr (None, u\<lparr>u_path := v\<rparr>))"
| "uri_act s U_save_query p (mark, u) = and_then (marked s mark p) (\<lambda>v. Inr (None, u\<lparr>u_query := v\<rparr>))"
| "uri_act s U_save_fragment p (mark, u) = and_then (marked s mark p) (\<lambda>v. Inr (None, u\<lparr>u_fragment := v\<rparr>))"

definition eof_actions :: "nat \<Rightarrow> uri_action list" where
  "eof_actions cs = (case find (\<lambda>(ns, _). cs \<in> set ns) uri_eof of None \<Rightarrow> [] | Some (_, as) \<Rightarrow> as)"

definition Uri_Create :: "string \<Rightarrow> uri_error + Uri option" where
  "Uri_Create uristr =
     and_then (run_machine 452 uri_table False (uri_act uristr) (\<lambda>_. False) uristr 0 451 (None, new_Uri))
       (\<lambda>(p, cs, st).
          and_then (if p = length uristr then run_actions (uri_act uristr) (eof_actions cs) p st else Inr st)
            (\<lambda>(mark, u). if cs = 0 then Inr None else if cs \<ge> 451 then Inr (Some u) else Inr None))"

definition isDefaultPort :: "Uri \<Rightarrow> bool" where
  "isDefaultPort u =
     (if u_port u = 0 then True
      else if m_scheme u = ''http'' \<or> m_scheme u = ''ws'' then u_port u = 80
      else if m_scheme u = ''https'' \<or> m_scheme u = ''wss'' then u_port u = 443 else False)"

definition Uri_getPath :: "Uri \<Rightarrow> string" where
  "Uri_getPath u = (if u_path u = [] then ''/'' else u_path u)"

definition Uri_getPort :: "Uri \<Rightarrow> int" where
  "Uri_getPort u =
     (if u_port u \<noteq> 0 then u_port u
      else if m_scheme u = ''http'' \<or> m_scheme u = ''ws'' then 80
      else if m_scheme u = ''https'' \<or> m_scheme u = ''wss'' then 443 else u_port u)"

definition Uri_dump :: "Uri \<Rightarrow> string" where
  "Uri_dump u =
     m_scheme u @ ''://'' @ m_userinfo u @ (if m_userinfo u = [] then [] else ''@'') @ u_host u @
     (if isDefaultPort u then [] else '':'' @ int_dec (u_port u)) @ Uri_getPath u @
     (if u_query u = [] then [] else ''?'') @ u_query u @
     (if u_fragment u = [] then [] else ''#'') @ u_fragment u"

definition Uri_toString :: "Uri \<Rightarrow> string" where
  "Uri_toString u = Uri_dump u"

text \<open>\<open>setPort\<close> of the address takes a 16-bit number.\<close>

definition createAddress ::
  "(string \<Rightarrow> string option \<Rightarrow> sockaddr list option) \<Rightarrow> int \<Rightarrow> Uri \<Rightarrow> address option" where
  "createAddress getaddrinfo host u =
     map_option (setPort host (word_of_int (Uri_getPort u))) (LookupAnyIPAddress getaddrinfo (u_host u))"

subsection \<open>The states of an absolute URI\<close>

lemma uri_rows:
  "map_of uri_table 1 = map_of uri_states_1 1"
  "map_of uri_table 2 = map_of uri_states_1 2"
  "map_of uri_table 7 = map_of uri_states_2 7"
  "map_of uri_table 8 = map_of uri_states_2 8"
  "map_of uri_table 243 = map_of uri_states_20 243"
  "map_of uri_table 244 = map_of uri_states_20 244"
  "map_of uri_table 253 = map_of uri_states_21 253"
  "map_of uri_table 254 = map_of uri_states_21 254"
  "map_of uri_table 258 = map_of uri_states_21 258"
  "map_of uri_table 259 = map_of uri_states_21 259"
  "map_of uri_table 451 = map_of uri_states_1 451"
  "map_of uri_table 453 = map_of uri_states_1 453"
  "map_of uri_table 454 = map_of uri_states_1 454"
  "map_of uri_table 456 = map_of uri_states_2 456"
  "map_of uri_table 457 = map_of uri_states_2 457"
  "map_of uri_table 508 = map_of uri_states_19 508"
  "map_of uri_table 509 = map_of uri_states_19 509"
  "map_of uri_table 510 = map_of uri_states_19 510"
  "map_of uri_table 511 = map_of uri_states_19 511"
  "map_of uri_table 513 = map_of uri_states_20 513"
  "map_of uri_table 514 = map_of uri_states_20 514"
  "map_of uri_table 515 = map_of uri_states_20 515"
  "map_of uri_table 520 = map_of uri_states_21 520"
  "map_of uri_table 521 = map_of uri_states_21 521"
  "map_of uri_table 522 = map_of uri_states_21 522"
  "map_of uri_table 523 = map_of uri_states_21 523"
  "map_of uri_table 542 = map_of uri_states_33 542"
  by (simp_all only: uri_table_def uri_keys lookup_simps)

abbreviation letters :: "(int \<times> int) list" where
  "letters \<equiv> [(65, 90), (97, 122)]"

abbreviation scheme_chars :: "(int \<times> int) list" where
  "scheme_chars \<equiv> [(43, 43), (45, 46), (48, 57), (65, 90), (97, 122)]"

abbreviation reg_first :: "(int \<times> int) list" where
  "reg_first \<equiv> [(33, 33), (36, 36), (38, 46), (59, 59), (61, 61), (65, 90), (95, 95), (97, 122), (126, 126)]"

abbreviation reg_chars :: "(int \<times> int) list" where
  "reg_chars \<equiv> [(33, 33), (36, 36), (38, 46), (48, 57), (59, 59), (61, 61), (65, 90), (95, 95), (97, 122), (126, 126)]"

abbreviation pchars :: "(int \<times> int) list" where
  "pchars \<equiv> [(- 128, - 1), (33, 33), (36, 36), (38, 59), (61, 61), (64, 90), (95, 95), (97, 122), (126, 126)]"

abbreviation qchars :: "(int \<times> int) list" where
  "qchars \<equiv> [(- 128, - 1), (33, 33), (36, 36), (38, 59), (61, 61), (63, 90), (95, 95), (97, 122), (126, 126)]"

lemma uri_hit:
  "in_class reg_chars c \<Longrightarrow> edge uri_table False 520 c = Some ([], 520)"
  "in_class reg_chars c \<Longrightarrow> edge uri_table False 523 c = Some ([], 523)"
  "in_class pchars c \<Longrightarrow> edge uri_table False 513 c = Some ([], 513)"
  "in_class qchars c \<Longrightarrow> edge uri_table False 456 c = Some ([U_marku], 457)"
  "in_class qchars c \<Longrightarrow> edge uri_table False 457 c = Some ([], 457)"
  "in_class qchars c \<Longrightarrow> edge uri_table False 453 c = Some ([U_marku], 454)"
  "in_class qchars c \<Longrightarrow> edge uri_table False 454 c = Some ([], 454)"
  "in_class xdigits c \<Longrightarrow> edge uri_table False 1 c = Some ([], 2)"
  "in_class xdigits c \<Longrightarrow> edge uri_table False 2 c = Some ([], 454)"
  "in_class xdigits c \<Longrightarrow> edge uri_table False 7 c = Some ([], 8)"
  "in_class xdigits c \<Longrightarrow> edge uri_table False 8 c = Some ([], 457)"
  "in_class xdigits c \<Longrightarrow> edge uri_table False 243 c = Some ([], 244)"
  "in_class xdigits c \<Longrightarrow> edge uri_table False 244 c = Some ([], 513)"
  "in_class xdigits c \<Longrightarrow> edge uri_table False 253 c = Some ([], 254)"
  "in_class xdigits c \<Longrightarrow> edge uri_table False 254 c = Some ([], 520)"
  "in_class xdigits c \<Longrightarrow> edge uri_table False 258 c = Some ([], 259)"
  "in_class xdigits c \<Longrightarrow> edge uri_table False 259 c = Some ([], 523)"
  by (simp_all add: edge_def uri_rows uri_states select_hit del: select.simps One_nat_def)

lemma uri_scheme_edges:
  "in_class letters c \<Longrightarrow> edge uri_table False 451 c = Some ([U_marku], 508)"
  "in_class scheme_chars c \<Longrightarrow> edge uri_table False 508 c = Some ([], 508)"
proof -
  assume c: "in_class letters c"
  then show "edge uri_table False 451 c = Some ([U_marku], 508)"
    by (simp add: edge_def uri_rows uri_states select_other [OF c] select_hit del: select.simps)
next
  assume c: "in_class scheme_chars c"
  then show "edge uri_table False 508 c = Some ([], 508)"
    by (simp add: edge_def uri_rows uri_states select_other [OF c] select_hit del: select.simps)
qed

lemma uri_first_edges:
  assumes c: "in_class reg_first c"
  shows "edge uri_table False 511 c = Some ([U_markh], 520)" "edge uri_table False 522 c = Some ([U_markh], 523)"
  using c by (simp_all add: edge_def uri_rows uri_states select_other [OF c] select_hit del: select.simps)

lemma uri_port_edges:
  assumes c: "in_class digits c"
  shows "edge uri_table False 521 c = Some ([U_markh], 542)" "edge uri_table False 542 c = Some ([], 542)"
    "edge uri_table False 514 c = Some ([U_markh], 515)" "edge uri_table False 515 c = Some ([], 515)"
  using c by (simp_all add: edge_def uri_rows uri_states select_other [OF c] select_hit del: select.simps)

lemma uri_char:
  "edge uri_table False 508 (CHR '':'') = Some ([U_save_scheme], 509)"
  "edge uri_table False 509 (CHR ''/'') = Some ([], 510)"
  "edge uri_table False 510 (CHR ''/'') = Some ([], 511)"
  "edge uri_table False 511 (CHR ''%'') = Some ([U_markh], 253)"
  "edge uri_table False 520 (CHR ''%'') = Some ([], 253)"
  "edge uri_table False 522 (CHR ''%'') = Some ([U_markh], 258)"
  "edge uri_table False 523 (CHR ''%'') = Some ([], 258)"
  "edge uri_table False 520 (CHR ''@'') = Some ([U_save_userinfo], 522)"
  "edge uri_table False 520 (CHR ''/'') = Some ([U_save_host, U_markh], 513)"
  "edge uri_table False 523 (CHR ''/'') = Some ([U_save_host, U_markh], 513)"
  "edge uri_table False 520 (CHR '':'') = Some ([U_save_host], 521)"
  "edge uri_table False 523 (CHR '':'') = Some ([U_save_host], 514)"
  "edge uri_table False 542 (CHR ''/'') = Some ([U_save_port, U_markh], 513)"
  "edge uri_table False 515 (CHR ''/'') = Some ([U_save_port, U_markh], 513)"
  "edge uri_table False 521 (CHR ''/'') = Some ([U_markh, U_save_port], 513)"
  "edge uri_table False 514 (CHR ''/'') = Some ([U_markh, U_save_port], 513)"
  "edge uri_table False 513 (CHR ''%'') = Some ([], 243)"
  "edge uri_table False 513 (CHR ''?'') = Some ([U_save_path], 456)"
  "edge uri_table False 513 (CHR ''#'') = Some ([U_save_path], 453)"
  "edge uri_table False 456 (CHR ''%'') = Some ([U_marku], 7)"
  "edge uri_table False 457 (CHR ''%'') = Some ([], 7)"
  "edge uri_table False 457 (CHR ''#'') = Some ([U_save_query], 453)"
  "edge uri_table False 453 (CHR ''%'') = Some ([U_marku], 1)"
  "edge uri_table False 454 (CHR ''%'') = Some ([], 1)"
  by (simp_all add: edge_def uri_rows uri_states schar_def char_nat_def del: One_nat_def)

lemma uri_eofs: "eof_actions 513 = [U_save_path]" "eof_actions 457 = [U_save_query]" "eof_actions 454 = [U_save_fragment]"
  by (simp_all add: eof_actions_def uri_eof_def)

subsection \<open>Reading an absolute URI\<close>

abbreviation uscan :: "string \<Rightarrow> string \<Rightarrow> nat \<Rightarrow> nat \<Rightarrow> nat option \<times> Uri
    \<Rightarrow> uri_error + nat \<times> nat \<times> nat option \<times> Uri" where
  "uscan s \<equiv> machine uri_table False (uri_act s) (\<lambda>_. False)"

text \<open>What \<open>Create\<close> does behind the machine.\<close>

definition uri_finish :: "string \<Rightarrow> uri_error + nat \<times> nat \<times> nat option \<times> Uri \<Rightarrow> uri_error + Uri option" where
  "uri_finish s r =
     and_then r (\<lambda>(p, cs, st).
       and_then (if p = length s then run_actions (uri_act s) (eof_actions cs) p st else Inr st)
         (\<lambda>(mark, u). if cs = 0 then Inr None else if cs \<ge> 451 then Inr (Some u) else Inr None))"

lemma Uri_Create_scan: "Uri_Create s = uri_finish s (uscan s s 0 451 (None, new_Uri))"
proof -
  have "run_machine 452 uri_table False (uri_act s) (\<lambda>_. False) s 0 451 st = uscan s s 0 451 st" for st
    by (simp add: run_machine_def uri_rows uri_states_1_def)
  then show ?thesis by (simp only: Uri_Create_def uri_finish_def)
qed

definition scheme_ok :: "string \<Rightarrow> bool" where
  "scheme_ok s \<longleftrightarrow> s \<noteq> [] \<and> in_class letters (hd s) \<and> list_all (in_class scheme_chars) (tl s)"

definition reg_ok :: "string \<Rightarrow> bool" where
  "reg_ok h \<longleftrightarrow> h \<noteq> [] \<and> encoded reg_chars h \<and> (hd h = CHR ''%'' \<or> in_class reg_first (hd h))"

lemma uscan_scheme:
  assumes "scheme_ok sch" and "s = sch @ ''://'' @ rest"
  shows "uscan s (sch @ ''://'' @ rest) 0 451 (mk, u) = uscan s rest (length sch + 3) 511 (None, u\<lparr>m_scheme := sch\<rparr>)"
proof -
  obtain c t where sch: "sch = c # t" using assms(1) by (cases sch) (auto simp: scheme_ok_def)
  have "uscan s (t @ r) q 508 st = uscan s r (q + length t) 508 st" for r q st
    using assms(1) sch uri_scheme_edges(2) by (intro machine_skip) (auto simp: scheme_ok_def list_all_iff)
  then show ?thesis
    using assms uri_scheme_edges(1) sch by (simp add: scheme_ok_def uri_char marked_def numeral_3_eq_3)
qed

lemma uscan_reg:
  assumes "reg_ok h"
  shows "uscan s (h @ r) p 511 (mk, u) = uscan s r (p + length h) 520 (Some p, u)"
    and "uscan s (h @ r) p 522 (mk, u) = uscan s r (p + length h) 523 (Some p, u)"
  using machine_encoded_first [OF uri_hit(1) uri_char(5) uri_hit(14,15), where s = h and m = 511 and as = "[U_markh]"
      and rs = reg_chars and act = "uri_act s" and brk = "\<lambda>_. False" and st = "(mk, u)"]
    machine_encoded_first [OF uri_hit(2) uri_char(7) uri_hit(16,17), where s = h and m = 522 and as = "[U_markh]"
      and rs = reg_chars and act = "uri_act s" and brk = "\<lambda>_. False" and st = "(mk, u)"]
    assms uri_first_edges uri_char(4,6)
  by (auto simp: reg_ok_def)

text \<open>The states behind a host without and with user information before it.\<close>

definition host_state :: "bool \<Rightarrow> nat" where
  "host_state info = (if info then 523 else 520)"

lemma uscan_authority:
  assumes "i = [] \<or> reg_ok i" and "reg_ok h" and at: "drop p s = i @ (if i = [] then [] else ''@'') @ h @ rest"
  shows "uscan s (i @ (if i = [] then [] else ''@'') @ h @ rest) p 511 (None, u) =
    uscan s rest (p + length (i @ (if i = [] then [] else ''@'') @ h)) (host_state (i \<noteq> []))
      (Some (p + length (i @ (if i = [] then [] else ''@''))), if i = [] then u else u\<lparr>m_userinfo := i\<rparr>)"
proof (cases "i = []")
  case True
  then show ?thesis using uscan_reg(1) [OF assms(2)] by (simp add: host_state_def)
next
  case False
  then have "uscan s (i @ ''@'' @ h @ rest) p 511 (None, u) = uscan s (h @ rest) (p + length i + 1) 522 (None, u\<lparr>m_userinfo := i\<rparr>)"
    using uscan_reg(1) [of i] assms(1) at by (simp add: uri_char marked_def)
  then show ?thesis using uscan_reg(2) [OF assms(2)] False by (simp add: host_state_def add.assoc)
qed

lemma uscan_port:
  assumes at: "drop p s = h @ (if n = 0 then [] else '':'' @ nat_dec n) @ ''/'' @ rest" and n: "n < 2 ^ 31"
  shows "uscan s ((if n = 0 then [] else '':'' @ nat_dec n) @ ''/'' @ rest) (p + length h) (host_state info) (Some p, u) =
    uscan s rest (p + length (h @ (if n = 0 then [] else '':'' @ nat_dec n)) + 1) 513
      (Some (p + length (h @ (if n = 0 then [] else '':'' @ nat_dec n))),
       (u\<lparr>u_host := h\<rparr>)\<lparr>u_port := if n = 0 then u_port u else int n\<rparr>)"
proof (cases "n = 0")
  case True
  then show ?thesis using at by (simp add: host_state_def uri_char marked_def)
next
  case False
  obtain c t where cs: "nat_dec n = c # t" by (cases "nat_dec n") auto
  have dig: "list_all (in_class digits) (c # t)" using nat_dec_digits [of n] cs by (simp add: list_all_iff digit_class)
  have skip: "uscan s (t @ r) q m st = uscan s r (q + length t) m st" if "m = 542 \<or> m = 515" for r q m st
    using dig uri_port_edges(2,4) that by (intro machine_skip) (auto simp: list_all_iff)
  have "drop (p + length (h @ '':'')) s = nat_dec n @ ''/'' @ rest" by (rule drop_text) (use at False in simp)
  then have port: "atoi (drop (Suc (p + length h)) s) = int n"
    using strtol_dec [of n "''/'' @ rest"] n by (simp add: atoi_def digit_value_def char_nat_def int32_small)
  show ?thesis
    using False at port dig uri_port_edges(1,3) skip by (cases info)
      (simp_all add: cs host_state_def uri_char marked_def save_port_def add.assoc)
qed

text \<open>What follows the first slash of the path.\<close>

definition query_text :: "Uri \<Rightarrow> string" where
  "query_text u = (if u_query u = [] then [] else ''?'' @ u_query u)"

definition fragment_text :: "Uri \<Rightarrow> string" where
  "fragment_text u = (if u_fragment u = [] then [] else ''#'' @ u_fragment u)"

lemma uscan_qpart:
  assumes "encoded qchars q" and "q \<noteq> []"
  shows "uscan s (q @ r) p 456 (mk, u) = uscan s r (p + length q) 457 (Some p, u)"
    and "uscan s (q @ r) p 453 (mk, u) = uscan s r (p + length q) 454 (Some p, u)"
proof -
  have hd: "hd q \<noteq> CHR ''%'' \<Longrightarrow> in_class qchars (hd q)" using assms by (cases q) auto
  show "uscan s (q @ r) p 456 (mk, u) = uscan s r (p + length q) 457 (Some p, u)"
    "uscan s (q @ r) p 453 (mk, u) = uscan s r (p + length q) 454 (Some p, u)"
    using machine_encoded_first [OF uri_hit(5) uri_char(21) uri_hit(10,11), where s = q and m = 456 and as = "[U_marku]"
        and rs = qchars and act = "uri_act s" and brk = "\<lambda>_. False" and st = "(mk, u)"]
      machine_encoded_first [OF uri_hit(7) uri_char(24) uri_hit(8,9), where s = q and m = 453 and as = "[U_marku]"
        and rs = qchars and act = "uri_act s" and brk = "\<lambda>_. False" and st = "(mk, u)"]
      assms hd uri_hit(4,6) uri_char(20,23)
    by auto
qed

lemma uri_finish_fragment:
  assumes "encoded qchars f" and "f \<noteq> []" and "drop p s = f" and "p \<le> length s"
  shows "uri_finish s (uscan s f p 453 (mk, u)) = Inr (Some (u\<lparr>u_fragment := f\<rparr>))"
  using uscan_qpart(2) [OF assms(1,2), where r = "[]" and s = s and p = p and mk = mk and u = u] assms(3,4)
  by (auto simp: uri_finish_def uri_eofs marked_def)

lemma uri_finish_path:
  assumes ok: "encoded pchars t" "encoded qchars (u_query v)" "encoded qchars (u_fragment v)"
    and at: "drop m s = ''/'' @ t @ query_text v @ fragment_text v"
    and u: "u_query u = []" "u_fragment u = []"
  shows "uri_finish s (uscan s (t @ query_text v @ fragment_text v) (Suc m) 513 (Some m, u)) =
    Inr (Some (u\<lparr>u_path := ''/'' @ t, u_query := u_query v, u_fragment := u_fragment v\<rparr>))"
proof -
  let ?q = "u_query v" and ?f = "u_fragment v" and ?p = "Suc (m + length t)"
  have len: "m \<le> length s" by (rule ccontr) (use at in simp)
  have lens: "length s = ?p + length (query_text v @ fragment_text v)"
    using arg_cong [OF at, of length] len by simp
  have path: "uscan s (t @ r) (Suc m) 513 (Some m, u) = uscan s r ?p 513 (Some m, u)" for r
    using machine_encoded [OF uri_hit(3) uri_char(17) uri_hit(12,13) ok(1), where p = "Suc m" and st = "(Some m, u)"] by simp
  have at1: "drop ?p s = query_text v @ fragment_text v" using drop_text [of m s "''/'' @ t"] at by simp
  have up: "marked s (Some m) ?p = Inr (''/'' @ t)" by (simp add: marked_def at)
  have frag: "uri_finish s (uscan s (fragment_text v) q n (Some k, w)) = Inr (Some (w'\<lparr>u_fragment := ?f\<rparr>))"
    if "drop q s = fragment_text v" "q \<le> length s" "u_fragment w' = []"
      "(n, eof) = (513, U_save_path) \<or> (n, eof) = (457, U_save_query)" "uri_act s eof q (Some k, w) = Inr (None, w')"
    for q n k w w' eof
  proof (cases "?f = []")
    case True
    then show ?thesis using that by (auto simp: fragment_text_def uri_finish_def uri_eofs)
  next
    case False
    have "drop (Suc q) s = ?f" using drop_text [of q s "''#''"] that(1) False by (simp add: fragment_text_def)
    moreover from this have "Suc q \<le> length s" using False by (intro leI notI) simp
    ultimately show ?thesis
      using that False uri_finish_fragment [OF ok(3) False, of "Suc q" s None w'] by (auto simp: fragment_text_def uri_char)
  qed
  show ?thesis
  proof (cases "?q = []")
    case True
    then show ?thesis
      using frag [of ?p "u\<lparr>u_path := ''/'' @ t\<rparr>" 513 U_save_path m u] u up at1 lens unfolding path
      by (simp add: query_text_def path)
  next
    case False
    let ?u = "u\<lparr>u_path := ''/'' @ t\<rparr>"
    have at2: "drop (Suc ?p + length ?q) s = fragment_text v"
      using drop_text [of ?p s "''?'' @ ?q"] at1 False by (simp add: query_text_def)
    have at3: "drop (Suc ?p) s = ?q @ fragment_text v" using drop_text [of ?p s "''?''"] at1 False by (simp add: query_text_def)
    have "uscan s (t @ query_text v @ fragment_text v) (Suc m) 513 (Some m, u) =
        uscan s (fragment_text v) (Suc ?p + length ?q) 457 (Some (Suc ?p), ?u)"
      unfolding path using False up uscan_qpart(1) [OF ok(2) False, of s _ "Suc ?p" None ?u]
      by (simp add: query_text_def uri_char)
    then show ?thesis
      using frag [of "Suc ?p + length ?q" "?u\<lparr>u_query := ?q\<rparr>" 457 U_save_query "Suc ?p" ?u] u at2 at3 lens False
      by (simp add: marked_def query_text_def)
  qed
qed

subsection \<open>Properties\<close>

definition uri_text_ok :: "Uri \<Rightarrow> bool" where
  "uri_text_ok u \<longleftrightarrow>
     scheme_ok (m_scheme u) \<and> (m_userinfo u = [] \<or> reg_ok (m_userinfo u)) \<and> reg_ok (u_host u) \<and>
     0 \<le> u_port u \<and> u_port u < 2 ^ 31 \<and>
     (u_path u = [] \<or> hd (u_path u) = CHR ''/'' \<and> encoded pchars (tl (u_path u))) \<and>
     encoded qchars (u_query u) \<and> encoded qchars (u_fragment u)"

definition uri_read :: "Uri \<Rightarrow> Uri" where
  "uri_read u = u\<lparr>u_path := Uri_getPath u, u_port := if isDefaultPort u then 0 else u_port u\<rparr>"

lemma uri_read_same: "Uri_getPort (uri_read u) = Uri_getPort u" "Uri_toString (uri_read u) = Uri_toString u"
  by (auto simp: uri_read_def Uri_getPort_def isDefaultPort_def Uri_toString_def Uri_dump_def Uri_getPath_def)

lemma Uri_Create_text:
  assumes ok: "uri_text_ok u"
  shows "Uri_Create (Uri_toString u) = Inr (Some (uri_read u))"
proof -
  let ?i = "m_userinfo u" and ?h = "u_host u" and ?rest = "query_text u @ fragment_text u"
  define s where "s = Uri_toString u"
  define n where "n = (if isDefaultPort u then 0 else nat (u_port u))"
  define t where "t = tl (Uri_getPath u)"
  let ?A = "if ?i = [] then [] else ''@''" and ?P = "if n = 0 then [] else '':'' @ nat_dec n"
  note ok = ok [unfolded uri_text_ok_def]
  have path: "Uri_getPath u = ''/'' @ t" and t: "encoded pchars t"
    using ok by (cases "u_path u"; auto simp: t_def Uri_getPath_def)+
  have n: "n < 2 ^ 31" "n = 0 \<longleftrightarrow> isDefaultPort u" "\<not> isDefaultPort u \<Longrightarrow> int n = u_port u"
    using ok by (auto simp: n_def isDefaultPort_def split: if_splits)
  have port: "(if isDefaultPort u then [] else '':'' @ int_dec (u_port u)) = ?P"
    using n(2) ok by (auto simp: n_def int_dec_def)
  have s: "s = m_scheme u @ ''://'' @ ?i @ ?A @ ?h @ ?P @ ''/'' @ t @ ?rest"
    unfolding s_def Uri_toString_def Uri_dump_def port path by (simp add: query_text_def fragment_text_def)
  define p1 where "p1 = length (m_scheme u) + 3"
  define p2 where "p2 = p1 + length (?i @ ?A)"
  define p3 where "p3 = p2 + length (?h @ ?P)"
  have at1: "drop p1 s = ?i @ ?A @ ?h @ ?P @ ''/'' @ t @ ?rest"
    using drop_text [of 0 s "m_scheme u @ ''://''"] s by (simp add: p1_def numeral_3_eq_3)
  have at2: "drop p2 s = ?h @ ?P @ ''/'' @ t @ ?rest" unfolding p2_def by (rule drop_text) (simp add: at1)
  have at3: "drop p3 s = ''/'' @ t @ ?rest" unfolding p3_def by (rule drop_text) (simp add: at2)
  let ?u1 = "new_Uri\<lparr>m_scheme := m_scheme u\<rparr>"
  let ?u2 = "if ?i = [] then ?u1 else ?u1\<lparr>m_userinfo := ?i\<rparr>"
  let ?u3 = "(?u2\<lparr>u_host := ?h\<rparr>)\<lparr>u_port := if n = 0 then u_port ?u2 else int n\<rparr>"
  have "uscan s s 0 451 (None, new_Uri) = uscan s (?i @ ?A @ ?h @ ?P @ ''/'' @ t @ ?rest) p1 511 (None, ?u1)"
    using uscan_scheme [OF _ s, of None new_Uri] ok s unfolding p1_def by simp
  also have "\<dots> = uscan s (?P @ ''/'' @ t @ ?rest) (p2 + length ?h) (host_state (?i \<noteq> [])) (Some p2, ?u2)"
    using uscan_authority [OF _ _ at1, of ?u1] ok unfolding p2_def by (simp add: add.assoc)
  also have "\<dots> = uscan s (t @ ?rest) (Suc p3) 513 (Some p3, ?u3)"
    using uscan_port [OF at2 n(1), of "?i \<noteq> []" ?u2] unfolding p3_def by simp
  finally have "Uri_Create s = uri_finish s (uscan s (t @ ?rest) (Suc p3) 513 (Some p3, ?u3))"
    unfolding Uri_Create_scan by simp
  also have "\<dots> = Inr (Some (?u3\<lparr>u_path := ''/'' @ t, u_query := u_query u, u_fragment := u_fragment u\<rparr>))"
    by (rule uri_finish_path [OF t _ _ at3]) (use ok in \<open>simp_all add: new_Uri_def\<close>)
  also have "?u3\<lparr>u_path := ''/'' @ t, u_query := u_query u, u_fragment := u_fragment u\<rparr> = uri_read u"
    using n path by (cases u) (auto simp: uri_read_def new_Uri_def)
  finally show ?thesis by (simp add: s_def)
qed

text \<open>
  C12: printing and parsing of URIs.  The text of a URI with a scheme, a host that is a
  registered name, and user information, port, path, query and fragment as the grammar has
  them, is read back by \<open>Create\<close> as the same URI: a port that is the default of its scheme
  is dropped and an empty path becomes a slash, so that \<open>getPort\<close> and \<open>toString\<close> of both
  are the same.
\<close>

theorem uri_roundtrip:
  assumes "uri_text_ok u"
  shows "Uri_Create (Uri_toString u) = Inr (Some (uri_read u)) \<and>
    Uri_getPort (uri_read u) = Uri_getPort u \<and> Uri_toString (uri_read u) = Uri_toString u"
  using Uri_Create_text [OF assms] uri_read_same by blast

lemma uri_roundtrip_witness:
  "\<exists>v. Uri_Create
     (Uri_toString (new_Uri\<lparr>m_scheme := ''http'', m_userinfo := ''me'', u_host := ''a.b'', u_port := 8042, u_query := ''n=1''\<rparr>)) =
       Inr (Some v) \<and> u_host v = ''a.b'' \<and> u_port v = 8042 \<and> u_path v = ''/''"
  using uri_roundtrip [of "new_Uri\<lparr>m_scheme := ''http'', m_userinfo := ''me'', u_host := ''a.b'', u_port := 8042, u_query := ''n=1''\<rparr>"]
  by (simp add: uri_text_ok_def scheme_ok_def reg_ok_def in_class_def schar_def char_nat_def new_Uri_def uri_read_def
      isDefaultPort_def Uri_getPath_def)

lemma empty_port_eof: "eof_actions 521 = [U_markh, U_save_port, U_save_path]"
  by (simp add: eof_actions_def uri_eof_def)

text \<open>
  C36: an empty port.  A URI with a colon but no number behind its host makes \<open>Create\<close> use
  a null pointer: \<open>save_port\<close> has cleared \<open>mark\<close> when the path is saved.
\<close>

theorem empty_port_fails:
  assumes "scheme_ok sch" and "reg_ok h" and "encoded pchars t"
  shows "Uri_Create (sch @ ''://'' @ h @ '':'') = Inl Null_mark \<and>
    Uri_Create (sch @ ''://'' @ h @ '':/'' @ t) = Inl Null_mark"
proof
  let ?s = "sch @ ''://'' @ h @ '':''" and ?u = "new_Uri\<lparr>m_scheme := sch\<rparr>"
  have "uscan ?s ?s 0 451 (None, new_Uri) = uscan ?s (h @ '':'') (length sch + 3) 511 (None, ?u)"
    by (rule uscan_scheme [OF assms(1) refl])
  also have "\<dots> = uscan ?s '':'' (length sch + 3 + length h) 520 (Some (length sch + 3), ?u)"
    by (rule uscan_reg(1) [OF assms(2)])
  finally show "Uri_Create ?s = Inl Null_mark"
    by (simp add: Uri_Create_scan uri_finish_def uri_char marked_def empty_port_eof save_port_def)
next
  let ?s = "sch @ ''://'' @ h @ '':/'' @ t" and ?u = "new_Uri\<lparr>m_scheme := sch\<rparr>"
  have "uscan ?s ?s 0 451 (None, new_Uri) = uscan ?s (h @ '':/'' @ t) (length sch + 3) 511 (None, ?u)"
    by (rule uscan_scheme [OF assms(1) refl])
  also have "\<dots> = uscan ?s ('':/'' @ t) (length sch + 3 + length h) 520 (Some (length sch + 3), ?u)"
    by (rule uscan_reg(1) [OF assms(2)])
  finally have "\<exists>u p. uscan ?s ?s 0 451 (None, new_Uri) = uscan ?s t p 513 (None, u) \<and> p + length t = length ?s"
    by (auto simp: uri_char marked_def save_port_def)
  then obtain u p where "uscan ?s ?s 0 451 (None, new_Uri) = uscan ?s t p 513 (None, u)" "p + length t = length ?s"
    by blast
  moreover have "uscan ?s (t @ []) p 513 (None, u) = uscan ?s [] (p + length t) 513 (None, u)"
    by (rule machine_encoded [OF uri_hit(3) uri_char(17) uri_hit(12,13) assms(3)])
  ultimately show "Uri_Create ?s = Inl Null_mark"
    by (simp add: Uri_Create_scan uri_finish_def uri_eofs marked_def)
qed

lemma empty_port_fails_witness: "Uri_Create ''http://a:'' = Inl Null_mark"
  using empty_port_fails [of "''http''" "''a''" "[]"]
  by (simp add: scheme_ok_def reg_ok_def in_class_def schar_def char_nat_def)

end
