(* ===== verification/Spec2Isabelle.thy ===== *)
theory Spec2Isabelle
  imports Byte_Codec Hook Socket Http_Session Http_Response_Parser Uri
begin

text \<open>
  A verification library for LearnWeb, the C++ server framework under src/skt.

  \<^bold>\<open>The program.\<close>  A scheduler runs fibers on a pool of threads.  The I/O manager is a
  scheduler whose idle fiber waits for descriptors and timers; the hooked system calls
  turn blocking calls into waits there.  Sockets, addresses and byte streams stand on the
  hooked calls, \<open>ByteArray\<close> is the buffer for binary messages, and on top are HTTP messages,
  their parsers, sessions, servlets and the server, and a parser of URIs.

  \<^bold>\<open>Foundations.\<close>
  \<^item> \<open>Prelude\<close>: machine integers, \<open>size_t\<close> arithmetic with its wrap-around, C strings, results
    \<open>error + value\<close> with \<open>and_then\<close>, and shared lemmas.
  \<^item> \<open>Std_Map\<close>: \<open>std::map\<close> and \<open>std::set\<close> over a comparator.  The locales \<open>weak_order\<close> and
    \<open>total_order\<close> give the container laws; they are interpreted on \<open>CaseInsensitiveLess\<close>,
    \<open>Address::operator<\<close> and \<open>Timer::Comparator\<close>.
  \<^item> \<open>Strtol\<close>: \<open>strtol\<close> and \<open>atoi\<close>.  \<open>Endian\<close>: src/skt/endian.

  \<^bold>\<open>Buffers and streams.\<close>
  \<^item> \<open>Byte_Array\<close>, \<open>Byte_Buffers\<close>, \<open>Byte_Codec\<close>: src/skt/bytearray.  \<open>write\<close> and \<open>read\<close> on the list
    of blocks refine overwriting and reading one flat array; every reachable array keeps
    the invariant; a file written and read back gives the same bytes; any sequence of
    typed fields is read back as written.  The locale \<open>codec\<close> carries the typed round
    trips and is interpreted on the reader and writer of each type.
  \<^item> \<open>Byte_Stream\<close>: src/skt/stream and src/skt/streams, the fixed-size loops.

  \<^bold>\<open>Concurrency.\<close>
  \<^item> \<open>Fiber\<close>, \<open>Scheduler\<close>: src/skt/fiber, src/skt/scheduler.  The loop \<open>run\<close> is cut where threads
    can interleave; for every interleaving the thread counters are exact, no task is lost
    or duplicated, and \<open>stopping\<close> means that there is nothing left to do.
  \<^item> \<open>Timer\<close>: src/skt/timer.  \<open>listExpiredCb\<close> gives exactly the due timers in order; the
    operations refine a map from timers to their state.
  \<^item> \<open>IOManager\<close>: src/skt/iomanager.  The count of pending events is exact in every reachable
    state, the operations refine a map from descriptor and direction to the waiter, and an
    event wakes its waiter.
  \<^item> \<open>Fd_Manager\<close>, \<open>Hook\<close>: src/skt/fd_manager, src/skt/hook.  A hooked call answers what the
    system call at last answers; a timeout wakes its waiter once; \<open>close\<close> wakes the waiters.

  \<^bold>\<open>Network and HTTP.\<close>
  \<^item> \<open>Address\<close>, \<open>Socket\<close>: src/skt/address, src/skt/socket.  Addresses are ordered, the masks of
    IPv4, how host names are split; a socket holds at most one descriptor and gives back
    what it opened.
  \<^item> \<open>Http\<close>, \<open>Servlet\<close>: http.cpp, http.h, servlet.cpp and servlet.h of src/skt/http.
  \<^item> \<open>Ragel\<close>: how the machines that Ragel generates run.  \<open>Http11_Table\<close>, \<open>Httpclient_Table\<close> and
    \<open>Uri_Table\<close> are the three generated switches, state by state; \<open>Httpclient_States\<close> has the
    rows an ordinary response uses.
  \<^item> \<open>Http11_Parser\<close>, \<open>Http_Request_Parser\<close>: the request parser.  It is total, and it reads back
    the text that \<open>HttpRequest::dump\<close> writes.
  \<^item> \<open>Httpclient_Parser\<close>, \<open>Http_Response_Parser\<close>: the same round trip for responses.
  \<^item> \<open>Http_Session\<close>: http_session.cpp and \<open>handleClient\<close> of http_server.cpp.  A request that is
    sent is received with its body.
  \<^item> \<open>Uri\<close>: src/skt/uri.  \<open>Create\<close> reads back the text of \<open>toString\<close>.

  \<^bold>\<open>Errors and loops.\<close>  Exceptions, failed assertions, null pointers and accesses out of range
  are values of error types.  No fuel is used: loops are total functions, or
  \<open>partial_function (option)\<close> where the other side decides when they end (the retries of a
  hooked call, the loops over streams and files); that they return is part of the theorems
  about them.

  \<^bold>\<open>Arguments of the model.\<close>  System calls, the clock, addresses of new objects, \<open>getaddrinfo\<close>,
  \<open>fnmatch\<close>, \<open>boost::lexical_cast\<close> and configured sizes are arguments; what is assumed of them
  is written in the theorems.

  \<^bold>\<open>Where the code differs from its intention\<close>, a theorem says what it does: the sign of zigzag
  numbers, errors hidden by the fixed-size loops, hang-ups that abort, unbounded waits,
  blocking mode set through \<open>ioctl\<close>, malformed requests that are served, connections that are
  never kept alive, queries cut between reads, empty ports, IPv4 network addresses and bare
  IPv6 host names.

  \<^bold>\<open>Not modelled.\<close>  http_connection (the client and its pool), tcp_server, config, log, env,
  util, application, daemon, thread, mutex and the helper headers: they are output, start of
  the process, wrappers of pthreads, or built on libraries outside the repository; of these,
  the HTTP client and the TCP server are logic that is left out for now.  Destructors,
  thread-local pointers to the running scheduler, \<open>hook_init\<close>, the commands of \<open>fcntl\<close> that are
  only passed on, and the constructors and \<open>close\<close> of socket streams are left out too, as is
  memory that cannot be allocated.
\<close>

end
